(* ===== verification/Prelude.thy ===== *)
theory Prelude
  imports Main "HOL-Library.Word" "HOL-Library.Multiset"
begin

text \<open>
  Shared vocabulary of the development: the machine integer types of the C and Rust sources,
  saturating arithmetic, little-endian byte encodings, the vector operations of Rust's standard
  library that the sources use, and the collections of simplification rules the component
  theories fill.
\<close>

named_theorems word_sat \<open>saturating arithmetic read through \<open>unat\<close>\<close>
named_theorems eval_simps \<open>unfolding of list operations at numeral arguments\<close>
named_theorems abi_size \<open>sizes of encoded C objects\<close>

type_synonym u8 = "8 word"
type_synonym u16 = "16 word"
type_synonym u32 = "32 word"
type_synonym u64 = "64 word"
type_synonym i32 = "32 word"
type_synonym bytes = "u8 list"

section \<open>Saturating arithmetic\<close>

text \<open>Rust's \<open>saturating_add\<close> and \<open>saturating_sub\<close> on unsigned integers.\<close>

definition saturating_add :: "'a::len word \<Rightarrow> 'a word \<Rightarrow> 'a word" where
  "saturating_add a b = (if unat a + unat b < 2 ^ LENGTH('a) then a + b else - 1)"

definition saturating_sub :: "'a::len word \<Rightarrow> 'a word \<Rightarrow> 'a word" where
  "saturating_sub a b = (if b \<le> a then a - b else 0)"

text \<open>The two's complement signed reading of a C \<open>int\<close>, widened to \<open>u64\<close> by a cast.\<close>

definition u64_of_int32 :: "i32 \<Rightarrow> u64" where
  "u64_of_int32 r = word_of_int (sint r)"

section \<open>Little-endian byte encodings\<close>

text \<open>
  The targets of the program (x86_64 and little-endian arm64) store integers least significant
  byte first, so \<open>to_ne_bytes\<close> and a read of a \<open>repr(C)\<close> field are \<open>le_encode\<close>
  and \<open>le_decode\<close> at the field's width.
\<close>

fun le_encode :: "nat \<Rightarrow> nat \<Rightarrow> bytes" where
  "le_encode 0 n = []"
| "le_encode (Suc k) n = word_of_nat n # le_encode k (n div 256)"

fun le_decode :: "bytes \<Rightarrow> nat" where
  "le_decode [] = 0"
| "le_decode (b # bs) = unat b + 256 * le_decode bs"

definition put_word :: "nat \<Rightarrow> 'a::len word \<Rightarrow> bytes" where
  "put_word k w = le_encode k (unat w)"

definition get_word :: "bytes \<Rightarrow> 'a::len word" where
  "get_word bs = word_of_nat (le_decode bs)"

text \<open>The bytes at offset \<open>off\<close> of an object, \<open>len\<close> of them.\<close>

definition slice_at :: "nat \<Rightarrow> nat \<Rightarrow> bytes \<Rightarrow> bytes" where
  "slice_at off len bs = take len (drop off bs)"

section \<open>Vectors\<close>

text \<open>Rust's \<open>Vec::swap_remove\<close>: the last element takes the place of the removed one.\<close>

definition swap_remove :: "'a list \<Rightarrow> nat \<Rightarrow> 'a list" where
  "swap_remove xs i = butlast (xs[i := last xs])"

text \<open>Rust's \<open>iter().position(p)\<close>.\<close>

fun position :: "('a \<Rightarrow> bool) \<Rightarrow> 'a list \<Rightarrow> nat option" where
  "position p [] = None"
| "position p (x # xs) = (if p x then Some 0 else map_option Suc (position p xs))"

section \<open>Texts\<close>

text \<open>A Rust string, as the sequence of its Unicode scalar values.\<close>

type_synonym rstring = "nat list"

text \<open>A literal of the source, as scalar values.\<close>

definition txt_of :: "string \<Rightarrow> rstring" where
  "txt_of s = map of_char s"

text \<open>Rust's \<open>char::to_ascii_lowercase\<close>.\<close>

definition to_ascii_lowercase :: "nat \<Rightarrow> nat" where
  "to_ascii_lowercase ch = (if 65 \<le> ch \<and> ch \<le> 90 then ch + 32 else ch)"

text \<open>Decimal digits, as \<open>format!\<close> prints an integer.\<close>

fun show_nat :: "nat \<Rightarrow> string" where
  "show_nat n =
     (if n < 10 then [char_of (48 + n)] else show_nat (n div 10) @ [char_of (48 + n mod 10)])"

declare show_nat.simps [simp del]

section \<open>Lemmas on saturating arithmetic\<close>

lemma unat_lt2p: "unat (x :: 'a::len word) < 2 ^ LENGTH('a)"
  by (rule unsigned_less)

lemma unat_neg_one: "unat (- 1 :: 'a::len word) = 2 ^ LENGTH('a) - 1"
  by (simp add: unsigned_minus_1_eq_mask mask_eq_exp_minus_1)

lemma unat_saturating_add [word_sat]:
  "unat (saturating_add a b) = min (2 ^ LENGTH('a) - 1) (unat a + unat (b :: 'a::len word))"
  by (auto simp: saturating_add_def unat_word_ariths unat_neg_one)

lemma unat_saturating_sub [word_sat]:
  "unat (saturating_sub a b) = unat a - unat (b :: 'a::len word)"
  by (auto simp: saturating_sub_def unat_sub word_le_nat_alt)

lemma saturating_add_zero [simp]:
  "saturating_add 0 b = b" "saturating_add a 0 = a"
  by (simp_all add: saturating_add_def)

lemma saturating_sub_zero [simp]: "saturating_sub a 0 = a"
  by (simp add: saturating_sub_def)

lemma saturating_sub_self [simp]: "saturating_sub a a = 0"
  by (simp add: saturating_sub_def)

lemma saturating_add_commute: "saturating_add a b = saturating_add b a"
  by (simp add: saturating_add_def add.commute)

lemma saturating_add_assoc:
  "saturating_add (saturating_add a b) c = saturating_add a (saturating_add b c)"
  unfolding word_unat_eq_iff word_sat by linarith

lemma saturating_sub_add_cancel:
  assumes "b \<le> a"
  shows "saturating_add b (saturating_sub a b) = a"
  using assms unat_lt2p [of a]
  unfolding word_unat_eq_iff word_sat word_le_nat_alt by linarith

lemma u64_of_int32_nonneg:
  assumes "0 \<le> sint r"
  shows "unat (u64_of_int32 r) = nat (sint r)"
proof -
  have "sint r < 2 ^ 31"
    using sint_lt [of r] by simp
  with assms have "sint r mod 2 ^ 64 = sint r" by simp
  then have "uint (u64_of_int32 r) = sint r"
    unfolding u64_of_int32_def uint_word_of_int by simp
  then show ?thesis
    by (simp only: unat_eq_nat_uint)
qed

section \<open>Lemmas on byte encodings\<close>

lemma length_le_encode [simp]: "length (le_encode k n) = k"
  by (induction k arbitrary: n) auto

lemma le_encode_numeral [eval_simps]:
  "le_encode (numeral k) n = word_of_nat n # le_encode (pred_numeral k) (n div 256)"
  by (simp only: numeral_eq_Suc [of k] le_encode.simps)

lemma replicate_numeral_Cons [eval_simps]:
  "replicate (numeral k) x = x # replicate (pred_numeral k) x"
  by (simp only: numeral_eq_Suc [of k] replicate.simps)

lemma length_put_word [simp]: "length (put_word k w) = k"
  by (simp add: put_word_def)

lemma le_decode_encode: "le_decode (le_encode k n) = n mod 256 ^ k"
proof (induction k arbitrary: n)
  case 0
  then show ?case by simp
next
  case (Suc k)
  have "n mod 256 ^ Suc k = n mod 256 + 256 * (n div 256 mod 256 ^ k)"
    by (simp add: mod_mult2_eq)
  with Suc show ?case by (simp add: unat_of_nat)
qed

lemma le_decode_bound: "le_decode bs < 256 ^ length bs"
proof (induction bs)
  case Nil
  then show ?case by simp
next
  case (Cons b bs)
  have "unat b < 256" using unat_lt2p [of b] by simp
  with Cons show ?case by simp
qed

lemma le_encode_decode: "le_encode (length bs) (le_decode bs) = bs"
proof (induction bs)
  case Nil
  then show ?case by simp
next
  case (Cons b bs)
  have "unat b < 256" using unat_lt2p [of b] by simp
  then have "(unat b + 256 * le_decode bs) div 256 = le_decode bs" by simp
  moreover have "(word_of_nat (unat b + 256 * le_decode bs) :: u8) = b"
    using \<open>unat b < 256\<close>
    by (simp only: word_unat_eq_iff unat_of_nat) simp
  ultimately show ?case using Cons by simp
qed

lemma get_put_word [simp]:
  assumes "LENGTH('a) \<le> 8 * k"
  shows "get_word (put_word k (w :: 'a::len word)) = w"
proof -
  have "unat w < 2 ^ LENGTH('a)" by (rule unat_lt2p)
  also have "\<dots> \<le> 2 ^ (8 * k)" using assms by simp
  also have "\<dots> = 256 ^ k" by (simp add: power_mult)
  finally show ?thesis
    by (simp add: get_word_def put_word_def le_decode_encode)
qed

lemma put_word_eq_iff:
  assumes "LENGTH('a) \<le> 8 * k"
  shows "put_word k (v :: 'a::len word) = put_word k w \<longleftrightarrow> v = w"
  using assms get_put_word [of k v] get_put_word [of k w] by metis

lemma put_get_word:
  assumes "LENGTH('a) = 8 * length bs"
  shows "put_word (length bs) (get_word bs :: 'a::len word) = bs"
proof -
  have "le_decode bs < 2 ^ LENGTH('a)"
    using le_decode_bound [of bs] assms by (simp add: power_mult)
  then show ?thesis
    by (simp add: put_word_def get_word_def unat_of_nat le_encode_decode)
qed

lemma slice_at_append_left:
  "off + len \<le> length xs \<Longrightarrow> slice_at off len (xs @ ys) = slice_at off len xs"
  by (simp add: slice_at_def)

lemma slice_at_append_right:
  "length xs \<le> off \<Longrightarrow> slice_at off len (xs @ ys) = slice_at (off - length xs) len ys"
  by (simp add: slice_at_def)

lemma slice_at_all [simp]: "length xs = len \<Longrightarrow> slice_at 0 len xs = xs"
  by (simp add: slice_at_def)

lemma length_slice_at [simp]:
  "off + len \<le> length bs \<Longrightarrow> length (slice_at off len bs) = len"
  by (simp add: slice_at_def)

lemmas slice_simps = slice_at_append_left slice_at_append_right

section \<open>Lemmas on vectors\<close>

lemma length_swap_remove: "length (swap_remove xs i) = length xs - 1"
  by (simp add: swap_remove_def)

lemma map_swap_remove: "map f (swap_remove xs i) = swap_remove (map f xs) i"
  by (cases "xs = []") (simp_all add: swap_remove_def map_butlast map_update last_map)

lemma swap_remove_eq:
  assumes "i < length xs"
  shows "swap_remove xs i =
    (if i = length xs - 1 then butlast xs else (butlast xs)[i := last xs])"
proof -
  from assms have ne: "xs \<noteq> []" by auto
  then show ?thesis
    using assms by (auto simp: swap_remove_def butlast_list_update)
qed

lemma take_swap_remove: "i < length xs \<Longrightarrow> take i (swap_remove xs i) = take i xs"
  by (auto simp: swap_remove_eq take_butlast butlast_conv_take)

lemma mset_swap_remove:
  assumes "i < length xs"
  shows "mset xs = add_mset (xs ! i) (mset (swap_remove xs i))"
proof -
  from assms obtain ys z where xs: "xs = ys @ [z]"
    by (cases xs rule: rev_cases) auto
  show ?thesis
  proof (cases "i = length ys")
    case True
    with xs show ?thesis by (simp add: swap_remove_def)
  next
    case False
    with assms xs have "i < length ys" by simp
    with xs have "swap_remove xs i = ys[i := z]"
      by (simp add: swap_remove_def list_update_append butlast_append)
    with xs \<open>i < length ys\<close> show ?thesis
      by (simp add: mset_update nth_append)
  qed
qed

lemma position_Some:
  "position p xs = Some i \<Longrightarrow> i < length xs \<and> p (xs ! i) \<and> (\<forall>j < i. \<not> p (xs ! j))"
proof (induction xs arbitrary: i)
  case Nil
  then show ?case by simp
next
  case (Cons x xs)
  then show ?case
    by (auto split: if_splits simp: nth_Cons split: nat.splits)
qed

lemma position_None [simp]: "position p xs = None \<longleftrightarrow> (\<forall>x \<in> set xs. \<not> p x)"
  by (induction xs) auto

section \<open>Sequences of operations\<close>

text \<open>
  Operations that change a state and let something be observed, carried out one after the other; and
  when such a component implements a specification: its operations keep an invariant, and under the
  abstraction they do to the state and to the observations what the specification does.
\<close>

fun run_ops :: "('op \<Rightarrow> 's \<Rightarrow> 's \<times> 'o) \<Rightarrow> 'op list \<Rightarrow> 's \<Rightarrow> 's \<times> 'o list" where
  "run_ops step [] s = (s, [])"
| "run_ops step (op # ops) s =
     (let (s', out) = step op s; (s'', outs) = run_ops step ops s' in (s'', out # outs))"

locale simulation =
  fixes valid :: "'s \<Rightarrow> bool" and abstr :: "'s \<Rightarrow> 't" and see :: "'o \<Rightarrow> 'p"
    and impl :: "'op \<Rightarrow> 's \<Rightarrow> 's \<times> 'o" and spec :: "'op \<Rightarrow> 't \<Rightarrow> 't \<times> 'p"
  assumes keeps: "valid s \<Longrightarrow> valid (fst (impl op s))"
    and simulates: "valid s \<Longrightarrow> map_prod abstr see (impl op s) = spec op (abstr s)"
begin

lemma run_keeps: "valid s \<Longrightarrow> valid (fst (run_ops impl ops s))"
  by (induction ops arbitrary: s) (auto simp: Let_def case_prod_unfold keeps)

lemma run_simulates:
  "valid s \<Longrightarrow> map_prod abstr (map see) (run_ops impl ops s) = run_ops spec ops (abstr s)"
proof (induction ops arbitrary: s)
  case (Cons op ops)
  obtain s' out s'' outs where run: "impl op s = (s', out)" "run_ops impl ops s' = (s'', outs)"
    by (metis surj_pair)
  have "valid s'" using keeps [OF Cons.prems, of op] run(1) by simp
  then have "run_ops spec ops (abstr s') = (abstr s'', map see outs)"
    using Cons.IH [of s'] run(2) by simp
  moreover have "spec op (abstr s) = (abstr s', see out)"
    using simulates [OF Cons.prems, of op] run(1) by simp
  ultimately show ?case by (simp add: run)
qed simp

end

end
