(* ===== verification/Bpf_Types.thy ===== *)
theory Bpf_Types
  imports Prelude
begin

text \<open>
  The data types of the kernel-side program (\<open>procnet.bpf.c\<close>): the protocol enumeration, the
  structures stored in the BPF maps, their object representation as bytes (the layout user space
  reads), and the declarations of the five maps.
\<close>

section \<open>Structures\<close>

datatype Protocol = TCP | UDP

fun protocol_value :: "Protocol \<Rightarrow> u32" where
  "protocol_value TCP = 1"
| "protocol_value UDP = 2"

record c_ProcStartEvent =
  ev_tgid :: u32
  ev_comm :: bytes

record c_StatsBytes =
  c_sent :: u64
  c_recv :: u64

record c_StatsAddr =
  c_dst_port :: u16
  c_src_port :: u16
  c_dst_ipv4 :: u32
  c_dst_ipv6 :: bytes

record c_ProtocolStats =
  c_bytes :: c_StatsBytes
  c_addr :: c_StatsAddr

record c_ProcStats =
  c_tcp :: c_ProtocolStats
  c_udp :: c_ProtocolStats

text \<open>The C arrays have a fixed length, which a HOL list does not record.\<close>

definition c_addr_wf :: "c_StatsAddr \<Rightarrow> bool" where
  "c_addr_wf a \<longleftrightarrow> length (c_dst_ipv6 a) = 16"

definition c_stats_wf :: "c_ProcStats \<Rightarrow> bool" where
  "c_stats_wf s \<longleftrightarrow> c_addr_wf (c_addr (c_tcp s)) \<and> c_addr_wf (c_addr (c_udp s))"

section \<open>Object representation\<close>

text \<open>
  The bytes of each structure in memory: members in declaration order. No member needs padding
  before it (the widest alignment is 8 and every member starts at a multiple of its own).
\<close>

definition c_ProcStartEvent_bytes :: "c_ProcStartEvent \<Rightarrow> bytes" where
  "c_ProcStartEvent_bytes e = put_word 4 (ev_tgid e) @ ev_comm e"

definition c_StatsBytes_bytes :: "c_StatsBytes \<Rightarrow> bytes" where
  "c_StatsBytes_bytes b = put_word 8 (c_sent b) @ put_word 8 (c_recv b)"

definition c_StatsAddr_bytes :: "c_StatsAddr \<Rightarrow> bytes" where
  "c_StatsAddr_bytes a =
     put_word 2 (c_dst_port a) @ put_word 2 (c_src_port a) @ put_word 4 (c_dst_ipv4 a)
     @ c_dst_ipv6 a"

definition c_ProtocolStats_bytes :: "c_ProtocolStats \<Rightarrow> bytes" where
  "c_ProtocolStats_bytes p = c_StatsBytes_bytes (c_bytes p) @ c_StatsAddr_bytes (c_addr p)"

definition c_ProcStats_bytes :: "c_ProcStats \<Rightarrow> bytes" where
  "c_ProcStats_bytes s = c_ProtocolStats_bytes (c_tcp s) @ c_ProtocolStats_bytes (c_udp s)"

text \<open>\<open>sizeof(struct ProcStartEvent)\<close>, the size reserved in the ring buffer.\<close>

definition sizeof_ProcStartEvent :: nat where
  "sizeof_ProcStartEvent = 20"

section \<open>Map declarations\<close>

datatype map_kind = BPF_MAP_TYPE_PERCPU_HASH | BPF_MAP_TYPE_RINGBUF | BPF_MAP_TYPE_LRU_HASH

record bpf_map_decl =
  decl_type :: map_kind
  decl_key_size :: nat
  decl_value_size :: nat
  decl_max_entries :: nat

definition STATS_decl :: bpf_map_decl where
  "STATS_decl = \<lparr>decl_type = BPF_MAP_TYPE_PERCPU_HASH, decl_key_size = 4,
     decl_value_size = 80, decl_max_entries = 512\<rparr>"

definition EVENTS_decl :: bpf_map_decl where
  "EVENTS_decl = \<lparr>decl_type = BPF_MAP_TYPE_RINGBUF, decl_key_size = 0,
     decl_value_size = 0, decl_max_entries = 4096\<rparr>"

definition TCP_SEND_ADDRS_decl :: bpf_map_decl where
  "TCP_SEND_ADDRS_decl = \<lparr>decl_type = BPF_MAP_TYPE_LRU_HASH, decl_key_size = 8,
     decl_value_size = 24, decl_max_entries = 512\<rparr>"

definition UDP_SEND_ADDRS_decl :: bpf_map_decl where
  "UDP_SEND_ADDRS_decl = \<lparr>decl_type = BPF_MAP_TYPE_LRU_HASH, decl_key_size = 8,
     decl_value_size = 24, decl_max_entries = 512\<rparr>"

definition UDP_RECV_ADDRS_decl :: bpf_map_decl where
  "UDP_RECV_ADDRS_decl = \<lparr>decl_type = BPF_MAP_TYPE_LRU_HASH, decl_key_size = 8,
     decl_value_size = 24, decl_max_entries = 512\<rparr>"

section \<open>Sizes\<close>

lemma length_c_StatsBytes_bytes [abi_size, simp]: "length (c_StatsBytes_bytes b) = 16"
  by (simp add: c_StatsBytes_bytes_def)

lemma length_c_StatsAddr_bytes [abi_size]:
  "c_addr_wf a \<Longrightarrow> length (c_StatsAddr_bytes a) = 24"
  by (simp add: c_StatsAddr_bytes_def c_addr_wf_def)

lemma length_c_ProtocolStats_bytes [abi_size]:
  "c_addr_wf (c_addr p) \<Longrightarrow> length (c_ProtocolStats_bytes p) = 40"
  by (simp add: c_ProtocolStats_bytes_def abi_size)

lemma length_c_ProcStats_bytes [abi_size]:
  "c_stats_wf s \<Longrightarrow> length (c_ProcStats_bytes s) = 80"
  by (simp add: c_ProcStats_bytes_def c_stats_wf_def abi_size)

lemma length_c_ProcStartEvent_bytes [abi_size]:
  "length (ev_comm e) = 16 \<Longrightarrow> length (c_ProcStartEvent_bytes e) = sizeof_ProcStartEvent"
  by (simp add: c_ProcStartEvent_bytes_def sizeof_ProcStartEvent_def)

text \<open>The sizes the map declarations state are those of the structures they store.\<close>

lemma STATS_value_size:
  "c_stats_wf s \<Longrightarrow> length (c_ProcStats_bytes s) = decl_value_size STATS_decl"
  by (simp add: abi_size STATS_decl_def)

lemma ADDRS_value_size:
  assumes "c_addr_wf a"
  shows "length (c_StatsAddr_bytes a) = decl_value_size TCP_SEND_ADDRS_decl"
    and "length (c_StatsAddr_bytes a) = decl_value_size UDP_SEND_ADDRS_decl"
    and "length (c_StatsAddr_bytes a) = decl_value_size UDP_RECV_ADDRS_decl"
  using assms
  by (simp_all add: abi_size TCP_SEND_ADDRS_decl_def UDP_SEND_ADDRS_decl_def
        UDP_RECV_ADDRS_decl_def)

end
