(* ===== verification/Bpf_Kernel.thy ===== *)
theory Bpf_Kernel
  imports Bpf_Types
begin

text \<open>
  The kernel services the BPF program calls. The helpers (\<open>bpf_map_lookup_elem\<close>,
  \<open>bpf_map_update_elem\<close>, \<open>bpf_ringbuf_reserve\<close>, ...) are kernel code, so they are a
  parameter of the program's model: a record of functions. What the program relies on is stated by
  three locales, one per map type, and their combination \<open>bpf_kernel\<close>. The interpretation at the
  end discharges the laws for bounded maps built from the program's own map declarations.
\<close>

type_synonym cpu = nat

section \<open>The helper interface\<close>

text \<open>
  Flags of \<open>bpf_map_update_elem\<close> (an anonymous enumeration of \<open>vmlinux.h\<close>).
\<close>

definition BPF_ANY :: u64 where
  "BPF_ANY = 0"

definition BPF_NOEXIST :: u64 where
  "BPF_NOEXIST = 1"

text \<open>
  \<open>percpu_lookup m c k\<close> is the object the returned pointer designates on CPU \<open>c\<close>,
  \<open>percpu_store\<close> a store through that pointer. \<open>ringbuf_reserve r n\<close> is the buffer with \<open>n\<close>
  bytes reserved, or \<open>None\<close> for a null result; \<open>ringbuf_submit\<close> publishes the reserved record.
  \<open>ringbuf_records\<close> is what a consumer reads, oldest first. \<open>bpf_ntohs\<close> is the byte-order
  conversion of libbpf.
\<close>

record ('m, 'l, 'r) bpf_helpers =
  percpu_lookup :: "'m \<Rightarrow> cpu \<Rightarrow> u32 \<Rightarrow> c_ProcStats option"
  percpu_store :: "'m \<Rightarrow> cpu \<Rightarrow> u32 \<Rightarrow> c_ProcStats \<Rightarrow> 'm"
  percpu_update :: "'m \<Rightarrow> cpu \<Rightarrow> u32 \<Rightarrow> c_ProcStats \<Rightarrow> u64 \<Rightarrow> int \<times> 'm"
  percpu_delete :: "'m \<Rightarrow> u32 \<Rightarrow> int \<times> 'm"
  percpu_full :: "'m \<Rightarrow> bool"
  lru_lookup :: "'l \<Rightarrow> u64 \<Rightarrow> c_StatsAddr option"
  lru_update :: "'l \<Rightarrow> u64 \<Rightarrow> c_StatsAddr \<Rightarrow> u64 \<Rightarrow> int \<times> 'l"
  lru_delete :: "'l \<Rightarrow> u64 \<Rightarrow> int \<times> 'l"
  ringbuf_reserve :: "'r \<Rightarrow> nat \<Rightarrow> 'r option"
  ringbuf_submit :: "'r \<Rightarrow> bytes \<Rightarrow> 'r"
  ringbuf_records :: "'r \<Rightarrow> bytes list"
  bpf_ntohs :: "u16 \<Rightarrow> u16"

section \<open>Laws\<close>

text \<open>
  A per-CPU hash map: a key is present on every CPU or on none; a store through the looked-up
  pointer changes this CPU's slot only; an insertion with \<open>BPF_NOEXIST\<close> succeeds exactly when the
  key is absent and the map has room, and gives the other CPUs a zeroed slot; a failing insertion
  changes nothing.
\<close>

locale percpu_hash =
  fixes lookup :: "'m \<Rightarrow> cpu \<Rightarrow> 'k \<Rightarrow> 'v option"
    and store :: "'m \<Rightarrow> cpu \<Rightarrow> 'k \<Rightarrow> 'v \<Rightarrow> 'm"
    and update :: "'m \<Rightarrow> cpu \<Rightarrow> 'k \<Rightarrow> 'v \<Rightarrow> u64 \<Rightarrow> int \<times> 'm"
    and delete :: "'m \<Rightarrow> 'k \<Rightarrow> int \<times> 'm"
    and full :: "'m \<Rightarrow> bool"
    and zero :: 'v
  assumes present_on_all: "lookup m c k = None \<Longrightarrow> lookup m c' k = None"
    and lookup_store: "lookup m c k \<noteq> None \<Longrightarrow>
      lookup (store m c k v) c' k' = (if c' = c \<and> k' = k then Some v else lookup m c' k')"
    and insert_lookup: "update m c k v BPF_NOEXIST = (0, m') \<Longrightarrow>
      lookup m' c' k' =
        (if k' = k then Some (if c' = c then v else zero) else lookup m c' k')"
    and insert_present: "lookup m c k \<noteq> None \<Longrightarrow> fst (update m c k v BPF_NOEXIST) \<noteq> 0"
    and insert_full: "full m \<Longrightarrow> fst (update m c k v BPF_NOEXIST) \<noteq> 0"
    and insert_room: "lookup m c k = None \<Longrightarrow> \<not> full m \<Longrightarrow>
      fst (update m c k v BPF_NOEXIST) = 0"
    and insert_failed: "update m c k v BPF_NOEXIST = (r, m') \<Longrightarrow> r \<noteq> 0 \<Longrightarrow>
      lookup m' c' k' = lookup m c' k'"
    and lookup_delete: "lookup (snd (delete m k)) c k' =
      (if k' = k then None else lookup m c k')"
begin

lemma insert_absent:
  assumes "update m c k v BPF_NOEXIST = (0, m')"
  shows "lookup m c k = None"
  using insert_present [of m c k v] assms by fastforce

lemma insert_succeeds_iff:
  "fst (update m c k v BPF_NOEXIST) = 0 \<longleftrightarrow> lookup m c k = None \<and> \<not> full m"
  using insert_present [of m c k v] insert_full [of m c k v] insert_room [of m c k v]
  by blast

end

text \<open>
  An LRU hash map: an update that succeeds is visible to the next lookup; any update may evict
  other keys but never changes their value, and neither does an update that fails; a deletion
  removes its key only.
\<close>

locale lru_hash =
  fixes lookup :: "'l \<Rightarrow> 'k \<Rightarrow> 'v option"
    and update :: "'l \<Rightarrow> 'k \<Rightarrow> 'v \<Rightarrow> u64 \<Rightarrow> int \<times> 'l"
    and delete :: "'l \<Rightarrow> 'k \<Rightarrow> int \<times> 'l"
  assumes lru_update_same: "update l k v BPF_ANY = (0, l') \<Longrightarrow> lookup l' k = Some v"
    and lru_update_other: "update l k v BPF_ANY = (r, l') \<Longrightarrow> r \<noteq> 0 \<or> k' \<noteq> k \<Longrightarrow>
      lookup l' k' = lookup l k' \<or> lookup l' k' = None"
    and lru_lookup_delete: "lookup (snd (delete l k)) k' =
      (if k' = k then None else lookup l k')"

text \<open>
  A ring buffer: a reservation that succeeds and is then submitted appends one record; what the
  consumer can already read is never changed by a reservation.
\<close>

locale ring_buffer =
  fixes reserve :: "'r \<Rightarrow> nat \<Rightarrow> 'r option"
    and submit :: "'r \<Rightarrow> bytes \<Rightarrow> 'r"
    and records :: "'r \<Rightarrow> bytes list"
  assumes submit_records: "reserve r n = Some r' \<Longrightarrow> length bs = n \<Longrightarrow>
      records (submit r' bs) = records r @ [bs]"

text \<open>The zeroed value of \<open>create_empty_stats\<close>, which is also the kernel's initial slot.\<close>

definition empty_addr :: c_StatsAddr where
  "empty_addr = \<lparr>c_dst_port = 0, c_src_port = 0, c_dst_ipv4 = 0, c_dst_ipv6 = replicate 16 0\<rparr>"

definition empty_proto :: c_ProtocolStats where
  "empty_proto = \<lparr>c_bytes = \<lparr>c_sent = 0, c_recv = 0\<rparr>, c_addr = empty_addr\<rparr>"

definition create_empty_stats :: c_ProcStats where
  "create_empty_stats = \<lparr>c_tcp = empty_proto, c_udp = empty_proto\<rparr>"

text \<open>
  The kernel the program runs on: the three kinds of map together, and the byte-order conversion,
  which reads the two bytes of a port in network order.
\<close>

locale bpf_kernel =
  percpu: percpu_hash "percpu_lookup h" "percpu_store h" "percpu_update h" "percpu_delete h"
    "percpu_full h" create_empty_stats +
  lru: lru_hash "lru_lookup h" "lru_update h" "lru_delete h" +
  ring: ring_buffer "ringbuf_reserve h" "ringbuf_submit h" "ringbuf_records h"
  for h :: "('m, 'l, 'r) bpf_helpers" +
  assumes ntohs: "unat (bpf_ntohs h (get_word [hi, lo])) = 256 * unat hi + unat lo"

section \<open>Bounded maps\<close>

text \<open>
  Maps with the capacities the program declares. A per-CPU map is a list of entries, each with
  one value per CPU; an LRU map keeps the most recently inserted key first and drops the last one
  when it is full; a ring buffer counts the bytes in use, each record taking an 8-byte header and
  being rounded up to a multiple of 8.
\<close>

type_synonym stats_entries = "(u32 \<times> (cpu \<Rightarrow> c_ProcStats)) list"
type_synonym addr_entries = "(u64 \<times> c_StatsAddr) list"

record ring =
  ring_used :: nat
  ring_data :: "bytes list"

definition stats_lookup :: "stats_entries \<Rightarrow> cpu \<Rightarrow> u32 \<Rightarrow> c_ProcStats option" where
  "stats_lookup m c k = map_option (\<lambda>f. f c) (map_of m k)"

definition stats_store :: "stats_entries \<Rightarrow> cpu \<Rightarrow> u32 \<Rightarrow> c_ProcStats \<Rightarrow> stats_entries" where
  "stats_store m c k v = map (\<lambda>(k', f). (k', if k' = k then f(c := v) else f)) m"

definition stats_full :: "stats_entries \<Rightarrow> bool" where
  "stats_full m \<longleftrightarrow> decl_max_entries STATS_decl \<le> length m"

definition stats_update ::
    "stats_entries \<Rightarrow> cpu \<Rightarrow> u32 \<Rightarrow> c_ProcStats \<Rightarrow> u64 \<Rightarrow> int \<times> stats_entries" where
  "stats_update m c k v flags =
     (if map_of m k \<noteq> None
      then if flags = BPF_NOEXIST then (- 17, m) else (0, stats_store m c k v)
      else if stats_full m then (- 7, m)
      else (0, (k, (\<lambda>_. create_empty_stats)(c := v)) # m))"

definition stats_delete :: "stats_entries \<Rightarrow> u32 \<Rightarrow> int \<times> stats_entries" where
  "stats_delete m k =
     (if map_of m k = None then - 2 else 0, filter (\<lambda>(k', _). k' \<noteq> k) m)"

definition addrs_update ::
    "addr_entries \<Rightarrow> u64 \<Rightarrow> c_StatsAddr \<Rightarrow> u64 \<Rightarrow> int \<times> addr_entries" where
  "addrs_update l k v flags =
     (0, (k, v) # take (decl_max_entries TCP_SEND_ADDRS_decl - 1)
                       (filter (\<lambda>(k', _). k' \<noteq> k) l))"

definition addrs_delete :: "addr_entries \<Rightarrow> u64 \<Rightarrow> int \<times> addr_entries" where
  "addrs_delete l k =
     (if map_of l k = None then - 2 else 0, filter (\<lambda>(k', _). k' \<noteq> k) l)"

definition ring_reserve :: "ring \<Rightarrow> nat \<Rightarrow> ring option" where
  "ring_reserve r n =
     (let need = (n + 8 + 7) div 8 * 8 in
      if ring_used r + need \<le> decl_max_entries EVENTS_decl
      then Some (r\<lparr>ring_used := ring_used r + need\<rparr>) else None)"

definition ring_submit :: "ring \<Rightarrow> bytes \<Rightarrow> ring" where
  "ring_submit r bs = r\<lparr>ring_data := ring_data r @ [bs]\<rparr>"

definition swap16 :: "u16 \<Rightarrow> u16" where
  "swap16 x = get_word (rev (put_word 2 x))"

definition bounded_helpers :: "(stats_entries, addr_entries, ring) bpf_helpers" where
  "bounded_helpers =
     \<lparr>percpu_lookup = stats_lookup, percpu_store = stats_store, percpu_update = stats_update,
      percpu_delete = stats_delete, percpu_full = stats_full,
      lru_lookup = map_of, lru_update = addrs_update, lru_delete = addrs_delete,
      ringbuf_reserve = ring_reserve, ringbuf_submit = ring_submit,
      ringbuf_records = ring_data, bpf_ntohs = swap16\<rparr>"

lemma map_of_filter_key:
  "map_of (filter (\<lambda>(k', _). k' \<noteq> k) m) k' = (if k' = k then None else map_of m k')"
  by (induction m) auto

lemma map_of_stats_store:
  "map_of (stats_store m c k v) k' =
     (if k' = k then map_option (\<lambda>f. f(c := v)) (map_of m k) else map_of m k')"
  unfolding stats_store_def by (induction m) (auto simp: fun_upd_def)

lemma map_of_take: "map_of (take n l) k = map_of l k \<or> map_of (take n l) k = None"
proof -
  have "map_of l k = map_of (take n l @ drop n l) k" by simp
  also have "\<dots> = (case map_of (take n l) k of None \<Rightarrow> map_of (drop n l) k | Some v \<Rightarrow> Some v)"
    by (simp only: map_of_append map_add_def)
  finally show ?thesis by (cases "map_of (take n l) k") auto
qed

lemmas bounded_stats_defs =
  stats_lookup_def stats_update_def stats_delete_def BPF_NOEXIST_def

interpretation stats_hash: percpu_hash stats_lookup stats_store stats_update stats_delete
  stats_full create_empty_stats
proof (unfold_locales, goal_cases)
  case (1 m c k c')
  then show ?case by (simp add: stats_lookup_def)
next
  case (2 m c k v c' k')
  then show ?case by (auto simp: stats_lookup_def map_of_stats_store)
next
  case (3 m c k v m' c' k')
  then show ?case by (auto simp: bounded_stats_defs split: if_splits)
next
  case (4 m c k v)
  then show ?case by (auto simp: bounded_stats_defs)
next
  case (5 m c k v)
  then show ?case by (auto simp: bounded_stats_defs)
next
  case (6 m c k v)
  then show ?case by (auto simp: bounded_stats_defs)
next
  case (7 m c k v r m' c' k')
  then show ?case by (auto simp: bounded_stats_defs split: if_splits)
next
  case (8 m k c k')
  then show ?case by (auto simp: bounded_stats_defs map_of_filter_key)
qed

interpretation addrs_hash: lru_hash "map_of :: addr_entries \<Rightarrow> u64 \<Rightarrow> c_StatsAddr option"
  addrs_update addrs_delete
proof (unfold_locales, goal_cases)
  case (1 l k v l')
  then show ?case by (auto simp: addrs_update_def)
next
  case (2 l k v r l' k')
  then have "l' = (k, v) # take (decl_max_entries TCP_SEND_ADDRS_decl - 1)
      (filter (\<lambda>(k', _). k' \<noteq> k) l)"
    by (auto simp: addrs_update_def)
  moreover from 2 have "k' \<noteq> k" by (auto simp: addrs_update_def)
  ultimately show ?case
    using map_of_take [of "decl_max_entries TCP_SEND_ADDRS_decl - 1"
      "filter (\<lambda>(k', _). k' \<noteq> k) l" k']
    by (auto simp: map_of_filter_key)
next
  case (3 l k k')
  then show ?case by (simp add: addrs_delete_def map_of_filter_key)
qed

interpretation events_ring: ring_buffer ring_reserve ring_submit ring_data
  by unfold_locales
    (auto simp: ring_reserve_def ring_submit_def Let_def split: if_splits)

lemma swap16_bytes: "unat (swap16 (get_word [hi, lo])) = 256 * unat hi + unat lo"
proof -
  have bs: "put_word 2 (get_word [hi, lo] :: u16) = [hi, lo]"
    using put_get_word [where 'a = 16, of "[hi, lo]"] by (simp add: numeral_2_eq_2)
  have "le_decode [lo, hi] < 2 ^ 16"
    using unat_lt2p [of lo] unat_lt2p [of hi] by simp
  then have "unat (get_word [lo, hi] :: u16) = le_decode [lo, hi]"
    unfolding get_word_def unat_of_nat by simp
  then show ?thesis unfolding swap16_def bs by simp
qed

interpretation bounded: bpf_kernel bounded_helpers
  unfolding bpf_kernel_def bpf_kernel_axioms_def bounded_helpers_def bpf_helpers.simps
  using stats_hash.percpu_hash_axioms addrs_hash.lru_hash_axioms
    events_ring.ring_buffer_axioms swap16_bytes
  by blast

end
