(* ===== verification/Bpf_Probes.thy ===== *)
theory Bpf_Probes
  imports Bpf_Kernel
begin

text \<open>
  The functions and probe programs of \<open>procnet.bpf.c\<close>, in source order, over the helper record
  of \<open>Bpf_Kernel\<close>, and the facts about one probe invocation: what each program does to the
  counters of each process on each CPU, to the saved addresses and to the event stream.
\<close>

unbundle bit_operations_syntax

section \<open>State and context\<close>

text \<open>The five maps of the program; the field names are those of the C definitions.\<close>

record ('m, 'l, 'r) bpf_maps =
  STATS :: 'm
  EVENTS :: 'r
  TCP_SEND_ADDRS :: 'l
  UDP_SEND_ADDRS :: 'l
  UDP_RECV_ADDRS :: 'l

text \<open>
  What the kernel tells a running program about its invocation: the CPU it runs on, the result of
  \<open>bpf_get_current_pid_tgid\<close>, and the 16 bytes \<open>bpf_get_current_comm\<close> writes.
\<close>

record bpf_ctx =
  ctx_cpu :: cpu
  ctx_pid_tgid :: u64
  ctx_comm :: bytes

text \<open>The members of \<open>struct sock\<close> the program reads with \<open>BPF_CORE_READ\<close>.\<close>

record c_sock =
  skc_family :: u16
  skc_num :: u16
  skc_dport :: u16
  skc_daddr :: u32
  skc_v6_daddr :: bytes

definition tgid_of :: "u64 \<Rightarrow> u32" where
  "tgid_of pid_tgid = ucast (drop_bit 32 pid_tgid)"

definition pid_of :: "u64 \<Rightarrow> u32" where
  "pid_of pid_tgid = ucast pid_tgid"

definition AF_INET :: u16 where
  "AF_INET = 2"

definition AF_INET6 :: u16 where
  "AF_INET6 = 10"

section \<open>Functions\<close>

definition emit_start_event ::
    "('m, 'l, 'r) bpf_helpers \<Rightarrow> u32 \<Rightarrow> bytes \<Rightarrow> ('m, 'l, 'r) bpf_maps
      \<Rightarrow> int \<times> ('m, 'l, 'r) bpf_maps" where
  "emit_start_event h tgid comm s =
     (case ringbuf_reserve h (EVENTS s) sizeof_ProcStartEvent of
        None \<Rightarrow> (0, s)
      | Some r \<Rightarrow>
          (0, s\<lparr>EVENTS := ringbuf_submit h r
                 (c_ProcStartEvent_bytes \<lparr>ev_tgid = tgid, ev_comm = comm\<rparr>)\<rparr>))"

definition capture_addr :: "('m, 'l, 'r) bpf_helpers \<Rightarrow> c_sock \<Rightarrow> c_StatsAddr" where
  "capture_addr h sk =
     (let family = skc_family sk;
          addr = empty_addr\<lparr>c_src_port := skc_num sk, c_dst_port := bpf_ntohs h (skc_dport sk)\<rparr>
      in if family = AF_INET then addr\<lparr>c_dst_ipv4 := skc_daddr sk\<rparr>
         else if family = AF_INET6 then addr\<lparr>c_dst_ipv6 := skc_v6_daddr sk\<rparr>
         else addr)"

definition add_traffic ::
    "c_ProtocolStats \<Rightarrow> u64 \<Rightarrow> u64 \<Rightarrow> c_StatsAddr \<Rightarrow> c_ProtocolStats" where
  "add_traffic p sent recv addr =
     \<lparr>c_bytes = \<lparr>c_sent = c_sent (c_bytes p) + sent, c_recv = c_recv (c_bytes p) + recv\<rparr>,
      c_addr = addr\<rparr>"

text \<open>\<open>None\<close> is the null pointer, for which the function returns at once.\<close>

fun update_stats ::
    "c_ProcStats option \<Rightarrow> Protocol \<Rightarrow> u64 \<Rightarrow> u64 \<Rightarrow> c_StatsAddr \<Rightarrow> c_ProcStats option" where
  "update_stats None protocol sent recv addr = None"
| "update_stats (Some stats) TCP sent recv addr =
     Some (stats\<lparr>c_tcp := add_traffic (c_tcp stats) sent recv addr\<rparr>)"
| "update_stats (Some stats) UDP sent recv addr =
     Some (stats\<lparr>c_udp := add_traffic (c_udp stats) sent recv addr\<rparr>)"

text \<open>
  \<open>update_stats\<close> called on the pointer a lookup returned: the object it designates is updated in
  place, a null pointer leaves the map as it is.
\<close>

definition update_in_place ::
    "('m, 'l, 'r) bpf_helpers \<Rightarrow> 'm \<Rightarrow> cpu \<Rightarrow> u32 \<Rightarrow> Protocol \<Rightarrow> u64 \<Rightarrow> u64 \<Rightarrow> c_StatsAddr
      \<Rightarrow> 'm" where
  "update_in_place h m c tgid protocol sent recv addr =
     (case update_stats (percpu_lookup h m c tgid) protocol sent recv addr of
        None \<Rightarrow> m
      | Some v \<Rightarrow> percpu_store h m c tgid v)"

definition new_stat :: "Protocol \<Rightarrow> u64 \<Rightarrow> u64 \<Rightarrow> c_StatsAddr \<Rightarrow> c_ProcStats" where
  "new_stat protocol sent recv addr =
     the (update_stats (Some create_empty_stats) protocol sent recv addr)"

definition account_bytes ::
    "('m, 'l, 'r) bpf_helpers \<Rightarrow> bpf_ctx \<Rightarrow> c_StatsAddr \<Rightarrow> u64 \<Rightarrow> u64 \<Rightarrow> Protocol
      \<Rightarrow> ('m, 'l, 'r) bpf_maps \<Rightarrow> int \<times> ('m, 'l, 'r) bpf_maps" where
  "account_bytes h ctx addr sent recv protocol s =
     (let tgid = tgid_of (ctx_pid_tgid ctx); c = ctx_cpu ctx in
      case percpu_lookup h (STATS s) c tgid of
        Some curr_stat \<Rightarrow>
          (0, s\<lparr>STATS := update_in_place h (STATS s) c tgid protocol sent recv addr\<rparr>)
      | None \<Rightarrow>
          (let (r, m) = percpu_update h (STATS s) c tgid (new_stat protocol sent recv addr)
                          BPF_NOEXIST;
               s' = s\<lparr>STATS := m\<rparr>
           in if r = 0
              then (0, snd (emit_start_event h tgid (ctx_comm ctx) s'))
              else (0, s'\<lparr>STATS := update_in_place h m c tgid protocol sent recv addr\<rparr>)))"

section \<open>Probe programs\<close>

definition procnet_tcp_sendmsg_entry ::
    "('m, 'l, 'r) bpf_helpers \<Rightarrow> bpf_ctx \<Rightarrow> c_sock \<Rightarrow> ('m, 'l, 'r) bpf_maps
      \<Rightarrow> int \<times> ('m, 'l, 'r) bpf_maps" where
  "procnet_tcp_sendmsg_entry h ctx sk s =
     (0, s\<lparr>TCP_SEND_ADDRS :=
            snd (lru_update h (TCP_SEND_ADDRS s) (ctx_pid_tgid ctx) (capture_addr h sk) BPF_ANY)\<rparr>)"

definition procnet_tcp_sendmsg_exit ::
    "('m, 'l, 'r) bpf_helpers \<Rightarrow> bpf_ctx \<Rightarrow> i32 \<Rightarrow> ('m, 'l, 'r) bpf_maps
      \<Rightarrow> int \<times> ('m, 'l, 'r) bpf_maps" where
  "procnet_tcp_sendmsg_exit h ctx ret s =
     (let pid_tgid = ctx_pid_tgid ctx in
      case lru_lookup h (TCP_SEND_ADDRS s) pid_tgid of
        None \<Rightarrow> (0, s)
      | Some addr \<Rightarrow>
          (let s' = s\<lparr>TCP_SEND_ADDRS := snd (lru_delete h (TCP_SEND_ADDRS s) pid_tgid)\<rparr>
           in if 0 < sint ret
              then (0, snd (account_bytes h ctx addr (u64_of_int32 ret) 0 TCP s'))
              else (0, s')))"

definition procnet_tcp_cleanup_rbuf ::
    "('m, 'l, 'r) bpf_helpers \<Rightarrow> bpf_ctx \<Rightarrow> c_sock \<Rightarrow> i32 \<Rightarrow> ('m, 'l, 'r) bpf_maps
      \<Rightarrow> int \<times> ('m, 'l, 'r) bpf_maps" where
  "procnet_tcp_cleanup_rbuf h ctx sk copied s =
     (if sint copied \<le> 0 then (0, s)
      else account_bytes h ctx (capture_addr h sk) 0 (u64_of_int32 copied) TCP s)"

definition procnet_udp_sendmsg_entry ::
    "('m, 'l, 'r) bpf_helpers \<Rightarrow> bpf_ctx \<Rightarrow> c_sock \<Rightarrow> ('m, 'l, 'r) bpf_maps
      \<Rightarrow> int \<times> ('m, 'l, 'r) bpf_maps" where
  "procnet_udp_sendmsg_entry h ctx sk s =
     (0, s\<lparr>UDP_SEND_ADDRS :=
            snd (lru_update h (UDP_SEND_ADDRS s) (ctx_pid_tgid ctx) (capture_addr h sk) BPF_ANY)\<rparr>)"

definition procnet_udp_sendmsg_exit ::
    "('m, 'l, 'r) bpf_helpers \<Rightarrow> bpf_ctx \<Rightarrow> i32 \<Rightarrow> ('m, 'l, 'r) bpf_maps
      \<Rightarrow> int \<times> ('m, 'l, 'r) bpf_maps" where
  "procnet_udp_sendmsg_exit h ctx ret s =
     (let pid_tgid = ctx_pid_tgid ctx in
      case lru_lookup h (UDP_SEND_ADDRS s) pid_tgid of
        None \<Rightarrow> (0, s)
      | Some addr \<Rightarrow>
          (let s' = s\<lparr>UDP_SEND_ADDRS := snd (lru_delete h (UDP_SEND_ADDRS s) pid_tgid)\<rparr>
           in if 0 < sint ret
              then (0, snd (account_bytes h ctx addr (u64_of_int32 ret) 0 UDP s'))
              else (0, s')))"

definition procnet_udp_recvmsg_entry ::
    "('m, 'l, 'r) bpf_helpers \<Rightarrow> bpf_ctx \<Rightarrow> c_sock \<Rightarrow> ('m, 'l, 'r) bpf_maps
      \<Rightarrow> int \<times> ('m, 'l, 'r) bpf_maps" where
  "procnet_udp_recvmsg_entry h ctx sk s =
     (0, s\<lparr>UDP_RECV_ADDRS :=
            snd (lru_update h (UDP_RECV_ADDRS s) (ctx_pid_tgid ctx) (capture_addr h sk) BPF_ANY)\<rparr>)"

definition procnet_udp_recvmsg_exit ::
    "('m, 'l, 'r) bpf_helpers \<Rightarrow> bpf_ctx \<Rightarrow> i32 \<Rightarrow> ('m, 'l, 'r) bpf_maps
      \<Rightarrow> int \<times> ('m, 'l, 'r) bpf_maps" where
  "procnet_udp_recvmsg_exit h ctx ret s =
     (let pid_tgid = ctx_pid_tgid ctx in
      case lru_lookup h (UDP_RECV_ADDRS s) pid_tgid of
        None \<Rightarrow> (0, s)
      | Some addr \<Rightarrow>
          (let s' = s\<lparr>UDP_RECV_ADDRS := snd (lru_delete h (UDP_RECV_ADDRS s) pid_tgid)\<rparr>
           in if 0 < sint ret
              then (0, snd (account_bytes h ctx addr 0 (u64_of_int32 ret) UDP s'))
              else (0, s')))"

definition procnet_sched_process_exit ::
    "('m, 'l, 'r) bpf_helpers \<Rightarrow> bpf_ctx \<Rightarrow> ('m, 'l, 'r) bpf_maps
      \<Rightarrow> int \<times> ('m, 'l, 'r) bpf_maps" where
  "procnet_sched_process_exit h ctx s =
     (let pid = pid_of (ctx_pid_tgid ctx); tgid = tgid_of (ctx_pid_tgid ctx) in
      if pid \<noteq> tgid then (0, s)
      else (0, s\<lparr>STATS := snd (percpu_delete h (STATS s) tgid)\<rparr>))"

section \<open>Traces of probe invocations\<close>

datatype probe_event =
    TcpSendEntry bpf_ctx c_sock
  | TcpSendExit bpf_ctx i32
  | TcpCleanupRbuf bpf_ctx c_sock i32
  | UdpSendEntry bpf_ctx c_sock
  | UdpSendExit bpf_ctx i32
  | UdpRecvEntry bpf_ctx c_sock
  | UdpRecvExit bpf_ctx i32
  | SchedProcessExit bpf_ctx

fun event_ctx :: "probe_event \<Rightarrow> bpf_ctx" where
  "event_ctx (TcpSendEntry ctx _) = ctx"
| "event_ctx (TcpSendExit ctx _) = ctx"
| "event_ctx (TcpCleanupRbuf ctx _ _) = ctx"
| "event_ctx (UdpSendEntry ctx _) = ctx"
| "event_ctx (UdpSendExit ctx _) = ctx"
| "event_ctx (UdpRecvEntry ctx _) = ctx"
| "event_ctx (UdpRecvExit ctx _) = ctx"
| "event_ctx (SchedProcessExit ctx) = ctx"

fun run_probe ::
    "('m, 'l, 'r) bpf_helpers \<Rightarrow> probe_event \<Rightarrow> ('m, 'l, 'r) bpf_maps
      \<Rightarrow> int \<times> ('m, 'l, 'r) bpf_maps" where
  "run_probe h (TcpSendEntry ctx sk) s = procnet_tcp_sendmsg_entry h ctx sk s"
| "run_probe h (TcpSendExit ctx ret) s = procnet_tcp_sendmsg_exit h ctx ret s"
| "run_probe h (TcpCleanupRbuf ctx sk copied) s = procnet_tcp_cleanup_rbuf h ctx sk copied s"
| "run_probe h (UdpSendEntry ctx sk) s = procnet_udp_sendmsg_entry h ctx sk s"
| "run_probe h (UdpSendExit ctx ret) s = procnet_udp_sendmsg_exit h ctx ret s"
| "run_probe h (UdpRecvEntry ctx sk) s = procnet_udp_recvmsg_entry h ctx sk s"
| "run_probe h (UdpRecvExit ctx ret) s = procnet_udp_recvmsg_exit h ctx ret s"
| "run_probe h (SchedProcessExit ctx) s = procnet_sched_process_exit h ctx s"

fun run_probes ::
    "('m, 'l, 'r) bpf_helpers \<Rightarrow> probe_event list \<Rightarrow> ('m, 'l, 'r) bpf_maps
      \<Rightarrow> ('m, 'l, 'r) bpf_maps" where
  "run_probes h [] s = s"
| "run_probes h (e # es) s = run_probes h es (snd (run_probe h e s))"

section \<open>Specification\<close>

text \<open>What an observer sees of the maps: the slots of each process, and the event records.\<close>

type_synonym stats_view = "cpu \<Rightarrow> u32 \<Rightarrow> c_ProcStats option"

definition slots :: "('m, 'l, 'r) bpf_helpers \<Rightarrow> ('m, 'l, 'r) bpf_maps \<Rightarrow> stats_view" where
  "slots h s = percpu_lookup h (STATS s)"

definition events_of :: "('m, 'l, 'r) bpf_helpers \<Rightarrow> ('m, 'l, 'r) bpf_maps \<Rightarrow> bytes list" where
  "events_of h s = ringbuf_records h (EVENTS s)"

definition start_record :: "bpf_ctx \<Rightarrow> bytes" where
  "start_record ctx = c_ProcStartEvent_bytes
     \<lparr>ev_tgid = tgid_of (ctx_pid_tgid ctx), ev_comm = ctx_comm ctx\<rparr>"

text \<open>
  Accounting as a function on the view: the traffic is added to this CPU's slot of the process; a
  process without slots gets one on every CPU, unless the map is full, in which case the traffic
  is dropped.
\<close>

definition account_spec ::
    "bool \<Rightarrow> cpu \<Rightarrow> u32 \<Rightarrow> Protocol \<Rightarrow> u64 \<Rightarrow> u64 \<Rightarrow> c_StatsAddr \<Rightarrow> stats_view \<Rightarrow> stats_view" where
  "account_spec full c k p sent recv addr v =
     (if v c k \<noteq> None
      then (\<lambda>c' k'. if c' = c \<and> k' = k then update_stats (v c k) p sent recv addr else v c' k')
      else if full then v
      else (\<lambda>c' k'. if k' = k
              then Some (if c' = c then new_stat p sent recv addr else create_empty_stats)
              else v c' k'))"

text \<open>
  The same in numbers, without the C structures: a ledger entry per protocol holds the two byte
  counts and the last endpoint.
\<close>

record ledger_entry =
  le_sent :: nat
  le_recv :: nat
  le_endpoint :: c_StatsAddr

type_synonym ledger = "cpu \<Rightarrow> u32 \<Rightarrow> (Protocol \<Rightarrow> ledger_entry) option"

fun entries_of :: "c_ProcStats \<Rightarrow> Protocol \<Rightarrow> ledger_entry" where
  "entries_of v TCP =
     \<lparr>le_sent = unat (c_sent (c_bytes (c_tcp v))), le_recv = unat (c_recv (c_bytes (c_tcp v))),
      le_endpoint = c_addr (c_tcp v)\<rparr>"
| "entries_of v UDP =
     \<lparr>le_sent = unat (c_sent (c_bytes (c_udp v))), le_recv = unat (c_recv (c_bytes (c_udp v))),
      le_endpoint = c_addr (c_udp v)\<rparr>"

definition ledger_of :: "stats_view \<Rightarrow> ledger" where
  "ledger_of v = (\<lambda>c k. map_option entries_of (v c k))"

definition blank_entries :: "Protocol \<Rightarrow> ledger_entry" where
  "blank_entries = (\<lambda>_. \<lparr>le_sent = 0, le_recv = 0, le_endpoint =
     \<lparr>c_dst_port = 0, c_src_port = 0, c_dst_ipv4 = 0, c_dst_ipv6 = replicate 16 0\<rparr>\<rparr>)"

definition add_entry ::
    "Protocol \<Rightarrow> nat \<Rightarrow> nat \<Rightarrow> c_StatsAddr \<Rightarrow> (Protocol \<Rightarrow> ledger_entry) \<Rightarrow> Protocol \<Rightarrow> ledger_entry" where
  "add_entry p sent recv addr es =
     es(p := \<lparr>le_sent = (le_sent (es p) + sent) mod 2 ^ 64,
              le_recv = (le_recv (es p) + recv) mod 2 ^ 64, le_endpoint = addr\<rparr>)"

definition ledger_charge ::
    "bool \<Rightarrow> cpu \<Rightarrow> u32 \<Rightarrow> Protocol \<Rightarrow> nat \<Rightarrow> nat \<Rightarrow> c_StatsAddr \<Rightarrow> ledger \<Rightarrow> ledger" where
  "ledger_charge full c k p sent recv addr l =
     (case l c k of
        Some es \<Rightarrow> l(c := (l c)(k := Some (add_entry p sent recv addr es)))
      | None \<Rightarrow>
          if full then l
          else (\<lambda>c'. (l c')(k := Some (if c' = c then add_entry p sent recv addr blank_entries
                                       else blank_entries))))"

datatype direction = Sent | Recv

fun counter :: "Protocol \<Rightarrow> direction \<Rightarrow> c_ProcStats \<Rightarrow> u64" where
  "counter TCP Sent v = c_sent (c_bytes (c_tcp v))"
| "counter TCP Recv v = c_recv (c_bytes (c_tcp v))"
| "counter UDP Sent v = c_sent (c_bytes (c_udp v))"
| "counter UDP Recv v = c_recv (c_bytes (c_udp v))"

text \<open>The counter of a process summed over \<open>n\<close> CPUs, as user space sums it, modulo \<open>2 ^ 64\<close>.\<close>

definition cpu_total :: "nat \<Rightarrow> stats_view \<Rightarrow> u32 \<Rightarrow> Protocol \<Rightarrow> direction \<Rightarrow> u64" where
  "cpu_total n v k p d =
     sum_list (map (\<lambda>c. case v c k of None \<Rightarrow> 0 | Some x \<Rightarrow> counter p d x) [0..<n])"

text \<open>
  The traffic one invocation has to account, with the protocol and the address it carries: the
  bytes copied by \<open>tcp_cleanup_rbuf\<close>, and the positive return value of a send or receive whose
  entry probe left an address for the thread.
\<close>

fun traffic ::
    "('m, 'l, 'r) bpf_helpers \<Rightarrow> ('m, 'l, 'r) bpf_maps \<Rightarrow> probe_event
      \<Rightarrow> (Protocol \<times> u64 \<times> u64 \<times> c_StatsAddr) option" where
  "traffic h s (TcpSendExit ctx ret) =
     (if 0 < sint ret
      then map_option (\<lambda>a. (TCP, u64_of_int32 ret, 0, a))
             (lru_lookup h (TCP_SEND_ADDRS s) (ctx_pid_tgid ctx))
      else None)"
| "traffic h s (TcpCleanupRbuf ctx sk copied) =
     (if 0 < sint copied then Some (TCP, 0, u64_of_int32 copied, capture_addr h sk) else None)"
| "traffic h s (UdpSendExit ctx ret) =
     (if 0 < sint ret
      then map_option (\<lambda>a. (UDP, u64_of_int32 ret, 0, a))
             (lru_lookup h (UDP_SEND_ADDRS s) (ctx_pid_tgid ctx))
      else None)"
| "traffic h s (UdpRecvExit ctx ret) =
     (if 0 < sint ret
      then map_option (\<lambda>a. (UDP, 0, u64_of_int32 ret, a))
             (lru_lookup h (UDP_RECV_ADDRS s) (ctx_pid_tgid ctx))
      else None)"
| "traffic h s e = None"

definition charge ::
    "('m, 'l, 'r) bpf_helpers \<Rightarrow> ('m, 'l, 'r) bpf_maps \<Rightarrow> probe_event \<Rightarrow> u32 \<Rightarrow> Protocol
      \<Rightarrow> direction \<Rightarrow> u64" where
  "charge h s e k p d =
     (case traffic h s e of
        None \<Rightarrow> 0
      | Some (q, sent, recv, _) \<Rightarrow>
          if tgid_of (ctx_pid_tgid (event_ctx e)) = k \<and> q = p
          then (case d of Sent \<Rightarrow> sent | Recv \<Rightarrow> recv) else 0)"

fun total_charge ::
    "('m, 'l, 'r) bpf_helpers \<Rightarrow> ('m, 'l, 'r) bpf_maps \<Rightarrow> probe_event list \<Rightarrow> u32 \<Rightarrow> Protocol
      \<Rightarrow> direction \<Rightarrow> u64" where
  "total_charge h s [] k p d = 0"
| "total_charge h s (e # es) k p d =
     charge h s e k p d + total_charge h (snd (run_probe h e s)) es k p d"

text \<open>Process \<open>k\<close>'s leader exits.\<close>

fun leader_exit :: "u32 \<Rightarrow> probe_event \<Rightarrow> bool" where
  "leader_exit k (SchedProcessExit ctx) \<longleftrightarrow>
     tgid_of (ctx_pid_tgid ctx) = k \<and> pid_of (ctx_pid_tgid ctx) = k"
| "leader_exit k e \<longleftrightarrow> False"

text \<open>Along the run, whenever process \<open>k\<close> has no slot there is room for one.\<close>

fun never_full ::
    "('m, 'l, 'r) bpf_helpers \<Rightarrow> ('m, 'l, 'r) bpf_maps \<Rightarrow> probe_event list \<Rightarrow> u32 \<Rightarrow> bool" where
  "never_full h s [] k = True"
| "never_full h s (e # es) k =
     ((slots h s (ctx_cpu (event_ctx e)) k = None \<longrightarrow> \<not> percpu_full h (STATS s))
      \<and> never_full h (snd (run_probe h e s)) es k)"

section \<open>One invocation\<close>

lemma update_stats_None_iff [simp]:
  "update_stats v p sent recv addr = None \<longleftrightarrow> v = None"
  by (cases v; cases p) auto

lemma account_spec_keeps:
  "v c k \<noteq> None \<Longrightarrow> account_spec full c' k' p sent recv a v c k \<noteq> None"
  by (simp add: account_spec_def del: not_None_eq)

lemma counter_update_stats:
  "counter p d (the (update_stats (Some v) q sent recv addr)) =
     counter p d v + (if p = q then (case d of Sent \<Rightarrow> sent | Recv \<Rightarrow> recv) else 0)"
  by (cases p; cases q; cases d) (simp_all add: add_traffic_def)

text \<open>The two forms of the specification agree.\<close>

lemma entries_of_update:
  "entries_of (the (update_stats (Some v) p sent recv addr)) =
     add_entry p (unat sent) (unat recv) addr (entries_of v)"
proof
  fix q
  show "entries_of (the (update_stats (Some v) p sent recv addr)) q =
      add_entry p (unat sent) (unat recv) addr (entries_of v) q"
    by (cases p; cases q) (simp_all add: add_entry_def add_traffic_def unat_word_ariths)
qed

lemma entries_of_empty: "entries_of create_empty_stats = blank_entries"
proof
  fix q
  show "entries_of create_empty_stats q = blank_entries q"
    by (cases q) (simp_all add: create_empty_stats_def empty_proto_def empty_addr_def blank_entries_def)
qed

lemma entries_of_new:
  "entries_of (new_stat p sent recv addr) = add_entry p (unat sent) (unat recv) addr blank_entries"
  unfolding new_stat_def by (simp only: entries_of_update entries_of_empty)

lemma ledger_of_account_spec:
  "ledger_of (account_spec full c k p sent recv addr v) =
     ledger_charge full c k p (unat sent) (unat recv) addr (ledger_of v)"
proof (cases "v c k")
  case None
  then show ?thesis
    by (auto simp: ledger_of_def ledger_charge_def account_spec_def entries_of_new
        entries_of_empty fun_eq_iff)
next
  case (Some x)
  then obtain y where y: "update_stats (Some x) p sent recv addr = Some y"
    using update_stats_None_iff by blast
  then have "entries_of y = add_entry p (unat sent) (unat recv) addr (entries_of x)"
    using entries_of_update [of x p sent recv addr] by simp
  with Some y show ?thesis
    by (auto simp: ledger_of_def ledger_charge_def account_spec_def fun_eq_iff)
qed

lemma counter_empty [simp]: "counter p d create_empty_stats = 0"
  by (cases p; cases d) (simp_all add: create_empty_stats_def empty_proto_def)

lemma run_probe_returns_zero: "fst (run_probe h e s) = 0"
  by (cases e)
    (auto simp: procnet_tcp_sendmsg_entry_def procnet_tcp_sendmsg_exit_def
      procnet_tcp_cleanup_rbuf_def procnet_udp_sendmsg_entry_def procnet_udp_sendmsg_exit_def
      procnet_udp_recvmsg_entry_def procnet_udp_recvmsg_exit_def procnet_sched_process_exit_def
      account_bytes_def Let_def split: option.splits prod.splits)

lemma sum_list_point_add:
  fixes f :: "nat \<Rightarrow> 'a::comm_monoid_add"
  assumes "c < n"
  shows "sum_list (map (\<lambda>x. if x = c then f x + d else f x) [0..<n]) =
    sum_list (map f [0..<n]) + d"
  using assms
proof (induction n)
  case 0
  then show ?case by simp
next
  case (Suc n)
  show ?case
  proof (cases "c = n")
    case True
    have "map (\<lambda>x. if x = n then f x + d else f x) [0..<n] = map f [0..<n]"
      by auto
    with True show ?thesis by (simp add: add.assoc del: map_eq_conv)
  next
    case False
    with Suc show ?thesis by (simp add: ac_simps)
  qed
qed

lemma cpu_total_account_spec:
  assumes "c < n" and present: "\<And>c c'. v c k = None \<Longrightarrow> v c' k = None"
    and room: "k' = k \<Longrightarrow> v c k = None \<Longrightarrow> \<not> full"
  shows "cpu_total n (account_spec full c k q sent recv a v) k' p d =
    cpu_total n v k' p d +
    (if k = k' \<and> q = p then (case d of Sent \<Rightarrow> sent | Recv \<Rightarrow> recv) else 0)"
proof (cases "k' = k")
  case False
  then show ?thesis by (simp add: cpu_total_def account_spec_def)
next
  case True
  let ?add = "if q = p then (case d of Sent \<Rightarrow> sent | Recv \<Rightarrow> recv) else 0"
  let ?f = "\<lambda>c. case v c k of None \<Rightarrow> 0 | Some x \<Rightarrow> counter p d x"
  have "(case account_spec full c k q sent recv a v x k of None \<Rightarrow> 0 | Some y \<Rightarrow> counter p d y)
      = (if x = c then ?f x + ?add else ?f x)" for x
  proof (cases "v c k")
    case None
    with room True present [of c x] show ?thesis
      using counter_update_stats [of p d create_empty_stats q sent recv a]
      by (auto simp: account_spec_def new_stat_def)
  next
    case (Some w)
    then obtain w' where "update_stats (Some w) q sent recv a = Some w'"
      using update_stats_None_iff by blast
    with Some counter_update_stats [of p d w q sent recv a] show ?thesis
      by (auto simp: account_spec_def)
  qed
  then have "cpu_total n (account_spec full c k q sent recv a v) k p d =
      sum_list (map (\<lambda>x. if x = c then ?f x + ?add else ?f x) [0..<n])"
    by (simp add: cpu_total_def)
  also have "\<dots> = cpu_total n v k p d + ?add"
    using sum_list_point_add [OF assms(1), of ?f ?add] by (simp add: cpu_total_def)
  finally show ?thesis using True by simp
qed

context bpf_kernel
begin

lemma lookup_update_in_place:
  "percpu_lookup h (update_in_place h m c k p sent recv addr) c' k' =
     (if c' = c \<and> k' = k then update_stats (percpu_lookup h m c k) p sent recv addr
      else percpu_lookup h m c' k')"
proof (cases "percpu_lookup h m c k")
  case None
  then show ?thesis by (simp add: update_in_place_def)
next
  case (Some v)
  then obtain w where "update_stats (Some v) p sent recv addr = Some w"
    using update_stats_None_iff by blast
  with Some percpu.lookup_store [of m c k] show ?thesis
    by (simp add: update_in_place_def)
qed

lemma emit_start_event_frame:
  "STATS (snd (emit_start_event h tgid comm s)) = STATS s"
  "TCP_SEND_ADDRS (snd (emit_start_event h tgid comm s)) = TCP_SEND_ADDRS s"
  "UDP_SEND_ADDRS (snd (emit_start_event h tgid comm s)) = UDP_SEND_ADDRS s"
  "UDP_RECV_ADDRS (snd (emit_start_event h tgid comm s)) = UDP_RECV_ADDRS s"
  by (simp_all add: emit_start_event_def split: option.split)

lemma emit_start_event_records:
  assumes "length comm = 16"
  shows "events_of h (snd (emit_start_event h tgid comm s)) = events_of h s @
    (if ringbuf_reserve h (EVENTS s) sizeof_ProcStartEvent = None then []
     else [c_ProcStartEvent_bytes \<lparr>ev_tgid = tgid, ev_comm = comm\<rparr>])"
  using assms
  by (auto simp: emit_start_event_def events_of_def length_c_ProcStartEvent_bytes
      intro: ring.submit_records split: option.split)

lemma account_bytes_addrs:
  "TCP_SEND_ADDRS (snd (account_bytes h ctx addr sent recv p s)) = TCP_SEND_ADDRS s"
  "UDP_SEND_ADDRS (snd (account_bytes h ctx addr sent recv p s)) = UDP_SEND_ADDRS s"
  "UDP_RECV_ADDRS (snd (account_bytes h ctx addr sent recv p s)) = UDP_RECV_ADDRS s"
  by (simp_all add: account_bytes_def Let_def emit_start_event_frame
      split: option.split prod.split)

lemma account_bytes_slots:
  "slots h (snd (account_bytes h ctx addr sent recv p s)) =
     account_spec (percpu_full h (STATS s)) (ctx_cpu ctx) (tgid_of (ctx_pid_tgid ctx))
       p sent recv addr (slots h s)"
proof (cases "percpu_lookup h (STATS s) (ctx_cpu ctx) (tgid_of (ctx_pid_tgid ctx))")
  case (Some v)
  then show ?thesis
    by (auto simp: account_bytes_def slots_def account_spec_def lookup_update_in_place fun_eq_iff)
next
  case None
  let ?c = "ctx_cpu ctx" and ?k = "tgid_of (ctx_pid_tgid ctx)"
  obtain r m where upd:
    "percpu_update h (STATS s) ?c ?k (new_stat p sent recv addr) BPF_NOEXIST = (r, m)"
    by fastforce
  show ?thesis
  proof (cases "r = 0")
    case True
    with upd None percpu.insert_succeeds_iff [of "STATS s" ?c ?k "new_stat p sent recv addr"]
    have "\<not> percpu_full h (STATS s)" by simp
    with True upd None show ?thesis
      by (auto simp: account_bytes_def slots_def account_spec_def emit_start_event_frame
          percpu.insert_lookup fun_eq_iff)
  next
    case False
    with upd None percpu.insert_succeeds_iff [of "STATS s" ?c ?k "new_stat p sent recv addr"]
    have full: "percpu_full h (STATS s)" by simp
    have same: "percpu_lookup h m c' k' = percpu_lookup h (STATS s) c' k'" for c' k'
      using percpu.insert_failed [OF upd False] .
    from False upd None full show ?thesis
      by (auto simp: account_bytes_def slots_def account_spec_def lookup_update_in_place same
          fun_eq_iff)
  qed
qed

lemma account_bytes_events:
  assumes "length (ctx_comm ctx) = 16"
  shows "events_of h (snd (account_bytes h ctx addr sent recv p s)) = events_of h s @
    (if slots h s (ctx_cpu ctx) (tgid_of (ctx_pid_tgid ctx)) = None \<and> \<not> percpu_full h (STATS s)
        \<and> ringbuf_reserve h (EVENTS s) sizeof_ProcStartEvent \<noteq> None
     then [start_record ctx] else [])"
proof (cases "percpu_lookup h (STATS s) (ctx_cpu ctx) (tgid_of (ctx_pid_tgid ctx))")
  case (Some v)
  then show ?thesis by (simp add: account_bytes_def slots_def events_of_def)
next
  case None
  let ?c = "ctx_cpu ctx" and ?k = "tgid_of (ctx_pid_tgid ctx)"
  obtain r m where upd:
    "percpu_update h (STATS s) ?c ?k (new_stat p sent recv addr) BPF_NOEXIST = (r, m)"
    by fastforce
  with None percpu.insert_succeeds_iff [of "STATS s" ?c ?k "new_stat p sent recv addr"]
  have "r = 0 \<longleftrightarrow> \<not> percpu_full h (STATS s)" by simp
  with None upd emit_start_event_records [OF assms, of ?k "s\<lparr>STATS := m\<rparr>"] show ?thesis
    by (auto simp: account_bytes_def slots_def start_record_def events_of_def)
qed

lemma procnet_sched_process_exit_slots:
  "slots h (snd (procnet_sched_process_exit h ctx s)) c k =
     (if leader_exit k (SchedProcessExit ctx) then None else slots h s c k)"
  by (auto simp: procnet_sched_process_exit_def slots_def Let_def percpu.lookup_delete)

lemma run_probe_slots:
  "slots h (snd (run_probe h e s)) =
     (case traffic h s e of
        Some (q, sent, recv, a) \<Rightarrow>
          account_spec (percpu_full h (STATS s)) (ctx_cpu (event_ctx e))
            (tgid_of (ctx_pid_tgid (event_ctx e))) q sent recv a (slots h s)
      | None \<Rightarrow> (\<lambda>c k. if leader_exit k e then None else slots h s c k))"
proof (cases e)
  case (SchedProcessExit ctx)
  then show ?thesis
    by (simp add: procnet_sched_process_exit_slots fun_eq_iff)
next
  case (TcpSendExit ctx ret)
  then show ?thesis
    using account_bytes_slots [of ctx _ "u64_of_int32 ret" 0 TCP]
    by (auto simp: procnet_tcp_sendmsg_exit_def Let_def slots_def split: option.split)
next
  case (TcpCleanupRbuf ctx sk copied)
  then show ?thesis
    using account_bytes_slots [of ctx _ 0 "u64_of_int32 copied" TCP]
    by (auto simp: procnet_tcp_cleanup_rbuf_def slots_def)
next
  case (UdpSendExit ctx ret)
  then show ?thesis
    using account_bytes_slots [of ctx _ "u64_of_int32 ret" 0 UDP]
    by (auto simp: procnet_udp_sendmsg_exit_def Let_def slots_def split: option.split)
next
  case (UdpRecvExit ctx ret)
  then show ?thesis
    using account_bytes_slots [of ctx _ 0 "u64_of_int32 ret" UDP]
    by (auto simp: procnet_udp_recvmsg_exit_def Let_def slots_def split: option.split)
qed (auto simp: procnet_tcp_sendmsg_entry_def procnet_udp_sendmsg_entry_def
      procnet_udp_recvmsg_entry_def slots_def)

lemma run_probe_total:
  assumes "ctx_cpu (event_ctx e) < n" and "\<not> leader_exit k e"
    and "slots h s (ctx_cpu (event_ctx e)) k = None \<longrightarrow> \<not> percpu_full h (STATS s)"
  shows "cpu_total n (slots h (snd (run_probe h e s))) k p d =
    cpu_total n (slots h s) k p d + charge h s e k p d"
proof (cases "traffic h s e")
  case None
  with assms(2) show ?thesis by (simp add: run_probe_slots charge_def cpu_total_def)
next
  case (Some x)
  then obtain q sent recv a where tr: "traffic h s e = Some (q, sent, recv, a)"
    by (cases x) auto
  have "cpu_total n (account_spec (percpu_full h (STATS s)) (ctx_cpu (event_ctx e))
        (tgid_of (ctx_pid_tgid (event_ctx e))) q sent recv a (slots h s)) k p d =
      cpu_total n (slots h s) k p d +
      (if tgid_of (ctx_pid_tgid (event_ctx e)) = k \<and> q = p
       then (case d of Sent \<Rightarrow> sent | Recv \<Rightarrow> recv) else 0)"
    using assms(1,3) percpu.present_on_all
    by (intro cpu_total_account_spec) (auto simp: slots_def)
  with tr show ?thesis by (simp add: run_probe_slots charge_def)
qed

lemma run_probes_total:
  assumes "\<forall>e \<in> set es. ctx_cpu (event_ctx e) < n" and "\<forall>e \<in> set es. \<not> leader_exit k e"
    and "never_full h s es k"
  shows "cpu_total n (slots h (run_probes h es s)) k p d =
    cpu_total n (slots h s) k p d + total_charge h s es k p d"
  using assms
proof (induction es arbitrary: s)
  case Nil
  then show ?case by simp
next
  case (Cons e es)
  then show ?case
    using run_probe_total [of e n k s p d] by simp
qed

text \<open>Once a process has its slots, no further start record names it.\<close>

lemma run_probe_events:
  assumes "length (ctx_comm (event_ctx e)) = 16"
  shows "\<exists>new. events_of h (snd (run_probe h e s)) = events_of h s @ new \<and>
    set new \<subseteq> {start_record (event_ctx e)} \<and>
    (slots h s (ctx_cpu (event_ctx e)) (tgid_of (ctx_pid_tgid (event_ctx e))) \<noteq> None \<longrightarrow> new = [])"
proof (cases e)
  case (TcpSendExit ctx ret)
  with assms account_bytes_events [of ctx _ "u64_of_int32 ret" 0 TCP] show ?thesis
    by (auto simp: procnet_tcp_sendmsg_exit_def Let_def events_of_def slots_def split: option.split)
next
  case (TcpCleanupRbuf ctx sk copied)
  with assms account_bytes_events [of ctx _ 0 "u64_of_int32 copied" TCP] show ?thesis
    by (auto simp: procnet_tcp_cleanup_rbuf_def events_of_def slots_def)
next
  case (UdpSendExit ctx ret)
  with assms account_bytes_events [of ctx _ "u64_of_int32 ret" 0 UDP] show ?thesis
    by (auto simp: procnet_udp_sendmsg_exit_def Let_def events_of_def slots_def split: option.split)
next
  case (UdpRecvExit ctx ret)
  with assms account_bytes_events [of ctx _ 0 "u64_of_int32 ret" UDP] show ?thesis
    by (auto simp: procnet_udp_recvmsg_exit_def Let_def events_of_def slots_def split: option.split)
next
  case (SchedProcessExit ctx)
  then show ?thesis by (auto simp: procnet_sched_process_exit_def Let_def events_of_def)
qed (auto simp: procnet_tcp_sendmsg_entry_def procnet_udp_sendmsg_entry_def
      procnet_udp_recvmsg_entry_def events_of_def)

lemma run_probe_keeps_slots:
  assumes "\<not> leader_exit k e" and "slots h s c k \<noteq> None"
  shows "slots h (snd (run_probe h e s)) c k \<noteq> None"
proof (cases "traffic h s e")
  case None
  with assms show ?thesis by (simp add: run_probe_slots)
next
  case (Some x)
  with assms show ?thesis
    by (cases x) (simp add: run_probe_slots account_spec_keeps del: not_None_eq)
qed

lemma run_probes_no_second_start:
  assumes "slots h s c k \<noteq> None"
    and "\<forall>e \<in> set es. \<not> leader_exit k e" and "\<forall>e \<in> set es. length (ctx_comm (event_ctx e)) = 16"
  shows "\<exists>new. events_of h (run_probes h es s) = events_of h s @ new \<and>
    (\<forall>r \<in> set new. take 4 r \<noteq> put_word 4 k)"
  using assms
proof (induction es arbitrary: s)
  case Nil
  then show ?case by simp
next
  case (Cons e es)
  let ?k = "tgid_of (ctx_pid_tgid (event_ctx e))"
  from Cons.prems obtain new where new:
    "events_of h (snd (run_probe h e s)) = events_of h s @ new"
    "set new \<subseteq> {start_record (event_ctx e)}"
    "slots h s (ctx_cpu (event_ctx e)) ?k \<noteq> None \<longrightarrow> new = []"
    using run_probe_events [of e s] by auto
  have "slots h s (ctx_cpu (event_ctx e)) k \<noteq> None"
    using Cons.prems(1) percpu.present_on_all [of "STATS s" "ctx_cpu (event_ctx e)" k c]
    by (cases "percpu_lookup h (STATS s) (ctx_cpu (event_ctx e)) k") (auto simp: slots_def)
  with new(3) have "new \<noteq> [] \<longrightarrow> ?k \<noteq> k" by auto
  moreover have "take 4 (start_record (event_ctx e)) = put_word 4 k \<longleftrightarrow> ?k = k"
    by (auto simp: start_record_def c_ProcStartEvent_bytes_def put_word_eq_iff)
  ultimately have here: "\<forall>r \<in> set new. take 4 r \<noteq> put_word 4 k"
    using new(2) by (cases new) auto
  from Cons.prems have "slots h (snd (run_probe h e s)) c k \<noteq> None"
    by (intro run_probe_keeps_slots) auto
  with Cons obtain new' where
    "events_of h (run_probes h es (snd (run_probe h e s))) =
      events_of h (snd (run_probe h e s)) @ new'"
    "\<forall>r \<in> set new'. take 4 r \<noteq> put_word 4 k"
    by force
  with here new(1) show ?case by (intro exI [of _ "new @ new'"]) auto
qed

text \<open>A send that runs to completion on one thread is charged at the address seen on entry.\<close>

lemma tcp_send_pair:
  assumes "fst (lru_update h (TCP_SEND_ADDRS s) (ctx_pid_tgid ctx) (capture_addr h sk) BPF_ANY) = 0"
    and "ctx_pid_tgid ctx' = ctx_pid_tgid ctx" and "0 < sint ret"
    and "s' = snd (procnet_tcp_sendmsg_exit h ctx' ret (snd (procnet_tcp_sendmsg_entry h ctx sk s)))"
  shows "slots h s' = account_spec (percpu_full h (STATS s)) (ctx_cpu ctx')
      (tgid_of (ctx_pid_tgid ctx)) TCP (u64_of_int32 ret) 0 (capture_addr h sk) (slots h s)"
    and "lru_lookup h (TCP_SEND_ADDRS s') (ctx_pid_tgid ctx) = None"
proof -
  let ?l = "snd (lru_update h (TCP_SEND_ADDRS s) (ctx_pid_tgid ctx) (capture_addr h sk) BPF_ANY)"
  have "lru_lookup h ?l (ctx_pid_tgid ctx) = Some (capture_addr h sk)"
    using assms(1) by (intro lru.lru_update_same [of "TCP_SEND_ADDRS s"]) (simp add: prod_eq_iff)
  with assms(2-4) have s': "s' = snd (account_bytes h ctx' (capture_addr h sk) (u64_of_int32 ret) 0
      TCP (s\<lparr>TCP_SEND_ADDRS := snd (lru_delete h ?l (ctx_pid_tgid ctx))\<rparr>))"
    by (simp add: procnet_tcp_sendmsg_entry_def procnet_tcp_sendmsg_exit_def Let_def)
  show "slots h s' = account_spec (percpu_full h (STATS s)) (ctx_cpu ctx')
      (tgid_of (ctx_pid_tgid ctx)) TCP (u64_of_int32 ret) 0 (capture_addr h sk) (slots h s)"
    using assms(2) by (simp add: s' account_bytes_slots) (simp add: slots_def)
  show "lru_lookup h (TCP_SEND_ADDRS s') (ctx_pid_tgid ctx) = None"
    by (simp add: s' account_bytes_addrs lru.lru_lookup_delete)
qed

end

section \<open>Array lengths\<close>

text \<open>
  The lengths of the C arrays are kept by every program: whatever user space reads from the maps
  has the size of the C structure.
\<close>

definition addrs_wf :: "('m, 'l, 'r) bpf_helpers \<Rightarrow> 'l \<Rightarrow> bool" where
  "addrs_wf h l \<longleftrightarrow> (\<forall>k a. lru_lookup h l k = Some a \<longrightarrow> c_addr_wf a)"

definition maps_wf :: "('m, 'l, 'r) bpf_helpers \<Rightarrow> ('m, 'l, 'r) bpf_maps \<Rightarrow> bool" where
  "maps_wf h s \<longleftrightarrow>
     (\<forall>c k v. slots h s c k = Some v \<longrightarrow> c_stats_wf v)
     \<and> addrs_wf h (TCP_SEND_ADDRS s) \<and> addrs_wf h (UDP_SEND_ADDRS s)
     \<and> addrs_wf h (UDP_RECV_ADDRS s)"

fun event_wf :: "probe_event \<Rightarrow> bool" where
  "event_wf (TcpSendEntry _ sk) \<longleftrightarrow> length (skc_v6_daddr sk) = 16"
| "event_wf (TcpCleanupRbuf _ sk _) \<longleftrightarrow> length (skc_v6_daddr sk) = 16"
| "event_wf (UdpSendEntry _ sk) \<longleftrightarrow> length (skc_v6_daddr sk) = 16"
| "event_wf (UdpRecvEntry _ sk) \<longleftrightarrow> length (skc_v6_daddr sk) = 16"
| "event_wf _ \<longleftrightarrow> True"

lemma capture_addr_wf [simp]: "length (skc_v6_daddr sk) = 16 \<Longrightarrow> c_addr_wf (capture_addr h sk)"
  by (simp add: capture_addr_def empty_addr_def c_addr_wf_def Let_def)

lemma empty_stats_wf: "c_stats_wf create_empty_stats"
  by (simp add: create_empty_stats_def empty_proto_def empty_addr_def c_stats_wf_def c_addr_wf_def)

lemma update_stats_wf:
  assumes "update_stats v p sent recv a = Some w" and "\<forall>x. v = Some x \<longrightarrow> c_stats_wf x"
    and "c_addr_wf a"
  shows "c_stats_wf w"
  using assms by (cases v; cases p) (auto simp: c_stats_wf_def add_traffic_def)

lemma new_stat_wf: "c_addr_wf a \<Longrightarrow> c_stats_wf (new_stat p sent recv a)"
  using update_stats_wf [of "Some create_empty_stats" p sent recv a] empty_stats_wf
  by (cases p) (auto simp: new_stat_def)

lemma account_spec_wf:
  assumes "\<forall>c k x. v c k = Some x \<longrightarrow> c_stats_wf x" and "c_addr_wf a"
    and "account_spec full c k p sent recv a v c' k' = Some w"
  shows "c_stats_wf w"
  using assms update_stats_wf [of "v c k" p sent recv a w]
  by (auto simp: account_spec_def new_stat_wf empty_stats_wf split: if_splits)

context bpf_kernel
begin

lemma addrs_wf_update:
  assumes "addrs_wf h l" and "c_addr_wf v"
  shows "addrs_wf h (snd (lru_update h l key v BPF_ANY))"
  unfolding addrs_wf_def
proof (intro allI impI)
  fix k a
  obtain r l' where upd: "lru_update h l key v BPF_ANY = (r, l')" by fastforce
  assume "lru_lookup h (snd (lru_update h l key v BPF_ANY)) k = Some a"
  with upd assms show "c_addr_wf a"
    using lru.lru_update_same [of l key v l'] lru.lru_update_other [OF upd, of k]
    by (cases "r = 0 \<and> k = key") (auto simp: addrs_wf_def)
qed

lemma addrs_wf_delete: "addrs_wf h l \<Longrightarrow> addrs_wf h (snd (lru_delete h l key))"
  by (simp add: addrs_wf_def lru.lru_lookup_delete)

lemma traffic_wf:
  assumes "maps_wf h s" and "event_wf e" and "traffic h s e = Some (q, sent, recv, a)"
  shows "c_addr_wf a"
  using assms by (cases e) (auto simp: maps_wf_def addrs_wf_def split: if_splits)

lemma run_probe_addrs_wf:
  assumes "maps_wf h s" and "event_wf e"
  shows "addrs_wf h (TCP_SEND_ADDRS (snd (run_probe h e s)))"
    and "addrs_wf h (UDP_SEND_ADDRS (snd (run_probe h e s)))"
    and "addrs_wf h (UDP_RECV_ADDRS (snd (run_probe h e s)))"
  using assms
  by (cases e;
      auto simp: maps_wf_def procnet_tcp_sendmsg_entry_def procnet_tcp_sendmsg_exit_def
        procnet_tcp_cleanup_rbuf_def procnet_udp_sendmsg_entry_def procnet_udp_sendmsg_exit_def
        procnet_udp_recvmsg_entry_def procnet_udp_recvmsg_exit_def procnet_sched_process_exit_def
        Let_def account_bytes_addrs addrs_wf_update addrs_wf_delete split: option.split)+

lemma run_probe_wf:
  assumes "maps_wf h s" and "event_wf e"
  shows "maps_wf h (snd (run_probe h e s))"
proof -
  have "c_stats_wf v" if "slots h (snd (run_probe h e s)) c k = Some v" for c k v
  proof (cases "traffic h s e")
    case None
    with that assms(1) show ?thesis
      by (auto simp: run_probe_slots maps_wf_def split: if_splits)
  next
    case (Some x)
    then obtain q sent recv a where tr: "traffic h s e = Some (q, sent, recv, a)"
      by (cases x) auto
    from assms tr have "c_addr_wf a" by (rule traffic_wf)
    moreover from assms(1) have "\<forall>c k x. slots h s c k = Some x \<longrightarrow> c_stats_wf x"
      by (simp add: maps_wf_def)
    ultimately show ?thesis
      using that tr by (auto simp: run_probe_slots intro: account_spec_wf)
  qed
  with run_probe_addrs_wf [OF assms] show ?thesis by (simp add: maps_wf_def)
qed

lemma run_probes_wf:
  assumes "maps_wf h s" and "\<forall>e \<in> set es. event_wf e"
  shows "maps_wf h (run_probes h es s)"
  using assms by (induction es arbitrary: s) (auto intro: run_probe_wf)

end

section \<open>Properties\<close>

text \<open>A concrete invocation on the bounded maps: thread 7 of process 7, on CPU 0.\<close>

definition boot_maps :: "(stats_entries, addr_entries, ring) bpf_maps" where
  "boot_maps = \<lparr>STATS = [], EVENTS = \<lparr>ring_used = 0, ring_data = []\<rparr>, TCP_SEND_ADDRS = [],
     UDP_SEND_ADDRS = [], UDP_RECV_ADDRS = []\<rparr>"

definition ctx7 :: "cpu \<Rightarrow> bpf_ctx" where
  "ctx7 c = \<lparr>ctx_cpu = c, ctx_pid_tgid = 0x0000000700000007, ctx_comm = replicate 16 0\<rparr>"

definition sock4 :: c_sock where
  "sock4 = \<lparr>skc_family = 2, skc_num = 40000, skc_dport = 0xBB01, skc_daddr = 0x0A0200C0,
     skc_v6_daddr = replicate 16 0\<rparr>"

lemma ids7 [simp]:
  "tgid_of (0x0000000700000007) = 7" "pid_of (0x0000000700000007) = 7"
  by (simp_all add: tgid_of_def pid_of_def)

lemmas witness_defs =
  boot_maps_def ctx7_def bounded_helpers_def slots_def stats_lookup_def stats_update_def
  stats_store_def stats_full_def STATS_decl_def EVENTS_decl_def BPF_NOEXIST_def BPF_ANY_def

text \<open>
  C7. Accounting refines a ledger. The ledger holds, for each process and CPU, the bytes sent and
  received and the last endpoint of each protocol, as plain numbers. On any kernel whose maps obey
  the documented laws, \<open>account_bytes\<close> charges the ledger of the current CPU and process:
  both byte counts of the given protocol grow by the given amounts modulo \<open>2 ^ 64\<close>, its endpoint
  becomes the given one, and the other protocol, the other CPUs and the other processes keep their
  entries. A process without entries first gets blank ones on every CPU; when the map is full the
  traffic of such a process is dropped.
\<close>

theorem account_bytes_refines:
  assumes "bpf_kernel h"
  shows "ledger_of (slots h (snd (account_bytes h ctx addr sent recv p s))) =
    ledger_charge (percpu_full h (STATS s)) (ctx_cpu ctx) (tgid_of (ctx_pid_tgid ctx))
      p (unat sent) (unat recv) addr (ledger_of (slots h s))"
  using assms by (simp add: bpf_kernel.account_bytes_slots ledger_of_account_spec)

theorem account_bytes_refines_witness:
  "bpf_kernel bounded_helpers \<and>
   map_option (\<lambda>e. (le_sent (e UDP), le_recv (e UDP), le_sent (e TCP)))
     (ledger_of (slots bounded_helpers
       (snd (account_bytes bounded_helpers (ctx7 0) empty_addr 100 20 UDP boot_maps))) 0 7)
   = Some (100, 20, 0)"
proof -
  have "ledger_of (slots bounded_helpers boot_maps) 0 7 = None"
    by (simp add: ledger_of_def witness_defs)
  then show ?thesis
    using bounded.bpf_kernel_axioms
      account_bytes_refines [OF bounded.bpf_kernel_axioms, of "ctx7 0" empty_addr 100 20 UDP boot_maps]
    by (simp add: ledger_charge_def blank_entries_def add_entry_def witness_defs)
qed

text \<open>
  C6. Traffic is conserved. Along any sequence of probe invocations on \<open>n\<close> CPUs in which the
  process's leader does not exit and the map has room whenever the process needs a slot, the sum
  of the process's per-CPU counters grows by exactly the traffic charged to it, for each protocol
  and direction (modulo \<open>2 ^ 64\<close>).
\<close>

theorem traffic_conserved:
  assumes "bpf_kernel h"
    and "\<forall>e \<in> set es. ctx_cpu (event_ctx e) < n" and "\<forall>e \<in> set es. \<not> leader_exit k e"
    and "never_full h s es k"
  shows "cpu_total n (slots h (run_probes h es s)) k p d =
    cpu_total n (slots h s) k p d + total_charge h s es k p d"
  using assms by (rule bpf_kernel.run_probes_total)

definition demo_run :: "probe_event list" where
  "demo_run = [TcpCleanupRbuf (ctx7 0) sock4 300, TcpCleanupRbuf (ctx7 1) sock4 40]"

theorem traffic_conserved_witness:
  "list_all (\<lambda>e. ctx_cpu (event_ctx e) < 2) demo_run \<and>
   list_all (\<lambda>e. \<not> leader_exit 7 e) demo_run \<and> never_full bounded_helpers boot_maps demo_run 7 \<and>
   cpu_total 2 (slots bounded_helpers (run_probes bounded_helpers demo_run boot_maps)) 7 TCP Recv
   = 340"
proof -
  have 1: "\<forall>e \<in> set demo_run. ctx_cpu (event_ctx e) < 2" "\<forall>e \<in> set demo_run. \<not> leader_exit 7 e"
    by (simp_all add: demo_run_def ctx7_def)
  have 2: "never_full bounded_helpers boot_maps demo_run 7"
    by (simp add: demo_run_def witness_defs procnet_tcp_cleanup_rbuf_def account_bytes_def Let_def
        emit_start_event_def ring_reserve_def sizeof_ProcStartEvent_def)
  have 3: "total_charge bounded_helpers boot_maps demo_run 7 TCP Recv = 340"
    by (simp add: demo_run_def charge_def ctx7_def u64_of_int32_def)
  have 4: "cpu_total 2 (slots bounded_helpers boot_maps) 7 TCP Recv = 0"
    by (simp add: cpu_total_def witness_defs upt_rec)
  show ?thesis
    using 1 2 3 4
      traffic_conserved [OF bounded.bpf_kernel_axioms 1 2, of TCP Recv]
    by (simp add: list_all_iff)
qed

text \<open>
  A start event is published exactly when accounting creates the slots of a process and the
  ring buffer has room: one record, with the process id and its command name; otherwise the
  event stream is unchanged.
\<close>

lemma start_event_published:
  assumes "bpf_kernel h" and "length (ctx_comm ctx) = 16"
  shows "events_of h (snd (account_bytes h ctx addr sent recv p s)) = events_of h s @
    (if slots h s (ctx_cpu ctx) (tgid_of (ctx_pid_tgid ctx)) = None \<and> \<not> percpu_full h (STATS s)
        \<and> ringbuf_reserve h (EVENTS s) sizeof_ProcStartEvent \<noteq> None
     then [start_record ctx] else [])"
  using assms by (rule bpf_kernel.account_bytes_events)

text \<open>
  C27. A lost start event is never retried: once a process has its slots, no run of the probes up to
  its leader's exit publishes a record that names it, whether or not the first one was published.
\<close>

theorem start_event_not_retried:
  assumes "bpf_kernel h" and "slots h s c k \<noteq> None"
    and "\<forall>e \<in> set es. \<not> leader_exit k e" and "\<forall>e \<in> set es. length (ctx_comm (event_ctx e)) = 16"
  shows "\<exists>new. events_of h (run_probes h es s) = events_of h s @ new \<and>
    (\<forall>r \<in> set new. take 4 r \<noteq> put_word 4 k)"
  using assms by (rule bpf_kernel.run_probes_no_second_start)

text \<open>A state in which the ring buffer was full when process 7 first sent traffic.\<close>

definition unannounced_maps :: "(stats_entries, addr_entries, ring) bpf_maps" where
  "unannounced_maps = snd (account_bytes bounded_helpers (ctx7 0) empty_addr 100 0 TCP
     (boot_maps\<lparr>EVENTS := \<lparr>ring_used = 4096, ring_data = []\<rparr>\<rparr>))"

theorem start_event_not_retried_witness:
  "slots bounded_helpers unannounced_maps 0 7 \<noteq> None \<and>
   events_of bounded_helpers unannounced_maps = [] \<and>
   (\<exists>new. events_of bounded_helpers (run_probes bounded_helpers demo_run unannounced_maps) = new
      \<and> list_all (\<lambda>r. take 4 r \<noteq> put_word 4 (7 :: u32)) new)"
proof -
  have slot: "slots bounded_helpers unannounced_maps 0 7 \<noteq> None"
    and none: "events_of bounded_helpers unannounced_maps = []"
    by (simp_all add: unannounced_maps_def witness_defs account_bytes_def Let_def events_of_def
        emit_start_event_def ring_reserve_def sizeof_ProcStartEvent_def)
  have "\<forall>e \<in> set demo_run. \<not> leader_exit 7 e"
    "\<forall>e \<in> set demo_run. length (ctx_comm (event_ctx e)) = 16"
    by (simp_all add: demo_run_def ctx7_def)
  from start_event_not_retried [OF bounded.bpf_kernel_axioms slot this] slot none
  show ?thesis by (simp add: list_all_iff)
qed

text \<open>
  A send is charged where it was seen on entry: a \<open>tcp_sendmsg\<close> entry and exit of one thread,
  with a positive result, account the returned number of bytes to the process at the socket
  address captured on entry, and forget the saved address.
\<close>

lemma tcp_send_charged:
  assumes "bpf_kernel h"
    and "fst (lru_update h (TCP_SEND_ADDRS s) (ctx_pid_tgid ctx) (capture_addr h sk) BPF_ANY) = 0"
    and "ctx_pid_tgid ctx' = ctx_pid_tgid ctx" and "0 < sint ret"
    and "s' = snd (procnet_tcp_sendmsg_exit h ctx' ret (snd (procnet_tcp_sendmsg_entry h ctx sk s)))"
  shows "slots h s' = account_spec (percpu_full h (STATS s)) (ctx_cpu ctx')
      (tgid_of (ctx_pid_tgid ctx)) TCP (u64_of_int32 ret) 0 (capture_addr h sk) (slots h s)
    \<and> lru_lookup h (TCP_SEND_ADDRS s') (ctx_pid_tgid ctx) = None"
  using bpf_kernel.tcp_send_pair [OF assms] by blast

text \<open>
  The exit of a process's leader removes the slots of that process on every CPU and of no
  other; the exit of any other thread changes no slot.
\<close>

lemma process_exit_clears:
  assumes "bpf_kernel h"
  shows "slots h (snd (procnet_sched_process_exit h ctx s)) c k =
    (if tgid_of (ctx_pid_tgid ctx) = k \<and> pid_of (ctx_pid_tgid ctx) = k then None
     else slots h s c k)"
  using bpf_kernel.procnet_sched_process_exit_slots [OF assms, of ctx s c k] by simp

text \<open>
  Every probe keeps the fixed array lengths of the stored structures, so every value user
  space reads from the maps has the size the map declares.
\<close>

lemma maps_keep_layout:
  assumes "bpf_kernel h" and "maps_wf h s" and "\<forall>e \<in> set es. event_wf e"
    and "slots h (run_probes h es s) c k = Some v"
  shows "maps_wf h (run_probes h es s) \<and>
    length (c_ProcStats_bytes v) = decl_value_size STATS_decl"
  using bpf_kernel.run_probes_wf [OF assms(1-3)] assms(4) STATS_value_size
  by (auto simp: maps_wf_def)

end
