(* ===== verification/Bpf_Race.thy ===== *)
theory Bpf_Race
  imports Bpf_Probes
begin

text \<open>
  Accounting on several CPUs at once. Between the lookup that misses, the insertion with
  \<open>BPF_NOEXIST\<close> and the second lookup of \<open>account_bytes\<close>, other CPUs may account traffic of the
  same or of other processes, and \<open>sched_process_exit\<close> may remove entries. Here \<open>account_bytes\<close> is cut
  at those calls into atomic steps, and a schedule interleaves the steps of any number of running
  accountings with process exits, on a map that may be full or not. The theorems show what traffic is
  kept, how often a process is announced, and that every accounting ends.

  A lookup that hits and the update through its pointer are one step: the slot belongs to the CPU the
  program runs on, and programs on one CPU do not overlap.
\<close>

section \<open>Micro-steps of accounting\<close>

datatype acct_pc = AtLookup | AtInsert | AtEmit | AtRetry | AtDone

record acct_job =
  job_ctx :: bpf_ctx
  job_addr :: c_StatsAddr
  job_sent :: u64
  job_recv :: u64
  job_proto :: Protocol
  job_pc :: acct_pc

abbreviation job_tgid :: "acct_job \<Rightarrow> u32" where
  "job_tgid j \<equiv> tgid_of (ctx_pid_tgid (job_ctx j))"

abbreviation job_cpu :: "acct_job \<Rightarrow> cpu" where
  "job_cpu j \<equiv> ctx_cpu (job_ctx j)"

definition acct_step ::
    "('m, 'l, 'r) bpf_helpers \<Rightarrow> acct_job \<Rightarrow> ('m, 'l, 'r) bpf_maps
      \<Rightarrow> acct_job \<times> ('m, 'l, 'r) bpf_maps" where
  "acct_step h j s =
     (case job_pc j of
        AtLookup \<Rightarrow>
          (case percpu_lookup h (STATS s) (job_cpu j) (job_tgid j) of
             Some _ \<Rightarrow>
               (j\<lparr>job_pc := AtDone\<rparr>,
                s\<lparr>STATS := update_in_place h (STATS s) (job_cpu j) (job_tgid j) (job_proto j)
                    (job_sent j) (job_recv j) (job_addr j)\<rparr>)
           | None \<Rightarrow> (j\<lparr>job_pc := AtInsert\<rparr>, s))
      | AtInsert \<Rightarrow>
          (let (r, m) = percpu_update h (STATS s) (job_cpu j) (job_tgid j)
                 (new_stat (job_proto j) (job_sent j) (job_recv j) (job_addr j)) BPF_NOEXIST
           in (j\<lparr>job_pc := if r = 0 then AtEmit else AtRetry\<rparr>, s\<lparr>STATS := m\<rparr>))
      | AtEmit \<Rightarrow>
          (j\<lparr>job_pc := AtDone\<rparr>, snd (emit_start_event h (job_tgid j) (ctx_comm (job_ctx j)) s))
      | AtRetry \<Rightarrow>
          (j\<lparr>job_pc := AtDone\<rparr>,
           s\<lparr>STATS := update_in_place h (STATS s) (job_cpu j) (job_tgid j) (job_proto j)
               (job_sent j) (job_recv j) (job_addr j)\<rparr>)
      | AtDone \<Rightarrow> (j, s))"

fun acct_run ::
    "('m, 'l, 'r) bpf_helpers \<Rightarrow> nat \<Rightarrow> acct_job \<Rightarrow> ('m, 'l, 'r) bpf_maps
      \<Rightarrow> acct_job \<times> ('m, 'l, 'r) bpf_maps" where
  "acct_run h 0 j s = (j, s)"
| "acct_run h (Suc n) j s = (let (j', s') = acct_step h j s in acct_run h n j' s')"

text \<open>
  A schedule: at each point one of the running accountings takes its next step, or
  \<open>sched_process_exit\<close> runs for some thread. A number that names no accounting does nothing.
\<close>

datatype race_act = Job nat | Exit bpf_ctx

fun race_step ::
    "('m, 'l, 'r) bpf_helpers \<Rightarrow> race_act \<Rightarrow> acct_job list \<times> ('m, 'l, 'r) bpf_maps
      \<Rightarrow> acct_job list \<times> ('m, 'l, 'r) bpf_maps" where
  "race_step h (Job i) (jobs, s) =
     (if i < length jobs
      then let (j', s') = acct_step h (jobs ! i) s in (jobs[i := j'], s')
      else (jobs, s))"
| "race_step h (Exit ctx) (jobs, s) = (jobs, snd (procnet_sched_process_exit h ctx s))"

fun race_run ::
    "('m, 'l, 'r) bpf_helpers \<Rightarrow> race_act list \<Rightarrow> acct_job list \<times> ('m, 'l, 'r) bpf_maps
      \<Rightarrow> acct_job list \<times> ('m, 'l, 'r) bpf_maps" where
  "race_run h [] c = c"
| "race_run h (a # as) c = race_run h as (race_step h a c)"

fun ends_process :: "u32 \<Rightarrow> race_act \<Rightarrow> bool" where
  "ends_process k (Exit ctx) = leader_exit k (SchedProcessExit ctx)"
| "ends_process k (Job i) = False"

text \<open>
  Along the run, whenever an accounting of process \<open>k\<close> is about to insert its entry and there is
  none, the map has room for it.
\<close>

fun room_for ::
    "('m, 'l, 'r) bpf_helpers \<Rightarrow> u32 \<Rightarrow> race_act list \<Rightarrow> acct_job list \<times> ('m, 'l, 'r) bpf_maps
      \<Rightarrow> bool" where
  "room_for h k [] c = True"
| "room_for h k (a # as) (jobs, s) =
     ((case a of
         Job i \<Rightarrow> i < length jobs \<and> job_pc (jobs ! i) = AtInsert \<and> job_tgid (jobs ! i) = k
           \<and> slots h s (job_cpu (jobs ! i)) k = None \<longrightarrow> \<not> percpu_full h (STATS s)
       | Exit _ \<Rightarrow> True)
      \<and> room_for h k as (race_step h a (jobs, s)))"

section \<open>Invariants\<close>

definition job_charge :: "u32 \<Rightarrow> Protocol \<Rightarrow> direction \<Rightarrow> acct_job \<Rightarrow> u64" where
  "job_charge k p d j =
     (if job_tgid j = k \<and> job_proto j = p
      then (case d of Sent \<Rightarrow> job_sent j | Recv \<Rightarrow> job_recv j) else 0)"

definition pending :: "u32 \<Rightarrow> Protocol \<Rightarrow> direction \<Rightarrow> acct_job \<Rightarrow> u64" where
  "pending k p d j =
     (if job_pc j \<in> {AtLookup, AtInsert, AtRetry} then job_charge k p d j else 0)"

definition retry_has_slot ::
    "('m, 'l, 'r) bpf_helpers \<Rightarrow> u32 \<Rightarrow> acct_job list \<Rightarrow> ('m, 'l, 'r) bpf_maps \<Rightarrow> bool" where
  "retry_has_slot h k jobs s \<longleftrightarrow>
     (\<forall>j \<in> set jobs. job_pc j = AtRetry \<and> job_tgid j = k \<longrightarrow> slots h s (job_cpu j) k \<noteq> None)"

fun pc_rank :: "acct_pc \<Rightarrow> nat" where
  "pc_rank AtLookup = 3"
| "pc_rank AtInsert = 2"
| "pc_rank AtEmit = 1"
| "pc_rank AtRetry = 1"
| "pc_rank AtDone = 0"

lemma sum_list_update_ab:
  fixes f :: "'b \<Rightarrow> 'a::ab_group_add"
  assumes "i < length xs"
  shows "sum_list (map f (xs[i := x])) = sum_list (map f xs) - f (xs ! i) + f x"
  using assms
proof (induction xs arbitrary: i)
  case Nil
  then show ?case by simp
next
  case (Cons y ys)
  then show ?case by (cases i) (auto simp: algebra_simps)
qed

lemma acct_step_pcs:
  assumes "acct_step h j s = (j', s')"
  shows "(job_pc j, job_pc j') \<in>
    {(AtLookup, AtDone), (AtLookup, AtInsert), (AtInsert, AtEmit), (AtInsert, AtRetry),
     (AtEmit, AtDone), (AtRetry, AtDone), (AtDone, AtDone)}"
  using assms
  by (cases "job_pc j") (auto simp: acct_step_def split: option.splits prod.splits if_splits)

lemma acct_step_rank:
  assumes "acct_step h j s = (j', s')"
  shows "pc_rank (job_pc j') \<le> pc_rank (job_pc j) - 1"
  using assms acct_step_pcs [OF assms(1)] by auto

lemma acct_step_job:
  assumes "acct_step h j s = (j', s')"
  shows "\<exists>pc. j' = j\<lparr>job_pc := pc\<rparr>"
  using assms
  by (cases "job_pc j") (auto simp: acct_step_def split: option.splits prod.splits
      intro: exI [of _ AtDone])

text \<open>A step keeps the number of accountings, and changes of one at most its position.\<close>

lemma race_step_job:
  assumes "race_step h (Job i) (jobs, s) = (jobs', s')" and "i < length jobs"
  obtains pc where "acct_step h (jobs ! i) s = ((jobs ! i)\<lparr>job_pc := pc\<rparr>, s')"
    "jobs' = jobs[i := (jobs ! i)\<lparr>job_pc := pc\<rparr>]"
proof -
  obtain j' s'' where st: "acct_step h (jobs ! i) s = (j', s'')" by fastforce
  moreover from acct_step_job [OF st] obtain pc where "j' = (jobs ! i)\<lparr>job_pc := pc\<rparr>" by blast
  ultimately show thesis using assms that [of pc] by simp
qed

lemma race_step_length [simp]: "length (fst (race_step h a (jobs, s))) = length jobs"
  by (cases a) (auto split: prod.split)

lemma race_step_rank:
  assumes "i < length jobs"
  shows "pc_rank (job_pc (fst (race_step h a (jobs, s)) ! i)) \<le>
    pc_rank (job_pc (jobs ! i)) - (if a = Job i then 1 else 0)"
proof (cases a)
  case (Job k)
  then show ?thesis
    using assms acct_step_rank [of h "jobs ! k" s] by (auto split: prod.split simp: nth_list_update)
qed auto

lemma race_run_rank:
  assumes "i < length (fst c)"
  shows "pc_rank (job_pc (fst (race_run h acts c) ! i)) \<le>
    pc_rank (job_pc (fst c ! i)) - count_list acts (Job i)"
  using assms
proof (induction acts arbitrary: c)
  case Nil
  then show ?case by simp
next
  case (Cons a acts)
  obtain jobs s where c: "c = (jobs, s)" by fastforce
  from Cons.prems c have "i < length (fst (race_step h a c))" by simp
  note Cons.IH [OF this]
  moreover have "pc_rank (job_pc (fst (race_step h a c) ! i)) \<le>
      pc_rank (job_pc (jobs ! i)) - (if a = Job i then 1 else 0)"
    using Cons.prems unfolding c by (intro race_step_rank) simp
  ultimately show ?case using c by auto
qed

lemma pc_rank_bounds: "pc_rank pc \<le> 3" "pc_rank pc = 0 \<longleftrightarrow> pc = AtDone"
  by (cases pc; simp)+

lemma length_race_run [simp]: "length (fst (race_run h acts c)) = length (fst c)"
proof (induction acts arbitrary: c)
  case (Cons a acts)
  then show ?case by (cases c) simp
qed simp

text \<open>Whatever holds of the unchanging part of every accounting is kept.\<close>

lemma race_step_jobs:
  assumes "race_step h a (jobs, s) = (jobs', s')" and "\<forall>j \<in> set jobs. P j"
    and "\<And>j pc. P j \<Longrightarrow> P (j\<lparr>job_pc := pc\<rparr>)"
  shows "\<forall>j \<in> set jobs'. P j"
proof (cases "\<exists>i < length jobs. a = Job i")
  case True
  then obtain i where i: "i < length jobs" "a = Job i" by blast
  with assms(1) have "race_step h (Job i) (jobs, s) = (jobs', s')" by simp
  from this i(1) show ?thesis
    by (rule race_step_job) (use assms(2,3) i in \<open>auto dest!: set_update_subset_insert [THEN subsetD]\<close>)
next
  case False
  with assms(1,2) show ?thesis by (cases a) auto
qed

lemma acct_run_account_bytes:
  assumes "job_pc j = AtLookup"
  shows "acct_run h 3 j s =
    (j\<lparr>job_pc := AtDone\<rparr>, snd (account_bytes h (job_ctx j) (job_addr j) (job_sent j) (job_recv j)
       (job_proto j) s))"
  using assms
  by (auto simp: numeral_3_eq_3 acct_step_def account_bytes_def Let_def
      split: option.split prod.split)

text \<open>How many records name process \<open>k\<close>, and how many jobs are about to publish one.\<close>

definition starts_published :: "('m, 'l, 'r) bpf_helpers \<Rightarrow> ('m, 'l, 'r) bpf_maps \<Rightarrow> u32 \<Rightarrow> nat" where
  "starts_published h s k = length (filter (\<lambda>r. take 4 r = put_word 4 k) (events_of h s))"

definition starts_due :: "acct_job list \<Rightarrow> u32 \<Rightarrow> nat" where
  "starts_due jobs k = length (filter (\<lambda>j. job_pc j = AtEmit \<and> job_tgid j = k) jobs)"

lemma length_filter_update:
  assumes "i < length xs"
  shows "length (filter P (xs[i := x])) + (if P (xs ! i) then 1 else 0) =
    length (filter P xs) + (if P x then 1 else 0)"
  using assms
proof (induction xs arbitrary: i)
  case Nil
  then show ?case by simp
next
  case (Cons y ys)
  show ?case
  proof (cases i)
    case 0
    then show ?thesis by simp
  next
    case (Suc n)
    with Cons.IH [of n] Cons.prems show ?thesis by simp
  qed
qed

lemmas starts_due_update =
  length_filter_update [of _ _ "\<lambda>j. job_pc j = AtEmit \<and> job_tgid j = k" for k,
    folded starts_due_def]

context bpf_kernel
begin

lemma acct_insert:
  assumes "acct_step h j s = (j', s')" and "job_pc j = AtInsert"
  obtains (first) "job_pc j' = AtEmit" "\<And>c. slots h s c (job_tgid j) = None"
      "slots h s' = account_spec False (job_cpu j) (job_tgid j) (job_proto j) (job_sent j) (job_recv j)
        (job_addr j) (slots h s)"
  | (late) "job_pc j' = AtRetry" "slots h s' = slots h s"
      "slots h s (job_cpu j) (job_tgid j) \<noteq> None \<or> percpu_full h (STATS s)"
proof -
  let ?c = "job_cpu j" and ?k = "job_tgid j"
  let ?new = "new_stat (job_proto j) (job_sent j) (job_recv j) (job_addr j)"
  obtain r m where upd: "percpu_update h (STATS s) ?c ?k ?new BPF_NOEXIST = (r, m)"
    by fastforce
  with assms have j': "job_pc j' = (if r = 0 then AtEmit else AtRetry)"
    and s': "slots h s' = percpu_lookup h m"
    by (auto simp: acct_step_def slots_def)
  show thesis
  proof (cases "r = 0")
    case True
    with upd have absent: "percpu_lookup h (STATS s) ?c ?k = None"
      by (auto dest: percpu.insert_absent)
    from percpu.present_on_all [OF this] have "\<And>c. slots h s c ?k = None" by (simp add: slots_def)
    moreover from True upd absent s' have "slots h s' =
        account_spec False ?c ?k (job_proto j) (job_sent j) (job_recv j) (job_addr j) (slots h s)"
      by (auto simp: account_spec_def slots_def percpu.insert_lookup fun_eq_iff)
    ultimately show thesis using first True j' by simp
  next
    case False
    with upd percpu.insert_succeeds_iff [of "STATS s" ?c ?k ?new]
    have "percpu_lookup h (STATS s) ?c ?k \<noteq> None \<or> percpu_full h (STATS s)" by auto
    with False percpu.insert_failed [OF upd False] j' s' show thesis
      by (intro late) (auto simp: slots_def fun_eq_iff)
  qed
qed

text \<open>
  A step of an accounting either performs it (on an existing entry, or by creating the entries), or
  leaves every entry as it is; a retry that finds no entry drops the traffic.
\<close>

lemma acct_step_slots:
  assumes "acct_step h j s = (j', s')"
  shows "slots h s' =
    (if job_pc j \<in> {AtLookup, AtInsert, AtRetry} \<and> job_pc j' \<in> {AtDone, AtEmit}
        \<and> (job_pc j = AtRetry \<longrightarrow> slots h s (job_cpu j) (job_tgid j) \<noteq> None)
     then account_spec False (job_cpu j) (job_tgid j) (job_proto j) (job_sent j) (job_recv j)
       (job_addr j) (slots h s)
     else slots h s)"
proof (cases "job_pc j")
  case AtLookup
  with assms show ?thesis
    by (auto simp: acct_step_def slots_def account_spec_def lookup_update_in_place fun_eq_iff
        split: option.splits)
next
  case AtInsert
  from assms AtInsert show ?thesis by (rule acct_insert) (use AtInsert in auto)
next
  case AtEmit
  with assms show ?thesis by (auto simp: acct_step_def slots_def emit_start_event_frame)
next
  case AtRetry
  with assms show ?thesis
    by (auto simp: acct_step_def slots_def account_spec_def lookup_update_in_place fun_eq_iff)
next
  case AtDone
  with assms show ?thesis by (auto simp: acct_step_def)
qed

lemma acct_step_keeps_slots:
  assumes "acct_step h j s = (j', s')" and "slots h s c k \<noteq> None"
  shows "slots h s' c k \<noteq> None"
  using acct_step_slots [OF assms(1)] assms(2) by (simp add: account_spec_keeps del: not_None_eq)

lemma acct_step_other:
  assumes "acct_step h j s = (j', s')" and "job_tgid j \<noteq> k"
  shows "slots h s' c k = slots h s c k"
  using acct_step_slots [OF assms(1)] assms(2) by (simp add: account_spec_def)

text \<open>With room for its insertion, an accounting comes to its retry only where there is an entry.\<close>

lemma acct_step_retry:
  assumes "acct_step h j s = (j', s')" and "job_pc j' = AtRetry"
    and "job_pc j = AtInsert \<and> slots h s (job_cpu j) (job_tgid j) = None \<longrightarrow> \<not> percpu_full h (STATS s)"
  shows "slots h s' (job_cpu j) (job_tgid j) \<noteq> None"
proof -
  from acct_step_pcs [OF assms(1)] assms(2) have "job_pc j = AtInsert" by auto
  from assms(1) this show ?thesis by (rule acct_insert) (use assms(2,3) \<open>job_pc j = AtInsert\<close> in auto)
qed

lemma acct_step_pending:
  assumes "acct_step h j s = (j', s')"
    and "job_pc j = AtRetry \<and> job_tgid j = k \<longrightarrow> slots h s (job_cpu j) (job_tgid j) \<noteq> None"
    and "job_cpu j < n"
  shows "cpu_total n (slots h s') k p d + pending k p d j' =
    cpu_total n (slots h s) k p d + pending k p d j"
proof (cases "job_tgid j = k")
  case False
  obtain pc where "j' = j\<lparr>job_pc := pc\<rparr>" using acct_step_job [OF assms(1)] by blast
  with False show ?thesis
    using acct_step_other [OF assms(1) False] by (simp add: cpu_total_def pending_def job_charge_def)
next
  case True
  have present: "slots h s c k' = None \<Longrightarrow> slots h s c' k' = None" for c c' k'
    using percpu.present_on_all [of "STATS s" c k' c'] by (simp add: slots_def)
  obtain pc where j': "j' = j\<lparr>job_pc := pc\<rparr>" using acct_step_job [OF assms(1)] by blast
  show ?thesis
  proof (cases "job_pc j \<in> {AtLookup, AtInsert, AtRetry} \<and> job_pc j' \<in> {AtDone, AtEmit}")
    case performed: True
    with True assms(2) have "slots h s' = account_spec False (job_cpu j) (job_tgid j) (job_proto j)
        (job_sent j) (job_recv j) (job_addr j) (slots h s)"
      unfolding acct_step_slots [OF assms(1)] by (intro if_P) blast
    with performed show ?thesis
      by (auto simp: cpu_total_account_spec [OF assms(3) present] pending_def job_charge_def)
  next
    case not_yet: False
    have "job_charge k p d j' = job_charge k p d j"
      using j' by (cases d) (simp_all add: job_charge_def)
    then have "pending k p d j' = pending k p d j"
      using not_yet acct_step_pcs [OF assms(1)] by (auto simp: pending_def)
    moreover from not_yet have "slots h s' = slots h s"
      unfolding acct_step_slots [OF assms(1)] by (auto simp only: simp_thms if_False split: if_split)
    ultimately show ?thesis by simp
  qed
qed

lemma race_step_retry:
  assumes "race_step h a (jobs, s) = (jobs', s')" and "retry_has_slot h k jobs s"
    and "\<not> ends_process k a" and "room_for h k [a] (jobs, s)"
  shows "retry_has_slot h k jobs' s'"
proof (cases "\<exists>i < length jobs. a = Job i")
  case False
  with assms show ?thesis
    by (cases a) (auto simp: retry_has_slot_def procnet_sched_process_exit_slots)
next
  case True
  then obtain i where i: "i < length jobs" "a = Job i" by blast
  with assms(1) have "race_step h (Job i) (jobs, s) = (jobs', s')" by simp
  from this i(1) obtain pc where
    st: "acct_step h (jobs ! i) s = ((jobs ! i)\<lparr>job_pc := pc\<rparr>, s')"
    and jobs': "jobs' = jobs[i := (jobs ! i)\<lparr>job_pc := pc\<rparr>]"
    by (rule race_step_job)
  have new: "slots h s' (job_cpu (jobs ! i)) k \<noteq> None"
    if "pc = AtRetry" "job_tgid (jobs ! i) = k"
    using acct_step_retry [OF st] that assms(4) i by simp
  have "slots h s' (job_cpu j) k \<noteq> None"
    if "j \<in> set jobs" "job_pc j = AtRetry" "job_tgid j = k" for j
    using that assms(2) acct_step_keeps_slots [OF st] by (auto simp: retry_has_slot_def)
  with new jobs' set_update_subset_insert [of jobs i "(jobs ! i)\<lparr>job_pc := pc\<rparr>"] show ?thesis
    by (auto simp: retry_has_slot_def)
qed

lemma race_step_total:
  assumes "race_step h a (jobs, s) = (jobs', s')" and "retry_has_slot h k jobs s"
    and "\<not> ends_process k a" and "\<forall>j \<in> set jobs. job_cpu j < n"
  shows "cpu_total n (slots h s') k p d + sum_list (map (pending k p d) jobs') =
    cpu_total n (slots h s) k p d + sum_list (map (pending k p d) jobs)"
proof (cases "\<exists>i < length jobs. a = Job i")
  case False
  with assms show ?thesis
    by (cases a) (auto simp: cpu_total_def procnet_sched_process_exit_slots)
next
  case True
  then obtain i where i: "i < length jobs" "a = Job i" by blast
  with assms(1) have "race_step h (Job i) (jobs, s) = (jobs', s')" by simp
  from this i(1) obtain pc where
    st: "acct_step h (jobs ! i) s = ((jobs ! i)\<lparr>job_pc := pc\<rparr>, s')"
    and jobs': "jobs' = jobs[i := (jobs ! i)\<lparr>job_pc := pc\<rparr>]"
    by (rule race_step_job)
  from i(1) assms(2,4) have "job_pc (jobs ! i) = AtRetry \<and> job_tgid (jobs ! i) = k \<longrightarrow>
      slots h s (job_cpu (jobs ! i)) (job_tgid (jobs ! i)) \<noteq> None" "job_cpu (jobs ! i) < n"
    by (auto simp: retry_has_slot_def)
  from acct_step_pending [OF st this, of p d] show ?thesis
    using jobs' i(1) by (simp add: sum_list_update_ab algebra_simps)
qed

lemma race_total:
  assumes "race_run h acts (jobs, s) = (jobs', s')" and "retry_has_slot h k jobs s"
    and "\<forall>a \<in> set acts. \<not> ends_process k a" and "room_for h k acts (jobs, s)"
    and "\<forall>j \<in> set jobs. job_cpu j < n"
  shows "cpu_total n (slots h s') k p d + sum_list (map (pending k p d) jobs') =
    cpu_total n (slots h s) k p d + sum_list (map (pending k p d) jobs)"
  using assms
proof (induction acts arbitrary: jobs s)
  case Nil
  then show ?case by simp
next
  case (Cons a acts)
  obtain jobs1 s1 where st: "race_step h a (jobs, s) = (jobs1, s1)" by fastforce
  from Cons.prems have here: "\<not> ends_process k a" "room_for h k [a] (jobs, s)" by simp_all
  have "retry_has_slot h k jobs1 s1"
    using st Cons.prems(2) here by (rule race_step_retry)
  moreover have "\<forall>j \<in> set jobs1. job_cpu j < n"
    using st Cons.prems(5) by (rule race_step_jobs) simp
  ultimately have "cpu_total n (slots h s') k p d + sum_list (map (pending k p d) jobs') =
      cpu_total n (slots h s1) k p d + sum_list (map (pending k p d) jobs1)"
    using Cons.prems st by (intro Cons.IH) auto
  also have "\<dots> = cpu_total n (slots h s) k p d + sum_list (map (pending k p d) jobs)"
    using st Cons.prems(2) here(1) Cons.prems(5) by (rule race_step_total)
  finally show ?case .
qed

text \<open>
  Insertion is the only step that makes a start record due, and it needs the process to have no slot.
\<close>

lemma emit_starts:
  assumes "length comm = 16"
  shows "starts_published h (snd (emit_start_event h tgid comm s)) k
    \<le> starts_published h s k + (if tgid = k then 1 else 0)"
  unfolding starts_published_def emit_start_event_records [OF assms]
  by (simp add: c_ProcStartEvent_bytes_def put_word_eq_iff)

lemma acct_insert_starts:
  assumes "acct_step h j s = (j', s')" and "job_pc j = AtInsert"
    and keeps: "slots h s' 0 k = None \<longrightarrow> slots h s 0 k = None"
  shows "starts_published h s' k + (if job_pc j' = AtEmit \<and> job_tgid j = k then 1 else 0)
      + (if slots h s' 0 k = None then 1 else 0)
    \<le> starts_published h s k + (if slots h s 0 k = None then 1 else 0)"
proof -
  have ev: "starts_published h s' k = starts_published h s k"
    using assms(1,2) by (auto simp: acct_step_def starts_published_def events_of_def split: prod.splits)
  from assms(1,2) show ?thesis
  proof (rule acct_insert)
    assume first: "job_pc j' = AtEmit" "\<And>c. slots h s c (job_tgid j) = None"
      "slots h s' = account_spec False (job_cpu j) (job_tgid j) (job_proto j) (job_sent j)
        (job_recv j) (job_addr j) (slots h s)"
    have "slots h s' 0 (job_tgid j) \<noteq> None" by (simp add: first(2,3) account_spec_def)
    with first(1,2) ev keeps show ?thesis by auto
  qed (use ev in simp)
qed

lemma acct_step_starts:
  assumes "acct_step h j s = (j', s')" and "length (ctx_comm (job_ctx j)) = 16"
  shows "starts_published h s' k + (if job_pc j' = AtEmit \<and> job_tgid j = k then 1 else 0)
      + (if slots h s' 0 k = None then 1 else 0)
    \<le> starts_published h s k + (if job_pc j = AtEmit \<and> job_tgid j = k then 1 else 0)
      + (if slots h s 0 k = None then 1 else 0)"
proof -
  have keeps: "slots h s' 0 k = None \<longrightarrow> slots h s 0 k = None"
    using acct_step_keeps_slots [OF assms(1), of 0 k] by blast
  show ?thesis
  proof (cases "job_pc j")
    case AtEmit
    then have s': "s' = snd (emit_start_event h (job_tgid j) (ctx_comm (job_ctx j)) s)"
      and j': "job_pc j' = AtDone"
      using assms(1) by (auto simp: acct_step_def)
    have "starts_published h s' k \<le> starts_published h s k + (if job_tgid j = k then 1 else 0)"
      unfolding s' using assms(2) by (rule emit_starts)
    moreover have "slots h s' = slots h s" by (simp add: s' slots_def emit_start_event_frame)
    ultimately show ?thesis using AtEmit j' by simp
  next
    case AtInsert
    with acct_insert_starts [OF assms(1) _ keeps] show ?thesis by simp
  next
    case AtLookup
    then have "starts_published h s' k = starts_published h s k" "job_pc j' \<noteq> AtEmit"
      using assms(1) by (auto simp: acct_step_def starts_published_def events_of_def
          split: option.splits)
    with AtLookup keeps show ?thesis by simp
  next
    case AtRetry
    then have "starts_published h s' k = starts_published h s k" "job_pc j' \<noteq> AtEmit"
      using assms(1) by (auto simp: acct_step_def starts_published_def events_of_def)
    with AtRetry keeps show ?thesis by simp
  next
    case AtDone
    with assms(1) show ?thesis by (auto simp: acct_step_def)
  qed
qed

lemma exit_starts:
  "starts_published h (snd (procnet_sched_process_exit h ctx s)) k = starts_published h s k"
  by (simp add: procnet_sched_process_exit_def starts_published_def events_of_def Let_def)

lemma race_step_starts:
  assumes "race_step h a (jobs, s) = (jobs', s')"
    and "\<forall>j \<in> set jobs. length (ctx_comm (job_ctx j)) = 16"
  shows "starts_published h s' k + starts_due jobs' k + (if slots h s' 0 k = None then 1 else 0)
    \<le> starts_published h s k + starts_due jobs k + (if slots h s 0 k = None then 1 else 0)
      + (if ends_process k a then 1 else 0)"
proof (cases "\<exists>i < length jobs. a = Job i")
  case False
  with assms show ?thesis
    by (cases a) (auto simp: exit_starts procnet_sched_process_exit_slots)
next
  case True
  then obtain i where i: "i < length jobs" "a = Job i" by blast
  with assms(1) have "race_step h (Job i) (jobs, s) = (jobs', s')" by simp
  from this i(1) obtain pc where
    st: "acct_step h (jobs ! i) s = ((jobs ! i)\<lparr>job_pc := pc\<rparr>, s')"
    and jobs': "jobs' = jobs[i := (jobs ! i)\<lparr>job_pc := pc\<rparr>]"
    by (rule race_step_job)
  from i(1) assms(2) have "length (ctx_comm (job_ctx (jobs ! i))) = 16" by simp
  from acct_step_starts [OF st this, of k]
    starts_due_update [OF i(1), of "(jobs ! i)\<lparr>job_pc := pc\<rparr>" k] jobs' show ?thesis
    using i by simp
qed

lemma race_starts:
  assumes "race_run h acts (jobs, s) = (jobs', s')"
    and "\<forall>j \<in> set jobs. length (ctx_comm (job_ctx j)) = 16"
  shows "starts_published h s' k + starts_due jobs' k + (if slots h s' 0 k = None then 1 else 0)
    \<le> starts_published h s k + starts_due jobs k + (if slots h s 0 k = None then 1 else 0)
      + length (filter (ends_process k) acts)"
  using assms
proof (induction acts arbitrary: jobs s)
  case Nil
  then show ?case by simp
next
  case (Cons a acts)
  obtain jobs1 s1 where st: "race_step h a (jobs, s) = (jobs1, s1)" by fastforce
  have "\<forall>j \<in> set jobs1. length (ctx_comm (job_ctx j)) = 16"
    using st Cons.prems(2) by (rule race_step_jobs) simp
  with Cons.prems(1) st Cons.IH [of jobs1 s1]
  have "starts_published h s' k + starts_due jobs' k + (if slots h s' 0 k = None then 1 else 0)
    \<le> starts_published h s1 k + starts_due jobs1 k + (if slots h s1 0 k = None then 1 else 0)
      + length (filter (ends_process k) acts)"
    by simp
  with race_step_starts [OF st Cons.prems(2), of k] show ?case
    by (auto split: if_splits)
qed

end

section \<open>Properties\<close>

definition job_of :: "bpf_ctx \<Rightarrow> u64 \<Rightarrow> acct_job" where
  "job_of ctx n = \<lparr>job_ctx = ctx, job_addr = empty_addr, job_sent = n, job_recv = 0,
     job_proto = TCP, job_pc = AtLookup\<rparr>"

text \<open>
  Two CPUs account traffic of process 7 for the first time: both lookups miss, CPU 0 inserts, a
  thread of the process that is not its leader exits, CPU 1's insertion fails, CPU 1 retries, CPU 0
  publishes the start event.
\<close>

definition demo_jobs :: "acct_job list" where
  "demo_jobs = [job_of (ctx7 0) 100, job_of (ctx7 1) 23]"

definition demo_sched :: "race_act list" where
  "demo_sched = [Job 0, Job 1, Job 0, Exit ((ctx7 0)\<lparr>ctx_pid_tgid := 0x0000000700000008\<rparr>),
     Job 1, Job 1, Job 0]"

abbreviation demo_end :: "acct_job list \<times> (stats_entries, addr_entries, ring) bpf_maps" where
  "demo_end \<equiv> race_run bounded_helpers demo_sched (demo_jobs, boot_maps)"

lemma ids8 [simp]: "tgid_of (0x0000000700000008) = 7" "pid_of (0x0000000700000008) = 8"
  by (simp_all add: tgid_of_def pid_of_def)

lemmas race_eval =
  demo_sched_def demo_jobs_def job_of_def witness_defs acct_step_def emit_start_event_def
  ring_reserve_def ring_submit_def sizeof_ProcStartEvent_def update_in_place_def Let_def
  procnet_sched_process_exit_def

lemma demo_room: "room_for bounded_helpers 7 demo_sched (demo_jobs, boot_maps)"
  by (simp add: race_eval)

lemma demo_done: "list_all (\<lambda>j. job_pc j = AtDone) (fst demo_end)"
  by (simp add: race_eval)

lemma demo_jobs_ready:
  "\<forall>j \<in> set demo_jobs. job_pc j = AtLookup \<and> job_cpu j < 2"
  "\<forall>j \<in> set demo_jobs. job_pc j = AtLookup \<and> length (ctx_comm (job_ctx j)) = 16"
  by (simp_all add: demo_jobs_def job_of_def ctx7_def)

lemma no_pending: "(\<And>j. j \<in> set js \<Longrightarrow> job_pc j = AtDone) \<Longrightarrow> sum_list (map (pending k p d) js) = 0"
  by (induction js) (auto simp: pending_def)

lemma all_pending:
  "(\<And>j. j \<in> set js \<Longrightarrow> job_pc j = AtLookup) \<Longrightarrow>
   sum_list (map (pending k p d) js) = sum_list (map (job_charge k p d) js)"
  by (induction js) (auto simp: pending_def)

text \<open>
  C12. No traffic is lost to a race. Take any number of accountings, of one or several processes,
  interleaved in any order at the calls into the kernel, with \<open>sched_process_exit\<close> in between. If all
  have run to their end, the leader of process \<open>k\<close> did not exit meanwhile, and whenever one of them was
  about to insert an entry for \<open>k\<close> and there was none the map had room, then the total of \<open>k\<close> over
  the CPUs has grown by the sum of the traffic of all accountings of \<open>k\<close> (modulo \<open>2 ^ 64\<close>). The map
  may be full before and after, and other processes may come, be refused and go.
\<close>

theorem race_conserves_traffic:
  assumes "bpf_kernel h" and "race_run h acts (jobs, s) = (jobs', s')"
    and "\<forall>j \<in> set jobs. job_pc j = AtLookup \<and> job_cpu j < n" and "\<forall>j \<in> set jobs'. job_pc j = AtDone"
    and "\<forall>a \<in> set acts. \<not> ends_process k a" and "room_for h k acts (jobs, s)"
  shows "cpu_total n (slots h s') k p d =
    cpu_total n (slots h s) k p d + sum_list (map (job_charge k p d) jobs)"
proof -
  have "retry_has_slot h k jobs s" "\<forall>j \<in> set jobs. job_cpu j < n"
    using assms(3) by (auto simp: retry_has_slot_def)
  from bpf_kernel.race_total [OF assms(1,2) this(1) assms(5,6) this(2), of p d] show ?thesis
    using assms(3,4) by (simp add: no_pending all_pending)
qed

theorem race_conserves_traffic_witness:
  "room_for bounded_helpers 7 demo_sched (demo_jobs, boot_maps) \<and>
   cpu_total 2 (slots bounded_helpers (snd demo_end)) 7 TCP Sent = 123"
proof -
  have "\<forall>j \<in> set (fst demo_end). job_pc j = AtDone"
    using demo_done by (simp only: list_all_iff)
  moreover have "\<forall>a \<in> set demo_sched. \<not> ends_process 7 a"
    by (simp add: demo_sched_def)
  ultimately have "cpu_total 2 (slots bounded_helpers (snd demo_end)) 7 TCP Sent =
      cpu_total 2 (slots bounded_helpers boot_maps) 7 TCP Sent
      + sum_list (map (job_charge 7 TCP Sent) demo_jobs)"
    by (intro race_conserves_traffic [OF bounded.bpf_kernel_axioms _ demo_jobs_ready(1) _ _ demo_room])
      simp_all
  also have "\<dots> = 123"
    by (simp add: cpu_total_def witness_defs upt_rec demo_jobs_def job_of_def job_charge_def)
  finally show ?thesis using demo_room by simp
qed

text \<open>
  C19. A process is announced at most once per life. However accountings and process exits
  interleave, on a map with or without room, the number of start records that name process \<open>k\<close>
  grows by at most one for each exit of its leader, and by one more only if it had no entry at the
  start.
\<close>

theorem race_announces_once:
  assumes "bpf_kernel h" and "race_run h acts (jobs, s) = (jobs', s')"
    and "\<forall>j \<in> set jobs. job_pc j = AtLookup \<and> length (ctx_comm (job_ctx j)) = 16"
  shows "starts_published h s' k \<le> starts_published h s k
    + (if slots h s 0 k = None then 1 else 0) + length (filter (ends_process k) acts)"
proof -
  have "starts_due jobs k = 0" "\<forall>j \<in> set jobs. length (ctx_comm (job_ctx j)) = 16"
    using assms(3) by (auto simp: starts_due_def filter_empty_conv)
  with bpf_kernel.race_starts [OF assms(1,2) this(2), of k] show ?thesis by simp
qed

theorem race_announces_once_witness:
  "starts_published bounded_helpers (snd demo_end) 7 \<le> 1"
  using race_announces_once [OF bounded.bpf_kernel_axioms _ demo_jobs_ready(2),
      of demo_sched boot_maps "fst demo_end" "snd demo_end" 7]
  by (simp add: starts_published_def events_of_def)
    (simp add: demo_sched_def witness_defs)

text \<open>
  The micro-steps are the function: run alone, an accounting takes at most three steps and
  ends in the state \<open>account_bytes\<close> computes.
\<close>

lemma account_bytes_micro_steps:
  "acct_run h 3 \<lparr>job_ctx = ctx, job_addr = addr, job_sent = sent, job_recv = recv, job_proto = p,
      job_pc = AtLookup\<rparr> s =
    (\<lparr>job_ctx = ctx, job_addr = addr, job_sent = sent, job_recv = recv, job_proto = p,
      job_pc = AtDone\<rparr>, snd (account_bytes h ctx addr sent recv p s))"
  by (simp add: acct_run_account_bytes)

text \<open>
  Every accounting ends: after any schedule that gives each of them three steps, whatever else
  runs in between and whether or not the map is full, all are done.
\<close>

lemma race_ends:
  assumes "\<forall>i < length jobs. 3 \<le> count_list acts (Job i)"
  shows "\<forall>j \<in> set (fst (race_run h acts (jobs, s))). job_pc j = AtDone"
proof (intro ballI)
  fix j assume "j \<in> set (fst (race_run h acts (jobs, s)))"
  then obtain i where i: "i < length jobs" and j: "j = fst (race_run h acts (jobs, s)) ! i"
    by (auto simp: in_set_conv_nth)
  have "pc_rank (job_pc j) \<le> pc_rank (job_pc (jobs ! i)) - count_list acts (Job i)"
    using race_run_rank [of i "(jobs, s)" h acts] i by (simp add: j)
  moreover have "pc_rank (job_pc (jobs ! i)) \<le> 3" by (rule pc_rank_bounds)
  ultimately have "pc_rank (job_pc j) = 0" using assms i by fastforce
  then show "job_pc j = AtDone" by (simp add: pc_rank_bounds(2))
qed

end
