(* ===== verification/C_Layout.thy ===== *)
theory C_Layout
  imports Prelude
begin

text \<open>
  Layout of C types as the headers \<open>vmlinux_x86_64.h\<close> and \<open>vmlinux_arm64.h\<close> declare them:
  integers, enumerations, pointers, arrays, structures and unions with anonymous members, named and
  unnamed bit-fields and the \<open>packed\<close> attribute. Sizes and alignments follow the ABI of the BPF
  target: an integer is aligned to its size, pointers are 8 bytes, a bit-field does not cross a unit
  of its declared type, and an unnamed bit-field (the padding the header spells out) does not
  constrain the alignment of its structure.
\<close>

section \<open>Types\<close>

datatype ctype =
    CInt int
  | CEnum int "(string \<times> int) list"
  | CPtr
  | CArr ctype int
  | CStruct bool "cfield list"
  | CUnion bool "cfield list"
and cfield =
    Fld string ctype
  | Bit string ctype int
  | Pad ctype int

definition align_up :: "int \<Rightarrow> int \<Rightarrow> int" where
  "align_up n a = (n + a - 1) div a * a"

text \<open>Bit position of a bit-field of width \<open>w\<close> in units of \<open>sz\<close> bytes, placed at or after \<open>pos\<close>.\<close>

definition bit_place :: "bool \<Rightarrow> int \<Rightarrow> int \<Rightarrow> int \<Rightarrow> int" where
  "bit_place pk pos sz w =
     (if w = 0 then align_up pos (8 * sz)
      else if pk \<or> pos div (8 * sz) = (pos + w - 1) div (8 * sz) then pos
      else align_up pos (8 * sz))"

definition fld_place :: "bool \<Rightarrow> int \<Rightarrow> int \<Rightarrow> int" where
  "fld_place pk pos al = align_up pos (if pk then 8 else 8 * al)"

text \<open>The alignment of a type, and of the members of a structure.\<close>

fun calign :: "ctype \<Rightarrow> int" and fields_align :: "cfield list \<Rightarrow> int" where
  "calign (CInt n) = n"
| "calign (CEnum n _) = n"
| "calign CPtr = 8"
| "calign (CArr t n) = calign t"
| "calign (CStruct pk fs) = (if pk then 1 else fields_align fs)"
| "calign (CUnion pk fs) = (if pk then 1 else fields_align fs)"
| "fields_align [] = 1"
| "fields_align (Fld _ t # fs) = max (calign t) (fields_align fs)"
| "fields_align (Bit _ t _ # fs) = max (calign t) (fields_align fs)"
| "fields_align (Pad _ _ # fs) = fields_align fs"

text \<open>
  The size of a type in bytes; \<open>struct_end\<close> is the bit position after the members of a structure
  that are placed from \<open>pos\<close> on, \<open>union_end\<close> the largest member size of a union.
\<close>

fun csize :: "ctype \<Rightarrow> int" and struct_end :: "bool \<Rightarrow> int \<Rightarrow> cfield list \<Rightarrow> int"
  and union_end :: "int \<Rightarrow> cfield list \<Rightarrow> int" where
  "csize (CInt n) = n"
| "csize (CEnum n _) = n"
| "csize CPtr = 8"
| "csize (CArr t n) = n * csize t"
| "csize (CStruct pk fs) =
     align_up ((struct_end pk 0 fs + 7) div 8) (if pk then 1 else fields_align fs)"
| "csize (CUnion pk fs) = align_up (union_end 0 fs) (if pk then 1 else fields_align fs)"
| "struct_end pk pos [] = pos"
| "struct_end pk pos (Fld _ t # fs) =
     struct_end pk (fld_place pk pos (calign t) + 8 * csize t) fs"
| "struct_end pk pos (Bit _ t w # fs) = struct_end pk (bit_place pk pos (csize t) w + w) fs"
| "struct_end pk pos (Pad t w # fs) = struct_end pk (bit_place pk pos (csize t) w + w) fs"
| "union_end m [] = m"
| "union_end m (Fld _ t # fs) = union_end (max m (csize t)) fs"
| "union_end m (Bit _ t w # fs) = union_end (max m ((w + 7) div 8)) fs"
| "union_end m (Pad t w # fs) = union_end (max m ((w + 7) div 8)) fs"

section \<open>Member lookup\<close>

text \<open>
  Bit offset and type of a member; the members of an anonymous structure or union (a member with the
  empty name) are members of the enclosing one.
\<close>

fun member :: "ctype \<Rightarrow> string \<Rightarrow> (int \<times> ctype) option"
  and struct_member :: "bool \<Rightarrow> int \<Rightarrow> cfield list \<Rightarrow> string \<Rightarrow> (int \<times> ctype) option"
  and union_member :: "cfield list \<Rightarrow> string \<Rightarrow> (int \<times> ctype) option" where
  "member (CStruct pk fs) nm = struct_member pk 0 fs nm"
| "member (CUnion pk fs) nm = union_member fs nm"
| "member _ nm = None"
| "struct_member pk pos [] nm = None"
| "struct_member pk pos (Fld n t # fs) nm =
     (if n = [] then
        (case member t nm of
           Some (off, t') \<Rightarrow> Some (fld_place pk pos (calign t) + off, t')
         | None \<Rightarrow> struct_member pk (fld_place pk pos (calign t) + 8 * csize t) fs nm)
      else if n = nm then Some (fld_place pk pos (calign t), t)
      else struct_member pk (fld_place pk pos (calign t) + 8 * csize t) fs nm)"
| "struct_member pk pos (Bit n t w # fs) nm =
     struct_member pk (bit_place pk pos (csize t) w + w) fs nm"
| "struct_member pk pos (Pad t w # fs) nm =
     struct_member pk (bit_place pk pos (csize t) w + w) fs nm"
| "union_member [] nm = None"
| "union_member (Fld n t # fs) nm =
     (if n = [] then
        (case member t nm of Some r \<Rightarrow> Some r | None \<Rightarrow> union_member fs nm)
      else if n = nm then Some (0, t)
      else union_member fs nm)"
| "union_member (Bit n t w # fs) nm = union_member fs nm"
| "union_member (Pad t w # fs) nm = union_member fs nm"

text \<open>Offset in bytes, and size, of the object a path of members designates (\<open>a.b.c\<close>).\<close>

fun access :: "ctype \<Rightarrow> string list \<Rightarrow> (int \<times> ctype) option" where
  "access t [] = Some (0, t)"
| "access t (nm # path) =
     (case member t nm of
        None \<Rightarrow> None
      | Some (off, t') \<Rightarrow> map_option (\<lambda>(o', t''). (off + o', t'')) (access t' path))"

definition offset_size :: "ctype \<Rightarrow> string list \<Rightarrow> (int \<times> int) option" where
  "offset_size t path = map_option (\<lambda>(off, t'). (off div 8, csize t')) (access t path)"

text \<open>The enumerators that have one of the given values, in the order of their declaration.\<close>

fun enumerators :: "ctype \<Rightarrow> int list \<Rightarrow> (string \<times> int) list" where
  "enumerators (CEnum n es) vs = filter (\<lambda>e. List.member vs (snd e)) es"
| "enumerators _ vs = []"

section \<open>Lemmas\<close>

lemma align_up_dvd [simp]: "a dvd align_up n a"
  by (simp add: align_up_def)

lemma align_up_bounds:
  assumes "0 < a"
  shows "n \<le> align_up n a" and "align_up n a < n + a"
  using div_mult_mod_eq [of "n + a - 1" a] pos_mod_bound [OF assms, of "n + a - 1"]
    pos_mod_sign [OF assms, of "n + a - 1"]
  unfolding align_up_def by linarith+

lemma align_up_least:
  assumes "0 < a" and "n \<le> m" and "a dvd m"
  shows "align_up n a \<le> m"
proof -
  from assms(3) obtain k where m: "m = k * a" by (metis dvd_def mult.commute)
  have "align_up n a < (k + 1) * a"
    using align_up_bounds(2) [OF assms(1), of n] assms(2) by (simp add: m algebra_simps)
  moreover obtain j where "align_up n a = j * a" unfolding align_up_def by blast
  ultimately show ?thesis using assms(1) by (simp add: m)
qed

text \<open>A structure or union fills whole multiples of its alignment, so arrays of it stay aligned.\<close>

lemma csize_aligned: "calign (CStruct pk fs) dvd csize (CStruct pk fs)"
  "calign (CUnion pk fs) dvd csize (CUnion pk fs)"
  by simp_all

end
