(* ===== verification/Vmlinux_X86_Sock.thy ===== *)
theory Vmlinux_X86_Sock
  imports C_Layout
begin

text \<open>
  The socket types of \<open>vmlinux_x86_64.h\<close>, as declared there: \<open>struct sock\<close>, which the probes
  read, the TCP and UDP sockets that contain it, and every type these contain by value, each after
  the types it uses. Structures are \<open>x86_s_\<close>, unions \<open>x86_u_\<close>, typedefs \<open>x86_t_\<close> and
  enumerations \<open>x86_e_\<close> followed by the C name; a long declaration is given in parts.
\<close>

definition x86_t___u64 :: ctype where
  "x86_t___u64 = CInt 8"

definition x86_t___addrpair :: ctype where
  "x86_t___addrpair = x86_t___u64"

definition x86_t___u32 :: ctype where
  "x86_t___u32 = CInt 4"

definition x86_t___be32 :: ctype where
  "x86_t___be32 = x86_t___u32"

definition x86_t___u16 :: ctype where
  "x86_t___u16 = CInt 2"

definition x86_t___portpair :: ctype where
  "x86_t___portpair = x86_t___u32"

definition x86_t___be16 :: ctype where
  "x86_t___be16 = x86_t___u16"

definition x86_s_hlist_node :: ctype where
  "x86_s_hlist_node = CStruct False [
    Fld ''next'' CPtr,
    Fld ''pprev'' CPtr]"

definition x86_t_possible_net_t :: ctype where
  "x86_t_possible_net_t = CStruct False [
      Fld ''net'' CPtr]"

definition x86_t___u8 :: ctype where
  "x86_t___u8 = CInt 1"

definition x86_s_in6_addr :: ctype where
  "x86_s_in6_addr = CStruct False [
    Fld ''in6_u'' (CUnion False [
      Fld ''u6_addr8'' (CArr x86_t___u8 16),
      Fld ''u6_addr16'' (CArr x86_t___be16 8),
      Fld ''u6_addr32'' (CArr x86_t___be32 4)])]"

definition x86_t___s64 :: ctype where
  "x86_t___s64 = CInt 8"

definition x86_t_s64 :: ctype where
  "x86_t_s64 = x86_t___s64"

definition x86_t_atomic64_t :: ctype where
  "x86_t_atomic64_t = CStruct False [
      Fld ''counter'' x86_t_s64]"

definition x86_s_hlist_nulls_node :: ctype where
  "x86_s_hlist_nulls_node = CStruct False [
    Fld ''next'' CPtr,
    Fld ''pprev'' CPtr]"

definition x86_t_u32 :: ctype where
  "x86_t_u32 = x86_t___u32"

definition x86_t_atomic_t :: ctype where
  "x86_t_atomic_t = CStruct False [
      Fld ''counter'' (CInt 4)]"

definition x86_s_refcount_struct :: ctype where
  "x86_s_refcount_struct = CStruct False [
    Fld ''refs'' x86_t_atomic_t]"

definition x86_t_refcount_t :: ctype where
  "x86_t_refcount_t = x86_s_refcount_struct"

definition x86_s_sock_common :: ctype where
  "x86_s_sock_common = CStruct False [
    Fld '''' (CUnion False [
      Fld ''skc_addrpair'' x86_t___addrpair,
      Fld '''' (CStruct False [
        Fld ''skc_daddr'' x86_t___be32,
        Fld ''skc_rcv_saddr'' x86_t___be32])]),
    Fld '''' (CUnion False [
      Fld ''skc_hash'' (CInt 4),
      Fld ''skc_u16hashes'' (CArr x86_t___u16 2)]),
    Fld '''' (CUnion False [
      Fld ''skc_portpair'' x86_t___portpair,
      Fld '''' (CStruct False [
        Fld ''skc_dport'' x86_t___be16,
        Fld ''skc_num'' x86_t___u16])]),
    Fld ''skc_family'' (CInt 2),
    Fld ''skc_state'' (CInt 1),
    Bit ''skc_reuse'' (CInt 1) 4,
    Bit ''skc_reuseport'' (CInt 1) 1,
    Bit ''skc_ipv6only'' (CInt 1) 1,
    Bit ''skc_net_refcnt'' (CInt 1) 1,
    Fld ''skc_bound_dev_if'' (CInt 4),
    Fld '''' (CUnion False [
      Fld ''skc_bind_node'' x86_s_hlist_node,
      Fld ''skc_portaddr_node'' x86_s_hlist_node]),
    Fld ''skc_prot'' CPtr,
    Fld ''skc_net'' x86_t_possible_net_t,
    Fld ''skc_v6_daddr'' x86_s_in6_addr,
    Fld ''skc_v6_rcv_saddr'' x86_s_in6_addr,
    Fld ''skc_cookie'' x86_t_atomic64_t,
    Fld '''' (CUnion False [
      Fld ''skc_flags'' (CInt 8),
      Fld ''skc_listener'' CPtr,
      Fld ''skc_tw_dr'' CPtr]),
    Fld ''skc_dontcopy_begin'' (CArr (CInt 4) 0),
    Fld '''' (CUnion False [
      Fld ''skc_node'' x86_s_hlist_node,
      Fld ''skc_nulls_node'' x86_s_hlist_nulls_node]),
    Fld ''skc_tx_queue_mapping'' (CInt 2),
    Fld ''skc_rx_queue_mapping'' (CInt 2),
    Fld '''' (CUnion False [
      Fld ''skc_incoming_cpu'' (CInt 4),
      Fld ''skc_rcv_wnd'' x86_t_u32,
      Fld ''skc_tw_rcv_nxt'' x86_t_u32]),
    Fld ''skc_refcnt'' x86_t_refcount_t,
    Fld ''skc_dontcopy_end'' (CArr (CInt 4) 0),
    Fld '''' (CUnion False [
      Fld ''skc_rxhash'' x86_t_u32,
      Fld ''skc_window_clamp'' x86_t_u32,
      Fld ''skc_tw_snd_nxt'' x86_t_u32])]"

definition x86_t___s32 :: ctype where
  "x86_t___s32 = CInt 4"

definition x86_s_sk_buff_list :: ctype where
  "x86_s_sk_buff_list = CStruct False [
    Fld ''next'' CPtr,
    Fld ''prev'' CPtr]"

definition x86_t_u8 :: ctype where
  "x86_t_u8 = x86_t___u8"

definition x86_t_u16 :: ctype where
  "x86_t_u16 = x86_t___u16"

definition x86_s_qspinlock :: ctype where
  "x86_s_qspinlock = CStruct False [
    Fld '''' (CUnion False [
      Fld ''val'' x86_t_atomic_t,
      Fld '''' (CStruct False [
        Fld ''locked'' x86_t_u8,
        Fld ''pending'' x86_t_u8]),
      Fld '''' (CStruct False [
        Fld ''locked_pending'' x86_t_u16,
        Fld ''tail'' x86_t_u16])])]"

definition x86_t_arch_spinlock_t :: ctype where
  "x86_t_arch_spinlock_t = x86_s_qspinlock"

definition x86_s_raw_spinlock :: ctype where
  "x86_s_raw_spinlock = CStruct False [
    Fld ''raw_lock'' x86_t_arch_spinlock_t]"

definition x86_s_spinlock :: ctype where
  "x86_s_spinlock = CStruct False [
    Fld '''' (CUnion False [
      Fld ''rlock'' x86_s_raw_spinlock])]"

definition x86_t_spinlock_t :: ctype where
  "x86_t_spinlock_t = x86_s_spinlock"

definition x86_s_sk_buff_head :: ctype where
  "x86_s_sk_buff_head = CStruct False [
    Fld '''' (CUnion False [
      Fld '''' (CStruct False [
        Fld ''next'' CPtr,
        Fld ''prev'' CPtr]),
      Fld ''list'' x86_s_sk_buff_list]),
    Fld ''qlen'' x86_t___u32,
    Fld ''lock'' x86_t_spinlock_t]"

definition x86_s_list_head :: ctype where
  "x86_s_list_head = CStruct False [
    Fld ''next'' CPtr,
    Fld ''prev'' CPtr]"

definition x86_s_wait_queue_head :: ctype where
  "x86_s_wait_queue_head = CStruct False [
    Fld ''lock'' x86_t_spinlock_t,
    Fld ''head'' x86_s_list_head]"

definition x86_t_wait_queue_head_t :: ctype where
  "x86_t_wait_queue_head_t = x86_s_wait_queue_head"

definition x86_t_socket_lock_t :: ctype where
  "x86_t_socket_lock_t = CStruct False [
      Fld ''slock'' x86_t_spinlock_t,
      Fld ''owned'' (CInt 4),
      Fld ''wq'' x86_t_wait_queue_head_t]"

definition x86_s_rb_root :: ctype where
  "x86_s_rb_root = CStruct False [
    Fld ''rb_node'' CPtr]"

definition x86_s_page_frag :: ctype where
  "x86_s_page_frag = CStruct False [
    Fld ''page'' CPtr,
    Fld ''offset'' x86_t___u32,
    Fld ''size'' x86_t___u32]"

definition x86_s_timer_list :: ctype where
  "x86_s_timer_list = CStruct False [
    Fld ''entry'' x86_s_hlist_node,
    Fld ''expires'' (CInt 8),
    Fld ''function'' CPtr,
    Fld ''flags'' x86_t_u32]"

definition x86_t___kernel_uid32_t :: ctype where
  "x86_t___kernel_uid32_t = CInt 4"

definition x86_t_uid_t :: ctype where
  "x86_t_uid_t = x86_t___kernel_uid32_t"

definition x86_t_kuid_t :: ctype where
  "x86_t_kuid_t = CStruct False [
      Fld ''val'' x86_t_uid_t]"

definition x86_t_u64 :: ctype where
  "x86_t_u64 = x86_t___u64"

definition x86_t_netdev_features_t :: ctype where
  "x86_t_netdev_features_t = x86_t_u64"

definition x86_t_gfp_t :: ctype where
  "x86_t_gfp_t = CInt 4"

definition x86_s_qrwlock :: ctype where
  "x86_s_qrwlock = CStruct False [
    Fld '''' (CUnion False [
      Fld ''cnts'' x86_t_atomic_t,
      Fld '''' (CStruct False [
        Fld ''wlocked'' x86_t_u8,
        Fld ''__lstate'' (CArr x86_t_u8 3)])]),
    Fld ''wait_lock'' x86_t_arch_spinlock_t]"

definition x86_t_arch_rwlock_t :: ctype where
  "x86_t_arch_rwlock_t = x86_s_qrwlock"

definition x86_t_rwlock_t :: ctype where
  "x86_t_rwlock_t = CStruct False [
      Fld ''raw_lock'' x86_t_arch_rwlock_t]"

definition x86_t_ktime_t :: ctype where
  "x86_t_ktime_t = x86_t_s64"

definition x86_s_sock_cgroup_data :: ctype where
  "x86_s_sock_cgroup_data = CStruct False [
    Fld ''cgroup'' CPtr,
    Fld ''classid'' x86_t_u32,
    Fld ''prioidx'' x86_t_u16]"

definition x86_s_callback_head :: ctype where
  "x86_s_callback_head = CStruct False [
    Fld ''next'' CPtr,
    Fld ''func'' CPtr]"

definition x86_t_netns_tracker :: ctype where
  "x86_t_netns_tracker = CStruct False []"

definition x86_s_xarray :: ctype where
  "x86_s_xarray = CStruct False [
    Fld ''xa_lock'' x86_t_spinlock_t,
    Fld ''xa_flags'' x86_t_gfp_t,
    Fld ''xa_head'' CPtr]"

definition x86_s_sock_1 :: "cfield list" where
  "x86_s_sock_1 = [
    Fld ''__sk_common'' x86_s_sock_common,
    Fld ''__cacheline_group_begin__sock_write_rx'' (CArr x86_t___u8 0),
    Fld ''sk_drops'' x86_t_atomic_t,
    Fld ''sk_peek_off'' x86_t___s32,
    Fld ''sk_error_queue'' x86_s_sk_buff_head,
    Fld ''sk_receive_queue'' x86_s_sk_buff_head,
    Fld ''sk_backlog'' (CStruct False [
      Fld ''rmem_alloc'' x86_t_atomic_t,
      Fld ''len'' (CInt 4),
      Fld ''head'' CPtr,
      Fld ''tail'' CPtr]),
    Fld ''__cacheline_group_end__sock_write_rx'' (CArr x86_t___u8 0),
    Fld ''__cacheline_group_begin__sock_read_rx'' (CArr x86_t___u8 0),
    Fld ''sk_rx_dst'' CPtr,
    Fld ''sk_rx_dst_ifindex'' (CInt 4),
    Fld ''sk_rx_dst_cookie'' x86_t_u32,
    Fld ''sk_ll_usec'' (CInt 4),
    Fld ''sk_napi_id'' (CInt 4),
    Fld ''sk_busy_poll_budget'' x86_t_u16,
    Fld ''sk_prefer_busy_poll'' x86_t_u8,
    Fld ''sk_userlocks'' x86_t_u8,
    Fld ''sk_rcvbuf'' (CInt 4),
    Fld ''sk_filter'' CPtr,
    Fld '''' (CUnion False [
      Fld ''sk_wq'' CPtr,
      Fld ''sk_wq_raw'' CPtr]),
    Fld ''sk_data_ready'' CPtr,
    Fld ''sk_rcvtimeo'' (CInt 8),
    Fld ''sk_rcvlowat'' (CInt 4),
    Fld ''__cacheline_group_end__sock_read_rx'' (CArr x86_t___u8 0),
    Fld ''__cacheline_group_begin__sock_read_rxtx'' (CArr x86_t___u8 0),
    Fld ''sk_err'' (CInt 4),
    Fld ''sk_socket'' CPtr,
    Fld ''sk_memcg'' CPtr,
    Fld ''sk_policy'' (CArr CPtr 2),
    Fld ''__cacheline_group_end__sock_read_rxtx'' (CArr x86_t___u8 0),
    Fld ''__cacheline_group_begin__sock_write_rxtx'' (CArr x86_t___u8 0),
    Fld ''sk_lock'' x86_t_socket_lock_t,
    Fld ''sk_reserved_mem'' x86_t_u32,
    Fld ''sk_forward_alloc'' (CInt 4),
    Fld ''sk_tsflags'' x86_t_u32,
    Fld ''__cacheline_group_end__sock_write_rxtx'' (CArr x86_t___u8 0),
    Fld ''__cacheline_group_begin__sock_write_tx'' (CArr x86_t___u8 0),
    Fld ''sk_write_pending'' (CInt 4),
    Fld ''sk_omem_alloc'' x86_t_atomic_t,
    Fld ''sk_err_soft'' (CInt 4),
    Fld ''sk_wmem_queued'' (CInt 4),
    Fld ''sk_wmem_alloc'' x86_t_refcount_t,
    Fld ''sk_tsq_flags'' (CInt 8),
    Fld '''' (CUnion False [
      Fld ''sk_send_head'' CPtr,
      Fld ''tcp_rtx_queue'' x86_s_rb_root]),
    Fld ''sk_write_queue'' x86_s_sk_buff_head,
    Fld ''sk_dst_pending_confirm'' x86_t_u32,
    Fld ''sk_pacing_status'' x86_t_u32,
    Fld ''sk_frag'' x86_s_page_frag,
    Fld ''sk_timer'' x86_s_timer_list,
    Fld ''sk_pacing_rate'' (CInt 8),
    Fld ''sk_zckey'' x86_t_atomic_t,
    Fld ''sk_tskey'' x86_t_atomic_t,
    Fld ''__cacheline_group_end__sock_write_tx'' (CArr x86_t___u8 0),
    Fld ''__cacheline_group_begin__sock_read_tx'' (CArr x86_t___u8 0),
    Fld ''sk_max_pacing_rate'' (CInt 8),
    Fld ''sk_sndtimeo'' (CInt 8),
    Fld ''sk_priority'' x86_t_u32,
    Fld ''sk_mark'' x86_t_u32,
    Fld ''sk_uid'' x86_t_kuid_t,
    Fld ''sk_protocol'' x86_t_u16,
    Fld ''sk_type'' x86_t_u16,
    Fld ''sk_dst_cache'' CPtr,
    Fld ''sk_route_caps'' x86_t_netdev_features_t,
    Fld ''sk_validate_xmit_skb'' CPtr,
    Fld ''sk_gso_type'' x86_t_u16,
    Fld ''sk_gso_max_segs'' x86_t_u16,
    Fld ''sk_gso_max_size'' (CInt 4),
    Fld ''sk_allocation'' x86_t_gfp_t,
    Fld ''sk_txhash'' x86_t_u32,
    Fld ''sk_sndbuf'' (CInt 4),
    Fld ''sk_pacing_shift'' x86_t_u8,
    Fld ''sk_use_task_frag'' (CInt 1),
    Fld ''__cacheline_group_end__sock_read_tx'' (CArr x86_t___u8 0),
    Bit ''sk_gso_disabled'' x86_t_u8 1,
    Bit ''sk_kern_sock'' x86_t_u8 1,
    Bit ''sk_no_check_tx'' x86_t_u8 1,
    Bit ''sk_no_check_rx'' x86_t_u8 1,
    Fld ''sk_shutdown'' x86_t_u8,
    Fld ''sk_lingertime'' (CInt 8),
    Fld ''sk_prot_creator'' CPtr,
    Fld ''sk_callback_lock'' x86_t_rwlock_t,
    Fld ''sk_ack_backlog'' x86_t_u32,
    Fld ''sk_max_ack_backlog'' x86_t_u32,
    Fld ''sk_ino'' (CInt 8),
    Fld ''sk_peer_lock'' x86_t_spinlock_t,
    Fld ''sk_bind_phc'' (CInt 4),
    Fld ''sk_peer_pid'' CPtr,
    Fld ''sk_peer_cred'' CPtr,
    Fld ''sk_stamp'' x86_t_ktime_t]"

definition x86_s_sock_2 :: "cfield list" where
  "x86_s_sock_2 = [
    Fld ''sk_disconnects'' (CInt 4),
    Fld '''' (CUnion False [
      Fld ''sk_txrehash'' x86_t_u8,
      Fld ''sk_scm_recv_flags'' x86_t_u8,
      Fld '''' (CStruct False [
        Bit ''sk_scm_credentials'' x86_t_u8 1,
        Bit ''sk_scm_security'' x86_t_u8 1,
        Bit ''sk_scm_pidfd'' x86_t_u8 1,
        Bit ''sk_scm_rights'' x86_t_u8 1,
        Bit ''sk_scm_unused'' x86_t_u8 4])]),
    Fld ''sk_clockid'' x86_t_u8,
    Bit ''sk_txtime_deadline_mode'' x86_t_u8 1,
    Bit ''sk_txtime_report_errors'' x86_t_u8 1,
    Bit ''sk_txtime_unused'' x86_t_u8 6,
    Fld ''sk_bpf_cb_flags'' x86_t_u8,
    Fld ''sk_user_data'' CPtr,
    Fld ''sk_security'' CPtr,
    Fld ''sk_cgrp_data'' x86_s_sock_cgroup_data,
    Fld ''sk_state_change'' CPtr,
    Fld ''sk_write_space'' CPtr,
    Fld ''sk_error_report'' CPtr,
    Fld ''sk_backlog_rcv'' CPtr,
    Fld ''sk_destruct'' CPtr,
    Fld ''sk_reuseport_cb'' CPtr,
    Fld ''sk_bpf_storage'' CPtr,
    Fld ''sk_drop_counters'' CPtr,
    Fld ''sk_rcu'' x86_s_callback_head,
    Fld ''ns_tracker'' x86_t_netns_tracker,
    Fld ''sk_user_frags'' x86_s_xarray]"

definition x86_s_sock :: ctype where
  "x86_s_sock = CStruct False (x86_s_sock_1 @ x86_s_sock_2)"

definition x86_t___s16 :: ctype where
  "x86_t___s16 = CInt 2"

definition x86_s_inet_cork :: ctype where
  "x86_s_inet_cork = CStruct False [
    Fld ''flags'' (CInt 4),
    Fld ''addr'' x86_t___be32,
    Fld ''opt'' CPtr,
    Fld ''fragsize'' (CInt 4),
    Fld ''length'' (CInt 4),
    Fld ''dst'' CPtr,
    Fld ''tx_flags'' x86_t_u8,
    Fld ''ttl'' x86_t___u8,
    Fld ''tos'' x86_t___s16,
    Fld ''priority'' x86_t_u32,
    Fld ''gso_size'' x86_t___u16,
    Fld ''ts_opt_id'' x86_t_u32,
    Fld ''transmit_time'' x86_t_u64,
    Fld ''mark'' x86_t_u32]"

definition x86_t_dscp_t :: ctype where
  "x86_t_dscp_t = x86_t_u8"

definition x86_t___be64 :: ctype where
  "x86_t___be64 = x86_t___u64"

definition x86_s_flowi_tunnel :: ctype where
  "x86_s_flowi_tunnel = CStruct False [
    Fld ''tun_id'' x86_t___be64]"

definition x86_s_flowi_common :: ctype where
  "x86_s_flowi_common = CStruct False [
    Fld ''flowic_oif'' (CInt 4),
    Fld ''flowic_iif'' (CInt 4),
    Fld ''flowic_l3mdev'' (CInt 4),
    Fld ''flowic_mark'' x86_t___u32,
    Fld ''flowic_dscp'' x86_t_dscp_t,
    Fld ''flowic_scope'' x86_t___u8,
    Fld ''flowic_proto'' x86_t___u8,
    Fld ''flowic_flags'' x86_t___u8,
    Fld ''flowic_secid'' x86_t___u32,
    Fld ''flowic_uid'' x86_t_kuid_t,
    Fld ''flowic_multipath_hash'' x86_t___u32,
    Fld ''flowic_tun_key'' x86_s_flowi_tunnel]"

definition x86_u_flowi_uli :: ctype where
  "x86_u_flowi_uli = CUnion False [
    Fld ''ports'' (CStruct False [
      Fld ''dport'' x86_t___be16,
      Fld ''sport'' x86_t___be16]),
    Fld ''icmpt'' (CStruct False [
      Fld ''type'' x86_t___u8,
      Fld ''code'' x86_t___u8]),
    Fld ''gre_key'' x86_t___be32,
    Fld ''mht'' (CStruct False [
      Fld ''type'' x86_t___u8])]"

definition x86_s_flowi4 :: ctype where
  "x86_s_flowi4 = CStruct False [
    Fld ''__fl_common'' x86_s_flowi_common,
    Fld ''saddr'' x86_t___be32,
    Fld ''daddr'' x86_t___be32,
    Fld ''uli'' x86_u_flowi_uli]"

definition x86_s_flowi6 :: ctype where
  "x86_s_flowi6 = CStruct False [
    Fld ''__fl_common'' x86_s_flowi_common,
    Fld ''daddr'' x86_s_in6_addr,
    Fld ''saddr'' x86_s_in6_addr,
    Fld ''flowlabel'' x86_t___be32,
    Fld ''uli'' x86_u_flowi_uli,
    Fld ''mp_hash'' x86_t___u32]"

definition x86_s_flowi :: ctype where
  "x86_s_flowi = CStruct False [
    Fld ''u'' (CUnion False [
      Fld ''__fl_common'' x86_s_flowi_common,
      Fld ''ip4'' x86_s_flowi4,
      Fld ''ip6'' x86_s_flowi6])]"

definition x86_s_inet_cork_full :: ctype where
  "x86_s_inet_cork_full = CStruct False [
    Fld ''base'' x86_s_inet_cork,
    Fld ''fl'' x86_s_flowi]"

definition x86_s_inet_sock :: ctype where
  "x86_s_inet_sock = CStruct False [
    Fld ''sk'' x86_s_sock,
    Fld ''pinet6'' CPtr,
    Fld ''ipv6_fl_list'' CPtr,
    Fld ''inet_flags'' (CInt 8),
    Fld ''inet_saddr'' x86_t___be32,
    Fld ''uc_ttl'' x86_t___s16,
    Fld ''inet_sport'' x86_t___be16,
    Fld ''inet_opt'' CPtr,
    Fld ''inet_id'' x86_t_atomic_t,
    Fld ''tos'' x86_t___u8,
    Fld ''min_ttl'' x86_t___u8,
    Fld ''mc_ttl'' x86_t___u8,
    Fld ''pmtudisc'' x86_t___u8,
    Fld ''rcv_tos'' x86_t___u8,
    Fld ''convert_csum'' x86_t___u8,
    Fld ''uc_index'' (CInt 4),
    Fld ''mc_index'' (CInt 4),
    Fld ''mc_addr'' x86_t___be32,
    Fld ''local_port_range'' x86_t_u32,
    Fld ''mc_list'' CPtr,
    Fld ''cork'' x86_s_inet_cork_full]"

definition x86_s_fastopen_queue :: ctype where
  "x86_s_fastopen_queue = CStruct False [
    Fld ''rskq_rst_head'' CPtr,
    Fld ''rskq_rst_tail'' CPtr,
    Fld ''lock'' x86_t_spinlock_t,
    Fld ''qlen'' (CInt 4),
    Fld ''max_qlen'' (CInt 4),
    Fld ''ctx'' CPtr]"

definition x86_s_request_sock_queue :: ctype where
  "x86_s_request_sock_queue = CStruct False [
    Fld ''rskq_lock'' x86_t_spinlock_t,
    Fld ''rskq_defer_accept'' x86_t_u8,
    Fld ''synflood_warned'' x86_t_u8,
    Fld ''qlen'' x86_t_atomic_t,
    Fld ''young'' x86_t_atomic_t,
    Fld ''rskq_accept_head'' CPtr,
    Fld ''rskq_accept_tail'' CPtr,
    Fld ''fastopenq'' x86_s_fastopen_queue]"

definition x86_s_inet_connection_sock :: ctype where
  "x86_s_inet_connection_sock = CStruct False [
    Fld ''icsk_inet'' x86_s_inet_sock,
    Fld ''icsk_accept_queue'' x86_s_request_sock_queue,
    Fld ''icsk_bind_hash'' CPtr,
    Fld ''icsk_bind2_hash'' CPtr,
    Fld ''icsk_retransmit_timer'' x86_s_timer_list,
    Fld ''icsk_delack_timer'' x86_s_timer_list,
    Fld ''icsk_rto'' x86_t___u32,
    Fld ''icsk_rto_min'' x86_t___u32,
    Fld ''icsk_rto_max'' x86_t_u32,
    Fld ''icsk_delack_max'' x86_t___u32,
    Fld ''icsk_pmtu_cookie'' x86_t___u32,
    Fld ''icsk_ca_ops'' CPtr,
    Fld ''icsk_af_ops'' CPtr,
    Fld ''icsk_ulp_ops'' CPtr,
    Fld ''icsk_ulp_data'' CPtr,
    Fld ''icsk_sync_mss'' CPtr,
    Bit ''icsk_ca_state'' x86_t___u8 5,
    Bit ''icsk_ca_initialized'' x86_t___u8 1,
    Bit ''icsk_ca_setsockopt'' x86_t___u8 1,
    Bit ''icsk_ca_dst_locked'' x86_t___u8 1,
    Fld ''icsk_retransmits'' x86_t___u8,
    Fld ''icsk_pending'' x86_t___u8,
    Fld ''icsk_backoff'' x86_t___u8,
    Fld ''icsk_syn_retries'' x86_t___u8,
    Fld ''icsk_probes_out'' x86_t___u8,
    Fld ''icsk_ext_hdr_len'' x86_t___u16,
    Fld ''icsk_ack'' (CStruct False [
      Fld ''pending'' x86_t___u8,
      Fld ''quick'' x86_t___u8,
      Fld ''pingpong'' x86_t___u8,
      Fld ''retry'' x86_t___u8,
      Bit ''ato'' x86_t___u32 8,
      Bit ''lrcv_flowlabel'' x86_t___u32 20,
      Bit ''dst_quick_ack'' x86_t___u32 1,
      Bit ''unused'' x86_t___u32 3,
      Fld ''lrcvtime'' x86_t___u32,
      Fld ''last_seg_size'' x86_t___u16,
      Fld ''rcv_mss'' x86_t___u16]),
    Fld ''icsk_mtup'' (CStruct False [
      Fld ''search_high'' (CInt 4),
      Fld ''search_low'' (CInt 4),
      Bit ''probe_size'' x86_t_u32 31,
      Bit ''enabled'' x86_t_u32 1,
      Fld ''probe_timestamp'' x86_t_u32]),
    Fld ''icsk_probes_tstamp'' x86_t_u32,
    Fld ''icsk_user_timeout'' x86_t_u32,
    Fld ''icsk_ca_priv'' (CArr x86_t_u64 13)]"

definition x86_s_minmax_sample :: ctype where
  "x86_s_minmax_sample = CStruct False [
    Fld ''t'' x86_t_u32,
    Fld ''v'' x86_t_u32]"

definition x86_s_minmax :: ctype where
  "x86_s_minmax = CStruct False [
    Fld ''s'' (CArr x86_s_minmax_sample 3)]"

definition x86_s_tcp_options_received :: ctype where
  "x86_s_tcp_options_received = CStruct False [
    Fld ''ts_recent_stamp'' (CInt 4),
    Fld ''ts_recent'' x86_t_u32,
    Fld ''rcv_tsval'' x86_t_u32,
    Fld ''rcv_tsecr'' x86_t_u32,
    Bit ''saw_tstamp'' x86_t_u16 1,
    Bit ''tstamp_ok'' x86_t_u16 1,
    Bit ''dsack'' x86_t_u16 1,
    Bit ''wscale_ok'' x86_t_u16 1,
    Bit ''sack_ok'' x86_t_u16 3,
    Bit ''smc_ok'' x86_t_u16 1,
    Bit ''snd_wscale'' x86_t_u16 4,
    Bit ''rcv_wscale'' x86_t_u16 4,
    Bit ''accecn'' x86_t_u8 6,
    Bit ''saw_unknown'' x86_t_u8 1,
    Bit ''unused'' x86_t_u8 1,
    Fld ''num_sacks'' x86_t_u8,
    Fld ''user_mss'' x86_t_u16,
    Fld ''mss_clamp'' x86_t_u16]"

definition x86_s_tcp_rack :: ctype where
  "x86_s_tcp_rack = CStruct False [
    Fld ''mstamp'' x86_t_u64,
    Fld ''rtt_us'' x86_t_u32,
    Fld ''end_seq'' x86_t_u32,
    Fld ''last_delivered'' x86_t_u32,
    Fld ''reo_wnd_steps'' x86_t_u8,
    Bit ''reo_wnd_persist'' x86_t_u8 5,
    Bit ''dsack_seen'' x86_t_u8 1,
    Bit ''advanced'' x86_t_u8 1]"

definition x86_s_rb_node :: ctype where
  "x86_s_rb_node = CStruct False [
    Fld ''__rb_parent_color'' (CInt 8),
    Fld ''rb_right'' CPtr,
    Fld ''rb_left'' CPtr]"

definition x86_s_timerqueue_node :: ctype where
  "x86_s_timerqueue_node = CStruct False [
    Fld ''node'' x86_s_rb_node,
    Fld ''expires'' x86_t_ktime_t]"

definition x86_s_hrtimer :: ctype where
  "x86_s_hrtimer = CStruct False [
    Fld ''node'' x86_s_timerqueue_node,
    Fld ''_softexpires'' x86_t_ktime_t,
    Fld ''function'' CPtr,
    Fld ''base'' CPtr,
    Fld ''state'' x86_t_u8,
    Fld ''is_rel'' x86_t_u8,
    Fld ''is_soft'' x86_t_u8,
    Fld ''is_hard'' x86_t_u8]"

definition x86_s_tcp_sack_block :: ctype where
  "x86_s_tcp_sack_block = CStruct False [
    Fld ''start_seq'' x86_t_u32,
    Fld ''end_seq'' x86_t_u32]"

definition x86_s_tcp_sock_1 :: "cfield list" where
  "x86_s_tcp_sock_1 = [
    Fld ''inet_conn'' x86_s_inet_connection_sock,
    Fld ''__cacheline_group_begin__tcp_sock_read_tx'' (CArr x86_t___u8 0),
    Fld ''max_window'' x86_t_u32,
    Fld ''rcv_ssthresh'' x86_t_u32,
    Fld ''reordering'' x86_t_u32,
    Fld ''notsent_lowat'' x86_t_u32,
    Fld ''gso_segs'' x86_t_u16,
    Fld ''retransmit_skb_hint'' CPtr,
    Fld ''tcp_clean_acked'' CPtr,
    Fld ''__cacheline_group_end__tcp_sock_read_tx'' (CArr x86_t___u8 0),
    Fld ''__cacheline_group_begin__tcp_sock_read_txrx'' (CArr x86_t___u8 0),
    Fld ''tsoffset'' x86_t_u32,
    Fld ''snd_wnd'' x86_t_u32,
    Fld ''mss_cache'' x86_t_u32,
    Fld ''snd_cwnd'' x86_t_u32,
    Fld ''prr_out'' x86_t_u32,
    Fld ''lost_out'' x86_t_u32,
    Fld ''sacked_out'' x86_t_u32,
    Fld ''tcp_header_len'' x86_t_u16,
    Fld ''scaling_ratio'' x86_t_u8,
    Bit ''repair'' x86_t_u8 1,
    Bit ''tcp_usec_ts'' x86_t_u8 1,
    Bit ''is_sack_reneg'' x86_t_u8 1,
    Bit ''is_cwnd_limited'' x86_t_u8 1,
    Bit ''recvmsg_inq'' x86_t_u8 1,
    Fld ''__cacheline_group_end__tcp_sock_read_txrx'' (CArr x86_t___u8 0),
    Fld ''__cacheline_group_begin__tcp_sock_read_rx'' (CArr x86_t___u8 0),
    Fld ''copied_seq'' x86_t_u32,
    Fld ''snd_wl1'' x86_t_u32,
    Fld ''tlp_high_seq'' x86_t_u32,
    Fld ''rttvar_us'' x86_t_u32,
    Fld ''retrans_out'' x86_t_u32,
    Fld ''advmss'' x86_t_u16,
    Fld ''urg_data'' x86_t_u16,
    Fld ''lost'' x86_t_u32,
    Fld ''snd_ssthresh'' x86_t_u32,
    Fld ''rtt_min'' x86_s_minmax,
    Fld ''out_of_order_queue'' x86_s_rb_root,
    Fld ''__cacheline_group_end__tcp_sock_read_rx'' (CArr x86_t___u8 0),
    Pad (CInt 8) 64,
    Pad (CInt 8) 64,
    Pad (CInt 8) 64,
    Pad (CInt 8) 64,
    Pad (CInt 8) 64,
    Pad (CInt 8) 64,
    Pad (CInt 8) 64,
    Fld ''__cacheline_group_begin__tcp_sock_write_tx'' (CArr x86_t___u8 0),
    Fld ''segs_out'' x86_t_u32,
    Fld ''data_segs_out'' x86_t_u32,
    Fld ''bytes_sent'' x86_t_u64,
    Fld ''snd_sml'' x86_t_u32,
    Fld ''chrono_type'' x86_t_u8,
    Fld ''chrono_start'' x86_t_u32,
    Fld ''chrono_stat'' (CArr x86_t_u32 3),
    Fld ''write_seq'' x86_t_u32,
    Fld ''pushed_seq'' x86_t_u32,
    Fld ''lsndtime'' x86_t_u32,
    Fld ''mdev_us'' x86_t_u32,
    Fld ''rtt_seq'' x86_t_u32,
    Fld ''tcp_wstamp_ns'' x86_t_u64,
    Fld ''accecn_opt_tstamp'' x86_t_u64,
    Fld ''tsorted_sent_queue'' x86_s_list_head,
    Fld ''highest_sack'' CPtr,
    Fld ''ecn_flags'' x86_t_u8,
    Fld ''__cacheline_group_end__tcp_sock_write_tx'' (CArr x86_t___u8 0),
    Fld ''__cacheline_group_begin__tcp_sock_write_txrx'' (CArr x86_t___u8 0),
    Bit ''nonagle'' x86_t_u8 4,
    Bit ''rate_app_limited'' x86_t_u8 1,
    Pad (CInt 2) 3,
    Bit ''received_ce_pending'' x86_t_u8 4,
    Bit ''unused2'' x86_t_u8 4,
    Bit ''accecn_minlen'' x86_t_u8 2,
    Bit ''est_ecnfield'' x86_t_u8 2,
    Bit ''accecn_opt_demand'' x86_t_u8 2,
    Bit ''prev_ecnfield'' x86_t_u8 2,
    Fld ''pred_flags'' x86_t___be32,
    Fld ''tcp_clock_cache'' x86_t_u64,
    Fld ''tcp_mstamp'' x86_t_u64,
    Fld ''rcv_nxt'' x86_t_u32,
    Fld ''snd_nxt'' x86_t_u32,
    Fld ''snd_una'' x86_t_u32,
    Fld ''window_clamp'' x86_t_u32,
    Fld ''srtt_us'' x86_t_u32,
    Fld ''packets_out'' x86_t_u32,
    Fld ''snd_up'' x86_t_u32,
    Fld ''delivered'' x86_t_u32,
    Fld ''delivered_ce'' x86_t_u32,
    Fld ''received_ce'' x86_t_u32,
    Fld ''received_ecn_bytes'' (CArr x86_t_u32 3),
    Fld ''app_limited'' x86_t_u32,
    Fld ''rcv_wnd'' x86_t_u32,
    Fld ''rcv_tstamp'' x86_t_u32,
    Fld ''rx_opt'' x86_s_tcp_options_received,
    Fld ''__cacheline_group_end__tcp_sock_write_txrx'' (CArr x86_t___u8 0),
    Fld ''__cacheline_group_begin__tcp_sock_write_rx'' (CArr x86_t___u8 0),
    Fld ''bytes_received'' x86_t_u64,
    Fld ''segs_in'' x86_t_u32,
    Fld ''data_segs_in'' x86_t_u32,
    Fld ''rcv_wup'' x86_t_u32,
    Fld ''max_packets_out'' x86_t_u32]"

definition x86_s_tcp_sock_2 :: "cfield list" where
  "x86_s_tcp_sock_2 = [
    Fld ''cwnd_usage_seq'' x86_t_u32,
    Fld ''rate_delivered'' x86_t_u32,
    Fld ''rate_interval_us'' x86_t_u32,
    Fld ''rcv_rtt_last_tsecr'' x86_t_u32,
    Fld ''delivered_ecn_bytes'' (CArr x86_t_u32 3),
    Fld ''first_tx_mstamp'' x86_t_u64,
    Fld ''delivered_mstamp'' x86_t_u64,
    Fld ''bytes_acked'' x86_t_u64,
    Fld ''rcv_rtt_est'' (CStruct False [
      Fld ''rtt_us'' x86_t_u32,
      Fld ''seq'' x86_t_u32,
      Fld ''time'' x86_t_u64]),
    Fld ''rcvq_space'' (CStruct False [
      Fld ''space'' (CInt 4),
      Fld ''seq'' x86_t_u32,
      Fld ''time'' x86_t_u64]),
    Fld ''__cacheline_group_end__tcp_sock_write_rx'' (CArr x86_t___u8 0),
    Fld ''dsack_dups'' x86_t_u32,
    Fld ''compressed_ack_rcv_nxt'' x86_t_u32,
    Fld ''tsq_node'' x86_s_list_head,
    Fld ''rack'' x86_s_tcp_rack,
    Fld ''compressed_ack'' x86_t_u8,
    Bit ''dup_ack_counter'' x86_t_u8 2,
    Bit ''tlp_retrans'' x86_t_u8 1,
    Bit ''syn_ect_snt'' x86_t_u8 2,
    Bit ''syn_ect_rcv'' x86_t_u8 2,
    Bit ''thin_lto'' x86_t_u8 1,
    Bit ''fastopen_connect'' x86_t_u8 1,
    Bit ''fastopen_no_cookie'' x86_t_u8 1,
    Bit ''fastopen_client_fail'' x86_t_u8 2,
    Bit ''frto'' x86_t_u8 1,
    Fld ''repair_queue'' x86_t_u8,
    Bit ''save_syn'' x86_t_u8 2,
    Bit ''syn_data'' x86_t_u8 1,
    Bit ''syn_fastopen'' x86_t_u8 1,
    Bit ''syn_fastopen_exp'' x86_t_u8 1,
    Bit ''syn_fastopen_ch'' x86_t_u8 1,
    Bit ''syn_data_acked'' x86_t_u8 1,
    Bit ''syn_fastopen_child'' x86_t_u8 1,
    Fld ''keepalive_probes'' x86_t_u8,
    Bit ''accecn_fail_mode'' x86_t_u8 4,
    Bit ''saw_accecn_opt'' x86_t_u8 2,
    Fld ''tcp_tx_delay'' x86_t_u32,
    Fld ''mdev_max_us'' x86_t_u32,
    Fld ''reord_seen'' x86_t_u32,
    Fld ''snd_cwnd_cnt'' x86_t_u32,
    Fld ''snd_cwnd_clamp'' x86_t_u32,
    Fld ''snd_cwnd_used'' x86_t_u32,
    Fld ''snd_cwnd_stamp'' x86_t_u32,
    Fld ''prior_cwnd'' x86_t_u32,
    Fld ''prr_delivered'' x86_t_u32,
    Fld ''last_oow_ack_time'' x86_t_u32,
    Fld ''pacing_timer'' x86_s_hrtimer,
    Fld ''compressed_ack_timer'' x86_s_hrtimer,
    Fld ''ooo_last_skb'' CPtr,
    Fld ''duplicate_sack'' (CArr x86_s_tcp_sack_block 1),
    Fld ''selective_acks'' (CArr x86_s_tcp_sack_block 4),
    Fld ''recv_sack_cache'' (CArr x86_s_tcp_sack_block 4),
    Fld ''prior_ssthresh'' x86_t_u32,
    Fld ''high_seq'' x86_t_u32,
    Fld ''retrans_stamp'' x86_t_u32,
    Fld ''undo_marker'' x86_t_u32,
    Fld ''undo_retrans'' (CInt 4),
    Fld ''mtu_info'' x86_t_u32,
    Fld ''bytes_retrans'' x86_t_u64,
    Fld ''total_retrans'' x86_t_u32,
    Fld ''rto_stamp'' x86_t_u32,
    Fld ''total_rto'' x86_t_u16,
    Fld ''total_rto_recoveries'' x86_t_u16,
    Fld ''total_rto_time'' x86_t_u32,
    Fld ''urg_seq'' x86_t_u32,
    Fld ''keepalive_time'' (CInt 4),
    Fld ''keepalive_intvl'' (CInt 4),
    Fld ''linger2'' (CInt 4),
    Fld ''bpf_sock_ops_cb_flags'' x86_t_u8,
    Bit ''bpf_chg_cc_inprogress'' x86_t_u8 1,
    Fld ''timeout_rehash'' x86_t_u16,
    Fld ''rcv_ooopack'' x86_t_u32,
    Fld ''mtu_probe'' (CStruct False [
      Fld ''probe_seq_start'' x86_t_u32,
      Fld ''probe_seq_end'' x86_t_u32]),
    Fld ''plb_rehash'' x86_t_u32,
    Fld ''is_mptcp'' (CInt 1),
    Fld ''syn_smc'' (CInt 1),
    Fld ''smc_hs_congested'' CPtr,
    Fld ''af_specific'' CPtr,
    Fld ''md5sig_info'' CPtr,
    Fld ''fastopen_req'' CPtr,
    Fld ''fastopen_rsk'' CPtr,
    Fld ''saved_syn'' CPtr]"

definition x86_s_tcp_sock :: ctype where
  "x86_s_tcp_sock = CStruct False (x86_s_tcp_sock_1 @ x86_s_tcp_sock_2)"

definition x86_t_s16 :: ctype where
  "x86_t_s16 = x86_t___s16"

definition x86_s_in6_pktinfo :: ctype where
  "x86_s_in6_pktinfo = CStruct False [
    Fld ''ipi6_addr'' x86_s_in6_addr,
    Fld ''ipi6_ifindex'' (CInt 4)]"

definition x86_s_inet6_cork :: ctype where
  "x86_s_inet6_cork = CStruct False [
    Fld ''opt'' CPtr,
    Fld ''hop_limit'' x86_t_u8,
    Fld ''tclass'' x86_t_u8,
    Bit ''dontfrag'' x86_t_u8 1]"

definition x86_s_ipv6_pinfo :: ctype where
  "x86_s_ipv6_pinfo = CStruct False [
    Fld ''saddr'' x86_s_in6_addr,
    Fld ''flow_label'' x86_t___be32,
    Fld ''dst_cookie'' x86_t_u32,
    Fld ''opt'' CPtr,
    Fld ''hop_limit'' x86_t_s16,
    Fld ''pmtudisc'' x86_t_u8,
    Fld ''tclass'' x86_t_u8,
    Fld ''saddr_cache'' (CInt 1),
    Fld ''daddr_cache'' (CInt 1),
    Fld ''mcast_hops'' x86_t_u8,
    Fld ''frag_size'' x86_t_u32,
    Fld ''ucast_oif'' (CInt 4),
    Fld ''mcast_oif'' (CInt 4),
    Fld ''rxopt'' (CUnion False [
      Fld ''bits'' (CStruct False [
        Bit ''srcrt'' x86_t_u16 1,
        Bit ''osrcrt'' x86_t_u16 1,
        Bit ''rxinfo'' x86_t_u16 1,
        Bit ''rxoinfo'' x86_t_u16 1,
        Bit ''rxhlim'' x86_t_u16 1,
        Bit ''rxohlim'' x86_t_u16 1,
        Bit ''hopopts'' x86_t_u16 1,
        Bit ''ohopopts'' x86_t_u16 1,
        Bit ''dstopts'' x86_t_u16 1,
        Bit ''odstopts'' x86_t_u16 1,
        Bit ''rxflow'' x86_t_u16 1,
        Bit ''rxtclass'' x86_t_u16 1,
        Bit ''rxpmtu'' x86_t_u16 1,
        Bit ''rxorigdstaddr'' x86_t_u16 1,
        Bit ''recvfragsize'' x86_t_u16 1]),
      Fld ''all'' x86_t_u16]),
    Fld ''srcprefs'' x86_t_u8,
    Fld ''min_hopcount'' x86_t_u8,
    Fld ''rcv_flowinfo'' x86_t___be32,
    Fld ''sticky_pktinfo'' x86_s_in6_pktinfo,
    Fld ''pktoptions'' CPtr,
    Fld ''rxpmtu'' CPtr,
    Fld ''cork'' x86_s_inet6_cork,
    Fld ''ipv6_mc_list'' CPtr,
    Fld ''ipv6_ac_list'' CPtr]"

definition x86_s_tcp6_sock :: ctype where
  "x86_s_tcp6_sock = CStruct False [
    Fld ''tcp'' x86_s_tcp_sock,
    Fld ''inet6'' x86_s_ipv6_pinfo]"

definition x86_s_numa_drop_counters :: ctype where
  "x86_s_numa_drop_counters = CStruct False [
    Fld ''drops0'' x86_t_atomic_t,
    Pad (CInt 8) 64,
    Pad (CInt 8) 64,
    Pad (CInt 8) 64,
    Pad (CInt 8) 64,
    Pad (CInt 8) 64,
    Pad (CInt 8) 64,
    Pad (CInt 8) 64,
    Fld ''drops1'' x86_t_atomic_t,
    Pad (CInt 8) 64,
    Pad (CInt 8) 64,
    Pad (CInt 8) 64,
    Pad (CInt 8) 64,
    Pad (CInt 8) 64,
    Pad (CInt 8) 64,
    Pad (CInt 8) 64]"

definition x86_s_udp_sock :: ctype where
  "x86_s_udp_sock = CStruct False [
    Fld ''inet'' x86_s_inet_sock,
    Fld ''udp_flags'' (CInt 8),
    Fld ''pending'' (CInt 4),
    Fld ''encap_type'' x86_t___u8,
    Fld ''udp_lrpa_hash'' x86_t___u16,
    Fld ''udp_lrpa_node'' x86_s_hlist_nulls_node,
    Fld ''len'' x86_t___u16,
    Fld ''gso_size'' x86_t___u16,
    Fld ''pcslen'' x86_t___u16,
    Fld ''pcrlen'' x86_t___u16,
    Fld ''encap_rcv'' CPtr,
    Fld ''encap_err_rcv'' CPtr,
    Fld ''encap_err_lookup'' CPtr,
    Fld ''encap_destroy'' CPtr,
    Fld ''gro_receive'' CPtr,
    Fld ''gro_complete'' CPtr,
    Fld ''udp_prod_queue'' CPtr,
    Pad (CInt 8) 64,
    Pad (CInt 8) 64,
    Pad (CInt 8) 64,
    Pad (CInt 8) 64,
    Fld ''reader_queue'' x86_s_sk_buff_head,
    Fld ''forward_deficit'' (CInt 4),
    Fld ''forward_threshold'' (CInt 4),
    Fld ''peeking_with_offset'' (CInt 1),
    Fld ''tunnel_list'' x86_s_hlist_node,
    Pad (CInt 8) 64,
    Fld ''drop_counters'' x86_s_numa_drop_counters]"

definition x86_s_udp6_sock :: ctype where
  "x86_s_udp6_sock = CStruct False [
    Fld ''udp'' x86_s_udp_sock,
    Fld ''inet6'' x86_s_ipv6_pinfo]"

end
