(* ===== verification/Vmlinux_X86_Task.thy ===== *)
theory Vmlinux_X86_Task
  imports Vmlinux_X86_Sock
begin

text \<open>
  The task structure of \<open>vmlinux_x86_64.h\<close> with the types it contains by value, and the enumerations of
  BPF helpers, map types and program types.
\<close>

definition x86_s_thread_info :: ctype where
  "x86_s_thread_info = CStruct False [
    Fld ''flags'' (CInt 8),
    Fld ''syscall_work'' (CInt 8),
    Fld ''status'' x86_t_u32,
    Fld ''cpu'' x86_t_u32]"

definition x86_s_llist_node :: ctype where
  "x86_s_llist_node = CStruct False [
    Fld ''next'' CPtr]"

definition x86_s___call_single_node :: ctype where
  "x86_s___call_single_node = CStruct False [
    Fld ''llist'' x86_s_llist_node,
    Fld '''' (CUnion False [
      Fld ''u_flags'' (CInt 4),
      Fld ''a_flags'' x86_t_atomic_t]),
    Fld ''src'' x86_t_u16,
    Fld ''dst'' x86_t_u16]"

definition x86_s_load_weight :: ctype where
  "x86_s_load_weight = CStruct False [
    Fld ''weight'' (CInt 8),
    Fld ''inv_weight'' x86_t_u32]"

definition x86_s_sched_avg :: ctype where
  "x86_s_sched_avg = CStruct False [
    Fld ''last_update_time'' x86_t_u64,
    Fld ''load_sum'' x86_t_u64,
    Fld ''runnable_sum'' x86_t_u64,
    Fld ''util_sum'' x86_t_u32,
    Fld ''period_contrib'' x86_t_u32,
    Fld ''load_avg'' (CInt 8),
    Fld ''runnable_avg'' (CInt 8),
    Fld ''util_avg'' (CInt 8),
    Fld ''util_est'' (CInt 4)]"

definition x86_s_sched_entity :: ctype where
  "x86_s_sched_entity = CStruct False [
    Fld ''load'' x86_s_load_weight,
    Fld ''run_node'' x86_s_rb_node,
    Fld ''deadline'' x86_t_u64,
    Fld ''min_vruntime'' x86_t_u64,
    Fld ''min_slice'' x86_t_u64,
    Fld ''max_slice'' x86_t_u64,
    Fld ''group_node'' x86_s_list_head,
    Fld ''on_rq'' (CInt 1),
    Fld ''sched_delayed'' (CInt 1),
    Fld ''rel_deadline'' (CInt 1),
    Fld ''custom_slice'' (CInt 1),
    Fld ''exec_start'' x86_t_u64,
    Fld ''sum_exec_runtime'' x86_t_u64,
    Fld ''prev_sum_exec_runtime'' x86_t_u64,
    Fld ''vruntime'' x86_t_u64,
    Fld '''' (CUnion False [
      Fld ''vlag'' x86_t_s64,
      Fld ''vprot'' x86_t_u64]),
    Fld ''slice'' x86_t_u64,
    Fld ''nr_migrations'' x86_t_u64,
    Fld ''depth'' (CInt 4),
    Fld ''parent'' CPtr,
    Fld ''cfs_rq'' CPtr,
    Fld ''my_q'' CPtr,
    Fld ''runnable_weight'' (CInt 8),
    Fld ''avg'' x86_s_sched_avg]"

definition x86_s_sched_rt_entity :: ctype where
  "x86_s_sched_rt_entity = CStruct False [
    Fld ''run_list'' x86_s_list_head,
    Fld ''timeout'' (CInt 8),
    Fld ''watchdog_stamp'' (CInt 8),
    Fld ''time_slice'' (CInt 4),
    Fld ''on_rq'' (CInt 2),
    Fld ''on_list'' (CInt 2),
    Fld ''back'' CPtr]"

definition x86_t_dl_server_pick_f :: ctype where
  "x86_t_dl_server_pick_f = CPtr"

definition x86_s_sched_dl_entity :: ctype where
  "x86_s_sched_dl_entity = CStruct False [
    Fld ''rb_node'' x86_s_rb_node,
    Fld ''dl_runtime'' x86_t_u64,
    Fld ''dl_deadline'' x86_t_u64,
    Fld ''dl_period'' x86_t_u64,
    Fld ''dl_bw'' x86_t_u64,
    Fld ''dl_density'' x86_t_u64,
    Fld ''runtime'' x86_t_s64,
    Fld ''deadline'' x86_t_u64,
    Fld ''flags'' (CInt 4),
    Bit ''dl_throttled'' (CInt 4) 1,
    Bit ''dl_yielded'' (CInt 4) 1,
    Bit ''dl_non_contending'' (CInt 4) 1,
    Bit ''dl_overrun'' (CInt 4) 1,
    Bit ''dl_server'' (CInt 4) 1,
    Bit ''dl_server_active'' (CInt 4) 1,
    Bit ''dl_defer'' (CInt 4) 1,
    Bit ''dl_defer_armed'' (CInt 4) 1,
    Bit ''dl_defer_running'' (CInt 4) 1,
    Fld ''dl_timer'' x86_s_hrtimer,
    Fld ''inactive_timer'' x86_s_hrtimer,
    Fld ''rq'' CPtr,
    Fld ''server_pick_task'' x86_t_dl_server_pick_f,
    Fld ''pi_se'' CPtr]"

definition x86_s_scx_dsq_list_node :: ctype where
  "x86_s_scx_dsq_list_node = CStruct False [
    Fld ''node'' x86_s_list_head,
    Fld ''flags'' x86_t_u32,
    Fld ''priv'' x86_t_u32]"

definition x86_t_s32 :: ctype where
  "x86_t_s32 = x86_t___s32"

definition x86_t_atomic_long_t :: ctype where
  "x86_t_atomic_long_t = x86_t_atomic64_t"

definition x86_s_sched_ext_entity :: ctype where
  "x86_s_sched_ext_entity = CStruct False [
    Fld ''dsq'' CPtr,
    Fld ''dsq_list'' x86_s_scx_dsq_list_node,
    Fld ''dsq_priq'' x86_s_rb_node,
    Fld ''dsq_seq'' x86_t_u32,
    Fld ''dsq_flags'' x86_t_u32,
    Fld ''flags'' x86_t_u32,
    Fld ''weight'' x86_t_u32,
    Fld ''sticky_cpu'' x86_t_s32,
    Fld ''holding_cpu'' x86_t_s32,
    Fld ''selected_cpu'' x86_t_s32,
    Fld ''kf_mask'' x86_t_u32,
    Fld ''kf_tasks'' (CArr CPtr 2),
    Fld ''ops_state'' x86_t_atomic_long_t,
    Fld ''runnable_node'' x86_s_list_head,
    Fld ''runnable_at'' (CInt 8),
    Fld ''core_sched_at'' x86_t_u64,
    Fld ''ddsp_dsq_id'' x86_t_u64,
    Fld ''ddsp_enq_flags'' x86_t_u64,
    Fld ''slice'' x86_t_u64,
    Fld ''dsq_vtime'' x86_t_u64,
    Fld ''disallow'' (CInt 1),
    Fld ''cgrp_moving_from'' CPtr,
    Fld ''tasks_node'' x86_s_list_head]"

definition x86_s_uclamp_se :: ctype where
  "x86_s_uclamp_se = CStruct False [
    Bit ''value'' (CInt 4) 11,
    Bit ''bucket_id'' (CInt 4) 3,
    Bit ''active'' (CInt 4) 1,
    Bit ''user_defined'' (CInt 4) 1]"

definition x86_s_sched_statistics :: ctype where
  "x86_s_sched_statistics = CStruct False [
    Fld ''wait_start'' x86_t_u64,
    Fld ''wait_max'' x86_t_u64,
    Fld ''wait_count'' x86_t_u64,
    Fld ''wait_sum'' x86_t_u64,
    Fld ''iowait_count'' x86_t_u64,
    Fld ''iowait_sum'' x86_t_u64,
    Fld ''sleep_start'' x86_t_u64,
    Fld ''sleep_max'' x86_t_u64,
    Fld ''sum_sleep_runtime'' x86_t_s64,
    Fld ''block_start'' x86_t_u64,
    Fld ''block_max'' x86_t_u64,
    Fld ''sum_block_runtime'' x86_t_s64,
    Fld ''exec_max'' x86_t_s64,
    Fld ''slice_max'' x86_t_u64,
    Fld ''nr_migrations_cold'' x86_t_u64,
    Fld ''nr_failed_migrations_affine'' x86_t_u64,
    Fld ''nr_failed_migrations_running'' x86_t_u64,
    Fld ''nr_failed_migrations_hot'' x86_t_u64,
    Fld ''nr_forced_migrations'' x86_t_u64,
    Fld ''nr_wakeups'' x86_t_u64,
    Fld ''nr_wakeups_sync'' x86_t_u64,
    Fld ''nr_wakeups_migrate'' x86_t_u64,
    Fld ''nr_wakeups_local'' x86_t_u64,
    Fld ''nr_wakeups_remote'' x86_t_u64,
    Fld ''nr_wakeups_affine'' x86_t_u64,
    Fld ''nr_wakeups_affine_attempts'' x86_t_u64,
    Fld ''nr_wakeups_passive'' x86_t_u64,
    Fld ''nr_wakeups_idle'' x86_t_u64,
    Fld ''core_forceidle_sum'' x86_t_u64,
    Pad (CInt 8) 64,
    Pad (CInt 8) 64,
    Pad (CInt 8) 64]"

definition x86_s_hlist_head :: ctype where
  "x86_s_hlist_head = CStruct False [
    Fld ''first'' CPtr]"

definition x86_s_cpumask :: ctype where
  "x86_s_cpumask = CStruct False [
    Fld ''bits'' (CArr (CInt 8) 6)]"

definition x86_t_cpumask_t :: ctype where
  "x86_t_cpumask_t = x86_s_cpumask"

definition x86_u_rcu_special :: ctype where
  "x86_u_rcu_special = CUnion False [
    Fld ''b'' (CStruct False [
      Fld ''blocked'' x86_t_u8,
      Fld ''need_qs'' x86_t_u8,
      Fld ''exp_hint'' x86_t_u8,
      Fld ''need_mb'' x86_t_u8]),
    Fld ''s'' x86_t_u32]"

definition x86_s_sched_info :: ctype where
  "x86_s_sched_info = CStruct False [
    Fld ''pcount'' (CInt 8),
    Fld ''run_delay'' (CInt 8),
    Fld ''max_run_delay'' (CInt 8),
    Fld ''min_run_delay'' (CInt 8),
    Fld ''last_arrival'' (CInt 8),
    Fld ''last_queued'' (CInt 8)]"

definition x86_s_plist_node :: ctype where
  "x86_s_plist_node = CStruct False [
    Fld ''prio'' (CInt 4),
    Fld ''prio_list'' x86_s_list_head,
    Fld ''node_list'' x86_s_list_head]"

definition x86_t___kernel_clockid_t :: ctype where
  "x86_t___kernel_clockid_t = CInt 4"

definition x86_t_clockid_t :: ctype where
  "x86_t_clockid_t = x86_t___kernel_clockid_t"

definition x86_e_timespec_type :: ctype where
  "x86_e_timespec_type = CEnum 4 [
    (''TT_NONE'', 0),
    (''TT_NATIVE'', 1),
    (''TT_COMPAT'', 2)]"

definition x86_s_restart_block :: ctype where
  "x86_s_restart_block = CStruct False [
    Fld ''arch_data'' (CInt 8),
    Fld ''fn'' CPtr,
    Fld '''' (CUnion False [
      Fld ''futex'' (CStruct False [
        Fld ''uaddr'' CPtr,
        Fld ''val'' x86_t_u32,
        Fld ''flags'' x86_t_u32,
        Fld ''bitset'' x86_t_u32,
        Fld ''time'' x86_t_u64,
        Fld ''uaddr2'' CPtr]),
      Fld ''nanosleep'' (CStruct False [
        Fld ''clockid'' x86_t_clockid_t,
        Fld ''type'' x86_e_timespec_type,
        Fld '''' (CUnion False [
          Fld ''rmtp'' CPtr,
          Fld ''compat_rmtp'' CPtr]),
        Fld ''expires'' x86_t_u64]),
      Fld ''poll'' (CStruct False [
        Fld ''ufds'' CPtr,
        Fld ''nfds'' (CInt 4),
        Fld ''has_timeout'' (CInt 4),
        Fld ''tv_sec'' (CInt 8),
        Fld ''tv_nsec'' (CInt 8)])])]"

definition x86_t___kernel_pid_t :: ctype where
  "x86_t___kernel_pid_t = CInt 4"

definition x86_t_pid_t :: ctype where
  "x86_t_pid_t = x86_t___kernel_pid_t"

definition x86_t_raw_spinlock_t :: ctype where
  "x86_t_raw_spinlock_t = x86_s_raw_spinlock"

definition x86_s_prev_cputime :: ctype where
  "x86_s_prev_cputime = CStruct False [
    Fld ''utime'' x86_t_u64,
    Fld ''stime'' x86_t_u64,
    Fld ''lock'' x86_t_raw_spinlock_t]"

definition x86_s_seqcount :: ctype where
  "x86_s_seqcount = CStruct False [
    Fld ''sequence'' (CInt 4)]"

definition x86_t_seqcount_t :: ctype where
  "x86_t_seqcount_t = x86_s_seqcount"

definition x86_e_vtime_state :: ctype where
  "x86_e_vtime_state = CEnum 4 [
    (''VTIME_INACTIVE'', 0),
    (''VTIME_IDLE'', 1),
    (''VTIME_SYS'', 2),
    (''VTIME_USER'', 3),
    (''VTIME_GUEST'', 4)]"

definition x86_s_vtime :: ctype where
  "x86_s_vtime = CStruct False [
    Fld ''seqcount'' x86_t_seqcount_t,
    Fld ''starttime'' (CInt 8),
    Fld ''state'' x86_e_vtime_state,
    Fld ''cpu'' (CInt 4),
    Fld ''utime'' x86_t_u64,
    Fld ''stime'' x86_t_u64,
    Fld ''gtime'' x86_t_u64]"

definition x86_s_rb_root_cached :: ctype where
  "x86_s_rb_root_cached = CStruct False [
    Fld ''rb_root'' x86_s_rb_root,
    Fld ''rb_leftmost'' CPtr]"

definition x86_s_timerqueue_head :: ctype where
  "x86_s_timerqueue_head = CStruct False [
    Fld ''rb_root'' x86_s_rb_root_cached]"

definition x86_s_posix_cputimer_base :: ctype where
  "x86_s_posix_cputimer_base = CStruct False [
    Fld ''nextevt'' x86_t_u64,
    Fld ''tqhead'' x86_s_timerqueue_head]"

definition x86_s_posix_cputimers :: ctype where
  "x86_s_posix_cputimers = CStruct False [
    Fld ''bases'' (CArr x86_s_posix_cputimer_base 3),
    Fld ''timers_active'' (CInt 4),
    Fld ''expiry_active'' (CInt 4)]"

definition x86_s_optimistic_spin_queue :: ctype where
  "x86_s_optimistic_spin_queue = CStruct False [
    Fld ''tail'' x86_t_atomic_t]"

definition x86_s_mutex :: ctype where
  "x86_s_mutex = CStruct False [
    Fld ''owner'' x86_t_atomic_long_t,
    Fld ''wait_lock'' x86_t_raw_spinlock_t,
    Fld ''osq'' x86_s_optimistic_spin_queue,
    Fld ''wait_list'' x86_s_list_head]"

definition x86_s_posix_cputimers_work :: ctype where
  "x86_s_posix_cputimers_work = CStruct False [
    Fld ''work'' x86_s_callback_head,
    Fld ''mutex'' x86_s_mutex,
    Fld ''scheduled'' (CInt 4)]"

definition x86_s_sysv_sem :: ctype where
  "x86_s_sysv_sem = CStruct False [
    Fld ''undo_list'' CPtr]"

definition x86_s_sysv_shm :: ctype where
  "x86_s_sysv_shm = CStruct False [
    Fld ''shm_clist'' x86_s_list_head]"

definition x86_t_sigset_t :: ctype where
  "x86_t_sigset_t = CStruct False [
      Fld ''sig'' (CArr (CInt 8) 1)]"

definition x86_s_sigpending :: ctype where
  "x86_s_sigpending = CStruct False [
    Fld ''list'' x86_s_list_head,
    Fld ''signal'' x86_t_sigset_t]"

definition x86_t___kernel_ulong_t :: ctype where
  "x86_t___kernel_ulong_t = CInt 8"

definition x86_t___kernel_size_t :: ctype where
  "x86_t___kernel_size_t = x86_t___kernel_ulong_t"

definition x86_t_size_t :: ctype where
  "x86_t_size_t = x86_t___kernel_size_t"

definition x86_s_seccomp :: ctype where
  "x86_s_seccomp = CStruct False [
    Fld ''mode'' (CInt 4),
    Fld ''filter_count'' x86_t_atomic_t,
    Fld ''filter'' CPtr]"

definition x86_s_syscall_user_dispatch :: ctype where
  "x86_s_syscall_user_dispatch = CStruct False [
    Fld ''selector'' CPtr,
    Fld ''offset'' (CInt 8),
    Fld ''len'' (CInt 8),
    Fld ''on_dispatch'' (CInt 1)]"

definition x86_s_wake_q_node :: ctype where
  "x86_s_wake_q_node = CStruct False [
    Fld ''next'' CPtr]"

definition x86_s_task_io_accounting :: ctype where
  "x86_s_task_io_accounting = CStruct False [
    Fld ''rchar'' x86_t_u64,
    Fld ''wchar'' x86_t_u64,
    Fld ''syscr'' x86_t_u64,
    Fld ''syscw'' x86_t_u64,
    Fld ''read_bytes'' x86_t_u64,
    Fld ''write_bytes'' x86_t_u64,
    Fld ''cancelled_write_bytes'' x86_t_u64]"

definition x86_t_nodemask_t :: ctype where
  "x86_t_nodemask_t = CStruct False [
      Fld ''bits'' (CArr (CInt 8) 1)]"

definition x86_s_seqcount_spinlock :: ctype where
  "x86_s_seqcount_spinlock = CStruct False [
    Fld ''seqcount'' x86_t_seqcount_t]"

definition x86_t_seqcount_spinlock_t :: ctype where
  "x86_t_seqcount_spinlock_t = x86_s_seqcount_spinlock"

definition x86_s_arch_tlbflush_unmap_batch :: ctype where
  "x86_s_arch_tlbflush_unmap_batch = CStruct False [
    Fld ''cpumask'' x86_s_cpumask,
    Fld ''unmapped_pages'' (CInt 1)]"

definition x86_s_tlbflush_unmap_batch :: ctype where
  "x86_s_tlbflush_unmap_batch = CStruct False [
    Fld ''arch'' x86_s_arch_tlbflush_unmap_batch,
    Fld ''flush_required'' (CInt 1),
    Fld ''writable'' (CInt 1)]"

definition x86_s_kmap_ctrl :: ctype where
  "x86_s_kmap_ctrl = CStruct False []"

definition x86_s_llist_head :: ctype where
  "x86_s_llist_head = CStruct False [
    Fld ''first'' CPtr]"

definition x86_u_unwind_task_id :: ctype where
  "x86_u_unwind_task_id = CUnion False [
    Fld '''' (CStruct False [
      Fld ''cpu'' x86_t_u32,
      Fld ''cnt'' x86_t_u32]),
    Fld ''id'' x86_t_u64]"

definition x86_s_unwind_task_info :: ctype where
  "x86_s_unwind_task_info = CStruct False [
    Fld ''unwind_mask'' (CInt 8),
    Fld ''cache'' CPtr,
    Fld ''work'' x86_s_callback_head,
    Fld ''id'' x86_u_unwind_task_id]"

definition x86_s_desc_struct :: ctype where
  "x86_s_desc_struct = CStruct False [
    Fld ''limit0'' x86_t_u16,
    Fld ''base0'' x86_t_u16,
    Bit ''base1'' x86_t_u16 8,
    Bit ''type'' x86_t_u16 4,
    Bit ''s'' x86_t_u16 1,
    Bit ''dpl'' x86_t_u16 2,
    Bit ''p'' x86_t_u16 1,
    Bit ''limit1'' x86_t_u16 4,
    Bit ''avl'' x86_t_u16 1,
    Bit ''l'' x86_t_u16 1,
    Bit ''d'' x86_t_u16 1,
    Bit ''g'' x86_t_u16 1,
    Bit ''base2'' x86_t_u16 8]"

definition x86_s_thread_shstk :: ctype where
  "x86_s_thread_shstk = CStruct False [
    Fld ''base'' x86_t_u64,
    Fld ''size'' x86_t_u64]"

definition x86_s_thread_struct :: ctype where
  "x86_s_thread_struct = CStruct False [
    Fld ''tls_array'' (CArr x86_s_desc_struct 3),
    Fld ''sp'' (CInt 8),
    Fld ''es'' (CInt 2),
    Fld ''ds'' (CInt 2),
    Fld ''fsindex'' (CInt 2),
    Fld ''gsindex'' (CInt 2),
    Fld ''fsbase'' (CInt 8),
    Fld ''gsbase'' (CInt 8),
    Fld ''ptrace_bps'' (CArr CPtr 4),
    Fld ''virtual_dr6'' (CInt 8),
    Fld ''ptrace_dr7'' (CInt 8),
    Fld ''cr2'' (CInt 8),
    Fld ''trap_nr'' (CInt 8),
    Fld ''error_code'' (CInt 8),
    Fld ''io_bitmap'' CPtr,
    Fld ''iopl_emul'' (CInt 8),
    Bit ''iopl_warn'' (CInt 4) 1,
    Fld ''pkru'' x86_t_u32,
    Fld ''features'' (CInt 8),
    Fld ''features_locked'' (CInt 8),
    Fld ''shstk'' x86_s_thread_shstk]"

definition x86_s_task_struct_1 :: "cfield list" where
  "x86_s_task_struct_1 = [
    Fld ''thread_info'' x86_s_thread_info,
    Fld ''__state'' (CInt 4),
    Fld ''saved_state'' (CInt 4),
    Fld ''stack'' CPtr,
    Fld ''usage'' x86_t_refcount_t,
    Fld ''flags'' (CInt 4),
    Fld ''ptrace'' (CInt 4),
    Fld ''alloc_tag'' CPtr,
    Fld ''on_cpu'' (CInt 4),
    Fld ''wake_entry'' x86_s___call_single_node,
    Fld ''wakee_flips'' (CInt 4),
    Fld ''wakee_flip_decay_ts'' (CInt 8),
    Fld ''last_wakee'' CPtr,
    Fld ''recent_used_cpu'' (CInt 4),
    Fld ''wake_cpu'' (CInt 4),
    Fld ''on_rq'' (CInt 4),
    Fld ''prio'' (CInt 4),
    Fld ''static_prio'' (CInt 4),
    Fld ''normal_prio'' (CInt 4),
    Fld ''rt_priority'' (CInt 4),
    Pad (CInt 8) 64,
    Pad (CInt 8) 64,
    Pad (CInt 8) 64,
    Pad (CInt 8) 64,
    Pad (CInt 8) 64,
    Pad (CInt 8) 64,
    Fld ''se'' x86_s_sched_entity,
    Fld ''rt'' x86_s_sched_rt_entity,
    Fld ''dl'' x86_s_sched_dl_entity,
    Fld ''dl_server'' CPtr,
    Fld ''scx'' x86_s_sched_ext_entity,
    Fld ''sched_class'' CPtr,
    Fld ''core_node'' x86_s_rb_node,
    Fld ''core_cookie'' (CInt 8),
    Fld ''core_occupation'' (CInt 4),
    Fld ''sched_task_group'' CPtr,
    Fld ''sched_throttle_work'' x86_s_callback_head,
    Fld ''throttle_node'' x86_s_list_head,
    Fld ''throttled'' (CInt 1),
    Fld ''uclamp_req'' (CArr x86_s_uclamp_se 2),
    Fld ''uclamp'' (CArr x86_s_uclamp_se 2),
    Pad (CInt 8) 64,
    Pad (CInt 8) 64,
    Pad (CInt 8) 64,
    Fld ''stats'' x86_s_sched_statistics,
    Fld ''preempt_notifiers'' x86_s_hlist_head,
    Fld ''btrace_seq'' (CInt 4),
    Fld ''policy'' (CInt 4),
    Fld ''max_allowed_capacity'' (CInt 8),
    Fld ''nr_cpus_allowed'' (CInt 4),
    Fld ''cpus_ptr'' CPtr,
    Fld ''user_cpus_ptr'' CPtr,
    Fld ''cpus_mask'' x86_t_cpumask_t,
    Fld ''migration_pending'' CPtr,
    Fld ''migration_disabled'' (CInt 2),
    Fld ''migration_flags'' (CInt 2),
    Fld ''rcu_read_lock_nesting'' (CInt 4),
    Fld ''rcu_read_unlock_special'' x86_u_rcu_special,
    Fld ''rcu_node_entry'' x86_s_list_head,
    Fld ''rcu_blocked_node'' CPtr,
    Fld ''rcu_tasks_nvcsw'' (CInt 8),
    Fld ''rcu_tasks_holdout'' x86_t_u8,
    Fld ''rcu_tasks_idx'' x86_t_u8,
    Fld ''rcu_tasks_idle_cpu'' (CInt 4),
    Fld ''rcu_tasks_holdout_list'' x86_s_list_head,
    Fld ''rcu_tasks_exit_cpu'' (CInt 4),
    Fld ''rcu_tasks_exit_list'' x86_s_list_head,
    Fld ''trc_reader_nesting'' (CInt 4),
    Fld ''trc_ipi_to_cpu'' (CInt 4),
    Fld ''trc_reader_special'' x86_u_rcu_special,
    Fld ''trc_holdout_list'' x86_s_list_head,
    Fld ''trc_blkd_node'' x86_s_list_head,
    Fld ''trc_blkd_cpu'' (CInt 4),
    Fld ''sched_info'' x86_s_sched_info,
    Fld ''tasks'' x86_s_list_head,
    Fld ''pushable_tasks'' x86_s_plist_node,
    Fld ''pushable_dl_tasks'' x86_s_rb_node,
    Fld ''mm'' CPtr,
    Fld ''active_mm'' CPtr,
    Fld ''faults_disabled_mapping'' CPtr,
    Fld ''exit_state'' (CInt 4),
    Fld ''exit_code'' (CInt 4),
    Fld ''exit_signal'' (CInt 4),
    Fld ''pdeath_signal'' (CInt 4),
    Fld ''jobctl'' (CInt 8),
    Fld ''personality'' (CInt 4),
    Bit ''sched_reset_on_fork'' (CInt 4) 1,
    Bit ''sched_contributes_to_load'' (CInt 4) 1,
    Bit ''sched_migrated'' (CInt 4) 1,
    Bit ''sched_task_hot'' (CInt 4) 1,
    Pad (CInt 8) 28,
    Bit ''sched_remote_wakeup'' (CInt 4) 1,
    Bit ''sched_rt_mutex'' (CInt 4) 1,
    Bit ''user_dumpable'' (CInt 4) 1,
    Bit ''in_execve'' (CInt 4) 1,
    Bit ''in_iowait'' (CInt 4) 1,
    Bit ''restore_sigmask'' (CInt 4) 1,
    Bit ''in_lru_fault'' (CInt 4) 1,
    Bit ''no_cgroup_migration'' (CInt 4) 1,
    Bit ''frozen'' (CInt 4) 1]"

definition x86_s_task_struct_2 :: "cfield list" where
  "x86_s_task_struct_2 = [
    Bit ''use_memdelay'' (CInt 4) 1,
    Bit ''in_memstall'' (CInt 4) 1,
    Bit ''in_eventfd'' (CInt 4) 1,
    Bit ''pasid_activated'' (CInt 4) 1,
    Bit ''reported_split_lock'' (CInt 4) 1,
    Bit ''in_thrashing'' (CInt 4) 1,
    Bit ''in_nf_duplicate'' (CInt 4) 1,
    Fld ''atomic_flags'' (CInt 8),
    Fld ''restart_block'' x86_s_restart_block,
    Fld ''pid'' x86_t_pid_t,
    Fld ''tgid'' x86_t_pid_t,
    Fld ''stack_canary'' (CInt 8),
    Fld ''real_parent'' CPtr,
    Fld ''parent'' CPtr,
    Fld ''children'' x86_s_list_head,
    Fld ''sibling'' x86_s_list_head,
    Fld ''group_leader'' CPtr,
    Fld ''ptraced'' x86_s_list_head,
    Fld ''ptrace_entry'' x86_s_list_head,
    Fld ''thread_pid'' CPtr,
    Fld ''pid_links'' (CArr x86_s_hlist_node 4),
    Fld ''thread_node'' x86_s_list_head,
    Fld ''vfork_done'' CPtr,
    Fld ''set_child_tid'' CPtr,
    Fld ''clear_child_tid'' CPtr,
    Fld ''worker_private'' CPtr,
    Fld ''utime'' x86_t_u64,
    Fld ''stime'' x86_t_u64,
    Fld ''gtime'' x86_t_u64,
    Fld ''prev_cputime'' x86_s_prev_cputime,
    Fld ''vtime'' x86_s_vtime,
    Fld ''tick_dep_mask'' x86_t_atomic_t,
    Fld ''nvcsw'' (CInt 8),
    Fld ''nivcsw'' (CInt 8),
    Fld ''start_time'' x86_t_u64,
    Fld ''start_boottime'' x86_t_u64,
    Fld ''min_flt'' (CInt 8),
    Fld ''maj_flt'' (CInt 8),
    Fld ''posix_cputimers'' x86_s_posix_cputimers,
    Fld ''posix_cputimers_work'' x86_s_posix_cputimers_work,
    Fld ''ptracer_cred'' CPtr,
    Fld ''real_cred'' CPtr,
    Fld ''cred'' CPtr,
    Fld ''cached_requested_key'' CPtr,
    Fld ''comm'' (CArr (CInt 1) 16),
    Fld ''nameidata'' CPtr,
    Fld ''sysvsem'' x86_s_sysv_sem,
    Fld ''sysvshm'' x86_s_sysv_shm,
    Fld ''last_switch_count'' (CInt 8),
    Fld ''last_switch_time'' (CInt 8),
    Fld ''fs'' CPtr,
    Fld ''files'' CPtr,
    Fld ''io_uring'' CPtr,
    Fld ''nsproxy'' CPtr,
    Fld ''signal'' CPtr,
    Fld ''sighand'' CPtr,
    Fld ''blocked'' x86_t_sigset_t,
    Fld ''real_blocked'' x86_t_sigset_t,
    Fld ''saved_sigmask'' x86_t_sigset_t,
    Fld ''pending'' x86_s_sigpending,
    Fld ''sas_ss_sp'' (CInt 8),
    Fld ''sas_ss_size'' x86_t_size_t,
    Fld ''sas_ss_flags'' (CInt 4),
    Fld ''task_works'' CPtr,
    Fld ''audit_context'' CPtr,
    Fld ''loginuid'' x86_t_kuid_t,
    Fld ''sessionid'' (CInt 4),
    Fld ''seccomp'' x86_s_seccomp,
    Fld ''syscall_dispatch'' x86_s_syscall_user_dispatch,
    Fld ''parent_exec_id'' x86_t_u64,
    Fld ''self_exec_id'' x86_t_u64,
    Fld ''alloc_lock'' x86_t_spinlock_t,
    Fld ''pi_lock'' x86_t_raw_spinlock_t,
    Fld ''wake_q'' x86_s_wake_q_node,
    Fld ''pi_waiters'' x86_s_rb_root_cached,
    Fld ''pi_top_task'' CPtr,
    Fld ''pi_blocked_on'' CPtr,
    Fld ''blocked_on'' CPtr,
    Fld ''blocker'' (CInt 8),
    Fld ''journal_info'' CPtr,
    Fld ''bio_list'' CPtr,
    Fld ''plug'' CPtr,
    Fld ''reclaim_state'' CPtr,
    Fld ''io_context'' CPtr,
    Fld ''capture_control'' CPtr,
    Fld ''ptrace_message'' (CInt 8),
    Fld ''last_siginfo'' CPtr,
    Fld ''ioac'' x86_s_task_io_accounting,
    Fld ''psi_flags'' (CInt 4),
    Fld ''acct_rss_mem1'' x86_t_u64,
    Fld ''acct_vm_mem1'' x86_t_u64,
    Fld ''acct_timexpd'' x86_t_u64,
    Fld ''mems_allowed'' x86_t_nodemask_t,
    Fld ''mems_allowed_seq'' x86_t_seqcount_spinlock_t,
    Fld ''cpuset_mem_spread_rotor'' (CInt 4),
    Fld ''cgroups'' CPtr,
    Fld ''cg_list'' x86_s_list_head,
    Fld ''closid'' x86_t_u32,
    Fld ''rmid'' x86_t_u32,
    Fld ''robust_list'' CPtr]"

definition x86_s_task_struct_3 :: "cfield list" where
  "x86_s_task_struct_3 = [
    Fld ''compat_robust_list'' CPtr,
    Fld ''pi_state_list'' x86_s_list_head,
    Fld ''pi_state_cache'' CPtr,
    Fld ''futex_exit_mutex'' x86_s_mutex,
    Fld ''futex_state'' (CInt 4),
    Fld ''perf_recursion'' (CArr x86_t_u8 4),
    Fld ''perf_event_ctxp'' CPtr,
    Fld ''perf_event_mutex'' x86_s_mutex,
    Fld ''perf_event_list'' x86_s_list_head,
    Fld ''perf_ctx_data'' CPtr,
    Fld ''mempolicy'' CPtr,
    Fld ''il_prev'' (CInt 2),
    Fld ''il_weight'' x86_t_u8,
    Fld ''pref_node_fork'' (CInt 2),
    Fld ''numa_scan_seq'' (CInt 4),
    Fld ''numa_scan_period'' (CInt 4),
    Fld ''numa_scan_period_max'' (CInt 4),
    Fld ''numa_preferred_nid'' (CInt 4),
    Fld ''numa_migrate_retry'' (CInt 8),
    Fld ''node_stamp'' x86_t_u64,
    Fld ''last_task_numa_placement'' x86_t_u64,
    Fld ''last_sum_exec_runtime'' x86_t_u64,
    Fld ''numa_work'' x86_s_callback_head,
    Fld ''numa_group'' CPtr,
    Fld ''numa_faults'' CPtr,
    Fld ''total_numa_faults'' (CInt 8),
    Fld ''numa_faults_locality'' (CArr (CInt 8) 3),
    Fld ''numa_pages_migrated'' (CInt 8),
    Fld ''rseq'' CPtr,
    Fld ''rseq_len'' x86_t_u32,
    Fld ''rseq_sig'' x86_t_u32,
    Fld ''rseq_event_mask'' (CInt 8),
    Fld ''mm_cid'' (CInt 4),
    Fld ''last_mm_cid'' (CInt 4),
    Fld ''migrate_from_cpu'' (CInt 4),
    Fld ''mm_cid_active'' (CInt 4),
    Fld ''cid_work'' x86_s_callback_head,
    Fld ''tlb_ubc'' x86_s_tlbflush_unmap_batch,
    Fld ''splice_pipe'' CPtr,
    Fld ''task_frag'' x86_s_page_frag,
    Fld ''delays'' CPtr,
    Fld ''nr_dirtied'' (CInt 4),
    Fld ''nr_dirtied_pause'' (CInt 4),
    Fld ''dirty_paused_when'' (CInt 8),
    Fld ''timer_slack_ns'' x86_t_u64,
    Fld ''default_timer_slack_ns'' x86_t_u64,
    Fld ''curr_ret_stack'' (CInt 4),
    Fld ''curr_ret_depth'' (CInt 4),
    Fld ''ret_stack'' CPtr,
    Fld ''ftrace_timestamp'' (CInt 8),
    Fld ''ftrace_sleeptime'' (CInt 8),
    Fld ''trace_overrun'' x86_t_atomic_t,
    Fld ''tracing_graph_pause'' x86_t_atomic_t,
    Fld ''trace_recursion'' (CInt 8),
    Fld ''memcg_nr_pages_over_high'' (CInt 4),
    Fld ''active_memcg'' CPtr,
    Fld ''objcg'' CPtr,
    Fld ''throttle_disk'' CPtr,
    Fld ''utask'' CPtr,
    Fld ''sequential_io'' (CInt 4),
    Fld ''sequential_io_avg'' (CInt 4),
    Fld ''kmap_ctrl'' x86_s_kmap_ctrl,
    Fld ''rcu'' x86_s_callback_head,
    Fld ''rcu_users'' x86_t_refcount_t,
    Fld ''pagefault_disabled'' (CInt 4),
    Fld ''oom_reaper_list'' CPtr,
    Fld ''oom_reaper_timer'' x86_s_timer_list,
    Fld ''stack_vm_area'' CPtr,
    Fld ''stack_refcount'' x86_t_refcount_t,
    Fld ''security'' CPtr,
    Fld ''bpf_storage'' CPtr,
    Fld ''bpf_ctx'' CPtr,
    Fld ''bpf_net_context'' CPtr,
    Fld ''kstack_offset'' x86_t_u32,
    Fld ''mce_vaddr'' CPtr,
    Fld ''mce_kflags'' x86_t___u64,
    Fld ''mce_addr'' x86_t_u64,
    Bit ''mce_ripv'' x86_t___u64 1,
    Bit ''mce_whole_page'' x86_t___u64 1,
    Bit ''__mce_reserved'' x86_t___u64 62,
    Fld ''mce_kill_me'' x86_s_callback_head,
    Fld ''mce_count'' (CInt 4),
    Fld ''kretprobe_instances'' x86_s_llist_head,
    Fld ''rethooks'' x86_s_llist_head,
    Fld ''l1d_flush_kill'' x86_s_callback_head,
    Fld ''unwind_info'' x86_s_unwind_task_info,
    Fld ''thread'' x86_s_thread_struct,
    Pad (CInt 8) 64,
    Pad (CInt 8) 64,
    Pad (CInt 8) 64,
    Pad (CInt 8) 64]"

definition x86_s_task_struct :: ctype where
  "x86_s_task_struct = CStruct False (x86_s_task_struct_1 @ x86_s_task_struct_2 @ x86_s_task_struct_3)"

definition x86_e_bpf_func_id_1 :: "(string \<times> int) list" where
  "x86_e_bpf_func_id_1 = [
    (''BPF_FUNC_unspec'', 0),
    (''BPF_FUNC_map_lookup_elem'', 1),
    (''BPF_FUNC_map_update_elem'', 2),
    (''BPF_FUNC_map_delete_elem'', 3),
    (''BPF_FUNC_probe_read'', 4),
    (''BPF_FUNC_ktime_get_ns'', 5),
    (''BPF_FUNC_trace_printk'', 6),
    (''BPF_FUNC_get_prandom_u32'', 7),
    (''BPF_FUNC_get_smp_processor_id'', 8),
    (''BPF_FUNC_skb_store_bytes'', 9),
    (''BPF_FUNC_l3_csum_replace'', 10),
    (''BPF_FUNC_l4_csum_replace'', 11),
    (''BPF_FUNC_tail_call'', 12),
    (''BPF_FUNC_clone_redirect'', 13),
    (''BPF_FUNC_get_current_pid_tgid'', 14),
    (''BPF_FUNC_get_current_uid_gid'', 15),
    (''BPF_FUNC_get_current_comm'', 16),
    (''BPF_FUNC_get_cgroup_classid'', 17),
    (''BPF_FUNC_skb_vlan_push'', 18),
    (''BPF_FUNC_skb_vlan_pop'', 19),
    (''BPF_FUNC_skb_get_tunnel_key'', 20),
    (''BPF_FUNC_skb_set_tunnel_key'', 21),
    (''BPF_FUNC_perf_event_read'', 22),
    (''BPF_FUNC_redirect'', 23),
    (''BPF_FUNC_get_route_realm'', 24),
    (''BPF_FUNC_perf_event_output'', 25),
    (''BPF_FUNC_skb_load_bytes'', 26),
    (''BPF_FUNC_get_stackid'', 27),
    (''BPF_FUNC_csum_diff'', 28),
    (''BPF_FUNC_skb_get_tunnel_opt'', 29),
    (''BPF_FUNC_skb_set_tunnel_opt'', 30),
    (''BPF_FUNC_skb_change_proto'', 31),
    (''BPF_FUNC_skb_change_type'', 32),
    (''BPF_FUNC_skb_under_cgroup'', 33),
    (''BPF_FUNC_get_hash_recalc'', 34),
    (''BPF_FUNC_get_current_task'', 35),
    (''BPF_FUNC_probe_write_user'', 36),
    (''BPF_FUNC_current_task_under_cgroup'', 37),
    (''BPF_FUNC_skb_change_tail'', 38),
    (''BPF_FUNC_skb_pull_data'', 39),
    (''BPF_FUNC_csum_update'', 40),
    (''BPF_FUNC_set_hash_invalid'', 41),
    (''BPF_FUNC_get_numa_node_id'', 42),
    (''BPF_FUNC_skb_change_head'', 43),
    (''BPF_FUNC_xdp_adjust_head'', 44),
    (''BPF_FUNC_probe_read_str'', 45),
    (''BPF_FUNC_get_socket_cookie'', 46),
    (''BPF_FUNC_get_socket_uid'', 47),
    (''BPF_FUNC_set_hash'', 48),
    (''BPF_FUNC_setsockopt'', 49),
    (''BPF_FUNC_skb_adjust_room'', 50),
    (''BPF_FUNC_redirect_map'', 51),
    (''BPF_FUNC_sk_redirect_map'', 52),
    (''BPF_FUNC_sock_map_update'', 53),
    (''BPF_FUNC_xdp_adjust_meta'', 54),
    (''BPF_FUNC_perf_event_read_value'', 55),
    (''BPF_FUNC_perf_prog_read_value'', 56),
    (''BPF_FUNC_getsockopt'', 57),
    (''BPF_FUNC_override_return'', 58),
    (''BPF_FUNC_sock_ops_cb_flags_set'', 59),
    (''BPF_FUNC_msg_redirect_map'', 60),
    (''BPF_FUNC_msg_apply_bytes'', 61),
    (''BPF_FUNC_msg_cork_bytes'', 62),
    (''BPF_FUNC_msg_pull_data'', 63),
    (''BPF_FUNC_bind'', 64),
    (''BPF_FUNC_xdp_adjust_tail'', 65),
    (''BPF_FUNC_skb_get_xfrm_state'', 66),
    (''BPF_FUNC_get_stack'', 67),
    (''BPF_FUNC_skb_load_bytes_relative'', 68),
    (''BPF_FUNC_fib_lookup'', 69),
    (''BPF_FUNC_sock_hash_update'', 70),
    (''BPF_FUNC_msg_redirect_hash'', 71),
    (''BPF_FUNC_sk_redirect_hash'', 72),
    (''BPF_FUNC_lwt_push_encap'', 73),
    (''BPF_FUNC_lwt_seg6_store_bytes'', 74),
    (''BPF_FUNC_lwt_seg6_adjust_srh'', 75),
    (''BPF_FUNC_lwt_seg6_action'', 76),
    (''BPF_FUNC_rc_repeat'', 77),
    (''BPF_FUNC_rc_keydown'', 78),
    (''BPF_FUNC_skb_cgroup_id'', 79),
    (''BPF_FUNC_get_current_cgroup_id'', 80),
    (''BPF_FUNC_get_local_storage'', 81),
    (''BPF_FUNC_sk_select_reuseport'', 82),
    (''BPF_FUNC_skb_ancestor_cgroup_id'', 83),
    (''BPF_FUNC_sk_lookup_tcp'', 84),
    (''BPF_FUNC_sk_lookup_udp'', 85),
    (''BPF_FUNC_sk_release'', 86),
    (''BPF_FUNC_map_push_elem'', 87),
    (''BPF_FUNC_map_pop_elem'', 88),
    (''BPF_FUNC_map_peek_elem'', 89),
    (''BPF_FUNC_msg_push_data'', 90),
    (''BPF_FUNC_msg_pop_data'', 91),
    (''BPF_FUNC_rc_pointer_rel'', 92),
    (''BPF_FUNC_spin_lock'', 93),
    (''BPF_FUNC_spin_unlock'', 94),
    (''BPF_FUNC_sk_fullsock'', 95),
    (''BPF_FUNC_tcp_sock'', 96),
    (''BPF_FUNC_skb_ecn_set_ce'', 97),
    (''BPF_FUNC_get_listener_sock'', 98),
    (''BPF_FUNC_skc_lookup_tcp'', 99),
    (''BPF_FUNC_tcp_check_syncookie'', 100),
    (''BPF_FUNC_sysctl_get_name'', 101),
    (''BPF_FUNC_sysctl_get_current_value'', 102),
    (''BPF_FUNC_sysctl_get_new_value'', 103),
    (''BPF_FUNC_sysctl_set_new_value'', 104),
    (''BPF_FUNC_strtol'', 105),
    (''BPF_FUNC_strtoul'', 106),
    (''BPF_FUNC_sk_storage_get'', 107),
    (''BPF_FUNC_sk_storage_delete'', 108),
    (''BPF_FUNC_send_signal'', 109),
    (''BPF_FUNC_tcp_gen_syncookie'', 110),
    (''BPF_FUNC_skb_output'', 111),
    (''BPF_FUNC_probe_read_user'', 112),
    (''BPF_FUNC_probe_read_kernel'', 113),
    (''BPF_FUNC_probe_read_user_str'', 114),
    (''BPF_FUNC_probe_read_kernel_str'', 115),
    (''BPF_FUNC_tcp_send_ack'', 116),
    (''BPF_FUNC_send_signal_thread'', 117),
    (''BPF_FUNC_jiffies64'', 118),
    (''BPF_FUNC_read_branch_records'', 119)]"

definition x86_e_bpf_func_id_2 :: "(string \<times> int) list" where
  "x86_e_bpf_func_id_2 = [
    (''BPF_FUNC_get_ns_current_pid_tgid'', 120),
    (''BPF_FUNC_xdp_output'', 121),
    (''BPF_FUNC_get_netns_cookie'', 122),
    (''BPF_FUNC_get_current_ancestor_cgroup_id'', 123),
    (''BPF_FUNC_sk_assign'', 124),
    (''BPF_FUNC_ktime_get_boot_ns'', 125),
    (''BPF_FUNC_seq_printf'', 126),
    (''BPF_FUNC_seq_write'', 127),
    (''BPF_FUNC_sk_cgroup_id'', 128),
    (''BPF_FUNC_sk_ancestor_cgroup_id'', 129),
    (''BPF_FUNC_ringbuf_output'', 130),
    (''BPF_FUNC_ringbuf_reserve'', 131),
    (''BPF_FUNC_ringbuf_submit'', 132),
    (''BPF_FUNC_ringbuf_discard'', 133),
    (''BPF_FUNC_ringbuf_query'', 134),
    (''BPF_FUNC_csum_level'', 135),
    (''BPF_FUNC_skc_to_tcp6_sock'', 136),
    (''BPF_FUNC_skc_to_tcp_sock'', 137),
    (''BPF_FUNC_skc_to_tcp_timewait_sock'', 138),
    (''BPF_FUNC_skc_to_tcp_request_sock'', 139),
    (''BPF_FUNC_skc_to_udp6_sock'', 140),
    (''BPF_FUNC_get_task_stack'', 141),
    (''BPF_FUNC_load_hdr_opt'', 142),
    (''BPF_FUNC_store_hdr_opt'', 143),
    (''BPF_FUNC_reserve_hdr_opt'', 144),
    (''BPF_FUNC_inode_storage_get'', 145),
    (''BPF_FUNC_inode_storage_delete'', 146),
    (''BPF_FUNC_d_path'', 147),
    (''BPF_FUNC_copy_from_user'', 148),
    (''BPF_FUNC_snprintf_btf'', 149),
    (''BPF_FUNC_seq_printf_btf'', 150),
    (''BPF_FUNC_skb_cgroup_classid'', 151),
    (''BPF_FUNC_redirect_neigh'', 152),
    (''BPF_FUNC_per_cpu_ptr'', 153),
    (''BPF_FUNC_this_cpu_ptr'', 154),
    (''BPF_FUNC_redirect_peer'', 155),
    (''BPF_FUNC_task_storage_get'', 156),
    (''BPF_FUNC_task_storage_delete'', 157),
    (''BPF_FUNC_get_current_task_btf'', 158),
    (''BPF_FUNC_bprm_opts_set'', 159),
    (''BPF_FUNC_ktime_get_coarse_ns'', 160),
    (''BPF_FUNC_ima_inode_hash'', 161),
    (''BPF_FUNC_sock_from_file'', 162),
    (''BPF_FUNC_check_mtu'', 163),
    (''BPF_FUNC_for_each_map_elem'', 164),
    (''BPF_FUNC_snprintf'', 165),
    (''BPF_FUNC_sys_bpf'', 166),
    (''BPF_FUNC_btf_find_by_name_kind'', 167),
    (''BPF_FUNC_sys_close'', 168),
    (''BPF_FUNC_timer_init'', 169),
    (''BPF_FUNC_timer_set_callback'', 170),
    (''BPF_FUNC_timer_start'', 171),
    (''BPF_FUNC_timer_cancel'', 172),
    (''BPF_FUNC_get_func_ip'', 173),
    (''BPF_FUNC_get_attach_cookie'', 174),
    (''BPF_FUNC_task_pt_regs'', 175),
    (''BPF_FUNC_get_branch_snapshot'', 176),
    (''BPF_FUNC_trace_vprintk'', 177),
    (''BPF_FUNC_skc_to_unix_sock'', 178),
    (''BPF_FUNC_kallsyms_lookup_name'', 179),
    (''BPF_FUNC_find_vma'', 180),
    (''BPF_FUNC_loop'', 181),
    (''BPF_FUNC_strncmp'', 182),
    (''BPF_FUNC_get_func_arg'', 183),
    (''BPF_FUNC_get_func_ret'', 184),
    (''BPF_FUNC_get_func_arg_cnt'', 185),
    (''BPF_FUNC_get_retval'', 186),
    (''BPF_FUNC_set_retval'', 187),
    (''BPF_FUNC_xdp_get_buff_len'', 188),
    (''BPF_FUNC_xdp_load_bytes'', 189),
    (''BPF_FUNC_xdp_store_bytes'', 190),
    (''BPF_FUNC_copy_from_user_task'', 191),
    (''BPF_FUNC_skb_set_tstamp'', 192),
    (''BPF_FUNC_ima_file_hash'', 193),
    (''BPF_FUNC_kptr_xchg'', 194),
    (''BPF_FUNC_map_lookup_percpu_elem'', 195),
    (''BPF_FUNC_skc_to_mptcp_sock'', 196),
    (''BPF_FUNC_dynptr_from_mem'', 197),
    (''BPF_FUNC_ringbuf_reserve_dynptr'', 198),
    (''BPF_FUNC_ringbuf_submit_dynptr'', 199),
    (''BPF_FUNC_ringbuf_discard_dynptr'', 200),
    (''BPF_FUNC_dynptr_read'', 201),
    (''BPF_FUNC_dynptr_write'', 202),
    (''BPF_FUNC_dynptr_data'', 203),
    (''BPF_FUNC_tcp_raw_gen_syncookie_ipv4'', 204),
    (''BPF_FUNC_tcp_raw_gen_syncookie_ipv6'', 205),
    (''BPF_FUNC_tcp_raw_check_syncookie_ipv4'', 206),
    (''BPF_FUNC_tcp_raw_check_syncookie_ipv6'', 207),
    (''BPF_FUNC_ktime_get_tai_ns'', 208),
    (''BPF_FUNC_user_ringbuf_drain'', 209),
    (''BPF_FUNC_cgrp_storage_get'', 210),
    (''BPF_FUNC_cgrp_storage_delete'', 211),
    (''__BPF_FUNC_MAX_ID'', 212)]"

definition x86_e_bpf_func_id :: ctype where
  "x86_e_bpf_func_id = CEnum 4 (x86_e_bpf_func_id_1 @ x86_e_bpf_func_id_2)"

definition x86_e_bpf_map_type :: ctype where
  "x86_e_bpf_map_type = CEnum 4 [
    (''BPF_MAP_TYPE_UNSPEC'', 0),
    (''BPF_MAP_TYPE_HASH'', 1),
    (''BPF_MAP_TYPE_ARRAY'', 2),
    (''BPF_MAP_TYPE_PROG_ARRAY'', 3),
    (''BPF_MAP_TYPE_PERF_EVENT_ARRAY'', 4),
    (''BPF_MAP_TYPE_PERCPU_HASH'', 5),
    (''BPF_MAP_TYPE_PERCPU_ARRAY'', 6),
    (''BPF_MAP_TYPE_STACK_TRACE'', 7),
    (''BPF_MAP_TYPE_CGROUP_ARRAY'', 8),
    (''BPF_MAP_TYPE_LRU_HASH'', 9),
    (''BPF_MAP_TYPE_LRU_PERCPU_HASH'', 10),
    (''BPF_MAP_TYPE_LPM_TRIE'', 11),
    (''BPF_MAP_TYPE_ARRAY_OF_MAPS'', 12),
    (''BPF_MAP_TYPE_HASH_OF_MAPS'', 13),
    (''BPF_MAP_TYPE_DEVMAP'', 14),
    (''BPF_MAP_TYPE_SOCKMAP'', 15),
    (''BPF_MAP_TYPE_CPUMAP'', 16),
    (''BPF_MAP_TYPE_XSKMAP'', 17),
    (''BPF_MAP_TYPE_SOCKHASH'', 18),
    (''BPF_MAP_TYPE_CGROUP_STORAGE_DEPRECATED'', 19),
    (''BPF_MAP_TYPE_CGROUP_STORAGE'', 19),
    (''BPF_MAP_TYPE_REUSEPORT_SOCKARRAY'', 20),
    (''BPF_MAP_TYPE_PERCPU_CGROUP_STORAGE_DEPRECATED'', 21),
    (''BPF_MAP_TYPE_PERCPU_CGROUP_STORAGE'', 21),
    (''BPF_MAP_TYPE_QUEUE'', 22),
    (''BPF_MAP_TYPE_STACK'', 23),
    (''BPF_MAP_TYPE_SK_STORAGE'', 24),
    (''BPF_MAP_TYPE_DEVMAP_HASH'', 25),
    (''BPF_MAP_TYPE_STRUCT_OPS'', 26),
    (''BPF_MAP_TYPE_RINGBUF'', 27),
    (''BPF_MAP_TYPE_INODE_STORAGE'', 28),
    (''BPF_MAP_TYPE_TASK_STORAGE'', 29),
    (''BPF_MAP_TYPE_BLOOM_FILTER'', 30),
    (''BPF_MAP_TYPE_USER_RINGBUF'', 31),
    (''BPF_MAP_TYPE_CGRP_STORAGE'', 32),
    (''BPF_MAP_TYPE_ARENA'', 33),
    (''__MAX_BPF_MAP_TYPE'', 34)]"

definition x86_e_bpf_prog_type :: ctype where
  "x86_e_bpf_prog_type = CEnum 4 [
    (''BPF_PROG_TYPE_UNSPEC'', 0),
    (''BPF_PROG_TYPE_SOCKET_FILTER'', 1),
    (''BPF_PROG_TYPE_KPROBE'', 2),
    (''BPF_PROG_TYPE_SCHED_CLS'', 3),
    (''BPF_PROG_TYPE_SCHED_ACT'', 4),
    (''BPF_PROG_TYPE_TRACEPOINT'', 5),
    (''BPF_PROG_TYPE_XDP'', 6),
    (''BPF_PROG_TYPE_PERF_EVENT'', 7),
    (''BPF_PROG_TYPE_CGROUP_SKB'', 8),
    (''BPF_PROG_TYPE_CGROUP_SOCK'', 9),
    (''BPF_PROG_TYPE_LWT_IN'', 10),
    (''BPF_PROG_TYPE_LWT_OUT'', 11),
    (''BPF_PROG_TYPE_LWT_XMIT'', 12),
    (''BPF_PROG_TYPE_SOCK_OPS'', 13),
    (''BPF_PROG_TYPE_SK_SKB'', 14),
    (''BPF_PROG_TYPE_CGROUP_DEVICE'', 15),
    (''BPF_PROG_TYPE_SK_MSG'', 16),
    (''BPF_PROG_TYPE_RAW_TRACEPOINT'', 17),
    (''BPF_PROG_TYPE_CGROUP_SOCK_ADDR'', 18),
    (''BPF_PROG_TYPE_LWT_SEG6LOCAL'', 19),
    (''BPF_PROG_TYPE_LIRC_MODE2'', 20),
    (''BPF_PROG_TYPE_SK_REUSEPORT'', 21),
    (''BPF_PROG_TYPE_FLOW_DISSECTOR'', 22),
    (''BPF_PROG_TYPE_CGROUP_SYSCTL'', 23),
    (''BPF_PROG_TYPE_RAW_TRACEPOINT_WRITABLE'', 24),
    (''BPF_PROG_TYPE_CGROUP_SOCKOPT'', 25),
    (''BPF_PROG_TYPE_TRACING'', 26),
    (''BPF_PROG_TYPE_STRUCT_OPS'', 27),
    (''BPF_PROG_TYPE_EXT'', 28),
    (''BPF_PROG_TYPE_LSM'', 29),
    (''BPF_PROG_TYPE_SK_LOOKUP'', 30),
    (''BPF_PROG_TYPE_SYSCALL'', 31),
    (''BPF_PROG_TYPE_NETFILTER'', 32),
    (''__MAX_BPF_PROG_TYPE'', 33)]"

end
