(* ===== verification/Vmlinux_Arm_Sock.thy ===== *)
theory Vmlinux_Arm_Sock
  imports C_Layout
begin

text \<open>
  The socket types of \<open>vmlinux_arm64.h\<close>, as declared there: \<open>struct sock\<close>, which the probes
  read, the TCP and UDP sockets that contain it, and every type these contain by value, each after
  the types it uses. Structures are \<open>arm_s_\<close>, unions \<open>arm_u_\<close>, typedefs \<open>arm_t_\<close> and
  enumerations \<open>arm_e_\<close> followed by the C name; a long declaration is given in parts.
\<close>

definition arm_t___u64 :: ctype where
  "arm_t___u64 = CInt 8"

definition arm_t___addrpair :: ctype where
  "arm_t___addrpair = arm_t___u64"

definition arm_t___u32 :: ctype where
  "arm_t___u32 = CInt 4"

definition arm_t___be32 :: ctype where
  "arm_t___be32 = arm_t___u32"

definition arm_t___u16 :: ctype where
  "arm_t___u16 = CInt 2"

definition arm_t___portpair :: ctype where
  "arm_t___portpair = arm_t___u32"

definition arm_t___be16 :: ctype where
  "arm_t___be16 = arm_t___u16"

definition arm_s_hlist_node :: ctype where
  "arm_s_hlist_node = CStruct False [
    Fld ''next'' CPtr,
    Fld ''pprev'' CPtr]"

definition arm_t_possible_net_t :: ctype where
  "arm_t_possible_net_t = CStruct False [
      Fld ''net'' CPtr]"

definition arm_t___u8 :: ctype where
  "arm_t___u8 = CInt 1"

definition arm_s_in6_addr :: ctype where
  "arm_s_in6_addr = CStruct False [
    Fld ''in6_u'' (CUnion False [
      Fld ''u6_addr8'' (CArr arm_t___u8 16),
      Fld ''u6_addr16'' (CArr arm_t___be16 8),
      Fld ''u6_addr32'' (CArr arm_t___be32 4)])]"

definition arm_t___s64 :: ctype where
  "arm_t___s64 = CInt 8"

definition arm_t_s64 :: ctype where
  "arm_t_s64 = arm_t___s64"

definition arm_t_atomic64_t :: ctype where
  "arm_t_atomic64_t = CStruct False [
      Fld ''counter'' arm_t_s64]"

definition arm_s_hlist_nulls_node :: ctype where
  "arm_s_hlist_nulls_node = CStruct False [
    Fld ''next'' CPtr,
    Fld ''pprev'' CPtr]"

definition arm_t_u32 :: ctype where
  "arm_t_u32 = arm_t___u32"

definition arm_t_atomic_t :: ctype where
  "arm_t_atomic_t = CStruct False [
      Fld ''counter'' (CInt 4)]"

definition arm_s_refcount_struct :: ctype where
  "arm_s_refcount_struct = CStruct False [
    Fld ''refs'' arm_t_atomic_t]"

definition arm_t_refcount_t :: ctype where
  "arm_t_refcount_t = arm_s_refcount_struct"

definition arm_s_sock_common :: ctype where
  "arm_s_sock_common = CStruct False [
    Fld '''' (CUnion False [
      Fld ''skc_addrpair'' arm_t___addrpair,
      Fld '''' (CStruct False [
        Fld ''skc_daddr'' arm_t___be32,
        Fld ''skc_rcv_saddr'' arm_t___be32])]),
    Fld '''' (CUnion False [
      Fld ''skc_hash'' (CInt 4),
      Fld ''skc_u16hashes'' (CArr arm_t___u16 2)]),
    Fld '''' (CUnion False [
      Fld ''skc_portpair'' arm_t___portpair,
      Fld '''' (CStruct False [
        Fld ''skc_dport'' arm_t___be16,
        Fld ''skc_num'' arm_t___u16])]),
    Fld ''skc_family'' (CInt 2),
    Fld ''skc_state'' (CInt 1),
    Bit ''skc_reuse'' (CInt 1) 4,
    Bit ''skc_reuseport'' (CInt 1) 1,
    Bit ''skc_ipv6only'' (CInt 1) 1,
    Bit ''skc_net_refcnt'' (CInt 1) 1,
    Fld ''skc_bound_dev_if'' (CInt 4),
    Fld '''' (CUnion False [
      Fld ''skc_bind_node'' arm_s_hlist_node,
      Fld ''skc_portaddr_node'' arm_s_hlist_node]),
    Fld ''skc_prot'' CPtr,
    Fld ''skc_net'' arm_t_possible_net_t,
    Fld ''skc_v6_daddr'' arm_s_in6_addr,
    Fld ''skc_v6_rcv_saddr'' arm_s_in6_addr,
    Fld ''skc_cookie'' arm_t_atomic64_t,
    Fld '''' (CUnion False [
      Fld ''skc_flags'' (CInt 8),
      Fld ''skc_listener'' CPtr,
      Fld ''skc_tw_dr'' CPtr]),
    Fld ''skc_dontcopy_begin'' (CArr (CInt 4) 0),
    Fld '''' (CUnion False [
      Fld ''skc_node'' arm_s_hlist_node,
      Fld ''skc_nulls_node'' arm_s_hlist_nulls_node]),
    Fld ''skc_tx_queue_mapping'' (CInt 2),
    Fld ''skc_rx_queue_mapping'' (CInt 2),
    Fld '''' (CUnion False [
      Fld ''skc_incoming_cpu'' (CInt 4),
      Fld ''skc_rcv_wnd'' arm_t_u32,
      Fld ''skc_tw_rcv_nxt'' arm_t_u32]),
    Fld ''skc_refcnt'' arm_t_refcount_t,
    Fld ''skc_dontcopy_end'' (CArr (CInt 4) 0),
    Fld '''' (CUnion False [
      Fld ''skc_rxhash'' arm_t_u32,
      Fld ''skc_window_clamp'' arm_t_u32,
      Fld ''skc_tw_snd_nxt'' arm_t_u32])]"

definition arm_t_u8 :: ctype where
  "arm_t_u8 = arm_t___u8"

definition arm_t_u16 :: ctype where
  "arm_t_u16 = arm_t___u16"

definition arm_s_qspinlock :: ctype where
  "arm_s_qspinlock = CStruct False [
    Fld '''' (CUnion False [
      Fld ''val'' arm_t_atomic_t,
      Fld '''' (CStruct False [
        Fld ''locked'' arm_t_u8,
        Fld ''pending'' arm_t_u8]),
      Fld '''' (CStruct False [
        Fld ''locked_pending'' arm_t_u16,
        Fld ''tail'' arm_t_u16])])]"

definition arm_t_arch_spinlock_t :: ctype where
  "arm_t_arch_spinlock_t = arm_s_qspinlock"

definition arm_s_raw_spinlock :: ctype where
  "arm_s_raw_spinlock = CStruct False [
    Fld ''raw_lock'' arm_t_arch_spinlock_t]"

definition arm_s_spinlock :: ctype where
  "arm_s_spinlock = CStruct False [
    Fld '''' (CUnion False [
      Fld ''rlock'' arm_s_raw_spinlock])]"

definition arm_t_spinlock_t :: ctype where
  "arm_t_spinlock_t = arm_s_spinlock"

definition arm_s_list_head :: ctype where
  "arm_s_list_head = CStruct False [
    Fld ''next'' CPtr,
    Fld ''prev'' CPtr]"

definition arm_s_wait_queue_head :: ctype where
  "arm_s_wait_queue_head = CStruct False [
    Fld ''lock'' arm_t_spinlock_t,
    Fld ''head'' arm_s_list_head]"

definition arm_t_wait_queue_head_t :: ctype where
  "arm_t_wait_queue_head_t = arm_s_wait_queue_head"

definition arm_t_socket_lock_t :: ctype where
  "arm_t_socket_lock_t = CStruct False [
      Fld ''slock'' arm_t_spinlock_t,
      Fld ''owned'' (CInt 4),
      Fld ''wq'' arm_t_wait_queue_head_t]"

definition arm_s_sk_buff_list :: ctype where
  "arm_s_sk_buff_list = CStruct False [
    Fld ''next'' CPtr,
    Fld ''prev'' CPtr]"

definition arm_s_sk_buff_head :: ctype where
  "arm_s_sk_buff_head = CStruct False [
    Fld '''' (CUnion False [
      Fld '''' (CStruct False [
        Fld ''next'' CPtr,
        Fld ''prev'' CPtr]),
      Fld ''list'' arm_s_sk_buff_list]),
    Fld ''qlen'' arm_t___u32,
    Fld ''lock'' arm_t_spinlock_t]"

definition arm_s_rb_root :: ctype where
  "arm_s_rb_root = CStruct False [
    Fld ''rb_node'' CPtr]"

definition arm_t___s32 :: ctype where
  "arm_t___s32 = CInt 4"

definition arm_s_timer_list :: ctype where
  "arm_s_timer_list = CStruct False [
    Fld ''entry'' arm_s_hlist_node,
    Fld ''expires'' (CInt 8),
    Fld ''function'' CPtr,
    Fld ''flags'' arm_t_u32]"

definition arm_s_page_frag :: ctype where
  "arm_s_page_frag = CStruct False [
    Fld ''page'' CPtr,
    Fld ''offset'' arm_t___u32,
    Fld ''size'' arm_t___u32]"

definition arm_t_u64 :: ctype where
  "arm_t_u64 = arm_t___u64"

definition arm_t_netdev_features_t :: ctype where
  "arm_t_netdev_features_t = arm_t_u64"

definition arm_t_gfp_t :: ctype where
  "arm_t_gfp_t = CInt 4"

definition arm_s_qrwlock :: ctype where
  "arm_s_qrwlock = CStruct False [
    Fld '''' (CUnion False [
      Fld ''cnts'' arm_t_atomic_t,
      Fld '''' (CStruct False [
        Fld ''wlocked'' arm_t_u8,
        Fld ''__lstate'' (CArr arm_t_u8 3)])]),
    Fld ''wait_lock'' arm_t_arch_spinlock_t]"

definition arm_t_arch_rwlock_t :: ctype where
  "arm_t_arch_rwlock_t = arm_s_qrwlock"

definition arm_t_rwlock_t :: ctype where
  "arm_t_rwlock_t = CStruct False [
      Fld ''raw_lock'' arm_t_arch_rwlock_t]"

definition arm_t___kernel_uid32_t :: ctype where
  "arm_t___kernel_uid32_t = CInt 4"

definition arm_t_uid_t :: ctype where
  "arm_t_uid_t = arm_t___kernel_uid32_t"

definition arm_t_kuid_t :: ctype where
  "arm_t_kuid_t = CStruct False [
      Fld ''val'' arm_t_uid_t]"

definition arm_t_ktime_t :: ctype where
  "arm_t_ktime_t = arm_t_s64"

definition arm_s_sock_cgroup_data :: ctype where
  "arm_s_sock_cgroup_data = CStruct False [
    Fld ''cgroup'' CPtr,
    Fld ''classid'' arm_t_u32,
    Fld ''prioidx'' arm_t_u16]"

definition arm_s_callback_head :: ctype where
  "arm_s_callback_head = CStruct False [
    Fld ''next'' CPtr,
    Fld ''func'' CPtr]"

definition arm_t_netns_tracker :: ctype where
  "arm_t_netns_tracker = CStruct False []"

definition arm_s_sock_1 :: "cfield list" where
  "arm_s_sock_1 = [
    Fld ''__sk_common'' arm_s_sock_common,
    Fld ''sk_rx_dst'' CPtr,
    Fld ''sk_rx_dst_ifindex'' (CInt 4),
    Fld ''sk_rx_dst_cookie'' arm_t_u32,
    Fld ''sk_lock'' arm_t_socket_lock_t,
    Fld ''sk_drops'' arm_t_atomic_t,
    Fld ''sk_rcvlowat'' (CInt 4),
    Fld ''sk_error_queue'' arm_s_sk_buff_head,
    Fld ''sk_receive_queue'' arm_s_sk_buff_head,
    Fld ''sk_backlog'' (CStruct False [
      Fld ''rmem_alloc'' arm_t_atomic_t,
      Fld ''len'' (CInt 4),
      Fld ''head'' CPtr,
      Fld ''tail'' CPtr]),
    Fld ''sk_forward_alloc'' (CInt 4),
    Fld ''sk_reserved_mem'' arm_t_u32,
    Fld ''sk_ll_usec'' (CInt 4),
    Fld ''sk_napi_id'' (CInt 4),
    Fld ''sk_rcvbuf'' (CInt 4),
    Fld ''sk_disconnects'' (CInt 4),
    Fld ''sk_filter'' CPtr,
    Fld '''' (CUnion False [
      Fld ''sk_wq'' CPtr,
      Fld ''sk_wq_raw'' CPtr]),
    Fld ''sk_policy'' (CArr CPtr 2),
    Fld ''sk_dst_cache'' CPtr,
    Fld ''sk_omem_alloc'' arm_t_atomic_t,
    Fld ''sk_sndbuf'' (CInt 4),
    Fld ''sk_wmem_queued'' (CInt 4),
    Fld ''sk_wmem_alloc'' arm_t_refcount_t,
    Fld ''sk_tsq_flags'' (CInt 8),
    Fld '''' (CUnion False [
      Fld ''sk_send_head'' CPtr,
      Fld ''tcp_rtx_queue'' arm_s_rb_root]),
    Fld ''sk_write_queue'' arm_s_sk_buff_head,
    Fld ''sk_peek_off'' arm_t___s32,
    Fld ''sk_write_pending'' (CInt 4),
    Fld ''sk_dst_pending_confirm'' arm_t___u32,
    Fld ''sk_pacing_status'' arm_t_u32,
    Fld ''sk_sndtimeo'' (CInt 8),
    Fld ''sk_timer'' arm_s_timer_list,
    Fld ''sk_priority'' arm_t___u32,
    Fld ''sk_mark'' arm_t___u32,
    Fld ''sk_pacing_rate'' (CInt 8),
    Fld ''sk_max_pacing_rate'' (CInt 8),
    Fld ''sk_frag'' arm_s_page_frag,
    Fld ''sk_route_caps'' arm_t_netdev_features_t,
    Fld ''sk_gso_type'' (CInt 4),
    Fld ''sk_gso_max_size'' (CInt 4),
    Fld ''sk_allocation'' arm_t_gfp_t,
    Fld ''sk_txhash'' arm_t___u32,
    Bit ''sk_gso_disabled'' arm_t_u8 1,
    Bit ''sk_kern_sock'' arm_t_u8 1,
    Bit ''sk_no_check_tx'' arm_t_u8 1,
    Bit ''sk_no_check_rx'' arm_t_u8 1,
    Bit ''sk_userlocks'' arm_t_u8 4,
    Fld ''sk_pacing_shift'' arm_t_u8,
    Fld ''sk_type'' arm_t_u16,
    Fld ''sk_protocol'' arm_t_u16,
    Fld ''sk_gso_max_segs'' arm_t_u16,
    Fld ''sk_lingertime'' (CInt 8),
    Fld ''sk_prot_creator'' CPtr,
    Fld ''sk_callback_lock'' arm_t_rwlock_t,
    Fld ''sk_err'' (CInt 4),
    Fld ''sk_err_soft'' (CInt 4),
    Fld ''sk_ack_backlog'' arm_t_u32,
    Fld ''sk_max_ack_backlog'' arm_t_u32,
    Fld ''sk_uid'' arm_t_kuid_t,
    Fld ''sk_txrehash'' arm_t_u8,
    Fld ''sk_prefer_busy_poll'' arm_t_u8,
    Fld ''sk_busy_poll_budget'' arm_t_u16,
    Fld ''sk_peer_lock'' arm_t_spinlock_t,
    Fld ''sk_bind_phc'' (CInt 4),
    Fld ''sk_peer_pid'' CPtr,
    Fld ''sk_peer_cred'' CPtr,
    Fld ''sk_rcvtimeo'' (CInt 8),
    Fld ''sk_stamp'' arm_t_ktime_t,
    Fld ''sk_tskey'' arm_t_atomic_t,
    Fld ''sk_zckey'' arm_t_atomic_t,
    Fld ''sk_tsflags'' arm_t_u32,
    Fld ''sk_shutdown'' arm_t_u8,
    Fld ''sk_clockid'' arm_t_u8,
    Bit ''sk_txtime_deadline_mode'' arm_t_u8 1,
    Bit ''sk_txtime_report_errors'' arm_t_u8 1,
    Bit ''sk_txtime_unused'' arm_t_u8 6,
    Fld ''sk_use_task_frag'' (CInt 1),
    Fld ''sk_socket'' CPtr,
    Fld ''sk_user_data'' CPtr,
    Fld ''sk_security'' CPtr,
    Fld ''sk_cgrp_data'' arm_s_sock_cgroup_data,
    Fld ''sk_memcg'' CPtr,
    Fld ''sk_state_change'' CPtr,
    Fld ''sk_data_ready'' CPtr,
    Fld ''sk_write_space'' CPtr,
    Fld ''sk_error_report'' CPtr,
    Fld ''sk_backlog_rcv'' CPtr,
    Fld ''sk_validate_xmit_skb'' CPtr]"

definition arm_s_sock_2 :: "cfield list" where
  "arm_s_sock_2 = [
    Fld ''sk_destruct'' CPtr,
    Fld ''sk_reuseport_cb'' CPtr,
    Fld ''sk_bpf_storage'' CPtr,
    Fld ''sk_rcu'' arm_s_callback_head,
    Fld ''ns_tracker'' arm_t_netns_tracker]"

definition arm_s_sock :: ctype where
  "arm_s_sock = CStruct False (arm_s_sock_1 @ arm_s_sock_2)"

definition arm_t___s16 :: ctype where
  "arm_t___s16 = CInt 2"

definition arm_s_inet_cork :: ctype where
  "arm_s_inet_cork = CStruct False [
    Fld ''flags'' (CInt 4),
    Fld ''addr'' arm_t___be32,
    Fld ''opt'' CPtr,
    Fld ''fragsize'' (CInt 4),
    Fld ''length'' (CInt 4),
    Fld ''dst'' CPtr,
    Fld ''tx_flags'' arm_t_u8,
    Fld ''ttl'' arm_t___u8,
    Fld ''tos'' arm_t___s16,
    Fld ''priority'' (CInt 1),
    Fld ''gso_size'' arm_t___u16,
    Fld ''transmit_time'' arm_t_u64,
    Fld ''mark'' arm_t_u32]"

definition arm_t___be64 :: ctype where
  "arm_t___be64 = arm_t___u64"

definition arm_s_flowi_tunnel :: ctype where
  "arm_s_flowi_tunnel = CStruct False [
    Fld ''tun_id'' arm_t___be64]"

definition arm_s_flowi_common :: ctype where
  "arm_s_flowi_common = CStruct False [
    Fld ''flowic_oif'' (CInt 4),
    Fld ''flowic_iif'' (CInt 4),
    Fld ''flowic_l3mdev'' (CInt 4),
    Fld ''flowic_mark'' arm_t___u32,
    Fld ''flowic_tos'' arm_t___u8,
    Fld ''flowic_scope'' arm_t___u8,
    Fld ''flowic_proto'' arm_t___u8,
    Fld ''flowic_flags'' arm_t___u8,
    Fld ''flowic_secid'' arm_t___u32,
    Fld ''flowic_uid'' arm_t_kuid_t,
    Fld ''flowic_multipath_hash'' arm_t___u32,
    Fld ''flowic_tun_key'' arm_s_flowi_tunnel]"

definition arm_u_flowi_uli :: ctype where
  "arm_u_flowi_uli = CUnion False [
    Fld ''ports'' (CStruct False [
      Fld ''dport'' arm_t___be16,
      Fld ''sport'' arm_t___be16]),
    Fld ''icmpt'' (CStruct False [
      Fld ''type'' arm_t___u8,
      Fld ''code'' arm_t___u8]),
    Fld ''gre_key'' arm_t___be32,
    Fld ''mht'' (CStruct False [
      Fld ''type'' arm_t___u8])]"

definition arm_s_flowi4 :: ctype where
  "arm_s_flowi4 = CStruct False [
    Fld ''__fl_common'' arm_s_flowi_common,
    Fld ''saddr'' arm_t___be32,
    Fld ''daddr'' arm_t___be32,
    Fld ''uli'' arm_u_flowi_uli]"

definition arm_s_flowi6 :: ctype where
  "arm_s_flowi6 = CStruct False [
    Fld ''__fl_common'' arm_s_flowi_common,
    Fld ''daddr'' arm_s_in6_addr,
    Fld ''saddr'' arm_s_in6_addr,
    Fld ''flowlabel'' arm_t___be32,
    Fld ''uli'' arm_u_flowi_uli,
    Fld ''mp_hash'' arm_t___u32]"

definition arm_s_flowi :: ctype where
  "arm_s_flowi = CStruct False [
    Fld ''u'' (CUnion False [
      Fld ''__fl_common'' arm_s_flowi_common,
      Fld ''ip4'' arm_s_flowi4,
      Fld ''ip6'' arm_s_flowi6])]"

definition arm_s_inet_cork_full :: ctype where
  "arm_s_inet_cork_full = CStruct False [
    Fld ''base'' arm_s_inet_cork,
    Fld ''fl'' arm_s_flowi]"

definition arm_s_inet_sock :: ctype where
  "arm_s_inet_sock = CStruct False [
    Fld ''sk'' arm_s_sock,
    Fld ''pinet6'' CPtr,
    Fld ''inet_flags'' (CInt 8),
    Fld ''inet_saddr'' arm_t___be32,
    Fld ''uc_ttl'' arm_t___s16,
    Fld ''inet_sport'' arm_t___be16,
    Fld ''inet_opt'' CPtr,
    Fld ''inet_id'' arm_t_atomic_t,
    Fld ''tos'' arm_t___u8,
    Fld ''min_ttl'' arm_t___u8,
    Fld ''mc_ttl'' arm_t___u8,
    Fld ''pmtudisc'' arm_t___u8,
    Fld ''rcv_tos'' arm_t___u8,
    Fld ''convert_csum'' arm_t___u8,
    Fld ''uc_index'' (CInt 4),
    Fld ''mc_index'' (CInt 4),
    Fld ''mc_addr'' arm_t___be32,
    Fld ''local_port_range'' arm_t_u32,
    Fld ''mc_list'' CPtr,
    Fld ''cork'' arm_s_inet_cork_full]"

definition arm_s_fastopen_queue :: ctype where
  "arm_s_fastopen_queue = CStruct False [
    Fld ''rskq_rst_head'' CPtr,
    Fld ''rskq_rst_tail'' CPtr,
    Fld ''lock'' arm_t_spinlock_t,
    Fld ''qlen'' (CInt 4),
    Fld ''max_qlen'' (CInt 4),
    Fld ''ctx'' CPtr]"

definition arm_s_request_sock_queue :: ctype where
  "arm_s_request_sock_queue = CStruct False [
    Fld ''rskq_lock'' arm_t_spinlock_t,
    Fld ''rskq_defer_accept'' arm_t_u8,
    Fld ''synflood_warned'' arm_t_u32,
    Fld ''qlen'' arm_t_atomic_t,
    Fld ''young'' arm_t_atomic_t,
    Fld ''rskq_accept_head'' CPtr,
    Fld ''rskq_accept_tail'' CPtr,
    Fld ''fastopenq'' arm_s_fastopen_queue]"

definition arm_s_inet_connection_sock :: ctype where
  "arm_s_inet_connection_sock = CStruct False [
    Fld ''icsk_inet'' arm_s_inet_sock,
    Fld ''icsk_accept_queue'' arm_s_request_sock_queue,
    Fld ''icsk_bind_hash'' CPtr,
    Fld ''icsk_bind2_hash'' CPtr,
    Fld ''icsk_timeout'' (CInt 8),
    Fld ''icsk_retransmit_timer'' arm_s_timer_list,
    Fld ''icsk_delack_timer'' arm_s_timer_list,
    Fld ''icsk_rto'' arm_t___u32,
    Fld ''icsk_rto_min'' arm_t___u32,
    Fld ''icsk_delack_max'' arm_t___u32,
    Fld ''icsk_pmtu_cookie'' arm_t___u32,
    Fld ''icsk_ca_ops'' CPtr,
    Fld ''icsk_af_ops'' CPtr,
    Fld ''icsk_ulp_ops'' CPtr,
    Fld ''icsk_ulp_data'' CPtr,
    Fld ''icsk_clean_acked'' CPtr,
    Fld ''icsk_sync_mss'' CPtr,
    Bit ''icsk_ca_state'' arm_t___u8 5,
    Bit ''icsk_ca_initialized'' arm_t___u8 1,
    Bit ''icsk_ca_setsockopt'' arm_t___u8 1,
    Bit ''icsk_ca_dst_locked'' arm_t___u8 1,
    Fld ''icsk_retransmits'' arm_t___u8,
    Fld ''icsk_pending'' arm_t___u8,
    Fld ''icsk_backoff'' arm_t___u8,
    Fld ''icsk_syn_retries'' arm_t___u8,
    Fld ''icsk_probes_out'' arm_t___u8,
    Fld ''icsk_ext_hdr_len'' arm_t___u16,
    Fld ''icsk_ack'' (CStruct False [
      Fld ''pending'' arm_t___u8,
      Fld ''quick'' arm_t___u8,
      Fld ''pingpong'' arm_t___u8,
      Fld ''retry'' arm_t___u8,
      Bit ''ato'' arm_t___u32 8,
      Bit ''lrcv_flowlabel'' arm_t___u32 20,
      Bit ''unused'' arm_t___u32 4,
      Fld ''timeout'' (CInt 8),
      Fld ''lrcvtime'' arm_t___u32,
      Fld ''last_seg_size'' arm_t___u16,
      Fld ''rcv_mss'' arm_t___u16]),
    Fld ''icsk_mtup'' (CStruct False [
      Fld ''search_high'' (CInt 4),
      Fld ''search_low'' (CInt 4),
      Bit ''probe_size'' arm_t_u32 31,
      Bit ''enabled'' arm_t_u32 1,
      Fld ''probe_timestamp'' arm_t_u32]),
    Fld ''icsk_probes_tstamp'' arm_t_u32,
    Fld ''icsk_user_timeout'' arm_t_u32,
    Fld ''icsk_ca_priv'' (CArr arm_t_u64 13)]"

definition arm_s_minmax_sample :: ctype where
  "arm_s_minmax_sample = CStruct False [
    Fld ''t'' arm_t_u32,
    Fld ''v'' arm_t_u32]"

definition arm_s_minmax :: ctype where
  "arm_s_minmax = CStruct False [
    Fld ''s'' (CArr arm_s_minmax_sample 3)]"

definition arm_s_tcp_options_received :: ctype where
  "arm_s_tcp_options_received = CStruct False [
    Fld ''ts_recent_stamp'' (CInt 4),
    Fld ''ts_recent'' arm_t_u32,
    Fld ''rcv_tsval'' arm_t_u32,
    Fld ''rcv_tsecr'' arm_t_u32,
    Bit ''saw_tstamp'' arm_t_u16 1,
    Bit ''tstamp_ok'' arm_t_u16 1,
    Bit ''dsack'' arm_t_u16 1,
    Bit ''wscale_ok'' arm_t_u16 1,
    Bit ''sack_ok'' arm_t_u16 3,
    Bit ''smc_ok'' arm_t_u16 1,
    Bit ''snd_wscale'' arm_t_u16 4,
    Bit ''rcv_wscale'' arm_t_u16 4,
    Bit ''saw_unknown'' arm_t_u8 1,
    Bit ''unused'' arm_t_u8 7,
    Fld ''num_sacks'' arm_t_u8,
    Fld ''user_mss'' arm_t_u16,
    Fld ''mss_clamp'' arm_t_u16]"

definition arm_s_tcp_rack :: ctype where
  "arm_s_tcp_rack = CStruct False [
    Fld ''mstamp'' arm_t_u64,
    Fld ''rtt_us'' arm_t_u32,
    Fld ''end_seq'' arm_t_u32,
    Fld ''last_delivered'' arm_t_u32,
    Fld ''reo_wnd_steps'' arm_t_u8,
    Bit ''reo_wnd_persist'' arm_t_u8 5,
    Bit ''dsack_seen'' arm_t_u8 1,
    Bit ''advanced'' arm_t_u8 1]"

definition arm_s_rb_node :: ctype where
  "arm_s_rb_node = CStruct False [
    Fld ''__rb_parent_color'' (CInt 8),
    Fld ''rb_right'' CPtr,
    Fld ''rb_left'' CPtr]"

definition arm_s_timerqueue_node :: ctype where
  "arm_s_timerqueue_node = CStruct False [
    Fld ''node'' arm_s_rb_node,
    Fld ''expires'' arm_t_ktime_t]"

definition arm_s_hrtimer :: ctype where
  "arm_s_hrtimer = CStruct False [
    Fld ''node'' arm_s_timerqueue_node,
    Fld ''_softexpires'' arm_t_ktime_t,
    Fld ''function'' CPtr,
    Fld ''base'' CPtr,
    Fld ''state'' arm_t_u8,
    Fld ''is_rel'' arm_t_u8,
    Fld ''is_soft'' arm_t_u8,
    Fld ''is_hard'' arm_t_u8]"

definition arm_s_tcp_sack_block :: ctype where
  "arm_s_tcp_sack_block = CStruct False [
    Fld ''start_seq'' arm_t_u32,
    Fld ''end_seq'' arm_t_u32]"

definition arm_s_tcp_sock_1 :: "cfield list" where
  "arm_s_tcp_sock_1 = [
    Fld ''inet_conn'' arm_s_inet_connection_sock,
    Fld ''__cacheline_group_begin__tcp_sock_read_tx'' (CArr arm_t___u8 0),
    Fld ''max_window'' arm_t_u32,
    Fld ''rcv_ssthresh'' arm_t_u32,
    Fld ''reordering'' arm_t_u32,
    Fld ''notsent_lowat'' arm_t_u32,
    Fld ''gso_segs'' arm_t_u16,
    Fld ''lost_skb_hint'' CPtr,
    Fld ''retransmit_skb_hint'' CPtr,
    Fld ''__cacheline_group_end__tcp_sock_read_tx'' (CArr arm_t___u8 0),
    Fld ''__cacheline_group_begin__tcp_sock_read_txrx'' (CArr arm_t___u8 0),
    Fld ''tsoffset'' arm_t_u32,
    Fld ''snd_wnd'' arm_t_u32,
    Fld ''mss_cache'' arm_t_u32,
    Fld ''snd_cwnd'' arm_t_u32,
    Fld ''prr_out'' arm_t_u32,
    Fld ''lost_out'' arm_t_u32,
    Fld ''sacked_out'' arm_t_u32,
    Fld ''tcp_header_len'' arm_t_u16,
    Fld ''scaling_ratio'' arm_t_u8,
    Bit ''chrono_type'' arm_t_u8 2,
    Bit ''repair'' arm_t_u8 1,
    Bit ''tcp_usec_ts'' arm_t_u8 1,
    Bit ''is_sack_reneg'' arm_t_u8 1,
    Bit ''is_cwnd_limited'' arm_t_u8 1,
    Fld ''__cacheline_group_end__tcp_sock_read_txrx'' (CArr arm_t___u8 0),
    Fld ''__cacheline_group_begin__tcp_sock_read_rx'' (CArr arm_t___u8 0),
    Fld ''copied_seq'' arm_t_u32,
    Fld ''rcv_tstamp'' arm_t_u32,
    Fld ''snd_wl1'' arm_t_u32,
    Fld ''tlp_high_seq'' arm_t_u32,
    Fld ''rttvar_us'' arm_t_u32,
    Fld ''retrans_out'' arm_t_u32,
    Fld ''advmss'' arm_t_u16,
    Fld ''urg_data'' arm_t_u16,
    Fld ''lost'' arm_t_u32,
    Fld ''rtt_min'' arm_s_minmax,
    Fld ''out_of_order_queue'' arm_s_rb_root,
    Fld ''snd_ssthresh'' arm_t_u32,
    Fld ''__cacheline_group_end__tcp_sock_read_rx'' (CArr arm_t___u8 0),
    Pad (CInt 8) 64,
    Fld ''__cacheline_group_begin__tcp_sock_write_tx'' (CArr arm_t___u8 0),
    Fld ''segs_out'' arm_t_u32,
    Fld ''data_segs_out'' arm_t_u32,
    Fld ''bytes_sent'' arm_t_u64,
    Fld ''snd_sml'' arm_t_u32,
    Fld ''chrono_start'' arm_t_u32,
    Fld ''chrono_stat'' (CArr arm_t_u32 3),
    Fld ''write_seq'' arm_t_u32,
    Fld ''pushed_seq'' arm_t_u32,
    Fld ''lsndtime'' arm_t_u32,
    Fld ''mdev_us'' arm_t_u32,
    Fld ''tcp_wstamp_ns'' arm_t_u64,
    Fld ''tcp_clock_cache'' arm_t_u64,
    Fld ''tcp_mstamp'' arm_t_u64,
    Fld ''rtt_seq'' arm_t_u32,
    Fld ''tsorted_sent_queue'' arm_s_list_head,
    Fld ''highest_sack'' CPtr,
    Fld ''ecn_flags'' arm_t_u8,
    Fld ''__cacheline_group_end__tcp_sock_write_tx'' (CArr arm_t___u8 0),
    Fld ''__cacheline_group_begin__tcp_sock_write_txrx'' (CArr arm_t___u8 0),
    Fld ''pred_flags'' arm_t___be32,
    Fld ''rcv_nxt'' arm_t_u32,
    Fld ''snd_nxt'' arm_t_u32,
    Fld ''snd_una'' arm_t_u32,
    Fld ''window_clamp'' arm_t_u32,
    Fld ''srtt_us'' arm_t_u32,
    Fld ''packets_out'' arm_t_u32,
    Fld ''snd_up'' arm_t_u32,
    Fld ''delivered'' arm_t_u32,
    Fld ''delivered_ce'' arm_t_u32,
    Fld ''app_limited'' arm_t_u32,
    Fld ''rcv_wnd'' arm_t_u32,
    Fld ''rx_opt'' arm_s_tcp_options_received,
    Bit ''nonagle'' arm_t_u8 4,
    Bit ''rate_app_limited'' arm_t_u8 1,
    Fld ''__cacheline_group_end__tcp_sock_write_txrx'' (CArr arm_t___u8 0),
    Fld ''__cacheline_group_begin__tcp_sock_write_rx'' (CArr arm_t___u8 0),
    Fld ''bytes_received'' arm_t_u64,
    Fld ''segs_in'' arm_t_u32,
    Fld ''data_segs_in'' arm_t_u32,
    Fld ''rcv_wup'' arm_t_u32,
    Fld ''max_packets_out'' arm_t_u32,
    Fld ''cwnd_usage_seq'' arm_t_u32,
    Fld ''rate_delivered'' arm_t_u32,
    Fld ''rate_interval_us'' arm_t_u32,
    Fld ''rcv_rtt_last_tsecr'' arm_t_u32,
    Fld ''first_tx_mstamp'' arm_t_u64,
    Fld ''delivered_mstamp'' arm_t_u64,
    Fld ''bytes_acked'' arm_t_u64,
    Fld ''rcv_rtt_est'' (CStruct False [
      Fld ''rtt_us'' arm_t_u32,
      Fld ''seq'' arm_t_u32,
      Fld ''time'' arm_t_u64]),
    Fld ''rcvq_space'' (CStruct False [
      Fld ''space'' (CInt 4),
      Fld ''seq'' arm_t_u32,
      Fld ''time'' arm_t_u64])]"

definition arm_s_tcp_sock_2 :: "cfield list" where
  "arm_s_tcp_sock_2 = [
    Fld ''__cacheline_group_end__tcp_sock_write_rx'' (CArr arm_t___u8 0),
    Fld ''dsack_dups'' arm_t_u32,
    Fld ''last_oow_ack_time'' arm_t_u32,
    Fld ''compressed_ack_rcv_nxt'' arm_t_u32,
    Fld ''tsq_node'' arm_s_list_head,
    Fld ''rack'' arm_s_tcp_rack,
    Fld ''compressed_ack'' arm_t_u8,
    Bit ''dup_ack_counter'' arm_t_u8 2,
    Bit ''tlp_retrans'' arm_t_u8 1,
    Bit ''unused'' arm_t_u8 5,
    Bit ''thin_lto'' arm_t_u8 1,
    Bit ''recvmsg_inq'' arm_t_u8 1,
    Bit ''fastopen_connect'' arm_t_u8 1,
    Bit ''fastopen_no_cookie'' arm_t_u8 1,
    Bit ''fastopen_client_fail'' arm_t_u8 2,
    Bit ''frto'' arm_t_u8 1,
    Fld ''repair_queue'' arm_t_u8,
    Bit ''save_syn'' arm_t_u8 2,
    Bit ''syn_data'' arm_t_u8 1,
    Bit ''syn_fastopen'' arm_t_u8 1,
    Bit ''syn_fastopen_exp'' arm_t_u8 1,
    Bit ''syn_fastopen_ch'' arm_t_u8 1,
    Bit ''syn_data_acked'' arm_t_u8 1,
    Fld ''tcp_tx_delay'' arm_t_u32,
    Fld ''mdev_max_us'' arm_t_u32,
    Fld ''keepalive_probes'' arm_t_u8,
    Fld ''reord_seen'' arm_t_u32,
    Fld ''snd_cwnd_cnt'' arm_t_u32,
    Fld ''snd_cwnd_clamp'' arm_t_u32,
    Fld ''snd_cwnd_used'' arm_t_u32,
    Fld ''snd_cwnd_stamp'' arm_t_u32,
    Fld ''prior_cwnd'' arm_t_u32,
    Fld ''prr_delivered'' arm_t_u32,
    Fld ''pacing_timer'' arm_s_hrtimer,
    Fld ''compressed_ack_timer'' arm_s_hrtimer,
    Fld ''ooo_last_skb'' CPtr,
    Fld ''duplicate_sack'' (CArr arm_s_tcp_sack_block 1),
    Fld ''selective_acks'' (CArr arm_s_tcp_sack_block 4),
    Fld ''recv_sack_cache'' (CArr arm_s_tcp_sack_block 4),
    Fld ''lost_cnt_hint'' (CInt 4),
    Fld ''prior_ssthresh'' arm_t_u32,
    Fld ''high_seq'' arm_t_u32,
    Fld ''retrans_stamp'' arm_t_u32,
    Fld ''undo_marker'' arm_t_u32,
    Fld ''undo_retrans'' (CInt 4),
    Fld ''bytes_retrans'' arm_t_u64,
    Fld ''total_retrans'' arm_t_u32,
    Fld ''rto_stamp'' arm_t_u32,
    Fld ''total_rto'' arm_t_u16,
    Fld ''total_rto_recoveries'' arm_t_u16,
    Fld ''total_rto_time'' arm_t_u32,
    Fld ''urg_seq'' arm_t_u32,
    Fld ''keepalive_time'' (CInt 4),
    Fld ''keepalive_intvl'' (CInt 4),
    Fld ''linger2'' (CInt 4),
    Fld ''bpf_sock_ops_cb_flags'' arm_t_u8,
    Bit ''bpf_chg_cc_inprogress'' arm_t_u8 1,
    Fld ''timeout_rehash'' arm_t_u16,
    Fld ''rcv_ooopack'' arm_t_u32,
    Fld ''mtu_probe'' (CStruct False [
      Fld ''probe_seq_start'' arm_t_u32,
      Fld ''probe_seq_end'' arm_t_u32]),
    Fld ''plb_rehash'' arm_t_u32,
    Fld ''mtu_info'' arm_t_u32,
    Fld ''is_mptcp'' (CInt 1),
    Fld ''smc_hs_congested'' CPtr,
    Fld ''syn_smc'' (CInt 1),
    Fld ''af_specific'' CPtr,
    Fld ''md5sig_info'' CPtr,
    Fld ''ao_info'' CPtr,
    Fld ''fastopen_req'' CPtr,
    Fld ''fastopen_rsk'' CPtr,
    Fld ''saved_syn'' CPtr,
    Pad (CInt 8) 64]"

definition arm_s_tcp_sock :: ctype where
  "arm_s_tcp_sock = CStruct False (arm_s_tcp_sock_1 @ arm_s_tcp_sock_2)"

definition arm_s_in6_pktinfo :: ctype where
  "arm_s_in6_pktinfo = CStruct False [
    Fld ''ipi6_addr'' arm_s_in6_addr,
    Fld ''ipi6_ifindex'' (CInt 4)]"

definition arm_t_s16 :: ctype where
  "arm_t_s16 = arm_t___s16"

definition arm_s_inet6_cork :: ctype where
  "arm_s_inet6_cork = CStruct False [
    Fld ''opt'' CPtr,
    Fld ''hop_limit'' arm_t_u8,
    Fld ''tclass'' arm_t_u8]"

definition arm_s_ipv6_pinfo :: ctype where
  "arm_s_ipv6_pinfo = CStruct False [
    Fld ''saddr'' arm_s_in6_addr,
    Fld ''sticky_pktinfo'' arm_s_in6_pktinfo,
    Fld ''daddr_cache'' CPtr,
    Fld ''saddr_cache'' CPtr,
    Fld ''flow_label'' arm_t___be32,
    Fld ''frag_size'' arm_t___u32,
    Fld ''hop_limit'' arm_t_s16,
    Fld ''mcast_hops'' arm_t_u8,
    Fld ''ucast_oif'' (CInt 4),
    Fld ''mcast_oif'' (CInt 4),
    Fld ''rxopt'' (CUnion False [
      Fld ''bits'' (CStruct False [
        Bit ''srcrt'' arm_t___u16 1,
        Bit ''osrcrt'' arm_t___u16 1,
        Bit ''rxinfo'' arm_t___u16 1,
        Bit ''rxoinfo'' arm_t___u16 1,
        Bit ''rxhlim'' arm_t___u16 1,
        Bit ''rxohlim'' arm_t___u16 1,
        Bit ''hopopts'' arm_t___u16 1,
        Bit ''ohopopts'' arm_t___u16 1,
        Bit ''dstopts'' arm_t___u16 1,
        Bit ''odstopts'' arm_t___u16 1,
        Bit ''rxflow'' arm_t___u16 1,
        Bit ''rxtclass'' arm_t___u16 1,
        Bit ''rxpmtu'' arm_t___u16 1,
        Bit ''rxorigdstaddr'' arm_t___u16 1,
        Bit ''recvfragsize'' arm_t___u16 1]),
      Fld ''all'' arm_t___u16]),
    Fld ''srcprefs'' arm_t___u8,
    Fld ''pmtudisc'' arm_t___u8,
    Fld ''min_hopcount'' arm_t___u8,
    Fld ''tclass'' arm_t___u8,
    Fld ''rcv_flowinfo'' arm_t___be32,
    Fld ''dst_cookie'' arm_t___u32,
    Fld ''ipv6_mc_list'' CPtr,
    Fld ''ipv6_ac_list'' CPtr,
    Fld ''ipv6_fl_list'' CPtr,
    Fld ''opt'' CPtr,
    Fld ''pktoptions'' CPtr,
    Fld ''rxpmtu'' CPtr,
    Fld ''cork'' arm_s_inet6_cork]"

definition arm_s_tcp6_sock :: ctype where
  "arm_s_tcp6_sock = CStruct False [
    Fld ''tcp'' arm_s_tcp_sock,
    Fld ''inet6'' arm_s_ipv6_pinfo,
    Pad (CInt 8) 64,
    Pad (CInt 8) 64,
    Pad (CInt 8) 64,
    Pad (CInt 8) 64]"

definition arm_s_udp_sock :: ctype where
  "arm_s_udp_sock = CStruct False [
    Fld ''inet'' arm_s_inet_sock,
    Fld ''udp_flags'' (CInt 8),
    Fld ''pending'' (CInt 4),
    Fld ''encap_type'' arm_t___u8,
    Fld ''len'' arm_t___u16,
    Fld ''gso_size'' arm_t___u16,
    Fld ''pcslen'' arm_t___u16,
    Fld ''pcrlen'' arm_t___u16,
    Fld ''encap_rcv'' CPtr,
    Fld ''encap_err_rcv'' CPtr,
    Fld ''encap_err_lookup'' CPtr,
    Fld ''encap_destroy'' CPtr,
    Fld ''gro_receive'' CPtr,
    Fld ''gro_complete'' CPtr,
    Pad (CInt 8) 64,
    Pad (CInt 8) 64,
    Pad (CInt 8) 64,
    Pad (CInt 8) 64,
    Pad (CInt 8) 64,
    Fld ''reader_queue'' arm_s_sk_buff_head,
    Fld ''forward_deficit'' (CInt 4),
    Fld ''forward_threshold'' (CInt 4),
    Pad (CInt 8) 64,
    Pad (CInt 8) 64,
    Pad (CInt 8) 64,
    Pad (CInt 8) 64]"

definition arm_s_udp6_sock :: ctype where
  "arm_s_udp6_sock = CStruct False [
    Fld ''udp'' arm_s_udp_sock,
    Fld ''inet6'' arm_s_ipv6_pinfo,
    Pad (CInt 8) 64,
    Pad (CInt 8) 64,
    Pad (CInt 8) 64,
    Pad (CInt 8) 64]"

end
