(* ===== verification/Kernel_Abi.thy ===== *)
theory Kernel_Abi
  imports Bpf_Probes Vmlinux_X86_Task Vmlinux_Arm_Task "HOL-Library.Monad_Syntax"
begin

text \<open>
  What the probe program relies on in the kernel headers of both architectures: where the socket
  members lie that it reads with \<open>BPF_CORE_READ\<close>, that every TCP and UDP socket begins with a
  \<open>struct sock\<close>, the size of a task's name, and the numbers of the helpers, map types and program
  types it uses. The reads are also carried out on the raw memory of a socket.
\<close>

section \<open>Accesses of the program\<close>

text \<open>The member accesses of \<open>capture_addr\<close>, in the order of the code.\<close>

definition family_path :: "string list" where
  "family_path = [''__sk_common'', ''skc_family'']"

definition num_path :: "string list" where
  "num_path = [''__sk_common'', ''skc_num'']"

definition dport_path :: "string list" where
  "dport_path = [''__sk_common'', ''skc_dport'']"

definition daddr_path :: "string list" where
  "daddr_path = [''__sk_common'', ''skc_daddr'']"

definition v6_daddr_path :: "string list" where
  "v6_daddr_path = [''__sk_common'', ''skc_v6_daddr'', ''in6_u'', ''u6_addr8'']"

definition probe_paths :: "string list list" where
  "probe_paths = [family_path, num_path, dport_path, daddr_path, v6_daddr_path]"

text \<open>The bytes of a member in the memory of an object; \<open>None\<close> if they lie outside it.\<close>

definition field_at :: "ctype \<Rightarrow> string list \<Rightarrow> bytes \<Rightarrow> bytes option" where
  "field_at t path mem =
     (case offset_size t path of
        None \<Rightarrow> None
      | Some (off, sz) \<Rightarrow>
          if nat off + nat sz \<le> length mem then Some (slice_at (nat off) (nat sz) mem) else None)"

text \<open>What the program reads of a socket, from the socket's memory under a declaration of its type.\<close>

definition sock_at :: "ctype \<Rightarrow> bytes \<Rightarrow> c_sock option" where
  "sock_at t mem =
     do {
       family \<leftarrow> field_at t family_path mem;
       num \<leftarrow> field_at t num_path mem;
       dport \<leftarrow> field_at t dport_path mem;
       daddr \<leftarrow> field_at t daddr_path mem;
       daddr6 \<leftarrow> field_at t v6_daddr_path mem;
       Some \<lparr>skc_family = get_word family, skc_num = get_word num, skc_dport = get_word dport,
         skc_daddr = get_word daddr, skc_v6_daddr = daddr6\<rparr>
     }"

section \<open>The program's own structures\<close>

text \<open>The declarations of \<open>procnet.bpf.c\<close> in the same type language.\<close>

definition decl_ProcStartEvent :: ctype where
  "decl_ProcStartEvent = CStruct False [
    Fld ''tgid'' (CInt 4),
    Fld ''comm'' (CArr (CInt 1) 16)]"

definition decl_StatsBytes :: ctype where
  "decl_StatsBytes = CStruct False [
    Fld ''sent'' (CInt 8),
    Fld ''recv'' (CInt 8)]"

definition decl_StatsAddr :: ctype where
  "decl_StatsAddr = CStruct False [
    Fld ''dst_port'' (CInt 2),
    Fld ''src_port'' (CInt 2),
    Fld ''dst_ipv4'' (CInt 4),
    Fld ''dst_ipv6'' (CArr (CInt 1) 16)]"

definition decl_ProtocolStats :: ctype where
  "decl_ProtocolStats = CStruct False [
    Fld ''bytes'' decl_StatsBytes,
    Fld ''addr'' decl_StatsAddr]"

definition decl_ProcStats :: ctype where
  "decl_ProcStats = CStruct False [
    Fld ''tcp'' decl_ProtocolStats,
    Fld ''udp'' decl_ProtocolStats]"

section \<open>Offsets\<close>

lemma x86_probe_offsets:
  "offset_size x86_s_sock family_path = Some (16, 2)"
  "offset_size x86_s_sock num_path = Some (14, 2)"
  "offset_size x86_s_sock dport_path = Some (12, 2)"
  "offset_size x86_s_sock daddr_path = Some (0, 4)"
  "offset_size x86_s_sock v6_daddr_path = Some (56, 16)"
  by code_simp+

lemma arm_probe_offsets:
  "offset_size arm_s_sock family_path = Some (16, 2)"
  "offset_size arm_s_sock num_path = Some (14, 2)"
  "offset_size arm_s_sock dport_path = Some (12, 2)"
  "offset_size arm_s_sock daddr_path = Some (0, 4)"
  "offset_size arm_s_sock v6_daddr_path = Some (56, 16)"
  by code_simp+

lemma sock_at_offsets:
  assumes "offset_size t family_path = Some (16, 2)" "offset_size t num_path = Some (14, 2)"
    "offset_size t dport_path = Some (12, 2)" "offset_size t daddr_path = Some (0, 4)"
    "offset_size t v6_daddr_path = Some (56, 16)" and "72 \<le> length mem"
  shows "sock_at t mem = Some \<lparr>skc_family = get_word (slice_at 16 2 mem),
    skc_num = get_word (slice_at 14 2 mem), skc_dport = get_word (slice_at 12 2 mem),
    skc_daddr = get_word (slice_at 0 4 mem), skc_v6_daddr = slice_at 56 16 mem\<rparr>"
  using assms by (simp add: sock_at_def field_at_def)

lemma slice_two:
  assumes "Suc i < length bs"
  shows "slice_at i 2 bs = [bs ! i, bs ! Suc i]"
  using assms by (simp add: slice_at_def numeral_2_eq_2 Cons_nth_drop_Suc [symmetric])

lemma put_get_slice:
  assumes "off + 4 \<le> length bs"
  shows "put_word 4 (get_word (slice_at off 4 bs) :: u32) = slice_at off 4 bs"
  using put_get_word [where 'a = 32, of "slice_at off 4 bs"] assms by simp

section \<open>Properties\<close>

text \<open>
  The accesses of \<open>capture_addr\<close> are portable: the headers of both architectures place the
  five socket members at the same offsets with the same sizes, which are those of the C integers and
  the 16-byte array they are stored to.
\<close>

lemma probe_reads_portable:
  "map (offset_size x86_s_sock) probe_paths = map (offset_size arm_s_sock) probe_paths \<and>
   map (offset_size x86_s_sock) probe_paths =
     [Some (16, 2), Some (14, 2), Some (12, 2), Some (0, 4), Some (56, 16)]"
  by (simp add: probe_paths_def x86_probe_offsets arm_probe_offsets)

text \<open>
  The pointer the probes receive is one to \<open>struct sock\<close> whatever the socket's kind: the TCP
  and UDP sockets of both headers, IPv4 and IPv6, begin with one.
\<close>

lemma sockets_begin_with_sock:
  "offset_size x86_s_tcp_sock [''inet_conn'', ''icsk_inet'', ''sk''] = Some (0, csize x86_s_sock) \<and>
   offset_size x86_s_tcp6_sock [''tcp'', ''inet_conn'', ''icsk_inet'', ''sk''] = Some (0, csize x86_s_sock) \<and>
   offset_size x86_s_udp_sock [''inet'', ''sk''] = Some (0, csize x86_s_sock) \<and>
   offset_size x86_s_udp6_sock [''udp'', ''inet'', ''sk''] = Some (0, csize x86_s_sock) \<and>
   offset_size arm_s_tcp_sock [''inet_conn'', ''icsk_inet'', ''sk''] = Some (0, csize arm_s_sock) \<and>
   offset_size arm_s_tcp6_sock [''tcp'', ''inet_conn'', ''icsk_inet'', ''sk''] = Some (0, csize arm_s_sock) \<and>
   offset_size arm_s_udp_sock [''inet'', ''sk''] = Some (0, csize arm_s_sock) \<and>
   offset_size arm_s_udp6_sock [''udp'', ''inet'', ''sk''] = Some (0, csize arm_s_sock)"
  by (intro conjI; code_simp)

text \<open>
  C24. The endpoint shown is the socket's. From the raw memory of a socket of either architecture,
  \<open>capture_addr\<close> takes the destination port from the two bytes in network order, the source port as
  stored, and the destination address bytes unchanged: four for an IPv4 socket, sixteen for an IPv6
  one, none for another family.
\<close>

theorem captured_endpoint:
  assumes "bpf_kernel h" and "t = x86_s_sock \<or> t = arm_s_sock" and "72 \<le> length mem"
  shows "\<exists>sk. sock_at t mem = Some sk \<and>
    unat (c_dst_port (capture_addr h sk)) = 256 * unat (mem ! 12) + unat (mem ! 13) \<and>
    put_word 2 (c_src_port (capture_addr h sk)) = slice_at 14 2 mem \<and>
    put_word 4 (c_dst_ipv4 (capture_addr h sk)) =
      (if slice_at 16 2 mem = [2, 0] then slice_at 0 4 mem else replicate 4 0) \<and>
    c_dst_ipv6 (capture_addr h sk) =
      (if slice_at 16 2 mem = [10, 0] then slice_at 56 16 mem else replicate 16 0)"
proof -
  let ?sk = "\<lparr>skc_family = get_word (slice_at 16 2 mem),
    skc_num = get_word (slice_at 14 2 mem), skc_dport = get_word (slice_at 12 2 mem),
    skc_daddr = get_word (slice_at 0 4 mem), skc_v6_daddr = slice_at 56 16 mem\<rparr>"
  have sk: "sock_at t mem = Some ?sk"
    using assms(2,3) sock_at_offsets x86_probe_offsets arm_probe_offsets by blast
  have port: "unat (c_dst_port (capture_addr h ?sk)) = 256 * unat (mem ! 12) + unat (mem ! 13)"
    using assms(3) bpf_kernel.ntohs [OF assms(1)]
    by (simp add: capture_addr_def Let_def slice_two)
  have src: "put_word 2 (c_src_port (capture_addr h ?sk)) = slice_at 14 2 mem"
    using put_get_word [where 'a = 16, of "slice_at 14 2 mem"] assms(3)
    by (simp add: capture_addr_def Let_def)
  have fam: "get_word (slice_at 16 2 mem) = AF_INET \<longleftrightarrow> slice_at 16 2 mem = [2, 0]"
    "get_word (slice_at 16 2 mem) = AF_INET6 \<longleftrightarrow> slice_at 16 2 mem = [10, 0]"
    using put_get_word [where 'a = 16, of "slice_at 16 2 mem"] assms(3)
    by (auto simp: AF_INET_def AF_INET6_def put_word_def get_word_def eval_simps)
  have "put_word 4 (c_dst_ipv4 (capture_addr h ?sk)) =
      (if slice_at 16 2 mem = [2, 0] then slice_at 0 4 mem else replicate 4 0)"
    using assms(3) fam
    by (simp add: capture_addr_def Let_def put_get_slice empty_addr_def)
      (simp add: put_word_def eval_simps)
  moreover have "c_dst_ipv6 (capture_addr h ?sk) =
      (if slice_at 16 2 mem = [10, 0] then slice_at 56 16 mem else replicate 16 0)"
    using fam by (simp add: capture_addr_def Let_def empty_addr_def)
      (auto simp: AF_INET_def AF_INET6_def)
  ultimately show ?thesis using sk port src by blast
qed

text \<open>An IPv4 socket connected to port 443 of 192.0.2.10 from port 40000, under the x86_64 header.\<close>

definition demo_sock_mem :: bytes where
  "demo_sock_mem = [192, 0, 2, 10] @ replicate 8 0 @ [1, 187, 64, 156, 2, 0] @ replicate 54 0"

theorem captured_endpoint_witness:
  "\<exists>sk. sock_at x86_s_sock demo_sock_mem = Some sk \<and>
    unat (c_dst_port (capture_addr bounded_helpers sk)) = 443 \<and>
    put_word 4 (c_dst_ipv4 (capture_addr bounded_helpers sk)) = [192, 0, 2, 10]"
proof -
  have "72 \<le> length demo_sock_mem" by (simp add: demo_sock_mem_def)
  from captured_endpoint [OF bounded.bpf_kernel_axioms disjI1 [OF refl] this] show ?thesis
    by (auto simp: demo_sock_mem_def slice_at_def eval_simps)
qed

text \<open>
  A start record has room for exactly what the kernel provides: in both headers a task's name is
  16 bytes, the size of the record's member, and the record's members fill it without padding.
\<close>

lemma task_name_fits_record:
  "map_option snd (offset_size x86_s_task_struct [''comm'']) = Some 16 \<and>
   map_option snd (offset_size arm_s_task_struct [''comm'']) = Some 16 \<and>
   offset_size decl_ProcStartEvent [''tgid''] = Some (0, 4) \<and>
   offset_size decl_ProcStartEvent [''comm''] = Some (4, 16) \<and>
   csize decl_ProcStartEvent = int sizeof_ProcStartEvent"
  by (intro conjI; code_simp)

definition used_helpers :: "(string \<times> int) list" where
  "used_helpers = [(''BPF_FUNC_map_lookup_elem'', 1), (''BPF_FUNC_map_update_elem'', 2),
     (''BPF_FUNC_map_delete_elem'', 3), (''BPF_FUNC_get_current_pid_tgid'', 14),
     (''BPF_FUNC_get_current_comm'', 16), (''BPF_FUNC_probe_read_kernel'', 113),
     (''BPF_FUNC_ringbuf_reserve'', 131), (''BPF_FUNC_ringbuf_submit'', 132)]"

definition used_map_types :: "(string \<times> int) list" where
  "used_map_types = [(''BPF_MAP_TYPE_PERCPU_HASH'', 5), (''BPF_MAP_TYPE_LRU_HASH'', 9),
     (''BPF_MAP_TYPE_RINGBUF'', 27)]"

definition used_prog_types :: "(string \<times> int) list" where
  "used_prog_types = [(''BPF_PROG_TYPE_KPROBE'', 2), (''BPF_PROG_TYPE_RAW_TRACEPOINT'', 17)]"

text \<open>
  The numbers compiled into the program mean the same on both architectures: the helpers it
  calls, the types of its maps and the types of its programs.
\<close>

lemma numbers_portable:
  "enumerators x86_e_bpf_func_id (map snd used_helpers) = used_helpers \<and>
   enumerators arm_e_bpf_func_id (map snd used_helpers) = used_helpers \<and>
   enumerators x86_e_bpf_map_type (map snd used_map_types) = used_map_types \<and>
   enumerators arm_e_bpf_map_type (map snd used_map_types) = used_map_types \<and>
   enumerators x86_e_bpf_prog_type (map snd used_prog_types) = used_prog_types \<and>
   enumerators arm_e_bpf_prog_type (map snd used_prog_types) = used_prog_types"
  by (intro conjI; code_simp)

text \<open>
  The program's structures have the layout their byte encoding assumes: no padding, the member
  offsets that user space reads at, and the sizes the maps are declared with.
\<close>

lemma stats_layout:
  "csize decl_ProcStats = int (decl_value_size STATS_decl) \<and>
   csize decl_StatsAddr = int (decl_value_size TCP_SEND_ADDRS_decl) \<and>
   map (offset_size decl_ProcStats) [[''tcp''], [''udp'']] = [Some (0, 40), Some (40, 40)] \<and>
   map (\<lambda>m. offset_size decl_ProtocolStats [''bytes'', m]) [''sent'', ''recv''] =
     [Some (0, 8), Some (8, 8)] \<and>
   map (\<lambda>m. offset_size decl_ProtocolStats [''addr'', m])
       [''dst_port'', ''src_port'', ''dst_ipv4'', ''dst_ipv6''] =
     [Some (16, 2), Some (18, 2), Some (20, 4), Some (24, 16)]"
  by (intro conjI; code_simp)

end
