(* ===== verification/Stats.thy ===== *)
theory Stats
  imports Prelude
begin

text \<open>
  The statistics collector of the daemon (\<open>procnet-core/src/stats.rs\<close>): the Rust mirror of the C
  structures, the merge of per-CPU values, and \<open>StatsCollector\<close>, which turns the kernel's running
  totals into per-tick rows, keeps the cumulative totals of live processes, and remembers the last
  processes that died. The BPF map is reached through the \<open>StatsMap\<close> trait, so its lookup is a
  parameter.
\<close>

section \<open>Data\<close>

definition MAP_SIZE :: nat where
  "MAP_SIZE = 512"

definition DEAD_PROC_LIMIT :: nat where
  "DEAD_PROC_LIMIT = 20"

record StatsBytes =
  sent :: u64
  recv :: u64

definition StatsBytes_default :: StatsBytes where
  "StatsBytes_default = \<lparr>sent = 0, recv = 0\<rparr>"

definition combine :: "StatsBytes \<Rightarrow> u64" where
  "combine b = saturating_add (sent b) (recv b)"

definition merge :: "StatsBytes \<Rightarrow> StatsBytes \<Rightarrow> StatsBytes" where
  "merge a b = \<lparr>sent = saturating_add (sent a) (sent b), recv = saturating_add (recv a) (recv b)\<rparr>"

record StatsAddr =
  dst_port :: u16
  src_port :: u16
  dst_ipv4 :: u32
  dst_ipv6 :: bytes

definition StatsAddr_default :: StatsAddr where
  "StatsAddr_default = \<lparr>dst_port = 0, src_port = 0, dst_ipv4 = 0, dst_ipv6 = replicate 16 0\<rparr>"

record ProtocolStats =
  pbytes :: StatsBytes
  paddr :: StatsAddr

definition ProtocolStats_default :: ProtocolStats where
  "ProtocolStats_default = \<lparr>pbytes = StatsBytes_default, paddr = StatsAddr_default\<rparr>"

record ProcStats =
  tcp :: ProtocolStats
  udp :: ProtocolStats

definition ProcStats_default :: ProcStats where
  "ProcStats_default = \<lparr>tcp = ProtocolStats_default, udp = ProtocolStats_default\<rparr>"

text \<open>The trait \<open>StatsMap\<close>: the per-CPU values of a key, as raw bytes.\<close>

type_synonym stats_map = "bytes \<Rightarrow> bytes list option"

record ProcInfo =
  pi_pid :: u32
  pi_name :: rstring
  pi_tcp_cum :: StatsBytes
  pi_udp_cum :: StatsBytes

record StatsRow =
  row_pid :: u32
  row_name :: rstring
  row_tcp :: ProtocolStats
  row_udp :: ProtocolStats
  row_tcp_cum :: StatsBytes
  row_udp_cum :: StatsBytes

definition row_cum :: "StatsRow \<Rightarrow> StatsBytes \<times> StatsBytes" where
  "row_cum r = (row_tcp_cum r, row_udp_cum r)"

definition row_total :: "StatsRow \<Rightarrow> StatsBytes" where
  "row_total r = merge (pbytes (row_tcp r)) (pbytes (row_udp r))"

definition row_total_cum :: "StatsRow \<Rightarrow> StatsBytes" where
  "row_total_cum r = merge (row_tcp_cum r) (row_udp_cum r)"

text \<open>The event of \<open>procnet-core/src/events.rs\<close>.\<close>

record ProcStartEvent =
  evt_pid :: u32
  evt_name :: rstring

record StatsCollector =
  procs :: "ProcInfo list"
  dead_procs :: "ProcInfo list"

definition collector_new :: StatsCollector where
  "collector_new = \<lparr>procs = [], dead_procs = []\<rparr>"

section \<open>Reading the map\<close>

text \<open>A \<open>repr(C)\<close> structure read from its bytes: each field at its offset.\<close>

definition protocol_stats_at :: "nat \<Rightarrow> bytes \<Rightarrow> ProtocolStats" where
  "protocol_stats_at off data =
     \<lparr>pbytes = \<lparr>sent = get_word (slice_at off 8 data),
                recv = get_word (slice_at (off + 8) 8 data)\<rparr>,
      paddr = \<lparr>dst_port = get_word (slice_at (off + 16) 2 data),
               src_port = get_word (slice_at (off + 18) 2 data),
               dst_ipv4 = get_word (slice_at (off + 20) 4 data),
               dst_ipv6 = slice_at (off + 24) 16 data\<rparr>\<rparr>"

definition sizeof_ProcStats :: nat where
  "sizeof_ProcStats = 80"

definition proc_stats_from_bytes :: "bytes \<Rightarrow> ProcStats option" where
  "proc_stats_from_bytes data =
     (if length data \<noteq> sizeof_ProcStats then None
      else Some \<lparr>tcp = protocol_stats_at 0 data, udp = protocol_stats_at 40 data\<rparr>)"

definition merge_stats :: "ProtocolStats \<Rightarrow> ProtocolStats \<Rightarrow> ProtocolStats" where
  "merge_stats merged stats =
     \<lparr>pbytes = \<lparr>sent = saturating_add (sent (pbytes merged)) (sent (pbytes stats)),
                recv = saturating_add (recv (pbytes merged)) (recv (pbytes stats))\<rparr>,
      paddr = (if paddr merged = StatsAddr_default \<and> paddr stats \<noteq> StatsAddr_default
               then paddr stats else paddr merged)\<rparr>"

definition merge_value :: "ProcStats \<Rightarrow> bytes \<Rightarrow> ProcStats" where
  "merge_value merged value =
     (case proc_stats_from_bytes value of
        None \<Rightarrow> merged
      | Some v \<Rightarrow> \<lparr>tcp = merge_stats (tcp merged) (tcp v), udp = merge_stats (udp merged) (udp v)\<rparr>)"

definition merge_values_for_pid :: "stats_map \<Rightarrow> u32 \<Rightarrow> ProcStats option" where
  "merge_values_for_pid lookup_percpu pid =
     (case lookup_percpu (put_word 4 pid) of
        None \<Rightarrow> None
      | Some per_cpu_values \<Rightarrow> Some (foldl merge_value ProcStats_default per_cpu_values))"

section \<open>The collector\<close>

definition reset_proc :: "ProcInfo \<Rightarrow> ProcInfo" where
  "reset_proc p = p\<lparr>pi_tcp_cum := StatsBytes_default, pi_udp_cum := StatsBytes_default\<rparr>"

definition reset :: "StatsCollector \<Rightarrow> StatsCollector" where
  "reset c = c\<lparr>procs := map reset_proc (procs c), dead_procs := []\<rparr>"

definition make_ascii_lowercase :: "rstring \<Rightarrow> rstring" where
  "make_ascii_lowercase s = map to_ascii_lowercase s"

text \<open>\<open>iter_mut().find(p)\<close> followed by an update of the element found.\<close>

fun update_first :: "('a \<Rightarrow> bool) \<Rightarrow> ('a \<Rightarrow> 'a) \<Rightarrow> 'a list \<Rightarrow> 'a list option" where
  "update_first p f [] = None"
| "update_first p f (x # xs) =
     (if p x then Some (f x # xs) else map_option ((#) x) (update_first p f xs))"

definition apply_event :: "StatsCollector \<Rightarrow> ProcStartEvent \<Rightarrow> StatsCollector" where
  "apply_event c event =
     (let nm = make_ascii_lowercase (evt_name event) in
      case update_first (\<lambda>p. pi_pid p = evt_pid event)
             (\<lambda>p. p\<lparr>pi_name := nm, pi_tcp_cum := StatsBytes_default,
                    pi_udp_cum := StatsBytes_default\<rparr>) (procs c) of
        Some ps \<Rightarrow> c\<lparr>procs := ps\<rparr>
      | None \<Rightarrow>
          c\<lparr>procs := procs c @ [\<lparr>pi_pid = evt_pid event, pi_name = nm,
             pi_tcp_cum = StatsBytes_default, pi_udp_cum = StatsBytes_default\<rparr>]\<rparr>)"

definition delta_bytes :: "StatsBytes \<Rightarrow> StatsBytes \<Rightarrow> StatsBytes" where
  "delta_bytes new cum =
     \<lparr>sent = saturating_sub (sent new) (sent cum), recv = saturating_sub (recv new) (recv cum)\<rparr>"

definition update_proc :: "ProcStats \<Rightarrow> ProcInfo \<Rightarrow> ProcInfo" where
  "update_proc new p =
     p\<lparr>pi_tcp_cum := pbytes (tcp new), pi_udp_cum := pbytes (udp new)\<rparr>"

definition row_for :: "ProcStats \<Rightarrow> ProcInfo \<Rightarrow> StatsRow" where
  "row_for new p =
     \<lparr>row_pid = pi_pid p, row_name = pi_name p,
      row_tcp = \<lparr>pbytes = delta_bytes (pbytes (tcp new)) (pi_tcp_cum p), paddr = paddr (tcp new)\<rparr>,
      row_udp = \<lparr>pbytes = delta_bytes (pbytes (udp new)) (pi_udp_cum p), paddr = paddr (udp new)\<rparr>,
      row_tcp_cum = pbytes (tcp new), row_udp_cum = pbytes (udp new)\<rparr>"

definition push_dead :: "ProcInfo list \<Rightarrow> ProcInfo \<Rightarrow> ProcInfo list" where
  "push_dead dead p =
     (let d = dead @ [p] in if DEAD_PROC_LIMIT < length d then tl d else d)"

text \<open>The loop: \<open>idx\<close> advances over a live process, a dead one is swapped out in its place.\<close>

function collect_loop ::
    "stats_map \<Rightarrow> nat \<Rightarrow> ProcInfo list \<Rightarrow> ProcInfo list \<Rightarrow> StatsRow list
      \<Rightarrow> ProcInfo list \<times> ProcInfo list \<times> StatsRow list" where
  "collect_loop lookup_percpu idx ps dead out =
     (if idx < length ps
      then (case merge_values_for_pid lookup_percpu (pi_pid (ps ! idx)) of
              Some new_stats \<Rightarrow>
                collect_loop lookup_percpu (Suc idx) (ps[idx := update_proc new_stats (ps ! idx)])
                  dead (out @ [row_for new_stats (ps ! idx)])
            | None \<Rightarrow>
                collect_loop lookup_percpu idx (swap_remove ps idx) (push_dead dead (ps ! idx)) out)
      else (ps, dead, out))"
  by pat_completeness auto
termination
  by (relation "measure (\<lambda>(_, idx, ps, _, _). length ps - idx)")
    (auto simp: length_swap_remove)

declare collect_loop.simps [simp del]

definition collect_rows :: "stats_map \<Rightarrow> StatsCollector \<Rightarrow> StatsCollector \<times> StatsRow list" where
  "collect_rows lookup_percpu c =
     (case collect_loop lookup_percpu 0 (procs c) (dead_procs c) [] of
        (ps, dead, out) \<Rightarrow> (c\<lparr>procs := ps, dead_procs := dead\<rparr>, out))"

section \<open>Specification of collection\<close>

definition alive :: "stats_map \<Rightarrow> ProcInfo \<Rightarrow> bool" where
  "alive lookup_percpu p \<longleftrightarrow> merge_values_for_pid lookup_percpu (pi_pid p) \<noteq> None"

abbreviation stats_of :: "stats_map \<Rightarrow> ProcInfo \<Rightarrow> ProcStats" where
  "stats_of lookup_percpu p \<equiv> the (merge_values_for_pid lookup_percpu (pi_pid p))"

text \<open>The last \<open>n\<close> elements of a list.\<close>

definition last_n :: "nat \<Rightarrow> 'a list \<Rightarrow> 'a list" where
  "last_n n xs = drop (length xs - n) xs"

text \<open>
  The invariant of the collector: one entry per process, and at most \<open>DEAD_PROC_LIMIT\<close> dead ones.
\<close>

definition collector_inv :: "StatsCollector \<Rightarrow> bool" where
  "collector_inv c \<longleftrightarrow>
     distinct (map pi_pid (procs c)) \<and> length (dead_procs c) \<le> DEAD_PROC_LIMIT"

section \<open>Lemmas on merging\<close>

lemma merge_commute: "merge a b = merge b a"
  by (simp add: merge_def saturating_add_commute)

lemma merge_assoc: "merge (merge a b) c = merge a (merge b c)"
  by (simp add: merge_def saturating_add_assoc)

lemma pbytes_merge_stats: "pbytes (merge_stats a b) = merge (pbytes a) (pbytes b)"
  by (simp add: merge_stats_def merge_def)

text \<open>What one CPU's value contributes: nothing if it does not have the structure's size.\<close>

definition value_stats :: "bytes \<Rightarrow> ProcStats" where
  "value_stats v = (case proc_stats_from_bytes v of None \<Rightarrow> ProcStats_default | Some s \<Rightarrow> s)"

lemma merge_default [simp]:
  "merge a StatsBytes_default = a" "merge StatsBytes_default a = a"
  by (simp_all add: merge_def StatsBytes_default_def)

lemma tcp_merge_value: "pbytes (tcp (merge_value m v)) = merge (pbytes (tcp m)) (pbytes (tcp (value_stats v)))"
  by (simp add: merge_value_def value_stats_def pbytes_merge_stats ProcStats_default_def
      ProtocolStats_default_def split: option.split)

lemma udp_merge_value: "pbytes (udp (merge_value m v)) = merge (pbytes (udp m)) (pbytes (udp (value_stats v)))"
  by (simp add: merge_value_def value_stats_def pbytes_merge_stats ProcStats_default_def
      ProtocolStats_default_def split: option.split)

lemma unat_sent_merge: "unat (sent (merge a b)) = min (2 ^ 64 - 1) (unat (sent a) + unat (sent b))"
  by (simp add: merge_def unat_saturating_add)

lemma unat_recv_merge: "unat (recv (merge a b)) = min (2 ^ 64 - 1) (unat (recv a) + unat (recv b))"
  by (simp add: merge_def unat_saturating_add)

text \<open>A saturating fold over a list of counters is the sum, capped.\<close>

lemma saturating_fold:
  assumes "\<And>m v. unat (f (g m v)) = min (2 ^ 64 - 1) (unat (f m) + unat (w v :: u64))"
  shows "unat (f (foldl g m vs)) = min (2 ^ 64 - 1) (unat (f m :: u64) + sum_list (map (\<lambda>v. unat (w v)) vs))"
proof (induction vs arbitrary: m)
  case Nil
  show ?case using unat_lt2p [of "f m"] by simp
next
  case (Cons v vs)
  have "unat (f (foldl g m (v # vs))) =
      min (2 ^ 64 - 1) (unat (f (g m v)) + sum_list (map (\<lambda>v. unat (w v)) vs))"
    using Cons.IH by simp
  also have "\<dots> = min (2 ^ 64 - 1) (min (2 ^ 64 - 1) (unat (f m) + unat (w v))
      + sum_list (map (\<lambda>v. unat (w v)) vs))"
    by (simp only: assms)
  also have "\<dots> = min (2 ^ 64 - 1) (unat (f m) + sum_list (map (\<lambda>v. unat (w v)) (v # vs)))"
    by (auto simp: min_def)
  finally show ?case .
qed

lemma merge_value_fold:
  "unat (sent (pbytes (tcp (foldl merge_value m vs)))) = min (2 ^ 64 - 1)
     (unat (sent (pbytes (tcp m))) + sum_list (map (\<lambda>v. unat (sent (pbytes (tcp (value_stats v))))) vs))"
  "unat (recv (pbytes (tcp (foldl merge_value m vs)))) = min (2 ^ 64 - 1)
     (unat (recv (pbytes (tcp m))) + sum_list (map (\<lambda>v. unat (recv (pbytes (tcp (value_stats v))))) vs))"
  "unat (sent (pbytes (udp (foldl merge_value m vs)))) = min (2 ^ 64 - 1)
     (unat (sent (pbytes (udp m))) + sum_list (map (\<lambda>v. unat (sent (pbytes (udp (value_stats v))))) vs))"
  "unat (recv (pbytes (udp (foldl merge_value m vs)))) = min (2 ^ 64 - 1)
     (unat (recv (pbytes (udp m))) + sum_list (map (\<lambda>v. unat (recv (pbytes (udp (value_stats v))))) vs))"
  by (rule saturating_fold; simp only: tcp_merge_value udp_merge_value unat_sent_merge
      unat_recv_merge)+

section \<open>Lemmas on collection\<close>

lemma push_dead_last_n:
  assumes "length dead \<le> DEAD_PROC_LIMIT"
  shows "push_dead dead p = last_n DEAD_PROC_LIMIT (dead @ [p])"
    and "length (push_dead dead p) \<le> DEAD_PROC_LIMIT"
proof -
  show eq: "push_dead dead p = last_n DEAD_PROC_LIMIT (dead @ [p])"
  proof (cases "length dead = DEAD_PROC_LIMIT")
    case True
    then have "dead \<noteq> []" by (auto simp: DEAD_PROC_LIMIT_def)
    with True show ?thesis by (simp add: push_dead_def last_n_def drop_Suc DEAD_PROC_LIMIT_def)
  next
    case False
    with assms show ?thesis by (simp add: push_dead_def last_n_def)
  qed
  show "length (push_dead dead p) \<le> DEAD_PROC_LIMIT"
    by (simp add: eq last_n_def)
qed

lemma last_n_append: "last_n n (last_n n xs @ ys) = last_n n (xs @ ys)"
  by (cases "length xs \<le> n") (auto simp: last_n_def drop_drop add.commute)

lemma length_last_n: "length (last_n n xs) = min n (length xs)"
  by (simp add: last_n_def)

lemma foldl_push_dead:
  assumes "length dead \<le> DEAD_PROC_LIMIT"
  shows "foldl push_dead dead ds = last_n DEAD_PROC_LIMIT (dead @ ds)"
  using assms
proof (induction ds arbitrary: dead)
  case Nil
  then show ?case by (simp add: last_n_def)
next
  case (Cons d ds)
  have "foldl push_dead dead (d # ds) = last_n DEAD_PROC_LIMIT (push_dead dead d @ ds)"
    using Cons push_dead_last_n(2) by simp
  also have "\<dots> = last_n DEAD_PROC_LIMIT ((dead @ [d]) @ ds)"
    using Cons.prems by (simp only: push_dead_last_n(1) last_n_append)
  finally show ?case by simp
qed

lemma mset_drop_swap_remove:
  assumes "i < length xs"
  shows "mset (drop i xs) = add_mset (xs ! i) (mset (drop i (swap_remove xs i)))"
proof -
  have "mset (take i xs) + mset (drop i xs) = mset xs"
    by (metis append_take_drop_id mset_append)
  also have "\<dots> = add_mset (xs ! i) (mset (swap_remove xs i))"
    using assms by (rule mset_swap_remove)
  also have "mset (swap_remove xs i) = mset (take i xs) + mset (drop i (swap_remove xs i))"
    using assms by (metis append_take_drop_id mset_append take_swap_remove)
  finally show ?thesis by simp
qed

text \<open>
  What the sweep from position \<open>idx\<close> on amounts to: the processes with a map entry stay, in some
  order, each with its row; the others go to the dead list.
\<close>

definition sweeps :: "stats_map \<Rightarrow> nat \<Rightarrow> ProcInfo list \<Rightarrow> ProcInfo list \<Rightarrow> StatsRow list \<Rightarrow>
    ProcInfo list \<times> ProcInfo list \<times> StatsRow list \<Rightarrow> bool" where
  "sweeps L idx ps dead out res \<longleftrightarrow>
     (\<exists>live ds. mset live = filter_mset (alive L) (mset (drop idx ps)) \<and>
       mset ds = filter_mset (\<lambda>p. \<not> alive L p) (mset (drop idx ps)) \<and>
       res = (take idx ps @ map (\<lambda>p. update_proc (stats_of L p) p) live, foldl push_dead dead ds,
         out @ map (\<lambda>p. row_for (stats_of L p) p) live))"

lemma sweeps_live:
  assumes "idx < length ps" and "merge_values_for_pid L (pi_pid (ps ! idx)) = Some st"
    and "sweeps L (Suc idx) (ps[idx := update_proc st (ps ! idx)]) dead (out @ [row_for st (ps ! idx)]) res"
  shows "sweeps L idx ps dead out res"
proof -
  from assms obtain live ds where rest:
    "mset live = filter_mset (alive L) (mset (drop (Suc idx) ps))"
    "mset ds = filter_mset (\<lambda>p. \<not> alive L p) (mset (drop (Suc idx) ps))"
    "res = (take (Suc idx) (ps[idx := update_proc st (ps ! idx)]) @
        map (\<lambda>p. update_proc (stats_of L p) p) live, foldl push_dead dead ds,
      (out @ [row_for st (ps ! idx)]) @ map (\<lambda>p. row_for (stats_of L p) p) live)"
    by (auto simp: sweeps_def)
  have "drop idx ps = ps ! idx # drop (Suc idx) ps" using assms(1) by (simp add: Cons_nth_drop_Suc)
  moreover have "alive L (ps ! idx)" using assms(2) by (simp add: alive_def)
  ultimately show ?thesis
    unfolding sweeps_def using rest assms(1,2)
    by (intro exI [of _ ds, THEN exI [of _ "ps ! idx # live"]]) (simp add: take_Suc_conv_app_nth)
qed

lemma sweeps_gone:
  assumes "idx < length ps" and "merge_values_for_pid L (pi_pid (ps ! idx)) = None"
    and "sweeps L idx (swap_remove ps idx) (push_dead dead (ps ! idx)) out res"
  shows "sweeps L idx ps dead out res"
proof -
  from assms(3) obtain live ds where rest:
    "mset live = filter_mset (alive L) (mset (drop idx (swap_remove ps idx)))"
    "mset ds = filter_mset (\<lambda>p. \<not> alive L p) (mset (drop idx (swap_remove ps idx)))"
    "res = (take idx (swap_remove ps idx) @ map (\<lambda>p. update_proc (stats_of L p) p) live,
      foldl push_dead (push_dead dead (ps ! idx)) ds,
      out @ map (\<lambda>p. row_for (stats_of L p) p) live)"
    by (auto simp: sweeps_def)
  moreover have "\<not> alive L (ps ! idx)" using assms(2) by (simp add: alive_def)
  ultimately show ?thesis
    unfolding sweeps_def using assms(1,2)
    by (intro exI [of _ "ps ! idx # ds", THEN exI [of _ live]])
      (simp add: take_swap_remove mset_drop_swap_remove)
qed

lemma collect_loop_spec:
  "idx \<le> length ps \<Longrightarrow> sweeps L idx ps dead out (collect_loop L idx ps dead out)"
proof (induction L idx ps dead out rule: collect_loop.induct)
  case (1 L idx ps dead out)
  show ?case
  proof (cases "idx < length ps")
    case False
    with "1.prems" show ?thesis by (simp add: sweeps_def collect_loop.simps)
  next
    case lt: True
    show ?thesis
    proof (cases "merge_values_for_pid L (pi_pid (ps ! idx))")
      case (Some st)
      with "1.IH"(2) [OF lt Some] lt show ?thesis
        by (intro sweeps_live [OF lt Some]) (simp add: collect_loop.simps [of L idx ps])
    next
      case None
      with "1.IH"(1) [OF lt None] lt show ?thesis
        by (intro sweeps_gone [OF lt None])
          (simp add: collect_loop.simps [of L idx ps] length_swap_remove)
    qed
  qed
qed

lemma collect_rows_spec:
  assumes "length (dead_procs c) \<le> DEAD_PROC_LIMIT"
  shows "\<exists>live ds. mset live = filter_mset (alive L) (mset (procs c)) \<and>
    mset ds = filter_mset (\<lambda>p. \<not> alive L p) (mset (procs c)) \<and>
    procs (fst (collect_rows L c)) = map (\<lambda>p. update_proc (stats_of L p) p) live \<and>
    dead_procs (fst (collect_rows L c)) = last_n DEAD_PROC_LIMIT (dead_procs c @ ds) \<and>
    snd (collect_rows L c) = map (\<lambda>p. row_for (stats_of L p) p) live"
proof -
  from collect_loop_spec [of 0 "procs c" L "dead_procs c" "[]"] obtain live ds where
    "mset live = filter_mset (alive L) (mset (procs c))"
    "mset ds = filter_mset (\<lambda>p. \<not> alive L p) (mset (procs c))"
    "collect_loop L 0 (procs c) (dead_procs c) [] =
      (map (\<lambda>p. update_proc (stats_of L p) p) live, foldl push_dead (dead_procs c) ds,
       map (\<lambda>p. row_for (stats_of L p) p) live)"
    by (auto simp: sweeps_def)
  then show ?thesis
    by (intro exI [of _ ds, THEN exI [of _ live]])
      (simp add: collect_rows_def foldl_push_dead [OF assms])
qed

text \<open>The entry of a process, if the collector has one.\<close>

definition proc_of :: "StatsCollector \<Rightarrow> u32 \<Rightarrow> ProcInfo option" where
  "proc_of c q = find (\<lambda>p. pi_pid p = q) (procs c)"

lemma update_first_None: "update_first p f xs = None \<longleftrightarrow> (\<forall>x \<in> set xs. \<not> p x)"
  by (induction xs) auto

lemma update_first_map:
  assumes "update_first p f xs = Some ys" and "\<And>x. g (f x) = g x"
  shows "map g ys = map g xs"
  using assms(1) by (induction xs arbitrary: ys) (auto simp: assms(2) split: if_splits)

lemma update_first_find:
  assumes "update_first (\<lambda>p. pi_pid p = q) f xs = Some ys" and "\<And>p. pi_pid (f p) = pi_pid p"
  shows "find (\<lambda>p. pi_pid p = q') ys =
    (if q' = q then map_option f (find (\<lambda>p. pi_pid p = q) xs) else find (\<lambda>p. pi_pid p = q') xs)"
  using assms(1) by (induction xs arbitrary: ys) (auto simp: assms(2) split: if_splits)

lemma find_None_pid: "find (\<lambda>p. pi_pid p = q) xs = None \<longleftrightarrow> q \<notin> pi_pid ` set xs"
  by (auto simp: find_None_iff)

lemma find_append: "find P (xs @ ys) = (case find P xs of None \<Rightarrow> find P ys | Some x \<Rightarrow> Some x)"
  by (induction xs) auto

lemma apply_event_proc_of:
  "proc_of (apply_event c e) q =
     (if q = evt_pid e
      then Some \<lparr>pi_pid = q, pi_name = make_ascii_lowercase (evt_name e),
             pi_tcp_cum = StatsBytes_default, pi_udp_cum = StatsBytes_default\<rparr>
      else proc_of c q)"
proof (cases "update_first (\<lambda>p. pi_pid p = evt_pid e)
    (\<lambda>p. p\<lparr>pi_name := make_ascii_lowercase (evt_name e), pi_tcp_cum := StatsBytes_default,
           pi_udp_cum := StatsBytes_default\<rparr>) (procs c)")
  case None
  then have "find (\<lambda>p. pi_pid p = evt_pid e) (procs c) = None"
    by (auto simp: update_first_None find_None_pid)
  with None show ?thesis
    by (auto simp: apply_event_def proc_of_def find_append split: option.split)
next
  case (Some ps)
  have "\<exists>p. find (\<lambda>p. pi_pid p = evt_pid e) (procs c) = Some p \<and> pi_pid p = evt_pid e"
  proof (cases "find (\<lambda>p. pi_pid p = evt_pid e) (procs c)")
    case None
    then have "update_first (\<lambda>p. pi_pid p = evt_pid e)
        (\<lambda>p. p\<lparr>pi_name := make_ascii_lowercase (evt_name e), pi_tcp_cum := StatsBytes_default,
           pi_udp_cum := StatsBytes_default\<rparr>) (procs c) = None"
      by (force simp: update_first_None find_None_pid)
    with Some show ?thesis by simp
  next
    case (Some p)
    then show ?thesis by (auto simp: find_Some_iff)
  qed
  with Some update_first_find [OF Some, of q] show ?thesis
    by (auto simp: apply_event_def proc_of_def)
qed

lemma apply_event_inv: "collector_inv c \<Longrightarrow> collector_inv (apply_event c e)"
  by (auto simp: collector_inv_def apply_event_def Let_def update_first_None
      dest: update_first_map [where g = pi_pid] split: option.split)

lemma reset_inv: "collector_inv c \<Longrightarrow> collector_inv (reset c)"
  by (simp add: collector_inv_def reset_def reset_proc_def comp_def)

lemma new_inv: "collector_inv collector_new"
  by (simp add: collector_inv_def collector_new_def)

lemma update_proc_pid [simp]: "pi_pid (update_proc st p) = pi_pid p"
  by (simp add: update_proc_def)

lemma collect_rows_inv:
  assumes "collector_inv c"
  shows "collector_inv (fst (collect_rows L c))"
proof -
  from assms collect_rows_spec [of c L] obtain live ds where sp:
    "mset live = filter_mset (alive L) (mset (procs c))"
    "procs (fst (collect_rows L c)) = map (\<lambda>p. update_proc (stats_of L p) p) live"
    "dead_procs (fst (collect_rows L c)) = last_n DEAD_PROC_LIMIT (dead_procs c @ ds)"
    by (auto simp: collector_inv_def)
  have "mset (map pi_pid live) \<subseteq># mset (map pi_pid (procs c))"
    using sp(1) by (simp add: image_mset_subseteq_mono)
  then have "distinct (map pi_pid live)"
    using assms by (metis collector_inv_def distinct_append mset_append mset_eq_imp_distinct_iff
        mset_subset_eq_exists_conv ex_mset)
  with sp show ?thesis
    by (simp add: collector_inv_def comp_def length_last_n)
qed

text \<open>The four counters of a process, in the kernel's value, the entry and the row.\<close>

datatype field = TcpSent | TcpRecv | UdpSent | UdpRecv

fun stat_field :: "field \<Rightarrow> ProcStats \<Rightarrow> u64" where
  "stat_field TcpSent s = sent (pbytes (tcp s))"
| "stat_field TcpRecv s = recv (pbytes (tcp s))"
| "stat_field UdpSent s = sent (pbytes (udp s))"
| "stat_field UdpRecv s = recv (pbytes (udp s))"

fun cum_field :: "field \<Rightarrow> ProcInfo \<Rightarrow> u64" where
  "cum_field TcpSent p = sent (pi_tcp_cum p)"
| "cum_field TcpRecv p = recv (pi_tcp_cum p)"
| "cum_field UdpSent p = sent (pi_udp_cum p)"
| "cum_field UdpRecv p = recv (pi_udp_cum p)"

fun row_field :: "field \<Rightarrow> StatsRow \<Rightarrow> u64" where
  "row_field TcpSent r = sent (pbytes (row_tcp r))"
| "row_field TcpRecv r = recv (pbytes (row_tcp r))"
| "row_field UdpSent r = sent (pbytes (row_udp r))"
| "row_field UdpRecv r = recv (pbytes (row_udp r))"

lemma row_field_row_for [simp]:
  "row_field f (row_for st p) = saturating_sub (stat_field f st) (cum_field f p)"
  by (cases f) (simp_all add: row_for_def delta_bytes_def)

lemma cum_field_update_proc [simp]: "cum_field f (update_proc st p) = stat_field f st"
  by (cases f) (simp_all add: update_proc_def)

lemma stat_field_fold:
  "unat (stat_field f (foldl merge_value ProcStats_default vs)) =
     min (2 ^ 64 - 1) (sum_list (map (\<lambda>v. unat (stat_field f (value_stats v))) vs))"
  by (cases f) (simp_all add: merge_value_fold ProcStats_default_def ProtocolStats_default_def
      StatsBytes_default_def)

text \<open>A run of ticks with no events in between: the rows of each tick, in order.\<close>

fun ticks :: "stats_map list \<Rightarrow> StatsCollector \<Rightarrow> StatsCollector \<times> StatsRow list list" where
  "ticks [] c = (c, [])"
| "ticks (L # Ls) c =
     (let (c', rows) = collect_rows L c; (c'', rest) = ticks Ls c' in (c'', rows # rest))"

definition reported :: "field \<Rightarrow> u32 \<Rightarrow> StatsRow list \<Rightarrow> nat" where
  "reported f q rows = sum_list (map (\<lambda>r. unat (row_field f r)) (filter (\<lambda>r. row_pid r = q) rows))"

text \<open>The process is in every map of the list and its counter never goes down.\<close>

fun monotone_counter :: "field \<Rightarrow> u32 \<Rightarrow> u64 \<Rightarrow> stats_map list \<Rightarrow> bool" where
  "monotone_counter f q x [] = True"
| "monotone_counter f q x (L # Ls) =
     (case merge_values_for_pid L q of
        None \<Rightarrow> False
      | Some st \<Rightarrow> x \<le> stat_field f st \<and> monotone_counter f q (stat_field f st) Ls)"

lemma filter_pid_unique:
  assumes "distinct (map pi_pid ps)" and "p \<in> set ps" and "pi_pid p = q"
  shows "filter (\<lambda>x. pi_pid x = q) ps = [p]"
  using assms
proof (induction ps)
  case Nil
  then show ?case by simp
next
  case (Cons a ps)
  then show ?case
    by (cases "a = p") (auto simp: filter_empty_conv image_iff)
qed

lemma find_unique:
  assumes "distinct (map pi_pid ps)" and "p \<in> set ps" and "pi_pid p = q"
  shows "find (\<lambda>x. pi_pid x = q) ps = Some p"
proof -
  have "find (\<lambda>x. pi_pid x = q) ps = (case filter (\<lambda>x. pi_pid x = q) ps of [] \<Rightarrow> None | x # _ \<Rightarrow> Some x)"
    by (induction ps) auto
  with filter_pid_unique [OF assms] show ?thesis by simp
qed

lemma proc_of_Some: "proc_of c q = Some p \<Longrightarrow> p \<in> set (procs c) \<and> pi_pid p = q"
  by (auto simp: proc_of_def find_Some_iff)

text \<open>One tick, seen from a live process: one row, and its entry updated.\<close>

lemma collect_rows_live:
  assumes "collector_inv c" and "proc_of c q = Some p" and "merge_values_for_pid L q = Some st"
  shows "proc_of (fst (collect_rows L c)) q = Some (update_proc st p)"
    and "filter (\<lambda>r. row_pid r = q) (snd (collect_rows L c)) = [row_for st p]"
proof -
  from assms(1) collect_rows_spec [of c L] obtain live where sp:
    "mset live = filter_mset (alive L) (mset (procs c))"
    "procs (fst (collect_rows L c)) = map (\<lambda>p. update_proc (stats_of L p) p) live"
    "snd (collect_rows L c) = map (\<lambda>p. row_for (stats_of L p) p) live"
    by (auto simp: collector_inv_def)
  from proc_of_Some [OF assms(2)] have p: "p \<in> set (procs c)" "pi_pid p = q" by auto
  with assms(3) have "alive L p" by (simp add: alive_def)
  with p sp(1) have "p \<in># mset live" by simp
  then have live: "p \<in> set live" by simp
  have inv: "collector_inv (fst (collect_rows L c))"
    using assms(1) by (rule collect_rows_inv)
  with sp(2) have dist: "distinct (map pi_pid live)" by (simp add: collector_inv_def comp_def)
  have "update_proc (stats_of L p) p \<in> set (procs (fst (collect_rows L c)))"
    using live sp(2) by simp
  then have "update_proc st p \<in> set (procs (fst (collect_rows L c)))"
    using p(2) assms(3) by simp
  with inv p(2) show "proc_of (fst (collect_rows L c)) q = Some (update_proc st p)"
    unfolding proc_of_def by (intro find_unique) (simp_all add: collector_inv_def)
  have "filter (\<lambda>r. row_pid r = q) (snd (collect_rows L c)) =
      map (\<lambda>p. row_for (stats_of L p) p) (filter (\<lambda>p. pi_pid p = q) live)"
    by (simp add: sp(3) filter_map comp_def row_for_def)
  with filter_pid_unique [OF dist live p(2)] p assms(3)
  show "filter (\<lambda>r. row_pid r = q) (snd (collect_rows L c)) = [row_for st p]" by simp
qed

text \<open>
  Nothing is reported twice or lost between ticks: while a process stays in the map and its
  counter does not go down, the deltas reported for it over any number of ticks add up to the
  growth of its cumulative total.
\<close>

lemma deltas_add_up:
  assumes "collector_inv c" and "proc_of c q = Some p"
    and "monotone_counter f q (cum_field f p) Ls"
  shows "\<exists>p'. proc_of (fst (ticks Ls c)) q = Some p' \<and>
    unat (cum_field f p') =
      unat (cum_field f p) + sum_list (map (reported f q) (snd (ticks Ls c)))"
  using assms
proof (induction Ls arbitrary: c p)
  case Nil
  then show ?case by simp
next
  case (Cons L Ls)
  then obtain st where st: "merge_values_for_pid L q = Some st" "cum_field f p \<le> stat_field f st"
    "monotone_counter f q (stat_field f st) Ls"
    by (auto split: option.splits)
  obtain c' rows where cr: "collect_rows L c = (c', rows)" by fastforce
  obtain c'' rest where tk: "ticks Ls c' = (c'', rest)" by fastforce
  from collect_rows_live [OF Cons.prems(1,2) st(1)] cr
  have c': "proc_of c' q = Some (update_proc st p)"
    and row: "filter (\<lambda>r. row_pid r = q) rows = [row_for st p]" by auto
  have "collector_inv c'" using collect_rows_inv [OF Cons.prems(1), of L] cr by simp
  from Cons.IH [OF this c'] st(3) tk obtain p' where
    "proc_of c'' q = Some p'"
    "unat (cum_field f p') = unat (stat_field f st) + sum_list (map (reported f q) rest)"
    by auto
  moreover have "reported f q rows = unat (stat_field f st) - unat (cum_field f p)"
    by (simp add: reported_def row unat_saturating_sub)
  moreover have "unat (cum_field f p) \<le> unat (stat_field f st)"
    using st(2) by (simp add: word_le_nat_alt)
  ultimately show ?case using cr tk by simp
qed

text \<open>
  Zeroing the totals of the entries not yet visited changes neither the entries nor the cumulative
  columns the loop produces.
\<close>

lemma row_cum_row_for [simp]: "row_cum (row_for st p) = (pbytes (tcp st), pbytes (udp st))"
  by (simp add: row_cum_def row_for_def)

lemma collect_loop_forgets_totals:
  assumes "map pi_pid ps' = map pi_pid ps" and "map pi_name ps' = map pi_name ps"
    and "take idx ps' = take idx ps" and "map row_cum out' = map row_cum out"
  shows "fst (collect_loop L idx ps' dead' out') = fst (collect_loop L idx ps dead out) \<and>
    map row_cum (snd (snd (collect_loop L idx ps' dead' out'))) =
      map row_cum (snd (snd (collect_loop L idx ps dead out)))"
  using assms
proof (induction L idx ps dead out arbitrary: ps' dead' out' rule: collect_loop.induct)
  case (1 L idx ps dead out)
  have len: "length ps' = length ps" using "1.prems"(1) by (metis length_map)
  show ?case
  proof (cases "idx < length ps")
    case False
    with "1.prems" len show ?thesis by (simp add: collect_loop.simps)
  next
    case lt: True
    then have same: "pi_pid (ps' ! idx) = pi_pid (ps ! idx)" "pi_name (ps' ! idx) = pi_name (ps ! idx)"
      using "1.prems"(1,2) len by (metis nth_map)+
    show ?thesis
    proof (cases "merge_values_for_pid L (pi_pid (ps ! idx))")
      case (Some st)
      have upd: "update_proc st (ps' ! idx) = update_proc st (ps ! idx)"
        using same by (simp add: update_proc_def)
      have "map row_cum (out' @ [row_for st (ps' ! idx)]) = map row_cum (out @ [row_for st (ps ! idx)])"
        using "1.prems"(4) by simp
      moreover have "take (Suc idx) (ps'[idx := update_proc st (ps ! idx)]) =
          take (Suc idx) (ps[idx := update_proc st (ps ! idx)])"
        using lt len "1.prems"(3) by (simp add: take_Suc_conv_app_nth)
      ultimately show ?thesis
        using "1.IH"(2) [OF lt Some, of "ps'[idx := update_proc st (ps ! idx)]"] "1.prems" lt len Some
          same upd
        by (simp add: collect_loop.simps [of L idx ps] collect_loop.simps [of L idx ps'] map_update)
    next
      case None
      then show ?thesis
        using "1.IH"(1) [OF lt None, of "swap_remove ps' idx"] "1.prems" lt len None same
        by (simp add: collect_loop.simps [of L idx ps] collect_loop.simps [of L idx ps']
            take_swap_remove map_swap_remove)
    qed
  qed
qed

lemma reset_proc_fields [simp]:
  "pi_pid (reset_proc p) = pi_pid p" "pi_name (reset_proc p) = pi_name p"
  by (simp_all add: reset_proc_def)

lemma fold_first_address:
  assumes "\<And>m v. a (g m v) = (if a m = d \<and> w v \<noteq> d then w v else a m)"
  shows "a (foldl g m vs) = (if a m \<noteq> d then a m
    else case find (\<lambda>x. x \<noteq> d) (map w vs) of None \<Rightarrow> d | Some x \<Rightarrow> x)"
  by (induction vs arbitrary: m) (auto simp: assms)

lemma merge_value_addr:
  "paddr (tcp (merge_value m v)) =
     (if paddr (tcp m) = StatsAddr_default \<and> paddr (tcp (value_stats v)) \<noteq> StatsAddr_default
      then paddr (tcp (value_stats v)) else paddr (tcp m))"
  "paddr (udp (merge_value m v)) =
     (if paddr (udp m) = StatsAddr_default \<and> paddr (udp (value_stats v)) \<noteq> StatsAddr_default
      then paddr (udp (value_stats v)) else paddr (udp m))"
  by (simp_all add: merge_value_def value_stats_def merge_stats_def ProcStats_default_def
      ProtocolStats_default_def split: option.split)

section \<open>What a tick reports\<close>

text \<open>The cumulative columns of a row.\<close>

fun row_cum_field :: "field \<Rightarrow> StatsRow \<Rightarrow> u64" where
  "row_cum_field TcpSent r = sent (fst (row_cum r))"
| "row_cum_field TcpRecv r = recv (fst (row_cum r))"
| "row_cum_field UdpSent r = sent (snd (row_cum r))"
| "row_cum_field UdpRecv r = recv (snd (row_cum r))"

lemma row_cum_field_row_for [simp]: "row_cum_field f (row_for st p) = stat_field f st"
  by (cases f) simp_all

type_synonym totals = "field \<Rightarrow> nat"

text \<open>
  What a map says of a process: each counter summed over the CPUs, and no more than 64 bits can show.
\<close>

definition reading :: "stats_map \<Rightarrow> u32 \<Rightarrow> totals option" where
  "reading lookup q = map_option
     (\<lambda>vs f. min (2 ^ 64 - 1) (sum_list (map (\<lambda>v. unat (stat_field f (value_stats v))) vs)))
     (lookup (put_word 4 q))"

text \<open>The endpoint of a protocol: the first one that some CPU's value has.\<close>

definition first_endpoint :: "(ProcStats \<Rightarrow> ProtocolStats) \<Rightarrow> stats_map \<Rightarrow> u32 \<Rightarrow> StatsAddr" where
  "first_endpoint proto lookup q =
     (case lookup (put_word 4 q) of
        None \<Rightarrow> StatsAddr_default
      | Some vs \<Rightarrow>
          (case find (\<lambda>a. a \<noteq> StatsAddr_default) (map (\<lambda>v. paddr (proto (value_stats v))) vs) of
             None \<Rightarrow> StatsAddr_default | Some a \<Rightarrow> a))"

text \<open>What a tick makes of an entry, and what the row says that it prints for it.\<close>

definition entry_updated :: "stats_map \<Rightarrow> ProcInfo \<Rightarrow> ProcInfo \<Rightarrow> bool" where
  "entry_updated lookup p p' \<longleftrightarrow>
     pi_pid p' = pi_pid p \<and> pi_name p' = pi_name p
     \<and> reading lookup (pi_pid p) = Some (\<lambda>f. unat (cum_field f p'))"

definition row_reports :: "stats_map \<Rightarrow> ProcInfo \<Rightarrow> StatsRow \<Rightarrow> bool" where
  "row_reports lookup p r \<longleftrightarrow>
     row_pid r = pi_pid p \<and> row_name r = pi_name p
     \<and> reading lookup (pi_pid p) = Some (\<lambda>f. unat (row_cum_field f r))
     \<and> (\<forall>f. unat (row_field f r) = unat (row_cum_field f r) - unat (cum_field f p))
     \<and> paddr (row_tcp r) = first_endpoint tcp lookup (pi_pid p)
     \<and> paddr (row_udp r) = first_endpoint udp lookup (pi_pid p)"

lemma reading_merge:
  "reading lookup q = map_option (\<lambda>st f. unat (stat_field f st)) (merge_values_for_pid lookup q)"
  by (simp add: reading_def merge_values_for_pid_def stat_field_fold option.map_comp comp_def
      split: option.split)

text \<open>
  The endpoint shown for a process is one endpoint, never a mixture: the address of the first
  CPU whose value has one.
\<close>

lemma merge_takes_first_address:
  assumes "L (put_word 4 q) = Some vs"
  shows "\<exists>st. merge_values_for_pid L q = Some st \<and>
    paddr (tcp st) = (case find (\<lambda>a. a \<noteq> StatsAddr_default) (map (\<lambda>v. paddr (tcp (value_stats v))) vs) of
      None \<Rightarrow> StatsAddr_default | Some a \<Rightarrow> a) \<and>
    paddr (udp st) = (case find (\<lambda>a. a \<noteq> StatsAddr_default) (map (\<lambda>v. paddr (udp (value_stats v))) vs) of
      None \<Rightarrow> StatsAddr_default | Some a \<Rightarrow> a)"
  using assms
    fold_first_address [of "\<lambda>s. paddr (tcp s)" merge_value StatsAddr_default
      "\<lambda>v. paddr (tcp (value_stats v))" ProcStats_default vs, OF merge_value_addr(1)]
    fold_first_address [of "\<lambda>s. paddr (udp s)" merge_value StatsAddr_default
      "\<lambda>v. paddr (udp (value_stats v))" ProcStats_default vs, OF merge_value_addr(2)]
  by (simp add: merge_values_for_pid_def ProcStats_default_def ProtocolStats_default_def)

lemma update_proc_keeps [simp]:
  "pi_pid (update_proc st p) = pi_pid p" "pi_name (update_proc st p) = pi_name p"
  by (simp_all add: update_proc_def)

lemma row_for_keeps [simp]:
  "row_pid (row_for st p) = pi_pid p" "row_name (row_for st p) = pi_name p"
  "paddr (row_tcp (row_for st p)) = paddr (tcp st)" "paddr (row_udp (row_for st p)) = paddr (udp st)"
  by (simp_all add: row_for_def)

lemma alive_iff_reading: "alive L p \<longleftrightarrow> reading L (pi_pid p) \<noteq> None"
  by (simp add: alive_def reading_merge)

lemma first_endpoint_merge:
  assumes "merge_values_for_pid L q = Some st"
  shows "paddr (tcp st) = first_endpoint tcp L q" "paddr (udp st) = first_endpoint udp L q"
proof -
  from assms obtain vs where vs: "L (put_word 4 q) = Some vs"
    by (auto simp: merge_values_for_pid_def split: option.splits)
  with merge_takes_first_address [of L q vs, OF vs] assms
  show "paddr (tcp st) = first_endpoint tcp L q" "paddr (udp st) = first_endpoint udp L q"
    by (simp_all add: first_endpoint_def)
qed

lemma entry_updated_update_proc: "alive L p \<Longrightarrow> entry_updated L p (update_proc (stats_of L p) p)"
  by (auto simp: entry_updated_def alive_def reading_merge)

lemma row_reports_row_for: "alive L p \<Longrightarrow> row_reports L p (row_for (stats_of L p) p)"
  by (auto simp: row_reports_def alive_def reading_merge word_sat first_endpoint_merge)

section \<open>Properties\<close>

text \<open>Two processes, 7 live with one CPU's value in the map, 9 dead.\<close>

definition demo_value :: bytes where
  "demo_value = put_word 8 (500 :: u64) @ replicate 72 0"

definition demo_map :: stats_map where
  "demo_map key = (if key = put_word 4 (7 :: u32) then Some [demo_value] else None)"

definition demo_proc :: "u32 \<Rightarrow> ProcInfo" where
  "demo_proc q = \<lparr>pi_pid = q, pi_name = [], pi_tcp_cum = \<lparr>sent = 100, recv = 0\<rparr>,
     pi_udp_cum = StatsBytes_default\<rparr>"

definition demo_collector :: StatsCollector where
  "demo_collector = \<lparr>procs = [demo_proc 9, demo_proc 7], dead_procs = []\<rparr>"

lemma demo_fields:
  "stat_field TcpSent (value_stats demo_value) = 500"
  by (simp add: value_stats_def proc_stats_from_bytes_def sizeof_ProcStats_def demo_value_def
      protocol_stats_at_def slice_simps)

lemma demo_merge: "\<exists>st. merge_values_for_pid demo_map 7 = Some st \<and> stat_field TcpSent st = 500"
proof -
  let ?st = "foldl merge_value ProcStats_default [demo_value]"
  have "unat (stat_field TcpSent ?st) = 500"
    by (simp only: stat_field_fold) (simp add: demo_fields del: stat_field.simps)
  then have "stat_field TcpSent ?st = 500"
    by (simp add: word_unat_eq_iff del: stat_field.simps foldl.simps)
  then show ?thesis
    by (simp add: merge_values_for_pid_def demo_map_def del: stat_field.simps foldl.simps)
qed

lemma demo_dead: "merge_values_for_pid demo_map 9 = None"
  by (simp add: merge_values_for_pid_def demo_map_def put_word_eq_iff)

text \<open>
  C9. One collection round, completely. A process is live if the map has values for it; its new
  totals are, for each counter, the sum of the CPUs' values capped at the largest 64-bit number. The
  rows and the remaining entries describe the live known processes, in the same order, each once per
  entry it had. Each row carries the id and the name, the new totals in its cumulative columns, in
  its other columns what each counter has grown by since the entry's previous totals, and for each
  protocol the first endpoint any CPU has stored; each entry keeps id and name and takes the new
  totals. The entries of the other processes are appended unchanged to the dead list, of which the
  most recent twenty are kept.
\<close>

theorem collect_rows_correct:
  assumes "length (dead_procs c) \<le> DEAD_PROC_LIMIT"
  shows "\<exists>live ds.
    mset live = filter_mset (\<lambda>p. reading L (pi_pid p) \<noteq> None) (mset (procs c)) \<and>
    mset ds = filter_mset (\<lambda>p. reading L (pi_pid p) = None) (mset (procs c)) \<and>
    list_all2 (entry_updated L) live (procs (fst (collect_rows L c))) \<and>
    list_all2 (row_reports L) live (snd (collect_rows L c)) \<and>
    dead_procs (fst (collect_rows L c)) = last_n DEAD_PROC_LIMIT (dead_procs c @ ds)"
proof -
  from collect_rows_spec [OF assms, of L] obtain live ds where sp:
    "mset live = filter_mset (alive L) (mset (procs c))"
    "mset ds = filter_mset (\<lambda>p. \<not> alive L p) (mset (procs c))"
    "procs (fst (collect_rows L c)) = map (\<lambda>p. update_proc (stats_of L p) p) live"
    "dead_procs (fst (collect_rows L c)) = last_n DEAD_PROC_LIMIT (dead_procs c @ ds)"
    "snd (collect_rows L c) = map (\<lambda>p. row_for (stats_of L p) p) live"
    by blast
  have "alive L p" if "p \<in> set live" for p
    using that arg_cong [OF sp(1), of set_mset] by auto
  then have "list_all2 (entry_updated L) live (procs (fst (collect_rows L c)))"
    "list_all2 (row_reports L) live (snd (collect_rows L c))"
    by (simp_all add: sp list_all2_map2 list_all2_same entry_updated_update_proc row_reports_row_for)
  moreover have "mset live = filter_mset (\<lambda>p. reading L (pi_pid p) \<noteq> None) (mset (procs c))"
    "mset ds = filter_mset (\<lambda>p. reading L (pi_pid p) = None) (mset (procs c))"
    unfolding sp(1,2) alive_iff_reading [abs_def] by simp_all
  ultimately show ?thesis using sp(4) by blast
qed

theorem collect_rows_correct_witness:
  "map row_pid (snd (collect_rows demo_map demo_collector)) = [7] \<and>
   map (row_cum_field TcpSent) (snd (collect_rows demo_map demo_collector)) = [500] \<and>
   dead_procs (fst (collect_rows demo_map demo_collector)) = [demo_proc 9]"
proof -
  have "length (dead_procs demo_collector) \<le> DEAD_PROC_LIMIT"
    by (simp add: demo_collector_def)
  from collect_rows_correct [OF this, of demo_map] obtain live ds where sp:
    "mset live = filter_mset (\<lambda>p. reading demo_map (pi_pid p) \<noteq> None) (mset (procs demo_collector))"
    "mset ds = filter_mset (\<lambda>p. reading demo_map (pi_pid p) = None) (mset (procs demo_collector))"
    "list_all2 (row_reports demo_map) live (snd (collect_rows demo_map demo_collector))"
    "dead_procs (fst (collect_rows demo_map demo_collector)) =
      last_n DEAD_PROC_LIMIT (dead_procs demo_collector @ ds)"
    by blast
  obtain st where "merge_values_for_pid demo_map 7 = Some st" "stat_field TcpSent st = 500"
    using demo_merge by blast
  then have r7: "reading demo_map 7 = Some (\<lambda>f. unat (stat_field f st))" "stat_field TcpSent st = 500"
    by (simp_all add: reading_merge)
  have r9: "reading demo_map 9 = None" by (simp add: reading_merge demo_dead)
  have "live = [demo_proc 7]" "ds = [demo_proc 9]"
    using sp(1,2) r7(1) r9 by (auto simp: demo_collector_def demo_proc_def mset_single_iff)
  then obtain r where r: "snd (collect_rows demo_map demo_collector) = [r]"
    "row_reports demo_map (demo_proc 7) r"
    using sp(3) by (auto simp: list_all2_Cons1)
  then have "row_pid r = 7" "(\<lambda>f. unat (row_cum_field f r)) = (\<lambda>f. unat (stat_field f st))"
    using r7(1) by (simp_all add: row_reports_def demo_proc_def)
  moreover from this(2) have "row_cum_field TcpSent r = stat_field TcpSent st"
    by (metis word_unat_eq_iff)
  ultimately show ?thesis
    using r(1) r7(2) sp(4) \<open>ds = [demo_proc 9]\<close>
    by (simp add: demo_collector_def last_n_def DEAD_PROC_LIMIT_def del: row_cum_field.simps
        stat_field.simps)
qed

text \<open>
  Every operation of the collector keeps its invariant: a process has one entry, and no more
  than twenty dead processes are remembered.
\<close>

lemma collector_operations_inv:
  "collector_inv collector_new \<and>
   (collector_inv c \<longrightarrow> collector_inv (apply_event c e) \<and> collector_inv (reset c) \<and>
      collector_inv (fst (collect_rows L c)))"
  by (simp add: new_inv apply_event_inv reset_inv collect_rows_inv)

text \<open>
  A start event registers its process under the lower-cased name with zero totals, replacing
  what an earlier process with that id left, and touches no other process.
\<close>

lemma apply_event_registers:
  "proc_of (apply_event c e) q =
     (if q = evt_pid e
      then Some \<lparr>pi_pid = q, pi_name = make_ascii_lowercase (evt_name e),
             pi_tcp_cum = StatsBytes_default, pi_udp_cum = StatsBytes_default\<rparr>
      else proc_of c q)"
  by (rule apply_event_proc_of)

text \<open>
  Merging adds up the CPUs: each counter of the merged value is the sum over the CPUs' values
  (those of the right size), capped at the largest 64-bit number.
\<close>

lemma merge_adds_cpus:
  assumes "L (put_word 4 q) = Some vs"
  shows "\<exists>st. merge_values_for_pid L q = Some st \<and>
    unat (stat_field f st) = min (2 ^ 64 - 1) (sum_list (map (\<lambda>v. unat (stat_field f (value_stats v))) vs))"
  using assms by (simp add: merge_values_for_pid_def stat_field_fold)

text \<open>
  C34. A reset does not survive the next tick: it zeroes the daemon's totals but not the kernel's
  counters, so the next collection leaves the same entries and reports the same cumulative columns
  as if there had been no reset, and reports each process's whole past as the traffic of that tick.
\<close>

theorem reset_undone_by_next_tick:
  "procs (fst (collect_rows L (reset c))) = procs (fst (collect_rows L c)) \<and>
   map row_cum (snd (collect_rows L (reset c))) = map row_cum (snd (collect_rows L c)) \<and>
   list_all (\<lambda>r. (pbytes (row_tcp r), pbytes (row_udp r)) = row_cum r)
     (snd (collect_rows L (reset c)))"
proof -
  have same: "fst (collect_loop L 0 (map reset_proc (procs c)) [] []) =
      fst (collect_loop L 0 (procs c) (dead_procs c) []) \<and>
    map row_cum (snd (snd (collect_loop L 0 (map reset_proc (procs c)) [] []))) =
      map row_cum (snd (snd (collect_loop L 0 (procs c) (dead_procs c) [])))"
    by (rule collect_loop_forgets_totals) simp_all
  have "length (dead_procs (reset c)) \<le> DEAD_PROC_LIMIT" by (simp add: reset_def)
  from collect_rows_spec [OF this, of L] obtain live where
    live: "mset live = filter_mset (alive L) (mset (procs (reset c)))"
    and rows: "snd (collect_rows L (reset c)) = map (\<lambda>p. row_for (stats_of L p) p) live"
    by blast
  have "set live \<subseteq> set (procs (reset c))"
    using live by (metis filter_is_subset mset_filter set_mset_mset)
  then have "\<forall>p \<in> set live. pi_tcp_cum p = StatsBytes_default \<and> pi_udp_cum p = StatsBytes_default"
    by (auto simp: reset_def reset_proc_def)
  then have "list_all (\<lambda>r. (pbytes (row_tcp r), pbytes (row_udp r)) = row_cum r)
      (snd (collect_rows L (reset c)))"
    by (auto simp: rows list_all_iff row_for_def row_cum_def delta_bytes_def StatsBytes_default_def)
  with same show ?thesis
    by (auto simp: collect_rows_def reset_def split: prod.splits)
qed

end
