(* ===== verification/Stats_Map.thy ===== *)
theory Stats_Map
  imports Bpf_Probes Stats
begin

text \<open>
  Where the kernel's statistics meet the collector: the wrapper of \<open>procnetd/src/stats_map.rs\<close>
  around the map lookup of libbpf-rs, and the reading of the C structure's bytes into the Rust
  structure. The lookup itself is a parameter; its documented behaviour (one value per CPU, in CPU
  order, or nothing for an absent key) is a locale, interpreted on the slots of the kernel model.
\<close>

section \<open>The wrapper\<close>

definition lookup_percpu :: "(bytes \<Rightarrow> 'e + bytes list option) \<Rightarrow> stats_map" where
  "lookup_percpu map_lookup key = (case map_lookup key of Inl _ \<Rightarrow> None | Inr r \<Rightarrow> r)"

section \<open>C and Rust structures\<close>

definition rust_addr :: "c_StatsAddr \<Rightarrow> StatsAddr" where
  "rust_addr a = \<lparr>dst_port = c_dst_port a, src_port = c_src_port a, dst_ipv4 = c_dst_ipv4 a,
     dst_ipv6 = c_dst_ipv6 a\<rparr>"

definition rust_proto :: "c_ProtocolStats \<Rightarrow> ProtocolStats" where
  "rust_proto p = \<lparr>pbytes = \<lparr>sent = c_sent (c_bytes p), recv = c_recv (c_bytes p)\<rparr>,
     paddr = rust_addr (c_addr p)\<rparr>"

definition rust_stats :: "c_ProcStats \<Rightarrow> ProcStats" where
  "rust_stats s = \<lparr>tcp = rust_proto (c_tcp s), udp = rust_proto (c_udp s)\<rparr>"

text \<open>The fields of the Rust structure, named by protocol and direction.\<close>

fun field_of :: "Protocol \<Rightarrow> direction \<Rightarrow> field" where
  "field_of TCP Sent = TcpSent"
| "field_of TCP Recv = TcpRecv"
| "field_of UDP Sent = UdpSent"
| "field_of UDP Recv = UdpRecv"

lemma stat_field_rust: "stat_field (field_of p d) (rust_stats s) = counter p d s"
  by (cases p; cases d) (simp_all add: rust_stats_def rust_proto_def)

lemma protocol_stats_at_bytes:
  assumes "c_addr_wf (c_addr p)" and "length pre = off"
  shows "protocol_stats_at off (pre @ c_ProtocolStats_bytes p @ post) = rust_proto p"
  using assms
  by (simp add: protocol_stats_at_def rust_proto_def rust_addr_def c_ProtocolStats_bytes_def
      c_StatsBytes_bytes_def c_StatsAddr_bytes_def c_addr_wf_def slice_simps)

text \<open>
  The Rust structure read from a map value is the C structure written to it: every field arrives
  with its value.
\<close>

lemma stats_cross_the_boundary:
  assumes "c_stats_wf s"
  shows "proc_stats_from_bytes (c_ProcStats_bytes s) = Some (rust_stats s)"
proof -
  from assms have wf: "c_addr_wf (c_addr (c_tcp s))" "c_addr_wf (c_addr (c_udp s))"
    by (simp_all add: c_stats_wf_def)
  have "protocol_stats_at 0 (c_ProcStats_bytes s) = rust_proto (c_tcp s)"
    using protocol_stats_at_bytes [OF wf(1), of "[]" 0] by (simp add: c_ProcStats_bytes_def)
  moreover have "protocol_stats_at 40 (c_ProcStats_bytes s) = rust_proto (c_udp s)"
    using protocol_stats_at_bytes [OF wf(2), of "c_ProtocolStats_bytes (c_tcp s)" 40 "[]"] wf(1)
    by (simp add: c_ProcStats_bytes_def abi_size)
  ultimately show ?thesis
    using assms by (simp add: proc_stats_from_bytes_def sizeof_ProcStats_def abi_size rust_stats_def)
qed

lemma value_stats_of_c: "c_stats_wf s \<Longrightarrow> value_stats (c_ProcStats_bytes s) = rust_stats s"
  by (simp add: value_stats_def stats_cross_the_boundary)

section \<open>Reading the kernel's slots\<close>

locale percpu_reader =
  fixes map_lookup :: "bytes \<Rightarrow> 'e + bytes list option" and n :: nat and v :: stats_view
  assumes absent: "v 0 k = None \<Longrightarrow> map_lookup (put_word 4 k) = Inr None"
    and present: "v 0 k \<noteq> None \<Longrightarrow>
      map_lookup (put_word 4 k) = Inr (Some (map (\<lambda>c. c_ProcStats_bytes (the (v c k))) [0..<n]))"
begin

lemma merge_absent: "v 0 k = None \<Longrightarrow> merge_values_for_pid (lookup_percpu map_lookup) k = None"
  by (simp add: merge_values_for_pid_def lookup_percpu_def absent)

text \<open>What the collector sees of a process: each counter summed over the CPUs, capped.\<close>

lemma merge_present:
  assumes "v 0 k \<noteq> None" and "\<And>c. \<exists>x. v c k = Some x \<and> c_stats_wf x"
  obtains st where "merge_values_for_pid (lookup_percpu map_lookup) k = Some st"
    and "\<And>p d. unat (stat_field (field_of p d) st) =
      min (2 ^ 64 - 1) (sum_list (map (\<lambda>c. unat (counter p d (the (v c k)))) [0..<n]))"
proof -
  have slot: "value_stats (c_ProcStats_bytes (the (v c k))) = rust_stats (the (v c k))" for c
    using assms(2) [of c] value_stats_of_c by auto
  let ?vs = "map (\<lambda>c. c_ProcStats_bytes (the (v c k))) [0..<n]"
  have "merge_values_for_pid (lookup_percpu map_lookup) k = Some (foldl merge_value ProcStats_default ?vs)"
    using present [OF assms(1)] by (simp add: merge_values_for_pid_def lookup_percpu_def)
  moreover have "unat (stat_field (field_of p d) (foldl merge_value ProcStats_default ?vs)) =
      min (2 ^ 64 - 1) (sum_list (map (\<lambda>c. unat (counter p d (the (v c k)))) [0..<n]))" for p d
    by (simp only: stat_field_fold map_map comp_def slot stat_field_rust)
  ultimately show thesis by (rule that)
qed

end

text \<open>A reader of the slots of the kernel model.\<close>

definition read_slots :: "nat \<Rightarrow> stats_view \<Rightarrow> bytes \<Rightarrow> unit + bytes list option" where
  "read_slots n v key =
     (if length key \<noteq> 4 then Inl ()
      else Inr (case v 0 (get_word key) of
             None \<Rightarrow> None
           | Some _ \<Rightarrow> Some (map (\<lambda>c. c_ProcStats_bytes (the (v c (get_word key)))) [0..<n])))"

interpretation slots_reader: percpu_reader "read_slots n v" n v for n v
  by unfold_locales (auto simp: read_slots_def)

text \<open>The sum over the CPUs as a number and as the 64-bit word the kernel side reasons with.\<close>

lemma cpu_total_nat:
  assumes "\<And>c. v c k \<noteq> None"
    and "sum_list (map (\<lambda>c. unat (counter p d (the (v c k)))) [0..<n]) < 2 ^ 64"
  shows "unat (cpu_total n v k p d) = sum_list (map (\<lambda>c. unat (counter p d (the (v c k)))) [0..<n])"
proof -
  have word: "cpu_total n v k p d = word_of_nat (sum_list (map (\<lambda>c. unat (counter p d (the (v c k)))) [0..<n]))"
  proof (induction n)
    case 0
    show ?case by (simp add: cpu_total_def)
  next
    case (Suc n)
    then show ?case using assms(1) [of n] by (auto simp: cpu_total_def)
  qed
  from assms(2) show ?thesis unfolding word unat_of_nat by simp
qed

end
