(* ===== verification/Ipc.thy ===== *)
theory Ipc
  imports Stats
begin

text \<open>
  The protocol between daemon and clients (\<open>procnet-core/src/ipc.rs\<close>, with the errors of
  \<open>procnet-core/src/errors.rs\<close>): the commands, the snapshot, the choice of the socket path, and the
  framing of messages by a 16-bit length. Serialisation is bincode's and a parameter; what the code
  relies on, that decoding inverts encoding, is the locale \<open>codec\<close>, interpreted on the documented
  format of a command.
\<close>

section \<open>Streams\<close>

text \<open>
  The kinds of input/output errors the code tells apart, and a stream of bytes: what the peer sends,
  and how the stream ends, closed by the peer or with an error of a read (such as the time-out).
\<close>

datatype io_error =
    UnexpectedEof | WouldBlock | PermissionDenied | ConnectionRefused | NotFound | AddrInUse
  | OtherIo nat

record byte_stream =
  pending_bytes :: bytes
  ending :: "io_error option"

text \<open>\<open>Read::read_exact\<close> of the standard library.\<close>

definition read_exact :: "byte_stream \<Rightarrow> nat \<Rightarrow> (io_error + bytes) \<times> byte_stream" where
  "read_exact s n =
     (if n \<le> length (pending_bytes s)
      then (Inr (take n (pending_bytes s)), s\<lparr>pending_bytes := drop n (pending_bytes s)\<rparr>)
      else (Inl (case ending s of None \<Rightarrow> UnexpectedEof | Some e \<Rightarrow> e), s\<lparr>pending_bytes := []\<rparr>))"

section \<open>Errors\<close>

datatype 'e MsgSendError = SendIo io_error | Encode 'e | Oversized

datatype 'e MsgReadError = Eof | ReadIo io_error | Decode 'e

section \<open>Socket path\<close>

definition SOCKET_ENV_VAR :: string where
  "SOCKET_ENV_VAR = ''PROCNET_SOCKET''"

definition SYSTEM_SOCKET_PATH :: string where
  "SYSTEM_SOCKET_PATH = ''/run/procnet/procnetd.sock''"

definition resolve_socket_path :: "string option \<Rightarrow> string" where
  "resolve_socket_path configured_path =
     (case configured_path of
        Some path \<Rightarrow> if path \<noteq> [] then path else SYSTEM_SOCKET_PATH
      | None \<Rightarrow> SYSTEM_SOCKET_PATH)"

definition socket_path :: "(string \<Rightarrow> string option) \<Rightarrow> string" where
  "socket_path env_var = resolve_socket_path (env_var SOCKET_ENV_VAR)"

datatype ConnectError = ConnectError io_error

text \<open>\<open>UnixStream::connect\<close> is the operating system's and a parameter.\<close>

definition connect_to_socket ::
    "(string \<Rightarrow> 'w \<Rightarrow> (io_error + 's) \<times> 'w) \<Rightarrow> (string \<Rightarrow> string option) \<Rightarrow> 'w \<Rightarrow> (ConnectError + 's) \<times> 'w" where
  "connect_to_socket connect env_var w =
     (case connect (socket_path env_var) w of
        (Inl e, w') \<Rightarrow> (Inl (ConnectError e), w')
      | (Inr stream, w') \<Rightarrow> (Inr stream, w'))"

section \<open>Messages\<close>

definition PREFIX_LEN :: nat where
  "PREFIX_LEN = 2"

datatype DaemonCommand = Run | Interval u64 | IntervalIncrease | IntervalDecrease | Reset

text \<open>The values of \<open>interval\<close> that the command line accepts (the \<open>value_parser\<close> of the field).\<close>

definition interval_argument :: "u64 \<Rightarrow> bool" where
  "interval_argument v \<longleftrightarrow> 100 \<le> unat v \<and> unat v \<le> 5000"

record SnapshotData =
  snap_interval :: u64
  snap_tick :: u64
  snap_rows :: "StatsRow list"
  snap_dead_procs :: "ProcInfo list"

text \<open>
  The result of \<open>write_msg\<close> is the buffer's content; on an error the callers discard the buffer.
\<close>

definition write_msg :: "('a \<Rightarrow> 'e + bytes) \<Rightarrow> 'a \<Rightarrow> 'e MsgSendError + bytes" where
  "write_msg serialize msg =
     (case serialize msg of
        Inl e \<Rightarrow> Inl (Encode e)
      | Inr payload \<Rightarrow>
          (let buf = replicate PREFIX_LEN 0 @ payload;
               payload_len = length buf - PREFIX_LEN
           in if payload_len < 2 ^ 16
              then Inr (put_word PREFIX_LEN (word_of_nat payload_len :: u16) @ drop PREFIX_LEN buf)
              else Inl Oversized))"

definition read_exact_or_eof ::
    "byte_stream \<Rightarrow> nat \<Rightarrow> ('e MsgReadError + bytes) \<times> byte_stream" where
  "read_exact_or_eof reader n =
     (case read_exact reader n of
        (Inr bs, reader') \<Rightarrow> (Inr bs, reader')
      | (Inl e, reader') \<Rightarrow> (Inl (if e = UnexpectedEof then Eof else ReadIo e), reader'))"

definition read_msg ::
    "(bytes \<Rightarrow> 'e + 'a) \<Rightarrow> byte_stream \<Rightarrow> ('e MsgReadError + 'a) \<times> byte_stream" where
  "read_msg deserialize reader =
     (case read_exact_or_eof reader PREFIX_LEN of
        (Inl e, reader') \<Rightarrow> (Inl e, reader')
      | (Inr prefix_buf, reader') \<Rightarrow>
          (case read_exact_or_eof reader' (unat (get_word prefix_buf :: u16)) of
             (Inl e, reader'') \<Rightarrow> (Inl e, reader'')
           | (Inr payload_buf, reader'') \<Rightarrow>
               (case deserialize payload_buf of
                  Inl e \<Rightarrow> (Inl (Decode e), reader'')
                | Inr response \<Rightarrow> (Inr response, reader''))))"

text \<open>
  A receiver that reads messages until the first error, as the daemon does with a client and the
  client with the daemon: the messages in order, and the error.
\<close>

lemma read_msg_shrinks:
  assumes "(Inr x, s') = read_msg deserialize s"
  shows "length (pending_bytes s') < length (pending_bytes s)"
  using assms
  by (auto simp: read_msg_def read_exact_or_eof_def read_exact_def PREFIX_LEN_def
      split: if_splits sum.splits)

function read_until_error ::
    "(bytes \<Rightarrow> 'e + 'a) \<Rightarrow> byte_stream \<Rightarrow> 'a list \<times> 'e MsgReadError" where
  "read_until_error deserialize s =
     (case read_msg deserialize s of
        (Inl e, _) \<Rightarrow> ([], e)
      | (Inr msg, s') \<Rightarrow>
          (let (msgs, e) = read_until_error deserialize s' in (msg # msgs, e)))"
  by pat_completeness auto
termination
  by (relation "measure (\<lambda>(_, s). length (pending_bytes s))") (auto dest: read_msg_shrinks)

declare read_until_error.simps [simp del]

section \<open>Serialisation\<close>

locale codec =
  fixes serialize :: "'a \<Rightarrow> 'e + bytes" and deserialize :: "bytes \<Rightarrow> 'e + 'a"
  assumes deserialize_serialize: "serialize x = Inr bs \<Longrightarrow> deserialize bs = Inr x"
begin

lemma read_msg_frame:
  assumes "write_msg serialize x = Inr frame"
  shows "read_msg deserialize \<lparr>pending_bytes = frame @ rest, ending = e\<rparr> =
    (Inr x, \<lparr>pending_bytes = rest, ending = e\<rparr>)"
proof -
  from assms obtain payload where p: "serialize x = Inr payload" "length payload < 2 ^ 16"
    "frame = put_word 2 (word_of_nat (length payload) :: u16) @ payload"
    by (auto simp: write_msg_def PREFIX_LEN_def Let_def split: sum.splits if_splits)
  have "unat (word_of_nat (length payload) :: u16) = length payload"
    using p(2) unfolding unat_of_nat by simp
  then show ?thesis
    using p(1,3) deserialize_serialize [OF p(1)]
    by (simp add: read_msg_def read_exact_or_eof_def read_exact_def PREFIX_LEN_def)
qed

lemma read_frames:
  assumes "list_all2 (\<lambda>x frame. write_msg serialize x = Inr frame) xs frames"
  shows "read_until_error deserialize \<lparr>pending_bytes = concat frames @ rest, ending = e\<rparr> =
    (let (msgs, err) = read_until_error deserialize \<lparr>pending_bytes = rest, ending = e\<rparr>
     in (xs @ msgs, err))"
  using assms
proof (induction rule: list_all2_induct)
  case Nil
  show ?case by (simp add: Let_def)
next
  case (Cons x xs frame frames)
  from read_msg_frame [OF Cons(1), of "concat frames @ rest" e] Cons(3) show ?case
    by (simp add: read_until_error.simps [of deserialize
          "\<lparr>pending_bytes = frame @ concat frames @ rest, ending = e\<rparr>"] split: prod.splits)
qed

end

text \<open>A cut-off frame yields no message: the receiver sees the end of the stream, or its error.\<close>

lemma read_msg_truncated:
  assumes "length bs < 2 + unat (get_word (take 2 bs) :: u16)"
  shows "fst (read_msg deserialize \<lparr>pending_bytes = bs, ending = e\<rparr>) =
    Inl (case e of None \<Rightarrow> Eof | Some UnexpectedEof \<Rightarrow> Eof | Some k \<Rightarrow> ReadIo k)"
  using assms
  by (auto simp: read_msg_def read_exact_or_eof_def read_exact_def PREFIX_LEN_def
      split: option.split io_error.split)

lemma write_msg_length: "write_msg serialize x = Inr frame \<Longrightarrow> 2 \<le> length frame"
  by (auto simp: write_msg_def PREFIX_LEN_def Let_def split: sum.splits if_splits)

lemma read_msg_cut:
  assumes "write_msg serialize x = Inr frame" and "n < length frame"
  shows "fst (read_msg deserialize \<lparr>pending_bytes = take n frame, ending = e\<rparr>) =
    Inl (case e of None \<Rightarrow> Eof | Some UnexpectedEof \<Rightarrow> Eof | Some k \<Rightarrow> ReadIo k)"
proof (rule read_msg_truncated)
  from assms(1) obtain payload where p: "length payload < 2 ^ 16"
    "frame = put_word 2 (word_of_nat (length payload) :: u16) @ payload"
    by (auto simp: write_msg_def PREFIX_LEN_def Let_def split: sum.splits if_splits)
  show "length (take n frame) < 2 + unat (get_word (take 2 (take n frame)) :: u16)"
  proof (cases "n < 2")
    case False
    then have "take 2 (take n frame) = put_word 2 (word_of_nat (length payload) :: u16)"
      unfolding p(2) by simp
    moreover have "unat (word_of_nat (length payload) :: u16) = length payload"
      using p(1) unfolding unat_of_nat by simp
    ultimately show ?thesis using assms(2) p(2) by simp
  qed simp
qed

section \<open>The format of a command\<close>

text \<open>
  bincode's documented default format: an enumeration is the index of its variant in 4 bytes, then
  the variant's fields; an integer takes its width, least significant byte first.
\<close>

fun encode_command :: "DaemonCommand \<Rightarrow> unit + bytes" where
  "encode_command Run = Inr (put_word 4 (0 :: u32))"
| "encode_command (Interval i) = Inr (put_word 4 (1 :: u32) @ put_word 8 i)"
| "encode_command IntervalIncrease = Inr (put_word 4 (2 :: u32))"
| "encode_command IntervalDecrease = Inr (put_word 4 (3 :: u32))"
| "encode_command Reset = Inr (put_word 4 (4 :: u32))"

definition decode_command :: "bytes \<Rightarrow> unit + DaemonCommand" where
  "decode_command bs =
     (if length bs < 4 then Inl ()
      else let tag = (get_word (take 4 bs) :: u32) in
        if tag = 0 then Inr Run
        else if tag = 1 then
          (if length bs < 12 then Inl () else Inr (Interval (get_word (slice_at 4 8 bs))))
        else if tag = 2 then Inr IntervalIncrease
        else if tag = 3 then Inr IntervalDecrease
        else if tag = 4 then Inr Reset
        else Inl ())"

interpretation command_codec: codec encode_command decode_command
proof
  fix x bs
  assume "encode_command x = Inr bs"
  then show "decode_command bs = Inr x"
    by (cases x) (auto simp: decode_command_def slice_simps)
qed

section \<open>Properties\<close>

text \<open>
  C17. Messages survive the wire: any sequence of framed messages, sent one after the other, is
  received as exactly those messages in that order, wherever the connection ends in the frame after
  them; the receiver then sees the end of the stream, or the read error, and no further message.
\<close>

theorem messages_round_trip:
  fixes deserialize :: "bytes \<Rightarrow> 'e + 'a"
  assumes "codec serialize deserialize"
    and "list_all2 (\<lambda>x frame. write_msg serialize x = Inr frame) xs frames"
    and "write_msg serialize y = Inr frame" and "n < length frame"
  shows "read_until_error deserialize \<lparr>pending_bytes = concat frames @ take n frame, ending = e\<rparr> =
    (xs, case e of None \<Rightarrow> Eof | Some UnexpectedEof \<Rightarrow> Eof | Some k \<Rightarrow> ReadIo k)"
proof -
  define err :: "'e MsgReadError" where "err = (case e of None \<Rightarrow> Eof | Some UnexpectedEof \<Rightarrow> Eof | Some k \<Rightarrow> ReadIo k)"
  obtain st where "read_msg deserialize \<lparr>pending_bytes = take n frame, ending = e\<rparr> = (Inl err, st)"
    using read_msg_cut [OF assms(3,4), of deserialize e] unfolding err_def by (metis prod.collapse)
  then have "read_until_error deserialize \<lparr>pending_bytes = take n frame, ending = e\<rparr> = ([], err)"
    by (simp add: read_until_error.simps)
  with codec.read_frames [OF assms(1,2), of "take n frame" e] show ?thesis by (simp add: err_def)
qed

theorem messages_round_trip_witness:
  "read_until_error decode_command
     \<lparr>pending_bytes = [4, 0, 0, 0, 0, 0, 12, 0, 1, 0, 0, 0, 250, 0, 0, 0, 0, 0, 0, 0, 4, 0, 2], ending = None\<rparr>
   = ([Run, Interval 250], Eof)"
proof -
  have frames: "list_all2 (\<lambda>x frame. write_msg encode_command x = Inr frame) [Run, Interval 250]
      [[4, 0, 0, 0, 0, 0], [12, 0, 1, 0, 0, 0, 250, 0, 0, 0, 0, 0, 0, 0]]"
    by (simp add: write_msg_def PREFIX_LEN_def put_word_def eval_simps)
  have "write_msg encode_command IntervalIncrease = Inr [4, 0, 2, 0, 0, 0]"
    by (simp add: write_msg_def PREFIX_LEN_def put_word_def eval_simps)
  from messages_round_trip [OF command_codec.codec_axioms frames this, of 3 None] show ?thesis
    by (simp add: numeral_3_eq_3)
qed

text \<open>
  A message is refused exactly when its payload does not fit the length prefix; otherwise the
  buffer is the payload behind its length, least significant byte first.
\<close>

lemma write_msg_frame:
  assumes "serialize x = Inr payload"
  shows "write_msg serialize x =
    (if 65535 < length payload then Inl Oversized
     else Inr ([word_of_nat (length payload), word_of_nat (length payload div 256)] @ payload))"
proof -
  have "put_word 2 (word_of_nat n :: u16) = [word_of_nat n, word_of_nat (n div 256)]"
    if "n < 65536" for n
  proof -
    from that have "unat (word_of_nat n :: u16) = n" unfolding unat_of_nat by simp
    then show ?thesis by (simp add: put_word_def eval_simps)
  qed
  with assms show ?thesis by (simp add: write_msg_def PREFIX_LEN_def Let_def)
qed

end
