(* ===== verification/Tui_State.thy ===== *)
theory Tui_State
  imports Ipc
begin

text \<open>
  The terminal client's state and key handling (\<open>procnet/src/tui/state.rs\<close>, \<open>keys.rs\<close> and
  \<open>input.rs\<close>): the panes, the key bindings of each with their texts, the dispatch of a key press, the
  filter prompt and the movement of the cursor. An action returns the new state, what the main loop
  has to do, and the commands it sent to the daemon.
\<close>

section \<open>State\<close>

datatype SortKey = SortKey_Pid | SortKey_Name | SortKey_Sent | SortKey_Recv | SortKey_Total

datatype SortDir = Asc | Desc

datatype FilterTarget = FilterTarget_Name | FilterTarget_Pid

datatype Unit = Unit_Auto | Unit_B | Unit_Kb | Unit_Mb | Unit_Gb | Unit_Tb

datatype Action = Quit | Redraw | NoAction

datatype ViewMode = Live | Dead

datatype Pane = Pane_Main | Pane_Help | Pane_Unit | Pane_Filter

record TuiState =
  sort_key :: SortKey
  sort_dir :: SortDir
  active_pane :: Pane
  view_mode :: ViewMode
  filter_target :: FilterTarget
  filter_text :: rstring
  unit :: Unit
  unit_picker_cursor :: nat
  selected_pid :: "u32 option"
  selected :: nat
  scroll_offset :: nat
  view :: "nat list"
  view_pids :: "u32 list"
  visible_rows :: u16
  paused :: bool
  show_detail :: bool

definition SortKey_ALL :: "SortKey list" where
  "SortKey_ALL = [SortKey_Pid, SortKey_Name, SortKey_Sent, SortKey_Recv, SortKey_Total]"

fun SortKey_label :: "SortKey \<Rightarrow> rstring" where
  "SortKey_label SortKey_Pid = txt_of ''pid''"
| "SortKey_label SortKey_Name = txt_of ''name''"
| "SortKey_label SortKey_Sent = txt_of ''sent''"
| "SortKey_label SortKey_Recv = txt_of ''received''"
| "SortKey_label SortKey_Total = txt_of ''total''"

fun default_direction :: "SortKey \<Rightarrow> SortDir" where
  "default_direction SortKey_Pid = Asc"
| "default_direction SortKey_Name = Asc"
| "default_direction _ = Desc"

fun SortDir_arrow :: "SortDir \<Rightarrow> rstring" where
  "SortDir_arrow Asc = [9650]"
| "SortDir_arrow Desc = [9660]"

fun SortDir_toggle :: "SortDir \<Rightarrow> SortDir" where
  "SortDir_toggle Asc = Desc"
| "SortDir_toggle Desc = Asc"

fun FilterTarget_label :: "FilterTarget \<Rightarrow> rstring" where
  "FilterTarget_label FilterTarget_Name = txt_of ''name''"
| "FilterTarget_label FilterTarget_Pid = txt_of ''pid''"

fun FilterTarget_toggle :: "FilterTarget \<Rightarrow> FilterTarget" where
  "FilterTarget_toggle FilterTarget_Name = FilterTarget_Pid"
| "FilterTarget_toggle FilterTarget_Pid = FilterTarget_Name"

definition Unit_ALL :: "Unit list" where
  "Unit_ALL = [Unit_Auto, Unit_B, Unit_Kb, Unit_Mb, Unit_Gb, Unit_Tb]"

fun Unit_label :: "Unit \<Rightarrow> rstring" where
  "Unit_label Unit_Auto = txt_of ''auto''"
| "Unit_label Unit_B = txt_of ''B''"
| "Unit_label Unit_Kb = txt_of ''KB''"
| "Unit_label Unit_Mb = txt_of ''MB''"
| "Unit_label Unit_Gb = txt_of ''GB''"
| "Unit_label Unit_Tb = txt_of ''TB''"

fun Unit_divisor :: "Unit \<Rightarrow> u64" where
  "Unit_divisor Unit_Auto = 0"
| "Unit_divisor Unit_B = 1"
| "Unit_divisor Unit_Kb = 1024"
| "Unit_divisor Unit_Mb = 1024 * 1024"
| "Unit_divisor Unit_Gb = 1024 * 1024 * 1024"
| "Unit_divisor Unit_Tb = 1024 * 1024 * 1024 * 1024"

definition Unit_index :: "Unit \<Rightarrow> nat" where
  "Unit_index u = (case position (\<lambda>v. v = u) Unit_ALL of Some i \<Rightarrow> i | None \<Rightarrow> 0)"

fun ViewMode_toggle :: "ViewMode \<Rightarrow> ViewMode" where
  "ViewMode_toggle Live = Dead"
| "ViewMode_toggle Dead = Live"

definition TuiState_new :: TuiState where
  "TuiState_new = \<lparr>sort_key = SortKey_Name, sort_dir = Desc, active_pane = Pane_Main,
     view_mode = Live, filter_target = FilterTarget_Name, filter_text = [], unit = Unit_Auto,
     unit_picker_cursor = Unit_index Unit_Auto, selected_pid = None, selected = 0,
     scroll_offset = 0, view = [], view_pids = [], visible_rows = 0, paused = False,
     show_detail = False\<rparr>"

section \<open>Scrolling and the cursor\<close>

text \<open>\<open>clamp_scroll\<close> of \<open>view.rs\<close>, which the input handler calls.\<close>

definition clamp_scroll :: "nat \<Rightarrow> nat \<Rightarrow> u16 \<Rightarrow> nat \<Rightarrow> nat \<times> nat" where
  "clamp_scroll sel offset num_visible_rows len =
     (if len = 0 then (0, 0)
      else let sel' = min sel (len - 1); vis = unat num_visible_rows in
        if vis = 0 \<or> len \<le> vis then (sel', 0)
        else let off = min offset (len - vis) in
          (sel', if sel' < off then sel' else if off + vis - 1 < sel' then sel' + 1 - vis else off))"

definition move_cursor :: "bool \<Rightarrow> TuiState \<Rightarrow> TuiState \<times> Action" where
  "move_cursor upward s =
     (case active_pane s of
        Pane_Main \<Rightarrow>
          (let view_len = length (view s) in
           if view_len = 0 then (s, NoAction)
           else let next = (if upward then selected s - 1 else min (selected s + 1) (view_len - 1));
                    (sel, off) = clamp_scroll next (scroll_offset s) (visible_rows s) view_len
                in (s\<lparr>selected := sel, scroll_offset := off,
                      selected_pid := if sel < length (view_pids s) then Some (view_pids s ! sel) else None\<rparr>,
                    Redraw))
      | Pane_Unit \<Rightarrow>
          (s\<lparr>unit_picker_cursor :=
               if upward then unit_picker_cursor s - 1
               else min (unit_picker_cursor s + 1) (length Unit_ALL - 1)\<rparr>, Redraw)
      | _ \<Rightarrow> (s, NoAction))"

section \<open>Key bindings\<close>

datatype KeySpec =
    Chars string | Ctrl char | KeySpec_Up | KeySpec_Down | KeySpec_Enter | KeySpec_Esc
  | KeySpec_Backspace | KeySpec_Tab

datatype Section = Filtering | Sorting | Navigation | Other

datatype HelpGroup = HelpGroup_Interval | HelpGroup_SortNums | HelpGroup_Move

definition Section_ALL :: "Section list" where
  "Section_ALL = [Sorting, Navigation, Filtering, Other]"

fun Section_text :: "Section \<Rightarrow> rstring" where
  "Section_text Sorting = txt_of ''Sorting''"
| "Section_text Navigation = txt_of ''Navigation''"
| "Section_text Filtering = txt_of ''Filtering''"
| "Section_text Other = txt_of ''Other''"

fun HelpGroup_glyph :: "HelpGroup \<Rightarrow> rstring" where
  "HelpGroup_glyph HelpGroup_Interval = txt_of ''+-''"
| "HelpGroup_glyph HelpGroup_Move = [8593, 8595] @ txt_of '' jk''"
| "HelpGroup_glyph HelpGroup_SortNums = txt_of ''1-5''"

fun HelpGroup_text :: "HelpGroup \<Rightarrow> rstring" where
  "HelpGroup_text HelpGroup_Interval = txt_of ''Increase or decrease the interval''"
| "HelpGroup_text HelpGroup_SortNums = txt_of ''Sort by pid / name / sent / recv / total''"
| "HelpGroup_text HelpGroup_Move = txt_of ''Move the cursor''"

record Help =
  help_active :: bool
  help_group :: "HelpGroup option"
  help_text :: rstring

text \<open>
  The result of an action: the state, what the main loop does next, and the commands sent to the
  daemon (whether the write succeeded is ignored); \<open>None\<close> is a panic.
\<close>

type_synonym key_result = "(TuiState \<times> Action \<times> DaemonCommand list) option"

record Keybind =
  key :: KeySpec
  label :: rstring
  section_of :: Section
  kb_help :: Help
  bar :: bool
  action :: "TuiState \<Rightarrow> key_result"

definition quietly :: "TuiState \<times> Action \<Rightarrow> key_result" where
  "quietly r = Some (fst r, snd r, [])"

definition shown :: "string \<Rightarrow> Help" where
  "shown t = \<lparr>help_active = True, help_group = None, help_text = txt_of t\<rparr>"

definition grouped :: "HelpGroup \<Rightarrow> Help" where
  "grouped g = \<lparr>help_active = True, help_group = Some g, help_text = []\<rparr>"

definition unlisted :: Help where
  "unlisted = \<lparr>help_active = False, help_group = None, help_text = []\<rparr>"

definition apply_sort :: "SortKey \<Rightarrow> TuiState \<Rightarrow> TuiState \<times> Action" where
  "apply_sort k s =
     (if sort_key s = k then (s\<lparr>sort_dir := SortDir_toggle (sort_dir s)\<rparr>, Redraw)
      else (s\<lparr>sort_key := k, sort_dir := default_direction k\<rparr>, Redraw))"

definition QUIT_KEYS :: "Keybind list" where
  "QUIT_KEYS = [
    \<lparr>key = Chars ''q'', label = txt_of ''quit'', section_of = Other,
     kb_help = shown ''Quit (Ctrl-C also works)'', bar = True, action = \<lambda>s. quietly (s, Quit)\<rparr>,
    \<lparr>key = Ctrl CHR ''c'', label = [], section_of = Other, kb_help = unlisted, bar = False,
     action = \<lambda>s. quietly (s, Quit)\<rparr>]"

definition MAIN_KEYS :: "Keybind list" where
  "MAIN_KEYS = [
    \<lparr>key = Chars ''+'', label = txt_of ''interval'', section_of = Other,
     kb_help = grouped HelpGroup_Interval, bar = True,
     action = \<lambda>s. Some (s, NoAction, [IntervalIncrease])\<rparr>,
    \<lparr>key = Chars ''-'', label = [], section_of = Other, kb_help = grouped HelpGroup_Interval,
     bar = False, action = \<lambda>s. Some (s, NoAction, [IntervalDecrease])\<rparr>,
    \<lparr>key = Chars ''p'', label = txt_of ''pause'', section_of = Other,
     kb_help = shown ''Pause / resume the live feed'', bar = True,
     action = \<lambda>s. quietly (s\<lparr>paused := \<not> paused s\<rparr>, Redraw)\<rparr>,
    \<lparr>key = Chars ''d'', label = txt_of ''details'', section_of = Navigation,
     kb_help = shown ''Toggle the per-process detail pane'', bar = True,
     action = \<lambda>s. quietly (s\<lparr>show_detail := \<not> show_detail s\<rparr>, Redraw)\<rparr>,
    \<lparr>key = Chars ''x'', label = txt_of ''dead'', section_of = Other,
     kb_help = shown ''Toggle the dead processes view'', bar = True,
     action = \<lambda>s. quietly (s\<lparr>view_mode := ViewMode_toggle (view_mode s), selected_pid := None,
       selected := 0, scroll_offset := 0\<rparr>, Redraw)\<rparr>,
    \<lparr>key = Chars ''u'', label = txt_of ''unit'', section_of = Other,
     kb_help = shown ''Choose display unit (Auto/B/KB/MB/GB/TB)'', bar = True,
     action = \<lambda>s. quietly (s\<lparr>active_pane := Pane_Unit, unit_picker_cursor := Unit_index (unit s)\<rparr>,
       Redraw)\<rparr>,
    \<lparr>key = Chars ''/'', label = txt_of ''filter'', section_of = Filtering,
     kb_help = shown ''Start or edit filter'', bar = True,
     action = \<lambda>s. quietly (s\<lparr>active_pane := Pane_Filter\<rparr>, Redraw)\<rparr>,
    \<lparr>key = Chars ''?h'', label = txt_of ''help'', section_of = Other,
     kb_help = shown ''Toggle this help'', bar = True,
     action = \<lambda>s. quietly (s\<lparr>active_pane := Pane_Help\<rparr>, Redraw)\<rparr>,
    \<lparr>key = KeySpec_Esc, label = [], section_of = Filtering,
     kb_help = shown ''Cancel input, or clear applied filter'', bar = False,
     action = \<lambda>s. quietly (if filter_text s = [] then (s, NoAction) else (s\<lparr>filter_text := []\<rparr>, Redraw))\<rparr>]"

text \<open>\<open>Unit::ALL[cursor]\<close> panics when the cursor is out of range.\<close>

definition apply_unit :: "TuiState \<Rightarrow> key_result" where
  "apply_unit s =
     (if unit_picker_cursor s < length Unit_ALL
      then quietly (s\<lparr>unit := Unit_ALL ! unit_picker_cursor s, active_pane := Pane_Main\<rparr>, Redraw)
      else None)"

definition UNIT_PICKER_KEYS :: "Keybind list" where
  "UNIT_PICKER_KEYS = [
    \<lparr>key = KeySpec_Enter, label = txt_of ''apply'', section_of = Other, kb_help = unlisted, bar = True,
     action = apply_unit\<rparr>,
    \<lparr>key = KeySpec_Esc, label = txt_of ''cancel'', section_of = Other, kb_help = unlisted, bar = True,
     action = \<lambda>s. quietly (s\<lparr>active_pane := Pane_Main\<rparr>, Redraw)\<rparr>]"

definition SORT_KEYS :: "Keybind list" where
  "SORT_KEYS = [
    \<lparr>key = Chars ''r'', label = txt_of ''reverse'', section_of = Sorting,
     kb_help = shown ''Reverse current sort direction'', bar = True,
     action = \<lambda>s. quietly (s\<lparr>sort_dir := SortDir_toggle (sort_dir s)\<rparr>, Redraw)\<rparr>,
    \<lparr>key = Chars ''1'', label = txt_of ''pid'', section_of = Sorting, kb_help = grouped HelpGroup_SortNums,
     bar = True, action = \<lambda>s. quietly (apply_sort SortKey_Pid s)\<rparr>,
    \<lparr>key = Chars ''2'', label = txt_of ''name'', section_of = Sorting, kb_help = grouped HelpGroup_SortNums,
     bar = True, action = \<lambda>s. quietly (apply_sort SortKey_Name s)\<rparr>,
    \<lparr>key = Chars ''3'', label = txt_of ''sent'', section_of = Sorting, kb_help = grouped HelpGroup_SortNums,
     bar = True, action = \<lambda>s. quietly (apply_sort SortKey_Sent s)\<rparr>,
    \<lparr>key = Chars ''4'', label = txt_of ''recv'', section_of = Sorting, kb_help = grouped HelpGroup_SortNums,
     bar = True, action = \<lambda>s. quietly (apply_sort SortKey_Recv s)\<rparr>,
    \<lparr>key = Chars ''5'', label = txt_of ''total'', section_of = Sorting, kb_help = grouped HelpGroup_SortNums,
     bar = True, action = \<lambda>s. quietly (apply_sort SortKey_Total s)\<rparr>]"

definition NAVIGATION_KEYS :: "Keybind list" where
  "NAVIGATION_KEYS = [
    \<lparr>key = KeySpec_Up, label = txt_of ''move'', section_of = Navigation, kb_help = grouped HelpGroup_Move,
     bar = True, action = \<lambda>s. quietly (move_cursor True s)\<rparr>,
    \<lparr>key = KeySpec_Down, label = txt_of ''move'', section_of = Navigation, kb_help = unlisted, bar = False,
     action = \<lambda>s. quietly (move_cursor False s)\<rparr>,
    \<lparr>key = Chars ''k'', label = txt_of ''move'', section_of = Navigation, kb_help = unlisted, bar = False,
     action = \<lambda>s. quietly (move_cursor True s)\<rparr>,
    \<lparr>key = Chars ''j'', label = txt_of ''move'', section_of = Navigation, kb_help = unlisted, bar = False,
     action = \<lambda>s. quietly (move_cursor False s)\<rparr>]"

definition FILTER_KEYS :: "Keybind list" where
  "FILTER_KEYS = [
    \<lparr>key = KeySpec_Enter, label = txt_of ''apply'', section_of = Filtering,
     kb_help = shown ''Apply filter'', bar = True, action = \<lambda>s. quietly (s, NoAction)\<rparr>,
    \<lparr>key = KeySpec_Tab, label = txt_of ''name '' @ [8644] @ txt_of '' pid'', section_of = Filtering,
     kb_help = \<lparr>help_active = True, help_group = None,
       help_text = txt_of ''Switch filter target (name '' @ [8644] @ txt_of '' pid)''\<rparr>,
     bar = True, action = \<lambda>s. quietly (s, NoAction)\<rparr>,
    \<lparr>key = KeySpec_Esc, label = txt_of ''cancel'', section_of = Filtering, kb_help = unlisted, bar = True,
     action = \<lambda>s. quietly (s, NoAction)\<rparr>,
    \<lparr>key = KeySpec_Backspace, label = [], section_of = Filtering,
     kb_help = shown ''Delete last character'', bar = False, action = \<lambda>s. quietly (s, NoAction)\<rparr>,
    \<lparr>key = Chars ''?'', label = txt_of ''help'', section_of = Other, kb_help = unlisted, bar = True,
     action = \<lambda>s. quietly (s, NoAction)\<rparr>]"

definition HELP_KEYS :: "Keybind list" where
  "HELP_KEYS = [
    \<lparr>key = KeySpec_Esc, label = txt_of ''hide'', section_of = Other, kb_help = unlisted, bar = True,
     action = \<lambda>s. quietly (s\<lparr>active_pane := Pane_Main\<rparr>, Redraw)\<rparr>]"

definition ALL_KEYS :: "Keybind list list" where
  "ALL_KEYS = [MAIN_KEYS, NAVIGATION_KEYS, SORT_KEYS, UNIT_PICKER_KEYS, FILTER_KEYS, HELP_KEYS, QUIT_KEYS]"

fun keybinds :: "Pane \<Rightarrow> Keybind list list" where
  "keybinds Pane_Main = [SORT_KEYS, NAVIGATION_KEYS, MAIN_KEYS, QUIT_KEYS]"
| "keybinds Pane_Unit = [UNIT_PICKER_KEYS, NAVIGATION_KEYS, QUIT_KEYS]"
| "keybinds Pane_Help = [HELP_KEYS, QUIT_KEYS]"
| "keybinds Pane_Filter = [FILTER_KEYS]"

section \<open>Dispatch\<close>

datatype KeyCode =
    KeyCode_Char nat | KeyCode_Up | KeyCode_Down | KeyCode_Enter | KeyCode_Esc | KeyCode_Backspace
  | KeyCode_Tab | KeyCode_Other nat

fun key_matches :: "KeySpec \<Rightarrow> KeyCode \<Rightarrow> bool" where
  "key_matches (Chars chars) code =
     (case code of KeyCode_Char c \<Rightarrow> to_ascii_lowercase c \<in> set (txt_of chars) | _ \<Rightarrow> False)"
| "key_matches (Ctrl c) code =
     (case code of KeyCode_Char ch \<Rightarrow> of_char c = to_ascii_lowercase ch | _ \<Rightarrow> False)"
| "key_matches KeySpec_Up code \<longleftrightarrow> code = KeyCode_Up"
| "key_matches KeySpec_Down code \<longleftrightarrow> code = KeyCode_Down"
| "key_matches KeySpec_Enter code \<longleftrightarrow> code = KeyCode_Enter"
| "key_matches KeySpec_Esc code \<longleftrightarrow> code = KeyCode_Esc"
| "key_matches KeySpec_Backspace code \<longleftrightarrow> code = KeyCode_Backspace"
| "key_matches KeySpec_Tab code \<longleftrightarrow> code = KeyCode_Tab"

fun is_ctrl :: "KeySpec \<Rightarrow> bool" where
  "is_ctrl (Ctrl _) = True"
| "is_ctrl _ = False"

definition handle_filter_input :: "KeyCode \<Rightarrow> TuiState \<Rightarrow> TuiState \<times> Action" where
  "handle_filter_input code s =
     (case code of
        KeyCode_Char c \<Rightarrow> (s\<lparr>filter_text := filter_text s @ [c]\<rparr>, Redraw)
      | KeyCode_Backspace \<Rightarrow> (s\<lparr>filter_text := butlast (filter_text s)\<rparr>, Redraw)
      | KeyCode_Tab \<Rightarrow> (s\<lparr>filter_target := FilterTarget_toggle (filter_target s)\<rparr>, Redraw)
      | KeyCode_Esc \<Rightarrow> (s\<lparr>active_pane := Pane_Main, filter_text := []\<rparr>, Redraw)
      | KeyCode_Enter \<Rightarrow> (s\<lparr>active_pane := Pane_Main\<rparr>, Redraw)
      | _ \<Rightarrow> (s, NoAction))"

text \<open>The binding that takes a key press: the first one of the pane that matches.\<close>

definition fires :: "bool \<Rightarrow> KeyCode \<Rightarrow> Keybind \<Rightarrow> bool" where
  "fires ctrl code kb \<longleftrightarrow> \<not> (is_ctrl (key kb) \<and> \<not> ctrl) \<and> key_matches (key kb) code"

definition binding_for :: "Pane \<Rightarrow> bool \<Rightarrow> KeyCode \<Rightarrow> Keybind option" where
  "binding_for pane ctrl code = find (fires ctrl code) (concat (keybinds pane))"

definition handle_key :: "bool \<Rightarrow> KeyCode \<Rightarrow> TuiState \<Rightarrow> key_result" where
  "handle_key ctrl code s =
     (if active_pane s = Pane_Filter then quietly (handle_filter_input code s)
      else case binding_for (active_pane s) ctrl code of
             Some kb \<Rightarrow> action kb s
           | None \<Rightarrow> quietly (s, NoAction))"

section \<open>Invariant\<close>

text \<open>
  The picker's cursor is on a unit, and the process ids of the view are those of its rows (both are
  written together by the renderer).
\<close>

definition tui_inv :: "TuiState \<Rightarrow> bool" where
  "tui_inv s \<longleftrightarrow> unit_picker_cursor s < length Unit_ALL \<and> length (view_pids s) = length (view s)"

lemma Unit_index_bound: "Unit_index u < length Unit_ALL"
  by (cases u) (simp_all add: Unit_index_def Unit_ALL_def)

lemma Unit_ALL_index: "Unit_ALL ! Unit_index u = u"
  by (cases u) (simp_all add: Unit_index_def Unit_ALL_def)

lemma new_tui_inv: "tui_inv TuiState_new"
  using Unit_index_bound by (simp add: tui_inv_def TuiState_new_def)

lemma move_cursor_inv: "tui_inv s \<Longrightarrow> tui_inv (fst (move_cursor up s))"
  by (auto simp: tui_inv_def move_cursor_def Let_def Unit_ALL_def split: Pane.split prod.split)

lemma apply_sort_inv: "tui_inv (fst (apply_sort k s)) = tui_inv s"
  by (simp add: apply_sort_def tui_inv_def)

lemma filter_input_inv: "tui_inv (fst (handle_filter_input code s)) = tui_inv s"
  by (simp add: handle_filter_input_def tui_inv_def split: KeyCode.split)

lemmas key_tables =
  SORT_KEYS_def NAVIGATION_KEYS_def MAIN_KEYS_def QUIT_KEYS_def UNIT_PICKER_KEYS_def HELP_KEYS_def
  FILTER_KEYS_def

text \<open>Every action keeps the invariant and does not panic.\<close>

definition safe_action :: "(TuiState \<Rightarrow> key_result) \<Rightarrow> bool" where
  "safe_action f \<longleftrightarrow> (\<forall>s. tui_inv s \<longrightarrow> (\<exists>s' a cmds. f s = Some (s', a, cmds) \<and> tui_inv s'))"

lemma safe_group:
  "list_all (\<lambda>kb. safe_action (action kb)) SORT_KEYS"
  "list_all (\<lambda>kb. safe_action (action kb)) NAVIGATION_KEYS"
  "list_all (\<lambda>kb. safe_action (action kb)) MAIN_KEYS"
  "list_all (\<lambda>kb. safe_action (action kb)) QUIT_KEYS"
  "list_all (\<lambda>kb. safe_action (action kb)) UNIT_PICKER_KEYS"
  "list_all (\<lambda>kb. safe_action (action kb)) HELP_KEYS"
  "list_all (\<lambda>kb. safe_action (action kb)) FILTER_KEYS"
  using Unit_index_bound move_cursor_inv apply_sort_inv
  by (auto simp: key_tables safe_action_def quietly_def apply_unit_def tui_inv_def)

lemma safe_bindings: "binding_for pane ctrl code = Some kb \<Longrightarrow> safe_action (action kb)"
proof -
  assume "binding_for pane ctrl code = Some kb"
  then have "kb \<in> set (concat (keybinds pane))"
    by (auto simp: binding_for_def find_Some_iff simp del: set_concat)
  then show ?thesis using safe_group by (cases pane) (auto simp: list_all_iff)
qed

lemma handle_key_safe: "safe_action (handle_key ctrl code)"
  unfolding safe_action_def
proof (intro allI impI)
  fix s assume inv: "tui_inv s"
  show "\<exists>s' a cmds. handle_key ctrl code s = Some (s', a, cmds) \<and> tui_inv s'"
    using inv safe_bindings [of "active_pane s" ctrl code] filter_input_inv [of code s]
    by (auto simp: handle_key_def quietly_def safe_action_def split: option.split)
qed

section \<open>Lemmas on scrolling\<close>

text \<open>When the rows do not fit, the offset moves by no more than the selection needs.\<close>

lemma clamp_scroll_fits:
  assumes "0 < len" and "unat vis = 0 \<or> len \<le> unat vis"
  shows "clamp_scroll sel off vis len = (min sel (len - 1), 0)"
  using assms by (simp add: clamp_scroll_def)

lemma scroll_step:
  fixes s v m :: nat
  assumes "0 < v"
  shows "(if s < m then s else if m + v - 1 < s then s + 1 - v else m) = max (s + 1 - v) (min s m)"
proof -
  consider "s < m" | "m \<le> s" "m + v - 1 < s" | "m \<le> s" "s \<le> m + v - 1" by linarith
  then show ?thesis using assms by cases (auto simp: max_def min_def)
qed

lemma scroll_nearest:
  fixes t v m w :: nat
  assumes "w \<le> t" and "t < w + v"
  shows "\<bar>int (max (t + 1 - v) (min t m)) - int m\<bar> \<le> \<bar>int w - int m\<bar>"
  using assms by (auto simp: max_def min_def)

lemma clamp_scroll_scrolls:
  fixes vis :: u16
  assumes "0 < unat vis" and "unat vis < len"
  shows "clamp_scroll sel off vis len =
    (min sel (len - 1),
     max (min sel (len - 1) + 1 - unat vis) (min (min sel (len - 1)) (min off (len - unat vis))))"
  using assms unfolding clamp_scroll_def Let_def scroll_step [OF assms(1)] by simp

lemma clamp_scroll_fst: "0 < len \<Longrightarrow> fst (clamp_scroll sel off vis len) = min sel (len - 1)"
  by (simp add: clamp_scroll_def Let_def)

lemma clamp_scroll_snd:
  fixes vis :: u16 and sel off len :: nat
  assumes "0 < len" and "0 < unat vis"
  defines "s \<equiv> fst (clamp_scroll sel off vis len)" and "o' \<equiv> snd (clamp_scroll sel off vis len)"
  shows "o' \<le> s" and "s < o' + unat vis" and "o' + unat vis \<le> max len (unat vis)"
proof -
  have "o' \<le> s \<and> s < o' + unat vis \<and> o' + unat vis \<le> max len (unat vis)"
  proof (cases "len \<le> unat vis")
    case True
    with assms(1) have "s = min sel (len - 1)" "o' = 0"
      by (simp_all add: s_def o'_def clamp_scroll_fits)
    with True assms(1) show ?thesis by auto
  next
    case False
    define m where "m = min off (len - unat vis)"
    define t where "t = min sel (len - 1)"
    have "s = t" and o: "o' = max (t + 1 - unat vis) (min t m)"
      using False assms(2) by (simp_all add: s_def o'_def m_def t_def clamp_scroll_scrolls)
    moreover have "m + unat vis \<le> len" "t < len" using False assms(1) by (simp_all add: m_def t_def)
    ultimately show ?thesis using assms(2) False by (simp add: max_def min_def split: if_splits)
  qed
  then show "o' \<le> s" and "s < o' + unat vis" and "o' + unat vis \<le> max len (unat vis)" by auto
qed

section \<open>Keys that do not do what the help says\<close>

text \<open>The prompt of the filter takes every character, with or without the control key.\<close>

lemma filter_prompt_types_ctrl_c:
  "active_pane s = Pane_Filter \<Longrightarrow>
    handle_key True (KeyCode_Char 99) s = Some (s\<lparr>filter_text := filter_text s @ [99]\<rparr>, Redraw, [])"
  by (simp add: handle_key_def handle_filter_input_def quietly_def)

lemma filter_prompt_types_question_mark:
  "active_pane s = Pane_Filter \<Longrightarrow>
    handle_key False (KeyCode_Char 63) s = Some (s\<lparr>filter_text := filter_text s @ [63]\<rparr>, Redraw, [])"
  by (simp add: handle_key_def handle_filter_input_def quietly_def)

text \<open>The help popup has no binding for the key that opens it.\<close>

lemma help_not_toggled:
  "active_pane s = Pane_Help \<Longrightarrow> handle_key False (KeyCode_Char 63) s = Some (s, NoAction, [])"
  by (simp add: handle_key_def binding_for_def fires_def key_tables quietly_def txt_of_def
      to_ascii_lowercase_def)

section \<open>Properties\<close>

text \<open>
  A window of \<open>visible\<close> rows that starts at \<open>start\<close> shows the row \<open>sel\<close>, and does not run past the last
  of \<open>len\<close> rows unless they all fit.
\<close>

definition window_fits :: "nat \<Rightarrow> nat \<Rightarrow> nat \<Rightarrow> nat \<Rightarrow> bool" where
  "window_fits sel visible len start \<longleftrightarrow>
     start \<le> sel \<and> sel < start + visible \<and> start + visible \<le> max len visible"

text \<open>
  C39. The window of rows that \<open>clamp_scroll\<close> computes, for a list and a window of at least one row: the
  selection is brought into the list, the window shows it and does not run past the last row unless
  all rows fit, and no window with these properties is closer to the one shown before (cut back to
  the list where that had become shorter).
\<close>

theorem clamp_scroll_moves_least:
  fixes vis :: u16 and sel off len :: nat
  assumes "0 < len" and "0 < unat vis" and "clamp_scroll sel off vis len = (sel', start)"
  shows "sel' = min sel (len - 1) \<and> window_fits sel' (unat vis) len start \<and>
    (\<forall>w. window_fits sel' (unat vis) len w \<longrightarrow>
      \<bar>int start - int (min off (len - unat vis))\<bar> \<le> \<bar>int w - int (min off (len - unat vis))\<bar>)"
proof -
  have start: "start = snd (clamp_scroll sel off vis len)" using assms(3) by simp
  define m where "m = min off (len - unat vis)"
  define t where "t = min sel (len - 1)"
  have fst: "fst (clamp_scroll sel off vis len) = t"
    using assms(1) by (simp add: clamp_scroll_fst t_def)
  have near: "\<bar>int start - int m\<bar> \<le> \<bar>int w - int m\<bar>"
    if "w \<le> t" "t < w + unat vis" "w + unat vis \<le> max len (unat vis)" for w
  proof (cases "len \<le> unat vis")
    case True
    with assms(1) have "start = 0" by (simp add: start clamp_scroll_fits)
    with True show ?thesis by (simp add: m_def)
  next
    case False
    then have "start = max (t + 1 - unat vis) (min t m)"
      using assms(2) by (simp add: start m_def t_def clamp_scroll_scrolls)
    with scroll_nearest [OF that(1,2)] show ?thesis by simp
  qed
  have "sel' = t" using fst assms(3) by simp
  then show ?thesis
    using clamp_scroll_snd [OF assms(1,2), of sel off] near
    unfolding start [symmetric] m_def [symmetric] t_def [symmetric] by (auto simp: window_fits_def fst)
qed

text \<open>
  Ten rows in a window of five that started at the top: for the row with index 7 it starts at 3; for
  one past the end of a list cut to six rows, at the last possible place.
\<close>

theorem clamp_scroll_moves_least_witness:
  "clamp_scroll 7 0 5 10 = (7, 3) \<and> window_fits 7 5 10 3 \<and>
   clamp_scroll 9 8 5 6 = (5, 1) \<and> window_fits 5 5 6 1"
  using clamp_scroll_moves_least [of 10 5 7 0 7 3] clamp_scroll_moves_least [of 6 5 9 8 5 1]
  by (simp add: clamp_scroll_def)

text \<open>
  C40. In every pane a key press, with or without the control key, triggers at most one of the bindings
  in force there, so the order in which the groups of bindings are searched does not matter.
\<close>

theorem bindings_unambiguous:
  "length (filter (fires ctrl code) (concat (keybinds pane))) \<le> 1"
proof (cases code)
  case (KeyCode_Char c)
  then show ?thesis
    by (cases pane; cases "to_ascii_lowercase c \<in> set (txt_of ''qcpdxu/?hr12345kj+-'')")
      (auto simp: key_tables fires_def txt_of_def)
qed (cases pane; simp add: key_tables fires_def txt_of_def)+

end
