(* ===== verification/Utf8.thy ===== *)
theory Utf8
  imports Stats
begin

text \<open>
  The text decoding of Rust's standard library that the daemon applies to names: strict and lossy
  UTF-8, and trimming of white space. A string is the list of its scalar values. The lossy decoder
  replaces each maximal invalid part by one U+FFFD.
\<close>

section \<open>Decoding\<close>

definition cont_byte :: "nat \<Rightarrow> bool" where
  "cont_byte b \<longleftrightarrow> 128 \<le> b \<and> b \<le> 191"

text \<open>The second bytes allowed after a first byte of a three- or four-byte sequence.\<close>

definition second_ok :: "nat \<Rightarrow> nat \<Rightarrow> bool" where
  "second_ok b0 b1 \<longleftrightarrow>
     (if b0 = 224 then 160 \<le> b1 \<and> b1 \<le> 191
      else if b0 = 237 then 128 \<le> b1 \<and> b1 \<le> 159
      else if b0 = 240 then 144 \<le> b1 \<and> b1 \<le> 191
      else if b0 = 244 then 128 \<le> b1 \<and> b1 \<le> 143
      else cont_byte b1)"

definition byte_at :: "bytes \<Rightarrow> nat \<Rightarrow> nat" where
  "byte_at bs i = (if i < length bs then unat (bs ! i) else 0)"

text \<open>
  The first scalar value of a non-empty sequence and the bytes it takes, or \<open>None\<close> and the length of
  the invalid part.
\<close>

definition decode_one :: "bytes \<Rightarrow> nat option \<times> nat" where
  "decode_one bs =
     (let b0 = byte_at bs 0; b1 = byte_at bs 1; b2 = byte_at bs 2; b3 = byte_at bs 3 in
      if b0 < 128 then (Some b0, 1)
      else if 194 \<le> b0 \<and> b0 \<le> 223 then
        (if cont_byte b1 then (Some ((b0 - 192) * 64 + (b1 - 128)), 2) else (None, 1))
      else if 224 \<le> b0 \<and> b0 \<le> 239 then
        (if \<not> second_ok b0 b1 then (None, 1)
         else if \<not> cont_byte b2 then (None, 2)
         else (Some ((b0 - 224) * 4096 + (b1 - 128) * 64 + (b2 - 128)), 3))
      else if 240 \<le> b0 \<and> b0 \<le> 244 then
        (if \<not> second_ok b0 b1 then (None, 1)
         else if \<not> cont_byte b2 then (None, 2)
         else if \<not> cont_byte b3 then (None, 3)
         else (Some ((b0 - 240) * 262144 + (b1 - 128) * 4096 + (b2 - 128) * 64 + (b3 - 128)), 4))
      else (None, 1))"

lemma decode_one_pos: "0 < snd (decode_one bs)"
  by (simp add: decode_one_def Let_def)

function from_utf8_lossy :: "bytes \<Rightarrow> rstring" where
  "from_utf8_lossy bs =
     (if bs = [] then []
      else (case fst (decode_one bs) of Some ch \<Rightarrow> ch | None \<Rightarrow> 65533)
             # from_utf8_lossy (drop (snd (decode_one bs)) bs))"
  by pat_completeness auto
termination
  by (relation "measure length") (use decode_one_pos in auto)

function from_utf8 :: "bytes \<Rightarrow> rstring option" where
  "from_utf8 bs =
     (if bs = [] then Some []
      else case fst (decode_one bs) of
             None \<Rightarrow> None
           | Some ch \<Rightarrow> map_option ((#) ch) (from_utf8 (drop (snd (decode_one bs)) bs)))"
  by pat_completeness auto
termination
  by (relation "measure length") (use decode_one_pos in auto)

declare from_utf8_lossy.simps [simp del] from_utf8.simps [simp del]

section \<open>Encoding\<close>

definition scalar_value :: "nat \<Rightarrow> bool" where
  "scalar_value ch \<longleftrightarrow> ch < 1114112 \<and> \<not> (55296 \<le> ch \<and> ch \<le> 57343)"

definition char_units :: "nat \<Rightarrow> nat list" where
  "char_units ch =
     (if ch < 128 then [ch]
      else if ch < 2048 then [192 + ch div 64, 128 + ch mod 64]
      else if ch < 65536 then [224 + ch div 4096, 128 + ch div 64 mod 64, 128 + ch mod 64]
      else [240 + ch div 262144, 128 + ch div 4096 mod 64, 128 + ch div 64 mod 64, 128 + ch mod 64])"

definition encode_char :: "nat \<Rightarrow> bytes" where
  "encode_char ch = map word_of_nat (char_units ch)"

definition to_utf8 :: "rstring \<Rightarrow> bytes" where
  "to_utf8 s = concat (map encode_char s)"

section \<open>White space\<close>

text \<open>\<open>char::is_whitespace\<close> (the Unicode property \<open>White_Space\<close>) and \<open>str::trim\<close>.\<close>

definition is_whitespace :: "nat \<Rightarrow> bool" where
  "is_whitespace ch \<longleftrightarrow>
     (9 \<le> ch \<and> ch \<le> 13) \<or> ch = 32 \<or> ch = 133 \<or> ch = 160 \<or> ch = 5760 \<or>
     (8192 \<le> ch \<and> ch \<le> 8202) \<or> ch = 8232 \<or> ch = 8233 \<or> ch = 8239 \<or> ch = 8287 \<or> ch = 12288"

definition trim :: "rstring \<Rightarrow> rstring" where
  "trim s = rev (dropWhile is_whitespace (rev (dropWhile is_whitespace s)))"

section \<open>Round trip\<close>

lemma byte_at_word: "i < length ns \<Longrightarrow> byte_at (map word_of_nat ns @ rest) i = ns ! i mod 256"
  by (simp add: byte_at_def nth_append unat_of_nat)

lemma base64_digits: "n = n div 4096 * 4096 + n div 64 mod 64 * 64 + n mod 64" for n :: nat
proof -
  have "n = n div 64 * 64 + n mod 64" by simp
  moreover have "n div 64 = n div 4096 * 64 + n div 64 mod 64"
    using div_mult_mod_eq [of "n div 64" 64] by (simp add: div_mult2_eq [symmetric])
  ultimately show ?thesis by linarith
qed

text \<open>The four lengths of an encoded scalar value, by its base-64 digits.\<close>

lemma encode_char_digits:
  "ch < 128 \<Longrightarrow> encode_char ch = map word_of_nat [ch]"
  "128 \<le> ch \<Longrightarrow> ch < 2048 \<Longrightarrow> encode_char ch = map word_of_nat [192 + ch div 64, 128 + ch mod 64]"
  "2048 \<le> ch \<Longrightarrow> ch < 65536 \<Longrightarrow> encode_char ch =
     map word_of_nat [224 + ch div 4096, 128 + ch div 64 mod 64, 128 + ch mod 64]"
  "65536 \<le> ch \<Longrightarrow> encode_char ch = map word_of_nat
     [240 + ch div 262144, 128 + ch div 4096 mod 64, 128 + ch div 64 mod 64, 128 + ch mod 64]"
  by (simp_all add: encode_char_def char_units_def)

lemma decode_two:
  assumes "b < 64" "2 \<le> a" "a < 32"
  shows "decode_one (map word_of_nat [192 + a, 128 + b] @ rest) = (Some (a * 64 + b), 2)"
  using assms byte_at_word [of 0 "[192 + a, 128 + b]" rest]
    byte_at_word [of 1 "[192 + a, 128 + b]" rest]
  by (simp add: decode_one_def cont_byte_def Let_def)

lemma decode_three:
  assumes "b < 64" "c < 64" "a < 16" "a = 0 \<Longrightarrow> 32 \<le> b" "a = 13 \<Longrightarrow> b < 32"
  shows "decode_one (map word_of_nat [224 + a, 128 + b, 128 + c] @ rest) =
    (Some (a * 4096 + b * 64 + c), 3)"
  using assms byte_at_word [of 0 "[224 + a, 128 + b, 128 + c]" rest]
    byte_at_word [of 1 "[224 + a, 128 + b, 128 + c]" rest]
    byte_at_word [of 2 "[224 + a, 128 + b, 128 + c]" rest]
  by (auto simp: decode_one_def cont_byte_def second_ok_def Let_def)

lemma decode_four:
  assumes "b < 64" "c < 64" "d < 64" "a \<le> 4" "a = 0 \<Longrightarrow> 16 \<le> b" "a = 4 \<Longrightarrow> b < 16"
  shows "decode_one (map word_of_nat [240 + a, 128 + b, 128 + c, 128 + d] @ rest) =
    (Some (a * 262144 + b * 4096 + c * 64 + d), 4)"
  using assms byte_at_word [of 0 "[240 + a, 128 + b, 128 + c, 128 + d]" rest]
    byte_at_word [of 1 "[240 + a, 128 + b, 128 + c, 128 + d]" rest]
    byte_at_word [of 2 "[240 + a, 128 + b, 128 + c, 128 + d]" rest]
    byte_at_word [of 3 "[240 + a, 128 + b, 128 + c, 128 + d]" rest]
  by (auto simp: decode_one_def cont_byte_def second_ok_def Let_def)

lemma decode_encode_char:
  assumes "scalar_value ch"
  shows "decode_one (encode_char ch @ rest) = (Some ch, length (encode_char ch))"
proof -
  consider "ch < 128" | "128 \<le> ch" "ch < 2048" | "2048 \<le> ch" "ch < 65536" | "65536 \<le> ch" by linarith
  then show ?thesis
  proof cases
    case 1
    then show ?thesis using byte_at_word [of 0 "[ch]" rest]
      by (simp add: decode_one_def encode_char_digits(1))
  next
    case 2
    then have "2 \<le> ch div 64" "ch div 64 < 32" by auto
    with 2 decode_two [of "ch mod 64" "ch div 64" rest] show ?thesis
      by (simp add: encode_char_digits(2))
  next
    case 3
    define a b c where "a = ch div 4096" and "b = ch div 64 mod 64" and "c = ch mod 64"
    have ch: "ch = a * 4096 + b * 64 + c"
      unfolding a_def b_def c_def by (rule base64_digits)
    have bd: "b < 64" "c < 64" "a < 16" using 3 unfolding a_def b_def c_def by auto
    have "a = 0 \<Longrightarrow> 32 \<le> b" "a = 13 \<Longrightarrow> b < 32"
      using 3(1) assms ch bd unfolding scalar_value_def by linarith+
    from decode_three [OF bd this, of rest] show ?thesis
      unfolding encode_char_digits(3) [OF 3, folded a_def b_def c_def] ch [symmetric] by simp
  next
    case 4
    define a b c d where "a = ch div 262144" and "b = ch div 4096 mod 64" and "c = ch div 64 mod 64"
      and "d = ch mod 64"
    have ch: "ch = a * 262144 + b * 4096 + c * 64 + d"
      using base64_digits [of ch] div_mult_mod_eq [of "ch div 4096" 64]
      unfolding a_def b_def c_def d_def by (simp add: div_mult2_eq [symmetric])
    have bd: "b < 64" "c < 64" "d < 64" "a \<le> 4"
      using assms unfolding a_def b_def c_def d_def scalar_value_def by auto
    have "a = 0 \<Longrightarrow> 16 \<le> b" "a = 4 \<Longrightarrow> b < 16"
      using 4 assms ch bd unfolding scalar_value_def by linarith+
    from decode_four [OF bd this, of rest] show ?thesis
      unfolding encode_char_digits(4) [OF 4, folded a_def b_def c_def d_def] ch [symmetric] by simp
  qed
qed

lemma encode_char_ne: "encode_char ch \<noteq> []"
  by (simp add: encode_char_def char_units_def)

lemma from_utf8_lossy_to_utf8: "list_all scalar_value s \<Longrightarrow> from_utf8_lossy (to_utf8 s) = s"
proof (induction s)
  case Nil
  show ?case by (simp add: to_utf8_def from_utf8_lossy.simps)
next
  case (Cons ch s)
  then show ?case
    using decode_encode_char [of ch "to_utf8 s"] encode_char_ne [of ch]
    by (simp add: to_utf8_def from_utf8_lossy.simps [of "encode_char ch @ _"])
qed

lemma from_utf8_to_utf8: "list_all scalar_value s \<Longrightarrow> from_utf8 (to_utf8 s) = Some s"
proof (induction s)
  case Nil
  show ?case by (simp add: to_utf8_def from_utf8.simps)
next
  case (Cons ch s)
  then show ?case
    using decode_encode_char [of ch "to_utf8 s"] encode_char_ne [of ch]
    by (simp add: to_utf8_def from_utf8.simps [of "encode_char ch @ _"])
qed

text \<open>Where strict decoding succeeds the lossy one agrees.\<close>

lemma from_utf8_lossy_valid: "from_utf8 bs = Some s \<Longrightarrow> from_utf8_lossy bs = s"
proof (induction bs arbitrary: s rule: from_utf8.induct)
  case (1 bs)
  then show ?case
    by (simp add: from_utf8.simps [of bs] from_utf8_lossy.simps [of bs] split: if_splits option.splits)
      auto
qed

lemma char_units_bytes: "0 < ch \<Longrightarrow> scalar_value ch \<Longrightarrow> list_all (\<lambda>n. 0 < n \<and> n < 256) (char_units ch)"
  by (auto simp: char_units_def scalar_value_def div_less_iff_less_mult intro: order_less_trans)

lemma encode_char_no_zero:
  assumes "0 < ch" and "scalar_value ch"
  shows "0 \<notin> set (encode_char ch)"
  using char_units_bytes [OF assms]
  by (auto simp: encode_char_def list_all_iff word_unat_eq_iff unat_of_nat)

end
