(* ===== verification/Tui_Order.thy ===== *)
theory Tui_Order
  imports Tui_State Utf8 "HOL-Library.List_Lexorder" "HOL-Library.Sorting_Algorithms"
begin

text \<open>
  Which rows the client's table shows and in which order (\<open>sort_rows\<close>, \<open>sort_dead_procs\<close> and the
  first half of \<open>render\<close> in \<open>procnet/src/tui/view.rs\<close>). A closure passed to \<open>sort_by\<close> is a
  comparator, built the way the closure builds its \<open>Ordering\<close>, and the stable sort is the library's.
\<close>

section \<open>Comparing rows\<close>

text \<open>
  \<open>if dir == SortDir::Desc { primary.reverse() } else { primary }\<close> and
  \<open>primary.then_with(|| ra.pid.cmp(&rb.pid))\<close>, for a primary column of any ordered type.
\<close>

definition directed :: "SortDir \<Rightarrow> 'a comparator \<Rightarrow> 'a comparator" where
  "directed dir primary = (case dir of Desc \<Rightarrow> reversed primary | Asc \<Rightarrow> primary)"

definition then_pid :: "SortDir \<Rightarrow> ('r \<Rightarrow> 'k::linorder) \<Rightarrow> ('r \<Rightarrow> u32) \<Rightarrow> 'r comparator" where
  "then_pid dir column pid = Comparator.key (\<lambda>r. (column r, pid r)) (prod_lex (directed dir default) default)"

text \<open>Strings compare as the bytes of their UTF-8 form.\<close>

definition row_order :: "SortKey \<Rightarrow> SortDir \<Rightarrow> StatsRow comparator" where
  "row_order k dir =
     (case k of
        SortKey_Pid \<Rightarrow> then_pid dir row_pid row_pid
      | SortKey_Name \<Rightarrow> then_pid dir (\<lambda>r. to_utf8 (row_name r)) row_pid
      | SortKey_Sent \<Rightarrow> then_pid dir (\<lambda>r. sent (row_total r)) row_pid
      | SortKey_Recv \<Rightarrow> then_pid dir (\<lambda>r. recv (row_total r)) row_pid
      | SortKey_Total \<Rightarrow> then_pid dir (\<lambda>r. combine (row_total r)) row_pid)"

definition dead_total :: "ProcInfo \<Rightarrow> StatsBytes" where
  "dead_total p = merge (pi_tcp_cum p) (pi_udp_cum p)"

definition dead_order :: "SortKey \<Rightarrow> SortDir \<Rightarrow> ProcInfo comparator" where
  "dead_order k dir =
     (case k of
        SortKey_Pid \<Rightarrow> then_pid dir pi_pid pi_pid
      | SortKey_Name \<Rightarrow> then_pid dir (\<lambda>p. to_utf8 (pi_name p)) pi_pid
      | SortKey_Sent \<Rightarrow> then_pid dir (\<lambda>p. sent (dead_total p)) pi_pid
      | SortKey_Recv \<Rightarrow> then_pid dir (\<lambda>p. recv (dead_total p)) pi_pid
      | SortKey_Total \<Rightarrow> then_pid dir (\<lambda>p. combine (dead_total p)) pi_pid)"

text \<open>
  \<open>indices.sort_by(\<dots> rows[a] \<dots>)\<close>: an index out of range panics once it is compared, that is when
  there are two indices or more.
\<close>

definition sort_indices :: "'r comparator \<Rightarrow> 'r list \<Rightarrow> nat list \<Rightarrow> nat list option" where
  "sort_indices cmp rows indices =
     (if length indices \<le> 1 \<or> list_all (\<lambda>i. i < length rows) indices
      then Some (Sorting_Algorithms.sort (Comparator.key (\<lambda>i. rows ! i) cmp) indices)
      else None)"

definition sort_rows :: "StatsRow list \<Rightarrow> nat list \<Rightarrow> SortKey \<Rightarrow> SortDir \<Rightarrow> nat list option" where
  "sort_rows rows indices k dir = sort_indices (row_order k dir) rows indices"

definition sort_dead_procs :: "ProcInfo list \<Rightarrow> nat list \<Rightarrow> SortKey \<Rightarrow> SortDir \<Rightarrow> nat list option" where
  "sort_dead_procs ps indices k dir = sort_indices (dead_order k dir) ps indices"

section \<open>Filtering\<close>

text \<open>\<open>str::contains\<close>.\<close>

fun contains :: "rstring \<Rightarrow> rstring \<Rightarrow> bool" where
  "contains hay needle =
     (take (length needle) hay = needle \<or> (case hay of [] \<Rightarrow> False | _ # rest \<Rightarrow> contains rest needle))"

declare contains.simps [simp del]

definition filter_keeps :: "FilterTarget \<Rightarrow> rstring \<Rightarrow> u32 \<Rightarrow> rstring \<Rightarrow> bool" where
  "filter_keeps target needle pid nm =
     (case target of
        FilterTarget_Name \<Rightarrow> contains nm needle
      | FilterTarget_Pid \<Rightarrow> contains (txt_of (show_nat (unat pid))) needle)"

text \<open>The indices of the rows that pass the filter; an empty filter keeps all of them.\<close>

definition matching :: "TuiState \<Rightarrow> (u32 \<times> rstring) list \<Rightarrow> nat list" where
  "matching s rows =
     (if filter_text s = [] then [0..<length rows]
      else let needle = make_ascii_lowercase (filter_text s) in
        filter (\<lambda>i. filter_keeps (filter_target s) needle (fst (rows ! i)) (snd (rows ! i)))
          [0..<length rows])"

section \<open>The view\<close>

definition live_view :: "SnapshotData \<Rightarrow> TuiState \<Rightarrow> nat list option" where
  "live_view snap s =
     (if snap_rows snap = [] then Some []
      else sort_rows (snap_rows snap) (matching s (map (\<lambda>r. (row_pid r, row_name r)) (snap_rows snap)))
             (sort_key s) (sort_dir s))"

definition dead_view :: "SnapshotData \<Rightarrow> TuiState \<Rightarrow> nat list option" where
  "dead_view snap s =
     (if snap_dead_procs snap = [] then Some []
      else sort_dead_procs (snap_dead_procs snap)
             (matching s (map (\<lambda>p. (pi_pid p, pi_name p)) (snap_dead_procs snap)))
             (sort_key s) (sort_dir s))"

definition refresh_view :: "SnapshotData \<Rightarrow> TuiState \<Rightarrow> TuiState option" where
  "refresh_view snap s =
     map_option (\<lambda>v. s\<lparr>view := v\<rparr>)
       (case view_mode s of Live \<Rightarrow> live_view snap s | Dead \<Rightarrow> dead_view snap s)"

section \<open>Reference order\<close>

text \<open>
  What the table's order means: rows ascend or descend in the chosen column, and rows that agree in
  it ascend by process id whatever the direction. Columns are compared as lists of numbers.
\<close>

definition column_order :: "SortDir \<Rightarrow> nat list \<times> u32 \<Rightarrow> nat list \<times> u32 \<Rightarrow> bool" where
  "column_order dir a b \<longleftrightarrow>
     (case dir of Asc \<Rightarrow> fst a < fst b | Desc \<Rightarrow> fst b < fst a) \<or> fst a = fst b \<and> snd a \<le> snd b"

definition column_of :: "SortKey \<Rightarrow> u32 \<Rightarrow> rstring \<Rightarrow> StatsBytes \<Rightarrow> nat list \<times> u32" where
  "column_of k pid nm bytes =
     (case k of
        SortKey_Pid \<Rightarrow> [unat pid]
      | SortKey_Name \<Rightarrow> map unat (to_utf8 nm)
      | SortKey_Sent \<Rightarrow> [unat (sent bytes)]
      | SortKey_Recv \<Rightarrow> [unat (recv bytes)]
      | SortKey_Total \<Rightarrow> [unat (combine bytes)], pid)"

definition row_column :: "SortKey \<Rightarrow> StatsRow \<Rightarrow> nat list \<times> u32" where
  "row_column k r = column_of k (row_pid r) (row_name r) (row_total r)"

definition dead_column :: "SortKey \<Rightarrow> ProcInfo \<Rightarrow> nat list \<times> u32" where
  "dead_column k p = column_of k (pi_pid p) (pi_name p) (dead_total p)"

section \<open>Lemmas\<close>

lemma compare_then_pid:
  "compare (then_pid dir c pid) a b \<noteq> Greater \<longleftrightarrow>
    (case dir of Asc \<Rightarrow> c a < c b | Desc \<Rightarrow> c b < c a) \<or> c a = c b \<and> pid a \<le> pid b"
  by (cases dir) (auto simp: then_pid_def directed_def compare_prod_lex_apply split: comp.splits)

lemma unat_inject: "unat a = unat b \<longleftrightarrow> a = b"
  by (simp add: word_unat_eq_iff)

lemma less_list_unat: "map unat xs < map unat ys \<longleftrightarrow> xs < ys" for xs ys :: "'a::len word list"
proof (induction xs arbitrary: ys)
  case Nil
  show ?case by (cases ys) simp_all
next
  case (Cons x xs)
  show ?case by (cases ys) (simp_all add: Cons.IH word_less_nat_alt unat_inject)
qed

lemma eq_list_unat: "map unat xs = map unat ys \<longleftrightarrow> xs = ys" for xs ys :: "'a::len word list"
  by (rule inj_map_eq_map) (simp add: inj_on_def unat_inject)

lemmas column_defs = column_order_def column_of_def compare_then_pid

lemma compare_row_order:
  "compare (row_order k dir) a b \<noteq> Greater \<longleftrightarrow> column_order dir (row_column k a) (row_column k b)"
  by (cases k; cases dir)
    (auto simp: row_order_def row_column_def column_defs less_list_unat eq_list_unat
      word_less_nat_alt unat_inject)

lemma compare_dead_order:
  "compare (dead_order k dir) a b \<noteq> Greater \<longleftrightarrow> column_order dir (dead_column k a) (dead_column k b)"
  by (cases k; cases dir)
    (auto simp: dead_order_def dead_column_def column_defs less_list_unat eq_list_unat
      word_less_nat_alt unat_inject)

lemma sorted_comparator:
  "Sorting_Algorithms.sorted cmp xs \<longleftrightarrow> sorted_wrt (\<lambda>x y. compare cmp x y \<noteq> Greater) xs"
proof (induction xs)
  case Nil
  show ?case by simp
next
  case (Cons x xs)
  then show ?case
    using sorted_Cons_imp_not_less [of cmp x xs] sorted_Cons_imp_sorted [of cmp x xs]
      Sorting_Algorithms.sorted_ConsI [of cmp xs x] by auto
qed

text \<open>Sorting indices in range does not panic and gives the same indices in order.\<close>

lemma sort_indices_spec:
  assumes "\<forall>i \<in> set is. i < length rows"
  shows "\<exists>v. sort_indices cmp rows is = Some v \<and> mset v = mset is \<and>
    sorted_wrt (\<lambda>i j. compare cmp (rows ! i) (rows ! j) \<noteq> Greater) v"
  using assms Sorting_Algorithms.sorted_sort [of "Comparator.key (\<lambda>i. rows ! i) cmp" "is"]
  by (simp add: sort_indices_def list_all_iff sorted_comparator)

lemma matching_range: "i \<in> set (matching s rows) \<Longrightarrow> i < length rows"
  by (auto simp: matching_def Let_def split: if_splits)

lemma distinct_matching: "distinct (matching s rows)"
  by (simp add: matching_def Let_def)

lemma set_matching:
  "set (matching s rows) =
    {i. i < length rows \<and> (filter_text s = [] \<or>
      filter_keeps (filter_target s) (make_ascii_lowercase (filter_text s)) (fst (rows ! i)) (snd (rows ! i)))}"
  by (auto simp: matching_def)

lemma contains_iff: "contains hay needle \<longleftrightarrow> (\<exists>before after. hay = before @ needle @ after)"
proof (induction hay)
  case Nil
  show ?case by (subst contains.simps) auto
next
  case (Cons c hay)
  have "take (length needle) (c # hay) = needle \<longleftrightarrow> (\<exists>after. c # hay = needle @ after)"
    by (metis append_eq_conv_conj append_take_drop_id)
  then show ?case
    using Cons by (subst contains.simps) (auto simp: Cons_eq_append_conv)
qed

section \<open>Rows of the table\<close>

text \<open>What the two tables show of their rows: process id, name and byte counts.\<close>

definition table_rows :: "SnapshotData \<Rightarrow> TuiState \<Rightarrow> (u32 \<times> rstring \<times> StatsBytes) list" where
  "table_rows snap s =
     (case view_mode s of
        Live \<Rightarrow> map (\<lambda>r. (row_pid r, row_name r, row_total r)) (snap_rows snap)
      | Dead \<Rightarrow> map (\<lambda>p. (pi_pid p, pi_name p, dead_total p)) (snap_dead_procs snap))"

definition table_column :: "SortKey \<Rightarrow> u32 \<times> rstring \<times> StatsBytes \<Rightarrow> nat list \<times> u32" where
  "table_column k r = column_of k (fst r) (fst (snd r)) (snd (snd r))"

definition passes_filter :: "TuiState \<Rightarrow> u32 \<times> rstring \<times> StatsBytes \<Rightarrow> bool" where
  "passes_filter s r \<longleftrightarrow> filter_text s = [] \<or>
     filter_keeps (filter_target s) (make_ascii_lowercase (filter_text s)) (fst r) (fst (snd r))"

lemma matching_Nil [simp]: "matching s [] = []"
  by (simp add: matching_def)

lemma sort_indices_Nil [simp]: "sort_indices cmp rows [] = Some []"
  by (simp add: sort_indices_def)

text \<open>Filtering and sorting the rows of a table, whatever they are.\<close>

lemma sorted_view:
  assumes order: "\<And>a b. compare cmp a b \<noteq> Greater \<longleftrightarrow> column_order dir (table_column k (f a)) (table_column k (f b))"
  shows "\<exists>v. sort_indices cmp rows (matching s (map (\<lambda>r. (fst (f r), fst (snd (f r)))) rows)) = Some v \<and>
    distinct v \<and> set v = {i. i < length rows \<and> passes_filter s (map f rows ! i)} \<and>
    sorted_wrt (\<lambda>i j. column_order dir (table_column k (map f rows ! i)) (table_column k (map f rows ! j))) v"
proof -
  define ix where "ix = matching s (map (\<lambda>r. (fst (f r), fst (snd (f r)))) rows)"
  have range: "\<forall>i \<in> set ix. i < length rows" using matching_range unfolding ix_def by fastforce
  obtain v where v: "sort_indices cmp rows ix = Some v" "mset v = mset ix"
    "sorted_wrt (\<lambda>i j. compare cmp (rows ! i) (rows ! j) \<noteq> Greater) v"
    using sort_indices_spec [OF range] by blast
  have set: "set v = set ix" using v(2) by (rule mset_eq_setD)
  have "distinct v"
    using mset_eq_imp_distinct_iff [OF v(2)] distinct_matching unfolding ix_def by blast
  moreover have "set v = {i. i < length rows \<and> passes_filter s (map f rows ! i)}"
    unfolding set ix_def set_matching by (auto simp: passes_filter_def)
  moreover have "sorted_wrt (\<lambda>i j. column_order dir (table_column k (map f rows ! i))
      (table_column k (map f rows ! j))) v"
    using v(3) range unfolding order by (elim sorted_wrt_mono_rel [rotated]) (auto simp: set)
  ultimately show ?thesis using v(1) unfolding ix_def by blast
qed

lemma live_view_sort:
  "live_view snap s = sort_indices (row_order (sort_key s) (sort_dir s)) (snap_rows snap)
     (matching s (map (\<lambda>r. (row_pid r, row_name r)) (snap_rows snap)))"
  by (simp add: live_view_def sort_rows_def)

lemma dead_view_sort:
  "dead_view snap s = sort_indices (dead_order (sort_key s) (sort_dir s)) (snap_dead_procs snap)
     (matching s (map (\<lambda>p. (pi_pid p, pi_name p)) (snap_dead_procs snap)))"
  by (simp add: dead_view_def sort_dead_procs_def)

lemma refresh_view_range:
  "\<exists>v. refresh_view snap s = Some (s\<lparr>view := v\<rparr>) \<and> (\<forall>i \<in> set v. i < length (table_rows snap s))"
proof (cases "view_mode s")
  case Live
  define ix where "ix = matching s (map (\<lambda>r. (row_pid r, row_name r)) (snap_rows snap))"
  have range: "\<forall>i \<in> set ix. i < length (snap_rows snap)"
    using matching_range unfolding ix_def by fastforce
  then show ?thesis
    using sort_indices_spec [OF range, of "row_order (sort_key s) (sort_dir s)"] Live
    by (auto simp: refresh_view_def live_view_sort table_rows_def ix_def dest!: mset_eq_setD)
next
  case Dead
  define ix where "ix = matching s (map (\<lambda>p. (pi_pid p, pi_name p)) (snap_dead_procs snap))"
  have range: "\<forall>i \<in> set ix. i < length (snap_dead_procs snap)"
    using matching_range unfolding ix_def by fastforce
  then show ?thesis
    using sort_indices_spec [OF range, of "dead_order (sort_key s) (sort_dir s)"] Dead
    by (auto simp: refresh_view_def dead_view_sort table_rows_def ix_def dest!: mset_eq_setD)
qed

lemma refresh_view_spec:
  "\<exists>v. refresh_view snap s = Some (s\<lparr>view := v\<rparr>) \<and> distinct v \<and>
    set v = {i. i < length (table_rows snap s) \<and> passes_filter s (table_rows snap s ! i)} \<and>
    sorted_wrt (\<lambda>i j. column_order (sort_dir s) (table_column (sort_key s) (table_rows snap s ! i))
      (table_column (sort_key s) (table_rows snap s ! j))) v"
proof (cases "view_mode s")
  case Live
  have "\<exists>v. live_view snap s = Some v \<and> distinct v \<and>
    set v = {i. i < length (table_rows snap s) \<and> passes_filter s (table_rows snap s ! i)} \<and>
    sorted_wrt (\<lambda>i j. column_order (sort_dir s) (table_column (sort_key s) (table_rows snap s ! i))
      (table_column (sort_key s) (table_rows snap s ! j))) v"
    using sorted_view [of "row_order (sort_key s) (sort_dir s)" "sort_dir s" "sort_key s"
        "\<lambda>r. (row_pid r, row_name r, row_total r)" "snap_rows snap" s] Live
    by (simp add: table_rows_def live_view_sort compare_row_order row_column_def table_column_def)
  with Live show ?thesis by (auto simp: refresh_view_def)
next
  case Dead
  have "\<exists>v. dead_view snap s = Some v \<and> distinct v \<and>
    set v = {i. i < length (table_rows snap s) \<and> passes_filter s (table_rows snap s ! i)} \<and>
    sorted_wrt (\<lambda>i j. column_order (sort_dir s) (table_column (sort_key s) (table_rows snap s ! i))
      (table_column (sort_key s) (table_rows snap s ! j))) v"
    using sorted_view [of "dead_order (sort_key s) (sort_dir s)" "sort_dir s" "sort_key s"
        "\<lambda>p. (pi_pid p, pi_name p, dead_total p)" "snap_dead_procs snap" s] Dead
    by (simp add: table_rows_def dead_view_sort compare_dead_order dead_column_def table_column_def)
  with Dead show ?thesis by (auto simp: refresh_view_def)
qed

section \<open>Properties\<close>

text \<open>
  C10. Refreshing the view never fails, changes nothing but the view, and makes it exactly the rows of
  the table that pass the filter, each once, in the order of the chosen column and direction with ties
  by ascending process id.
\<close>

theorem view_filtered_and_sorted:
  "\<exists>v. refresh_view snap s = Some (s\<lparr>view := v\<rparr>) \<and> distinct v \<and>
    set v = {i. i < length (table_rows snap s) \<and> passes_filter s (table_rows snap s ! i)} \<and>
    sorted_wrt (\<lambda>i j. column_order (sort_dir s) (table_column (sort_key s) (table_rows snap s ! i))
      (table_column (sort_key s) (table_rows snap s ! j))) v"
  by (rule refresh_view_spec)

end
