(* ===== verification/Text_Format.thy ===== *)
theory Text_Format
  imports Prelude
begin

text \<open>
  What the client uses of Rust's standard library to print values: integers, addresses of both
  internet protocols, and the double-precision numbers behind the byte counts and the colours. A
  double is kept as the exact value it stands for, rounded to 53 bits where the machine rounds.
\<close>

section \<open>Integers\<close>

text \<open>\<open>to_string\<close>, \<open>{:x}\<close> and \<open>{:<n}\<close> (padding on the right with spaces).\<close>

definition decimal :: "nat \<Rightarrow> rstring" where
  "decimal n = txt_of (show_nat n)"

fun show_hex :: "nat \<Rightarrow> rstring" where
  "show_hex n =
     (let d = (\<lambda>k. if k < 10 then 48 + k else 87 + k) in
      if n < 16 then [d n] else show_hex (n div 16) @ [d (n mod 16)])"

declare show_hex.simps [simp del]

definition pad_right :: "nat \<Rightarrow> rstring \<Rightarrow> rstring" where
  "pad_right n t = t @ replicate (n - length t) 32"

fun join :: "rstring \<Rightarrow> rstring list \<Rightarrow> rstring" where
  "join sep [] = []"
| "join sep [t] = t"
| "join sep (t # ts) = t @ sep @ join sep ts"

section \<open>Internet addresses\<close>

text \<open>\<open>u32::from_be\<close> on a little-endian machine, and \<open>Display\<close> of \<open>Ipv4Addr::from(u32)\<close>.\<close>

definition u32_from_be :: "u32 \<Rightarrow> u32" where
  "u32_from_be w = get_word (rev (put_word 4 w))"

definition show_octets :: "bytes \<Rightarrow> rstring" where
  "show_octets bs = join (txt_of ''.'') (map (\<lambda>b. decimal (unat b)) bs)"

definition show_ipv4 :: "u32 \<Rightarrow> rstring" where
  "show_ipv4 w = show_octets (rev (put_word 4 w))"

text \<open>The eight segments of an \<open>Ipv6Addr\<close>, most significant byte first.\<close>

fun segments :: "bytes \<Rightarrow> nat list" where
  "segments (hi # lo # bs) = (256 * unat hi + unat lo) # segments bs"
| "segments _ = []"

text \<open>
  The first longest run of zero segments, as start and length: a scan that keeps the longest run
  seen and the current one.
\<close>

fun zero_run :: "nat \<Rightarrow> nat \<times> nat \<Rightarrow> nat \<times> nat \<Rightarrow> nat list \<Rightarrow> nat \<times> nat" where
  "zero_run i longest current [] = longest"
| "zero_run i longest current (s # ss) =
     (if s = 0
      then let current' = (if snd current = 0 then i else fst current, snd current + 1) in
        zero_run (i + 1) (if snd longest < snd current' then current' else longest) current' ss
      else zero_run (i + 1) longest (0, 0) ss)"

definition show_segments :: "nat list \<Rightarrow> rstring" where
  "show_segments ss = join (txt_of '':'') (map show_hex ss)"

text \<open>
  \<open>Display\<close> of \<open>Ipv6Addr\<close>: an IPv4-mapped address in its own notation, otherwise the segments with
  the longest run of at least two zeros abbreviated.
\<close>

definition show_ipv6 :: "bytes \<Rightarrow> rstring" where
  "show_ipv6 bs =
     (let ss = segments bs in
      if take 6 ss = [0, 0, 0, 0, 0, 65535] then txt_of ''::ffff:'' @ show_octets (drop 12 bs)
      else let (start, len) = zero_run 0 (0, 0) (0, 0) ss in
        if 1 < len
        then show_segments (take start ss) @ txt_of ''::'' @ show_segments (drop (start + len) ss)
        else show_segments ss)"

section \<open>Double-precision numbers\<close>

text \<open>The integer nearest to \<open>a / b\<close>, the even one of two equally near.\<close>

definition round_half_even :: "nat \<Rightarrow> nat \<Rightarrow> nat" where
  "round_half_even a b =
     (let q = a div b; r = a mod b in if 2 * r < b \<or> (2 * r = b \<and> even q) then q else q + 1)"

text \<open>\<open>n as f64\<close>: 53 significant bits are kept.\<close>

fun excess_bits :: "nat \<Rightarrow> nat" where
  "excess_bits n = (if n < 2 ^ 53 then 0 else Suc (excess_bits (n div 2)))"

declare excess_bits.simps [simp del]

definition u64_as_f64 :: "u64 \<Rightarrow> nat" where
  "u64_as_f64 w = (let n = unat w; e = excess_bits n in round_half_even n (2 ^ e) * 2 ^ e)"

text \<open>
  The quotient of two doubles that hold integers, for a quotient of at most 1: the pair \<open>(m, k)\<close>
  stands for \<open>m / 2 ^ k\<close>. The divisors of the byte counts are powers of two, so those quotients
  are exact.
\<close>

function scale_up :: "nat \<Rightarrow> nat \<Rightarrow> nat" where
  "scale_up a b = (if a = 0 \<or> 2 ^ 52 * b \<le> a then 0 else Suc (scale_up (2 * a) b))"
  by pat_completeness auto
termination
  by (relation "measure (\<lambda>(a, b). 2 ^ 52 * b - a)") auto

declare scale_up.simps [simp del]

definition f64_ratio :: "nat \<Rightarrow> nat \<Rightarrow> nat \<times> nat" where
  "f64_ratio a b = (let k = scale_up a b in (round_half_even (2 ^ k * a) b, k))"

definition f64_less :: "nat \<times> nat \<Rightarrow> nat \<times> nat \<Rightarrow> bool" where
  "f64_less x y \<longleftrightarrow> fst x * 2 ^ snd y < fst y * 2 ^ snd x"

text \<open>\<open>{:.2}\<close> of \<open>a / b\<close>: the nearest number of hundredths, half to even.\<close>

definition hundredths :: "nat \<Rightarrow> nat \<Rightarrow> nat" where
  "hundredths a b = round_half_even (100 * a) b"

definition show_hundredths :: "nat \<Rightarrow> rstring" where
  "show_hundredths h =
     decimal (h div 100) @ txt_of ''.'' @ decimal (h mod 100 div 10) @ decimal (h mod 10)"

section \<open>Lemmas on printed integers\<close>

lemma of_char_of_digit [simp]: "of_char (char_of (48 + n) :: char) = (48 + n :: nat)" if "n < 10"
  using that by simp

lemma decimal_rec:
  "decimal n = (if n < 10 then [48 + n] else decimal (n div 10) @ [48 + n mod 10])"
  unfolding decimal_def txt_of_def by (subst show_nat.simps) simp

lemma decimal_digits: "set (decimal n) \<subseteq> {48..57}"
proof (induction n rule: less_induct)
  case (less n)
  have "set (decimal (n div 10)) \<subseteq> {48..57}" if "\<not> n < 10" using that by (intro less) simp
  then show ?case by (subst decimal_rec) (auto simp: less_Suc_eq_le)
qed

lemma decimal_not_Nil [simp]: "decimal n \<noteq> []"
  by (subst decimal_rec) simp

definition digits_value :: "rstring \<Rightarrow> nat" where
  "digits_value t = foldl (\<lambda>v ch. 10 * v + (ch - 48)) 0 t"

lemma digits_value_decimal [simp]: "digits_value (decimal n) = n"
proof (induction n rule: less_induct)
  case (less n)
  have "digits_value (decimal (n div 10)) = n div 10" if "\<not> n < 10" using that by (intro less) simp
  then show ?case by (subst decimal_rec) (auto simp: digits_value_def)
qed

lemma decimal_inject [simp]: "decimal m = decimal n \<longleftrightarrow> m = n"
  by (metis digits_value_decimal)

text \<open>A text of digits before a separator can be read back.\<close>

lemma split_at_separator:
  assumes "xs @ c # ys = xs' @ c # ys'" and "c \<notin> set xs" and "c \<notin> set xs'"
  shows "xs = xs' \<and> ys = ys'"
  using assms by (induction xs arbitrary: xs') (auto simp: Cons_eq_append_conv)

lemma decimal_separator:
  assumes "decimal m @ c # ys = decimal n @ c # ys'" and "c \<notin> {48..57}"
  shows "m = n \<and> ys = ys'"
proof -
  have "c \<notin> set (decimal m)" "c \<notin> set (decimal n)" using assms(2) decimal_digits by blast+
  from split_at_separator [OF assms(1) this] show ?thesis by simp
qed

section \<open>Lemmas on rounding\<close>

lemma round_half_even_cases:
  assumes "0 < b"
  obtains "round_half_even a b = a div b" "2 * (a mod b) \<le> b"
    | "round_half_even a b = a div b + 1" "b \<le> 2 * (a mod b)"
proof (cases "2 * (a mod b) < b \<or> (2 * (a mod b) = b \<and> even (a div b))")
  case True
  then show ?thesis by (intro that(1)) (auto simp: round_half_even_def)
next
  case False
  then show ?thesis by (intro that(2)) (auto simp: round_half_even_def)
qed

lemma round_half_even_error:
  assumes "0 < b"
  shows "\<bar>2 * int a - 2 * (int b * int (round_half_even a b))\<bar> \<le> int b"
proof -
  have a: "int a = int b * int (a div b) + int (a mod b)"
    by (metis div_mult_mod_eq mult.commute of_nat_add of_nat_mult)
  have "int (a mod b) < int b" using assms by simp
  with a show ?thesis
    by (cases rule: round_half_even_cases [OF assms, of a]) (auto simp: algebra_simps)
qed

lemma round_half_even_mono:
  assumes "0 < b" and "a \<le> a'"
  shows "round_half_even a b \<le> round_half_even a' b"
proof (cases "a div b = a' div b")
  case True
  moreover have "a mod b \<le> a' mod b"
    using True assms(2) div_mult_mod_eq [of a b] div_mult_mod_eq [of a' b]
    by (metis add_le_cancel_left)
  ultimately show ?thesis by (auto simp: round_half_even_def Let_def)
next
  case False
  with div_le_mono [OF assms(2), of b] have "a div b + 1 \<le> a' div b" by simp
  moreover have "round_half_even a b \<le> a div b + 1" "a' div b \<le> round_half_even a' b"
    by (simp_all add: round_half_even_def Let_def)
  ultimately show ?thesis by linarith
qed

lemma round_half_even_multiple [simp]: "0 < b \<Longrightarrow> round_half_even (b * q) b = q"
  by (simp add: round_half_even_def)

section \<open>Lemmas on doubles\<close>

lemma excess_bits_0 [simp]: "n < 2 ^ 53 \<Longrightarrow> excess_bits n = 0"
  by (subst excess_bits.simps) simp

lemma excess_bits_Suc: "\<not> n < 2 ^ 53 \<Longrightarrow> excess_bits n = Suc (excess_bits (n div 2))"
  by (subst excess_bits.simps) simp

lemma excess_bits_fit: "n < 2 ^ (53 + excess_bits n)"
proof (induction n rule: excess_bits.induct)
  case (1 n)
  show ?case
  proof (cases "n < 2 ^ 53")
    case False
    with 1 have "n div 2 < 2 ^ (53 + excess_bits (n div 2))" by simp
    then have "n < 2 * 2 ^ (53 + excess_bits (n div 2))" by linarith
    then show ?thesis by (simp only: excess_bits_Suc [OF False] add_Suc_right power_Suc)
  qed simp
qed

lemma excess_bits_least: "excess_bits n \<noteq> 0 \<Longrightarrow> 2 ^ (52 + excess_bits n) \<le> n"
proof (induction n rule: excess_bits.induct)
  case (1 n)
  have big: "\<not> n < 2 ^ 53" using 1(2) excess_bits_0 [of n] by (rule contrapos_nn)
  note e = excess_bits_Suc [OF big]
  show ?case
  proof (cases "excess_bits (n div 2) = 0")
    case True
    with big e show ?thesis by simp
  next
    case False
    with 1 big have "2 ^ (52 + excess_bits (n div 2)) \<le> n div 2" by simp
    then have "2 * 2 ^ (52 + excess_bits (n div 2)) \<le> n" by linarith
    then show ?thesis by (simp only: e add_Suc_right power_Suc)
  qed
qed

lemma excess_bits_mono: "m \<le> n \<Longrightarrow> excess_bits m \<le> excess_bits n"
proof (induction m arbitrary: n rule: excess_bits.induct)
  case (1 m)
  show ?case
  proof (cases "m < 2 ^ 53")
    case False
    with 1 have "excess_bits (m div 2) \<le> excess_bits (n div 2)" by (simp add: div_le_mono)
    moreover have big: "\<not> n < 2 ^ 53" using False 1(2) by linarith
    ultimately show ?thesis
      by (simp only: excess_bits_Suc [OF False] excess_bits_Suc [OF big] Suc_le_mono)
  qed simp
qed

lemma u64_as_f64_exact: "unat n < 2 ^ 53 \<Longrightarrow> u64_as_f64 n = unat n"
  by (simp add: u64_as_f64_def round_half_even_def)

text \<open>The error of the conversion is at most half a unit of the last place kept.\<close>

lemma u64_as_f64_error: "\<bar>int (unat n) - int (u64_as_f64 n)\<bar> \<le> 2 ^ 10"
proof (cases "excess_bits (unat n) = 0")
  case True
  then have "unat n < 2 ^ 53" using excess_bits_fit [of "unat n"] by simp
  then show ?thesis by (simp add: u64_as_f64_exact)
next
  case False
  define e where "e = excess_bits (unat n)"
  have "unat n < 2 ^ 64" using unat_lt2p [of n] by simp
  with excess_bits_least [OF False] have "(2 :: nat) ^ (52 + e) < 2 ^ 64"
    unfolding e_def by (rule le_less_trans)
  then have "52 + e < 64" by (rule power_less_imp_less_exp [rotated]) simp
  then have "(2 :: int) ^ e \<le> 2 ^ 11" by (intro power_increasing) simp_all
  then have bound: "(2 :: int) ^ e \<le> 2 * 2 ^ 10" by simp
  have "\<bar>2 * int (unat n) - 2 * (2 ^ e * int (round_half_even (unat n) (2 ^ e)))\<bar> \<le> 2 ^ e"
    using round_half_even_error [of "2 ^ e" "unat n"] by simp
  with bound show ?thesis by (simp add: u64_as_f64_def Let_def e_def [symmetric] mult.commute)
qed

lemma rounded_range:
  assumes "excess_bits n \<noteq> 0"
  shows "2 ^ 52 \<le> round_half_even n (2 ^ excess_bits n)" and "round_half_even n (2 ^ excess_bits n) \<le> 2 ^ 53"
proof -
  define e where "e = excess_bits n"
  have "round_half_even (2 ^ e * 2 ^ 52) (2 ^ e) \<le> round_half_even n (2 ^ e)"
    using excess_bits_least [OF assms] unfolding e_def
    by (intro round_half_even_mono) (simp_all add: power_add mult.commute)
  then show "2 ^ 52 \<le> round_half_even n (2 ^ excess_bits n)" by (simp add: e_def)
  have "round_half_even n (2 ^ e) \<le> round_half_even (2 ^ e * 2 ^ 53) (2 ^ e)"
    using excess_bits_fit [of n] unfolding e_def
    by (intro round_half_even_mono) (simp_all add: power_add mult.commute)
  then show "round_half_even n (2 ^ excess_bits n) \<le> 2 ^ 53" by (simp add: e_def)
qed

lemma u64_as_f64_mono:
  assumes "m \<le> n"
  shows "u64_as_f64 m \<le> u64_as_f64 n"
proof -
  define a b where "a = excess_bits (unat m)" and "b = excess_bits (unat n)"
  have le: "unat m \<le> unat n" using assms by (simp add: word_le_nat_alt)
  then have "a \<le> b" unfolding a_def b_def by (rule excess_bits_mono)
  show ?thesis
  proof (cases "a = b")
    case True
    then show ?thesis
      using round_half_even_mono [OF _ le, of "2 ^ b"]
      by (simp add: u64_as_f64_def Let_def a_def [symmetric] b_def [symmetric])
  next
    case False
    with \<open>a \<le> b\<close> have less: "a < b" by simp
    have "round_half_even (unat m) (2 ^ a) * 2 ^ a \<le> 2 ^ 53 * 2 ^ a"
    proof (cases "a = 0")
      case True
      then have "unat m < 2 ^ 53" using excess_bits_fit [of "unat m"] by (simp add: a_def)
      with True show ?thesis by (simp add: round_half_even_def)
    next
      case False
      then show ?thesis using rounded_range(2) [of "unat m"] by (simp add: a_def)
    qed
    also have "\<dots> = 2 ^ 52 * 2 ^ Suc a" by simp
    also have "\<dots> \<le> 2 ^ 52 * 2 ^ b" using less by (intro mult_le_mono2 power_increasing) simp_all
    also have "\<dots> \<le> round_half_even (unat n) (2 ^ b) * 2 ^ b"
      using less rounded_range(1) [of "unat n"] by (intro mult_le_mono1) (simp add: b_def)
    finally show ?thesis by (simp add: u64_as_f64_def Let_def a_def b_def)
  qed
qed

text \<open>Quotients keep 53 bits, and a larger dividend gives no smaller quotient.\<close>

lemma scale_up_reaches: "0 < a \<Longrightarrow> 2 ^ 52 * b \<le> 2 ^ scale_up a b * a"
proof (induction a b rule: scale_up.induct)
  case (1 a b)
  show ?case
  proof (cases "2 ^ 52 * b \<le> a")
    case True
    then show ?thesis by (subst scale_up.simps) simp
  next
    case False
    with 1 have "2 ^ 52 * b \<le> 2 ^ scale_up (2 * a) b * (2 * a)" by simp
    with False 1(2) show ?thesis by (subst scale_up.simps) (simp add: mult_ac)
  qed
qed

lemma scale_up_least: "scale_up a b \<noteq> 0 \<Longrightarrow> 2 ^ scale_up a b * a \<le> 2 ^ 53 * b"
proof (induction a b rule: scale_up.induct)
  case (1 a b)
  show ?case
  proof (cases "a = 0 \<or> 2 ^ 52 * b \<le> a")
    case True
    with 1(2) show ?thesis by (metis scale_up.simps)
  next
    case False
    then have k: "scale_up a b = Suc (scale_up (2 * a) b)" by (subst scale_up.simps) simp
    show ?thesis
    proof (cases "scale_up (2 * a) b = 0")
      case True
      with False k show ?thesis by simp
    next
      case nz: False
      with 1(1) False have "2 ^ scale_up (2 * a) b * (2 * a) \<le> 2 ^ 53 * b" by blast
      then show ?thesis by (simp add: k mult_ac)
    qed
  qed
qed

lemma scale_up_antimono: "0 < a \<Longrightarrow> a \<le> a' \<Longrightarrow> scale_up a' b \<le> scale_up a b"
proof (induction a b arbitrary: a' rule: scale_up.induct)
  case (1 a b)
  show ?case
  proof (cases "2 ^ 52 * b \<le> a'")
    case True
    then show ?thesis by (subst scale_up.simps) simp
  next
    case False
    with 1 have "scale_up (2 * a') b \<le> scale_up (2 * a) b" by simp
    with False 1(2,3) show ?thesis by (subst (1 2) scale_up.simps) simp
  qed
qed

lemma f64_ratio_mono:
  assumes "0 < b" and "a \<le> a'" and "a' \<le> b"
  shows "\<not> f64_less (f64_ratio a' b) (f64_ratio a b)"
proof (cases "a = 0")
  case True
  with assms(1) show ?thesis by (simp add: f64_less_def f64_ratio_def round_half_even_def)
next
  case False
  define k k' where "k = scale_up a b" and "k' = scale_up a' b"
  define m m' where "m = round_half_even (2 ^ k * a) b" and "m' = round_half_even (2 ^ k' * a') b"
  have "k' \<le> k" using False assms(2) unfolding k_def k'_def by (intro scale_up_antimono) simp_all
  have lo: "2 ^ 52 \<le> m'"
    using round_half_even_mono [OF assms(1), of "b * 2 ^ 52" "2 ^ k' * a'"] assms(1,2) False
      scale_up_reaches [of a' b] by (simp add: m'_def k'_def mult.commute)
  have "k \<noteq> 0"
    using scale_up_reaches [of a b] False assms by (cases "k = 0") (auto simp: k_def)
  then have hi: "m \<le> 2 ^ 53"
    using round_half_even_mono [OF assms(1), of "2 ^ k * a" "b * 2 ^ 53"] assms(1)
      scale_up_least [of a b] by (simp add: m_def k_def mult.commute)
  have "m * 2 ^ k' \<le> m' * 2 ^ k"
  proof (cases "k' = k")
    case True
    then show ?thesis
      using assms round_half_even_mono [OF assms(1), of "2 ^ k * a" "2 ^ k * a'"]
      by (simp add: m_def m'_def)
  next
    case False
    with \<open>k' \<le> k\<close> have "(2 :: nat) ^ Suc k' \<le> 2 ^ k" by (intro power_increasing) simp_all
    have "m * 2 ^ k' \<le> 2 ^ 53 * 2 ^ k'" using hi by (rule mult_le_mono1)
    also have "\<dots> = 2 ^ 52 * 2 ^ Suc k'" by simp
    also have "\<dots> \<le> m' * 2 ^ k" using lo \<open>2 ^ Suc k' \<le> 2 ^ k\<close> by (rule mult_le_mono)
    finally show ?thesis .
  qed
  then show ?thesis
    by (simp add: f64_less_def f64_ratio_def Let_def m_def m'_def k_def k'_def not_less)
qed

lemma f64_literals:
  "f64_ratio 66 100 = (5944751508129055, 53)" "f64_ratio 33 100 = (5944751508129055, 54)"
  by (simp_all add: f64_ratio_def scale_up.simps round_half_even_def)

end
