(* ===== verification/Ip_Text.thy ===== *)
theory Ip_Text
  imports Text_Format
begin

text \<open>
  The printed form of an IPv6 address determines the address. The text is the join of its fields at
  the colons; the abbreviated run of zeros shows as an empty field, and the number of segments left
  out follows from the number of those printed.
\<close>

section \<open>Fields\<close>

text \<open>A text without colons is a field; joining a non-empty list of fields loses nothing.\<close>

lemma join_Cons: "ts \<noteq> [] \<Longrightarrow> join sep (t # ts) = t @ sep @ join sep ts"
  by (cases ts) simp_all

lemma join_inject:
  assumes "join [c] ts = join [c] us" and "ts \<noteq> []" "us \<noteq> []"
    and "list_all (\<lambda>t. c \<notin> set t) ts" "list_all (\<lambda>t. c \<notin> set t) us"
  shows "ts = us"
  using assms
proof (induction ts arbitrary: us)
  case Nil
  then show ?case by simp
next
  case (Cons t ts)
  obtain u us' where u: "us = u # us'" using Cons.prems(3) by (cases us) auto
  have free: "c \<notin> set t" "c \<notin> set u" using Cons.prems(4,5) u by simp_all
  consider "ts = []" "us' = []" | "ts = []" "us' \<noteq> []" | "ts \<noteq> []" "us' = []" | "ts \<noteq> []" "us' \<noteq> []"
    by blast
  then show ?case
  proof cases
    case 1
    with Cons.prems(1) u show ?thesis by simp
  next
    case 2
    with Cons.prems(1) u have "t = u @ c # join [c] us'" by (simp add: join_Cons)
    with free show ?thesis by simp
  next
    case 3
    with Cons.prems(1) u have "u = t @ c # join [c] ts" by (simp add: join_Cons)
    with free show ?thesis by simp
  next
    case 4
    with Cons.prems(1) u have "t @ c # join [c] ts = u @ c # join [c] us'" by (simp add: join_Cons)
    from split_at_separator [OF this free] Cons.IH [of us'] 4 Cons.prems(4,5) u show ?thesis by simp
  qed
qed

lemma join_append:
  "ts \<noteq> [] \<Longrightarrow> us \<noteq> [] \<Longrightarrow> join sep (ts @ us) = join sep ts @ sep @ join sep us"
proof (induction ts)
  case (Cons t ts)
  then show ?case by (cases ts) (simp_all add: join_Cons)
qed simp

section \<open>Hexadecimal numbers\<close>

definition hex_value :: "rstring \<Rightarrow> nat" where
  "hex_value t = foldl (\<lambda>v ch. 16 * v + (if ch < 58 then ch - 48 else ch - 87)) 0 t"

lemma hex_value_show_hex [simp]: "hex_value (show_hex n) = n"
proof (induction n rule: less_induct)
  case (less n)
  have "hex_value (show_hex (n div 16)) = n div 16" if "\<not> n < 16" using that by (intro less) simp
  then show ?case by (subst show_hex.simps) (auto simp: hex_value_def Let_def)
qed

lemma show_hex_inject [simp]: "show_hex m = show_hex n \<longleftrightarrow> m = n"
  by (metis hex_value_show_hex)

lemma show_hex_digits: "set (show_hex n) \<subseteq> {48..57} \<union> {97..102}"
proof (induction n rule: less_induct)
  case (less n)
  have "set (show_hex (n div 16)) \<subseteq> {48..57} \<union> {97..102}" if "\<not> n < 16"
    using that by (intro less) simp
  then show ?case by (subst show_hex.simps) (auto simp: Let_def)
qed

lemma show_hex_not_Nil [simp]: "show_hex n \<noteq> []"
  by (subst show_hex.simps) (simp add: Let_def)

lemma show_hex_free: "c \<in> {46, 58, 93} \<Longrightarrow> c \<notin> set (show_hex n)"
  using show_hex_digits [of n] by auto

section \<open>The run of zeros\<close>

definition zeros_at :: "nat list \<Rightarrow> nat \<times> nat \<Rightarrow> bool" where
  "zeros_at ss run \<longleftrightarrow> fst run + snd run \<le> length ss \<and> take (snd run) (drop (fst run) ss) = replicate (snd run) 0"

lemma zeros_at_append: "zeros_at ss run \<Longrightarrow> zeros_at (ss @ ts) run"
  by (simp add: zeros_at_def)

lemma zero_run_zeros:
  assumes "zeros_at before longest" and "zeros_at before (current)"
    and "snd current = 0 \<or> fst current + snd current = length before"
  shows "zeros_at (before @ ss) (zero_run (length before) longest current ss)"
  using assms
proof (induction ss arbitrary: before longest current)
  case Nil
  then show ?case by simp
next
  case (Cons s ss)
  show ?case
  proof (cases "s = 0")
    case True
    define current' where "current' = (if snd current = 0 then length before else fst current, snd current + 1)"
    have "zeros_at (before @ [s]) current'"
      using Cons.prems(2,3) True
      by (auto simp: zeros_at_def current'_def replicate_append_same)
    moreover have "fst current' + snd current' = length (before @ [s])"
      using Cons.prems(3) by (auto simp: current'_def)
    ultimately have "zeros_at ((before @ [s]) @ ss) (zero_run (length (before @ [s]))
        (if snd longest < snd current' then current' else longest) current' ss)"
      using zeros_at_append [OF Cons.prems(1), of "[s]"] by (intro Cons.IH) simp_all
    moreover have "zero_run (length before) longest current (s # ss) = zero_run (length (before @ [s]))
        (if snd longest < snd current' then current' else longest) current' ss"
      using True by (simp add: current'_def Let_def)
    ultimately show ?thesis by simp
  next
    case False
    then show ?thesis
      using Cons.IH [of "before @ [s]" longest "(0, 0)"] zeros_at_append [OF Cons.prems(1), of "[s]"]
      by (simp add: zeros_at_def)
  qed
qed

lemma zero_run_split:
  assumes "zero_run 0 (0, 0) (0, 0) ss = (start, len)"
  shows "ss = take start ss @ replicate len 0 @ drop (start + len) ss"
proof -
  have "zeros_at ss (start, len)"
    using zero_run_zeros [of "[]" "(0, 0)" "(0, 0)" ss] assms by (simp add: zeros_at_def)
  then have "take len (drop start ss) = replicate len 0" by (simp add: zeros_at_def)
  then show ?thesis by (metis append_take_drop_id drop_drop add.commute)
qed

section \<open>Addresses\<close>

lemma segments_inject:
  "length bs = length cs \<Longrightarrow> even (length bs) \<Longrightarrow> segments bs = segments cs \<Longrightarrow> bs = cs"
proof (induction bs arbitrary: cs rule: segments.induct)
  case (1 hi lo bs)
  then obtain hi' lo' cs' where cs: "cs = hi' # lo' # cs'"     by (cases cs; cases "tl cs") auto
  have "unat lo < 256" "unat lo' < 256" using unat_lt2p [of lo] unat_lt2p [of lo'] by simp_all
  then have digits: "(256 * unat hi + unat lo) div 256 = unat hi" "(256 * unat hi + unat lo) mod 256 = unat lo"
    "(256 * unat hi' + unat lo') div 256 = unat hi'" "(256 * unat hi' + unat lo') mod 256 = unat lo'"
    by simp_all
  have "256 * unat hi + unat lo = 256 * unat hi' + unat lo'" using 1 cs by simp
  with digits have "unat hi = unat hi'" "unat lo = unat lo'" by metis+
  moreover have "bs = cs'" using 1 cs by simp
  ultimately show ?case by (simp add: cs word_unat_eq_iff)
qed auto

lemma length_segments: "length (segments bs) = length bs div 2"
  by (induction bs rule: segments.induct) auto

text \<open>The fields of an abbreviated form, an empty one standing for the zeros left out.\<close>

definition abbreviated :: "rstring list \<Rightarrow> rstring list \<Rightarrow> rstring list" where
  "abbreviated ts us = (if ts = [] then [[]] else ts) @ [] # (if us = [] then [[]] else us)"

definition ipv6_fields :: "bytes \<Rightarrow> rstring list" where
  "ipv6_fields bs =
     (let ss = segments bs in
      if take 6 ss = [0, 0, 0, 0, 0, 65535] then [[], [], show_hex 65535, show_octets (drop 12 bs)]
      else let (start, len) = zero_run 0 (0, 0) (0, 0) ss in
        if 1 < len then abbreviated (map show_hex (take start ss)) (map show_hex (drop (start + len) ss))
        else map show_hex ss)"

lemma join_abbreviated:
  "join [58] ts @ 58 # 58 # join [58] us = join [58] (abbreviated ts us)"
  by (cases "us = []"; cases "ts = []") (simp_all add: abbreviated_def join_append join_Cons)

lemma abbreviated_parts:
  assumes "[] \<notin> set ts" "[] \<notin> set us"
  shows "takeWhile (\<lambda>t. t \<noteq> []) (abbreviated ts us) = ts"
    and "rev (takeWhile (\<lambda>t. t \<noteq> []) (rev (abbreviated ts us))) = us"
proof -
  have "takeWhile (\<lambda>t. t \<noteq> []) (xs @ [] # ys) = xs" if "[] \<notin> set xs" for xs ys :: "rstring list"
    using that by (subst takeWhile_append2) auto
  with assms show "takeWhile (\<lambda>t. t \<noteq> []) (abbreviated ts us) = ts"
    and "rev (takeWhile (\<lambda>t. t \<noteq> []) (rev (abbreviated ts us))) = us"
    by (simp_all add: abbreviated_def)
qed

lemma show_hex_ffff: "show_hex 65535 = [102, 102, 102, 102]"
  by (simp add: show_hex.simps)

lemma show_ipv6_join: "show_ipv6 bs = join [58] (ipv6_fields bs)"
  by (auto simp: show_ipv6_def ipv6_fields_def show_segments_def txt_of_def join_abbreviated
      show_hex_ffff Let_def split: prod.split)

lemma show_octets_chars: "set (show_octets bs) \<subseteq> {48..57} \<union> {46}"
proof -
  have "set (join [46] (map (\<lambda>b. decimal (unat b)) bs)) \<subseteq> {48..57} \<union> {46}"
  proof (induction bs)
    case (Cons b bs)
    with decimal_digits [of "unat b"] show ?case by (cases bs) (auto simp: join_Cons)
  qed simp
  then show ?thesis by (simp add: show_octets_def txt_of_def)
qed

text \<open>Four octets are read back from their text.\<close>

lemma show_octets_inject:
  assumes "show_octets [a, b, c, d] = show_octets [a', b', c', d']"
  shows "[a, b, c, d] = [a', b', c', d']"
  using assms
  by (auto simp: show_octets_def txt_of_def word_unat_eq_iff dest!: decimal_separator)

lemma four_bytes: "length bs = 16 \<Longrightarrow> \<exists>a b c d. drop 12 bs = [a, b, c, d]"
  by (rule exI [of _ "bs ! 12"], rule exI [of _ "bs ! 13"], rule exI [of _ "bs ! 14"],
      rule exI [of _ "bs ! 15"]) (simp add: list_eq_iff_nth_eq less_Suc_eq numeral_eq_Suc)

text \<open>The form in which an address is printed, and what it determines.\<close>

lemma ipv6_fields_cases:
  assumes "length bs = 16"
  obtains (mapped) "take 6 (segments bs) = [0, 0, 0, 0, 0, 65535]"
      "ipv6_fields bs = [[], [], show_hex 65535, show_octets (drop 12 bs)]"
  | (short) xs ys where "segments bs = xs @ replicate (8 - (length xs + length ys)) 0 @ ys"
      "ipv6_fields bs = abbreviated (map show_hex xs) (map show_hex ys)"
  | (full) "ipv6_fields bs = map show_hex (segments bs)"
proof (cases "take 6 (segments bs) = [0, 0, 0, 0, 0, 65535]")
  case True
  then show thesis by (intro mapped) (simp_all add: ipv6_fields_def)
next
  case plain: False
  obtain start len where run: "zero_run 0 (0, 0) (0, 0) (segments bs) = (start, len)" by fastforce
  show thesis
  proof (cases "1 < len")
    case True
    define xs ys where "xs = take start (segments bs)" and "ys = drop (start + len) (segments bs)"
    have fields: "ipv6_fields bs = abbreviated (map show_hex xs) (map show_hex ys)"
      using True plain run by (simp add: ipv6_fields_def xs_def ys_def Let_def)
    have ss: "segments bs = xs @ replicate len 0 @ ys"
      unfolding xs_def ys_def by (rule zero_run_split [OF run])
    have "length (xs @ replicate len 0 @ ys) = 8"
      using length_segments [of bs] assms unfolding ss [symmetric] by simp
    then have "len = 8 - (length xs + length ys)" by simp
    from short [OF ss [unfolded this] fields] show thesis .
  next
    case False
    with plain run show thesis by (intro full) (simp add: ipv6_fields_def Let_def)
  qed
qed

lemma map_show_hex_free: "c \<in> {46, 58, 93} \<Longrightarrow> list_all (\<lambda>t. c \<notin> set t) (map show_hex ss)"
  using show_hex_free by (simp add: list_all_iff)

lemma abbreviated_free:
  "list_all (\<lambda>t. c \<notin> set t) ts \<Longrightarrow> list_all (\<lambda>t. c \<notin> set t) us \<Longrightarrow>
    list_all (\<lambda>t. c \<notin> set t) (abbreviated ts us)"
  by (simp add: abbreviated_def)

lemma ipv6_fields_free:
  assumes "length bs = 16" and "c \<in> {58, 93}"
  shows "ipv6_fields bs \<noteq> [] \<and> list_all (\<lambda>t. c \<notin> set t) (ipv6_fields bs)"
  using assms(1)
proof (cases rule: ipv6_fields_cases)
  case mapped
  have "c \<notin> set (show_octets (drop 12 bs))" using show_octets_chars [of "drop 12 bs"] assms(2) by auto
  moreover have "c \<notin> set (show_hex 65535)" using show_hex_free [of c] assms(2) by auto
  ultimately show ?thesis unfolding mapped(2) by simp
next
  case (short xs ys)
  have "abbreviated (map show_hex xs) (map show_hex ys) \<noteq> []" by (simp add: abbreviated_def)
  then show ?thesis
    unfolding short(2) using assms(2) by (intro conjI abbreviated_free map_show_hex_free) auto
next
  case full
  have "segments bs \<noteq> []" using length_segments [of bs] assms(1) by auto
  then show ?thesis unfolding full using assms(2) map_show_hex_free [of c "segments bs"] by simp
qed

lemma abbreviated_inject:
  assumes "abbreviated (map show_hex xs) (map show_hex ys) = abbreviated (map show_hex xs') (map show_hex ys')"
  shows "xs = xs' \<and> ys = ys'"
proof -
  have ne: "[] \<notin> set (map show_hex zs)" for zs by (metis ex_map_conv show_hex_not_Nil)
  have "map show_hex xs = map show_hex xs'" "map show_hex ys = map show_hex ys'"
    using abbreviated_parts [OF ne ne] assms by metis+
  moreover have "inj show_hex" by (simp add: inj_def)
  ultimately show ?thesis by (simp add: inj_map_eq_map)
qed


text \<open>Which form it is shows in the fields: a dot in the last one, or an empty field.\<close>

lemma forms_differ:
  "length bs = 16 \<Longrightarrow> 46 \<in> set (show_octets (drop 12 bs))"
  "46 \<notin> set (last (abbreviated (map show_hex xs) (map show_hex ys)))"
  "ss \<noteq> [] \<Longrightarrow> 46 \<notin> set (last (map show_hex ss))"
  "[] \<in> set (abbreviated ts us)" "[] \<notin> set (map show_hex ss)"
proof -
  show "46 \<in> set (show_octets (drop 12 bs))" if "length bs = 16"
    using four_bytes [OF that] by (auto simp: show_octets_def txt_of_def)
  show last: "46 \<notin> set (last (map show_hex ss))" if "ss \<noteq> []" for ss
    using that show_hex_free [of 46] by (simp add: last_map)
  then show "46 \<notin> set (last (abbreviated (map show_hex xs) (map show_hex ys)))"
    by (auto simp: abbreviated_def last_append)
  show "[] \<in> set (abbreviated ts us)" by (simp add: abbreviated_def)
  show "[] \<notin> set (map show_hex ss)" by (metis ex_map_conv show_hex_not_Nil)
qed

lemma segments_drop: "segments (drop (2 * n) bs) = drop n (segments bs)"
proof (induction n arbitrary: bs)
  case (Suc n)
  then show ?case by (cases bs rule: segments.cases) simp_all
qed simp

lemma mapped_inject:
  assumes "length bs = 16" "length cs = 16" and "take 6 (segments bs) = take 6 (segments cs)"
    and "show_octets (drop 12 bs) = show_octets (drop 12 cs)"
  shows "segments bs = segments cs"
proof -
  have "drop 12 bs = drop 12 cs"
    using four_bytes [OF assms(1)] four_bytes [OF assms(2)] assms(4) show_octets_inject by metis
  then have "drop 6 (segments bs) = drop 6 (segments cs)"
    using segments_drop [of 6 bs] segments_drop [of 6 cs] by simp
  with assms(3) show ?thesis by (metis append_take_drop_id)
qed

lemma ipv6_forms:
  assumes "length bs = 16"
  shows "46 \<in> set (last (ipv6_fields bs)) \<Longrightarrow> take 6 (segments bs) = [0, 0, 0, 0, 0, 65535] \<and>
      ipv6_fields bs = [[], [], show_hex 65535, show_octets (drop 12 bs)]"
    and "46 \<notin> set (last (ipv6_fields bs)) \<Longrightarrow> [] \<in> set (ipv6_fields bs) \<Longrightarrow>
      \<exists>xs ys. segments bs = xs @ replicate (8 - (length xs + length ys)) 0 @ ys \<and>
        ipv6_fields bs = abbreviated (map show_hex xs) (map show_hex ys)"
    and "[] \<notin> set (ipv6_fields bs) \<Longrightarrow> ipv6_fields bs = map show_hex (segments bs)"
proof -
  have "segments bs \<noteq> []" using length_segments [of bs] assms by auto
  note forms = forms_differ(1) [OF assms] forms_differ(2) forms_differ(3) [OF this] forms_differ(4,5)
  show "46 \<in> set (last (ipv6_fields bs)) \<Longrightarrow> take 6 (segments bs) = [0, 0, 0, 0, 0, 65535] \<and>
      ipv6_fields bs = [[], [], show_hex 65535, show_octets (drop 12 bs)]"
    using forms by (cases rule: ipv6_fields_cases [OF assms]) simp_all
  show "46 \<notin> set (last (ipv6_fields bs)) \<Longrightarrow> [] \<in> set (ipv6_fields bs) \<Longrightarrow>
      \<exists>xs ys. segments bs = xs @ replicate (8 - (length xs + length ys)) 0 @ ys \<and>
        ipv6_fields bs = abbreviated (map show_hex xs) (map show_hex ys)"
    using forms(1,5) by (cases rule: ipv6_fields_cases [OF assms]) auto
  show "[] \<notin> set (ipv6_fields bs) \<Longrightarrow> ipv6_fields bs = map show_hex (segments bs)"
    using forms(4) by (cases rule: ipv6_fields_cases [OF assms]) simp_all
qed

lemma ipv6_fields_inject:
  assumes eq: "ipv6_fields bs = ipv6_fields cs" and bs: "length bs = 16" and cs: "length cs = 16"
  shows "bs = cs"
proof -
  consider "46 \<in> set (last (ipv6_fields bs))"
    | "46 \<notin> set (last (ipv6_fields bs))" "[] \<in> set (ipv6_fields bs)" | "[] \<notin> set (ipv6_fields bs)"
    by blast
  then have "segments bs = segments cs"
  proof cases
    case 1
    from ipv6_forms(1) [OF bs 1] ipv6_forms(1) [OF cs 1 [unfolded eq]] eq show ?thesis
      by (intro mapped_inject [OF bs cs]) simp_all
  next
    case 2
    from ipv6_forms(2) [OF bs 2] ipv6_forms(2) [OF cs 2 [unfolded eq]] obtain xs ys xs' ys' where
      "segments bs = xs @ replicate (8 - (length xs + length ys)) 0 @ ys"
      "segments cs = xs' @ replicate (8 - (length xs' + length ys')) 0 @ ys'"
      "abbreviated (map show_hex xs) (map show_hex ys) = abbreviated (map show_hex xs') (map show_hex ys')"
      unfolding eq by metis
    with abbreviated_inject show ?thesis by metis
  next
    case 3
    from ipv6_forms(3) [OF bs 3] ipv6_forms(3) [OF cs 3 [unfolded eq]] eq
    have "map show_hex (segments bs) = map show_hex (segments cs)" by simp
    moreover have "inj show_hex" by (simp add: inj_def)
    ultimately show ?thesis by (simp add: inj_map_eq_map)
  qed
  then show ?thesis using segments_inject bs cs by simp
qed

lemma show_ipv6_inject:
  assumes "show_ipv6 bs = show_ipv6 cs" and "length bs = 16" "length cs = 16"
  shows "bs = cs"
proof -
  have "ipv6_fields bs = ipv6_fields cs"
    using join_inject [OF assms(1) [unfolded show_ipv6_join]] ipv6_fields_free [OF assms(2), of 58]
      ipv6_fields_free [OF assms(3), of 58] by blast
  then show ?thesis using assms(2,3) by (rule ipv6_fields_inject)
qed

lemma show_ipv6_bracket: "length bs = 16 \<Longrightarrow> 93 \<notin> set (show_ipv6 bs)"
proof -
  have "93 \<notin> set (join [58] ts)" if "list_all (\<lambda>t. 93 \<notin> set t) ts" for ts :: "rstring list"
    using that by (induction "[58] :: rstring" ts rule: join.induct) simp_all
  then show "length bs = 16 \<Longrightarrow> 93 \<notin> set (show_ipv6 bs)"
    using ipv6_fields_free [of bs 93] by (simp add: show_ipv6_join)
qed

end
