(* ===== verification/Tui_Theme.thy ===== *)
theory Tui_Theme
  imports Tui_State Ip_Text
begin

text \<open>
  How the client prints and colours values (\<open>procnet/src/tui/theme.rs\<close>, and \<open>format_endpoint\<close> of
  \<open>view.rs\<close>): byte counts in the chosen unit, the traffic-light colour of a row, endpoints, and the
  styled pieces of text the renderer hands to the terminal library.
\<close>

section \<open>Colours and styles\<close>

datatype Color = Cyan | DarkGray | Green | Yellow | Red | Black

definition ACCENT :: Color where "ACCENT = Cyan"

definition MUTED :: Color where "MUTED = DarkGray"

definition OK :: Color where "OK = Green"

definition WARN :: Color where "WARN = Yellow"

definition HOT :: Color where "HOT = Red"

definition SENT :: Color where "SENT = Yellow"

definition RECV :: Color where "RECV = Green"

definition INVERT_TEXT :: Color where "INVERT_TEXT = Black"

record Style =
  fg :: "Color option"
  bg :: "Color option"
  bold :: bool

definition Style_new :: Style where
  "Style_new = \<lparr>fg = None, bg = None, bold = False\<rparr>"

record Span =
  span_text :: rstring
  span_style :: Style

definition raw_span :: "rstring \<Rightarrow> Span" where
  "raw_span t = \<lparr>span_text = t, span_style = Style_new\<rparr>"

definition styled_span :: "rstring \<Rightarrow> Style \<Rightarrow> Span" where
  "styled_span t st = \<lparr>span_text = t, span_style = st\<rparr>"

definition sep_span :: Span where
  "sep_span = styled_span (txt_of '' | '') (Style_new\<lparr>fg := Some MUTED\<rparr>)"

definition muted_span :: "rstring \<Rightarrow> Span" where
  "muted_span t = styled_span t (Style_new\<lparr>fg := Some MUTED\<rparr>)"

definition accent_span :: "rstring \<Rightarrow> Span" where
  "accent_span t = styled_span t (Style_new\<lparr>fg := Some ACCENT\<rparr>)"

section \<open>Byte counts\<close>

text \<open>
  \<open>format!("{:.2} {}", n as f64 / divisor as f64, label)\<close>; the divisor is a power of two, so only
  the conversion of the count and the printing round.
\<close>

definition in_unit :: "u64 \<Rightarrow> u64 \<Rightarrow> rstring \<Rightarrow> rstring" where
  "in_unit n d lbl = show_hundredths (hundredths (u64_as_f64 n) (u64_as_f64 d)) @ txt_of '' '' @ lbl"

definition format_bytes :: "u64 \<Rightarrow> Unit \<Rightarrow> rstring" where
  "format_bytes n u =
     (case u of
        Unit_Auto \<Rightarrow>
          if n < 1024 then decimal (unat n) @ txt_of '' B''
          else if n < 1024 * 1024 then in_unit n 1024 (txt_of ''KB'')
          else if n < 1024 * 1024 * 1024 then in_unit n (1024 * 1024) (txt_of ''MB'')
          else if n < 1024 * 1024 * 1024 * 1024 then in_unit n (1024 * 1024 * 1024) (txt_of ''GB'')
          else in_unit n (1024 * 1024 * 1024 * 1024) (txt_of ''TB'')
      | Unit_B \<Rightarrow> decimal (unat n) @ txt_of '' B''
      | fixed \<Rightarrow> in_unit n (Unit_divisor fixed) (Unit_label fixed))"

section \<open>Colours of traffic\<close>

text \<open>\<open>ratio.clamp(0.0, 1.0)\<close>, then the comparisons with the literals \<open>0.66\<close> and \<open>0.33\<close>.\<close>

definition traffic_color :: "nat \<times> nat \<Rightarrow> Color" where
  "traffic_color ratio =
     (let r = (if f64_less (1, 0) ratio then (1, 0) else ratio) in
      if f64_less (f64_ratio 66 100) r then HOT
      else if f64_less (f64_ratio 33 100) r then WARN
      else OK)"

text \<open>The colour of a row: \<open>traffic_color(total as f64 / max_total as f64)\<close>.\<close>

definition row_color :: "u64 \<Rightarrow> u64 \<Rightarrow> Color" where
  "row_color n max_total = traffic_color (f64_ratio (u64_as_f64 n) (u64_as_f64 max_total))"

text \<open>How hot a colour is.\<close>

fun heat :: "Color \<Rightarrow> nat" where
  "heat Green = 0"
| "heat Yellow = 1"
| "heat _ = 2"

section \<open>Endpoints\<close>

definition NO_ENDPOINT :: rstring where
  "NO_ENDPOINT = [8212]"

definition endpoint_text :: "u16 \<Rightarrow> rstring \<Rightarrow> u16 \<Rightarrow> rstring" where
  "endpoint_text src destination dst =
     txt_of ''src '' @ decimal (unat src) @ [32, 8594] @ txt_of '' dst '' @ destination @ txt_of '':'' @
     decimal (unat dst)"

definition format_endpoint :: "StatsAddr \<Rightarrow> rstring" where
  "format_endpoint addr =
     (if src_port addr = 0 \<or> dst_port addr = 0 then NO_ENDPOINT
      else if dst_ipv4 addr \<noteq> 0
      then endpoint_text (src_port addr) (show_ipv4 (u32_from_be (dst_ipv4 addr))) (dst_port addr)
      else if dst_ipv6 addr \<noteq> replicate 16 0
      then endpoint_text (src_port addr) (txt_of ''['' @ show_ipv6 (dst_ipv6 addr) @ txt_of '']'')
             (dst_port addr)
      else NO_ENDPOINT)"

section \<open>Lemmas on byte counts\<close>

lemma in_unit_hundredths:
  assumes "unat d < 2 ^ 53"
  shows "in_unit n d lbl = show_hundredths (hundredths (u64_as_f64 n) (unat d)) @ txt_of '' '' @ lbl"
  using assms by (simp add: in_unit_def u64_as_f64_exact)

lemma error_sum:
  fixes x y z d e :: int
  assumes "\<bar>200 * y - 2 * z\<bar> \<le> d" and "\<bar>200 * x - 200 * y\<bar> \<le> e"
  shows "2 * \<bar>100 * x - z\<bar> \<le> d + e"
  using assms by (simp add: abs_if split: if_splits)

lemma hundredths_error:
  assumes "0 < d"
  shows "2 * \<bar>100 * int (unat n) - int d * int (hundredths (u64_as_f64 n) d)\<bar>
    \<le> int d + (if unat n < 2 ^ 53 then 0 else 204800)"
proof -
  have "\<bar>200 * int (u64_as_f64 n) - 2 * (int d * int (hundredths (u64_as_f64 n) d))\<bar> \<le> int d"
    using round_half_even_error [OF assms, of "100 * u64_as_f64 n"] by (simp add: hundredths_def)
  moreover have "\<bar>200 * int (unat n) - 200 * int (u64_as_f64 n)\<bar>
      \<le> (if unat n < 2 ^ 53 then 0 else 204800)"
  proof (cases "unat n < 2 ^ 53")
    case False
    have "\<bar>int (unat n) - int (u64_as_f64 n)\<bar> \<le> 1024" using u64_as_f64_error [of n] by simp
    then show ?thesis unfolding if_not_P [OF False] by linarith
  qed (simp add: u64_as_f64_exact)
  ultimately show ?thesis by (rule error_sum)
qed

lemma hundredths_mono:
  assumes "m \<le> n" and "0 < d"
  shows "hundredths (u64_as_f64 m) d \<le> hundredths (u64_as_f64 n) d"
  using assms u64_as_f64_mono [OF assms(1)] by (simp add: hundredths_def round_half_even_mono)

lemma Unit_divisor_small: "u \<noteq> Unit_Auto \<Longrightarrow> 0 < unat (Unit_divisor u) \<and> unat (Unit_divisor u) < 2 ^ 53"
  by (cases u) simp_all

lemma auto_unit:
  assumes "1024 \<le> n"
  obtains u where "u \<noteq> Unit_Auto" "u \<noteq> Unit_B" "format_bytes n Unit_Auto = format_bytes n u"
    "Unit_divisor u \<le> n" "u = Unit_Tb \<or> unat n \<le> 1024 * unat (Unit_divisor u)"
proof -
  consider "n < 1024 * 1024" | "\<not> n < 1024 * 1024" "n < 1024 * 1024 * 1024"
    | "\<not> n < 1024 * 1024 * 1024" "n < 1024 * 1024 * 1024 * 1024" | "\<not> n < 1024 * 1024 * 1024 * 1024"
    by blast
  then show thesis
  proof cases
    case 1
    with assms show ?thesis
      by (intro that [of Unit_Kb]) (simp_all add: format_bytes_def word_less_nat_alt word_le_nat_alt)
  next
    case 2
    with assms show ?thesis
      by (intro that [of Unit_Mb]) (simp_all add: format_bytes_def word_less_nat_alt word_le_nat_alt)
  next
    case 3
    with assms show ?thesis
      by (intro that [of Unit_Gb]) (simp_all add: format_bytes_def word_less_nat_alt word_le_nat_alt)
  next
    case 4
    with assms show ?thesis
      by (intro that [of Unit_Tb]) (simp_all add: format_bytes_def word_less_nat_alt word_le_nat_alt)
  qed
qed

section \<open>Lemmas on endpoints\<close>

lemma show_ipv4_from_be: "show_ipv4 (u32_from_be w) = show_octets (put_word 4 w)"
proof -
  have "put_word (length (rev (put_word 4 w))) (u32_from_be w) = rev (put_word 4 w)"
    unfolding u32_from_be_def by (rule put_get_word) simp
  then show ?thesis by (simp add: show_ipv4_def)
qed

lemma show_octets_4:
  "show_octets [a, b, c, d] =
    decimal (unat a) @ 46 # decimal (unat b) @ 46 # decimal (unat c) @ 46 # decimal (unat d)"
  by (simp add: show_octets_def txt_of_def)

lemma put_word_4: obtains a b c d where "put_word 4 (w :: u32) = [a, b, c, d]"
  by (auto simp: put_word_def eval_simps)

lemma octets_separator:
  assumes "show_octets (put_word 4 (v :: u32)) @ 58 # ys = show_octets (put_word 4 (w :: u32)) @ 58 # zs"
  shows "v = w \<and> ys = zs"
proof -
  obtain a b c d where v: "put_word 4 v = [a, b, c, d]" by (rule put_word_4)
  obtain a' b' c' d' where w: "put_word 4 w = [a', b', c', d']" by (rule put_word_4)
  have "a = a' \<and> b = b' \<and> c = c' \<and> d = d' \<and> ys = zs"
    using assms unfolding v w show_octets_4
    by (auto dest!: decimal_separator simp: word_unat_eq_iff)
  with v w have "put_word 4 v = put_word 4 w \<and> ys = zs" by simp
  then show ?thesis by (simp add: put_word_eq_iff)
qed

text \<open>What an endpoint shows of an address: nothing, or the ports with the address of one family.\<close>

definition endpoint_key :: "StatsAddr \<Rightarrow> (u16 \<times> (u32 + bytes) \<times> u16) option" where
  "endpoint_key a =
     (if src_port a = 0 \<or> dst_port a = 0 then None
      else if dst_ipv4 a \<noteq> 0 then Some (src_port a, Inl (dst_ipv4 a), dst_port a)
      else if dst_ipv6 a \<noteq> replicate 16 0 then Some (src_port a, Inr (dst_ipv6 a), dst_port a)
      else None)"

fun destination_text :: "u32 + bytes \<Rightarrow> rstring" where
  "destination_text (Inl ip) = show_octets (put_word 4 ip)"
| "destination_text (Inr ip) = 91 # show_ipv6 ip @ [93]"

lemma format_endpoint_key:
  "format_endpoint a =
    (case endpoint_key a of None \<Rightarrow> NO_ENDPOINT | Some (s, ip, d) \<Rightarrow> endpoint_text s (destination_text ip) d)"
  by (simp add: format_endpoint_def endpoint_key_def show_ipv4_from_be txt_of_def)

lemma endpoint_hidden: "endpoint_text s t d \<noteq> NO_ENDPOINT"
  by (simp add: endpoint_text_def NO_ENDPOINT_def txt_of_def)

lemma destination_inject:
  assumes "destination_text ip @ 58 # ys = destination_text ip' @ 58 # zs"
    and "\<And>bs. ip = Inr bs \<Longrightarrow> length bs = 16" "\<And>bs. ip' = Inr bs \<Longrightarrow> length bs = 16"
  shows "ip = ip' \<and> ys = zs"
proof -
  have octets: "\<exists>t. show_octets (put_word 4 (v :: u32)) = t \<and> t \<noteq> [] \<and> hd t \<noteq> 91" for v
  proof -
    obtain a b c d where v: "put_word 4 v = [a, b, c, d]" by (rule put_word_4)
    have "hd (decimal (unat a)) \<in> {48..57}" by (rule subsetD [OF decimal_digits hd_in_set]) simp
    then show ?thesis by (simp add: v show_octets_4 hd_append)
  qed
  show ?thesis
  proof (cases ip; cases ip')
    fix v w assume "ip = Inl v" "ip' = Inl w"
    with assms(1) octets_separator show ?thesis by simp
  next
    fix v bs assume "ip = Inl v" "ip' = Inr bs"
    with assms(1) octets [of v] show ?thesis by (cases "show_octets (put_word 4 v)") auto
  next
    fix bs w assume "ip = Inr bs" "ip' = Inl w"
    with assms(1) octets [of w] show ?thesis by (cases "show_octets (put_word 4 w)") auto
  next
    fix bs cs assume ips: "ip = Inr bs" "ip' = Inr cs"
    then have len: "length bs = 16" "length cs = 16" using assms(2,3) by simp_all
    from ips assms(1) have "show_ipv6 bs @ 93 # (58 # ys) = show_ipv6 cs @ 93 # (58 # zs)" by simp
    from split_at_separator [OF this] show_ipv6_bracket len show_ipv6_inject [OF _ len] ips
    show ?thesis by auto
  qed
qed

lemma endpoint_text_inject:
  assumes "endpoint_text s (destination_text ip) d = endpoint_text s' (destination_text ip') d'"
    and "\<And>bs. ip = Inr bs \<Longrightarrow> length bs = 16" "\<And>bs. ip' = Inr bs \<Longrightarrow> length bs = 16"
  shows "s = s' \<and> ip = ip' \<and> d = d'"
proof -
  have "decimal (unat s) @ 32 # 8594 # txt_of '' dst '' @ destination_text ip @ 58 # decimal (unat d) =
      decimal (unat s') @ 32 # 8594 # txt_of '' dst '' @ destination_text ip' @ 58 # decimal (unat d')"
    using assms(1) by (simp add: endpoint_text_def txt_of_def)
  from decimal_separator [OF this] have "s = s'"
    and "destination_text ip @ 58 # decimal (unat d) = destination_text ip' @ 58 # decimal (unat d')"
    by (simp_all add: word_unat_eq_iff)
  with destination_inject [OF this(2) assms(2,3)] show ?thesis by (simp add: word_unat_eq_iff)
qed

section \<open>Lemmas on colours\<close>

lemma f64_less_trans_le:
  assumes "f64_less x y" and "\<not> f64_less z y"
  shows "f64_less x z"
proof -
  have "fst x * 2 ^ snd y * 2 ^ snd z < fst y * 2 ^ snd x * 2 ^ snd z"
    using assms(1) by (simp add: f64_less_def)
  also have "\<dots> \<le> fst z * 2 ^ snd y * 2 ^ snd x"
    using assms(2) mult_le_mono1 [of "fst y * 2 ^ snd z" "fst z * 2 ^ snd y" "2 ^ snd x"]
    by (simp add: f64_less_def mult_ac)
  finally have "2 ^ snd y * (fst x * 2 ^ snd z) < 2 ^ snd y * (fst z * 2 ^ snd x)"
    by (simp only: mult_ac)
  then show ?thesis by (simp add: f64_less_def)
qed

lemma traffic_color_mono:
  assumes "\<not> f64_less r' r"
  shows "heat (traffic_color r) \<le> heat (traffic_color r')"
proof -
  have "f64_less (5944751508129055, 53) (Suc 0, 0)" "f64_less (5944751508129055, 54) (Suc 0, 0)"
    by (simp_all add: f64_less_def)
  with assms f64_less_trans_le [of _ r r'] show ?thesis
    by (auto simp: traffic_color_def Let_def OK_def WARN_def HOT_def f64_literals)
qed

lemma f64_ratio_same:
  assumes "0 < n"
  shows "f64_ratio n n = (2 ^ 52, 52)"
proof -
  have "scale_up (2 ^ i * n) n = 52 - i" if "i \<le> 52" for i
    using that
  proof (induction "52 - i" arbitrary: i)
    case 0
    then show ?case by (subst scale_up.simps) simp
  next
    case (Suc j)
    then have "i < 52" by simp
    then have "\<not> 2 ^ 52 * n \<le> 2 ^ i * n" using assms power_strict_increasing [of i 52 "2 :: nat"] by simp
    moreover have "scale_up (2 ^ Suc i * n) n = 52 - Suc i"
      using \<open>i < 52\<close> Suc(2) by (intro Suc(1)) simp_all
    ultimately show ?case using Suc(2) assms by (subst scale_up.simps) (simp add: mult.assoc)
  qed
  from this [of 0] have "scale_up n n = 52" by simp
  with assms round_half_even_multiple [OF assms, of "2 ^ 52"] show ?thesis
    by (simp add: f64_ratio_def mult.commute)
qed

lemma u64_as_f64_0 [simp]: "u64_as_f64 0 = 0"
  by (simp add: u64_as_f64_exact)

lemma u64_as_f64_pos: "0 < n \<Longrightarrow> 0 < u64_as_f64 n"
  using u64_as_f64_mono [of 1 n] u64_as_f64_exact [of 1] by (simp add: word_le_nat_alt word_less_nat_alt)

section \<open>Properties\<close>

text \<open>
  C36. A byte count shown in a fixed unit is off by at most half a hundredth of that unit, counts of
  \<open>2 ^ 53\<close> bytes and more by the rounding to a double besides; and in the same unit a larger count is
  never shown as a smaller number.
\<close>

theorem format_bytes_accurate:
  assumes "u \<noteq> Unit_Auto" and "u \<noteq> Unit_B" and "m \<le> n"
  shows "\<exists>h k. format_bytes m u = show_hundredths h @ txt_of '' '' @ Unit_label u \<and>
    format_bytes n u = show_hundredths k @ txt_of '' '' @ Unit_label u \<and> h \<le> k \<and>
    2 * \<bar>100 * int (unat n) - int (unat (Unit_divisor u)) * int k\<bar>
      \<le> int (unat (Unit_divisor u)) + (if unat n < 2 ^ 53 then 0 else 204800)"
proof -
  define d where "d = unat (Unit_divisor u)"
  have d: "0 < d" "d < 2 ^ 53" using Unit_divisor_small [OF assms(1)] by (simp_all add: d_def)
  have "format_bytes x u = show_hundredths (hundredths (u64_as_f64 x) d) @ txt_of '' '' @ Unit_label u" for x
    using assms(1,2) d by (cases u) (simp_all add: format_bytes_def in_unit_hundredths d_def)
  with hundredths_mono [OF assms(3) d(1)] hundredths_error [OF d(1), of n] show ?thesis
    unfolding d_def by blast
qed

theorem format_bytes_accurate_witness:
  "format_bytes 1536 Unit_Kb = txt_of ''1.50 KB'' \<and>
   (\<exists>h k. format_bytes 1000 Unit_Kb = show_hundredths h @ txt_of '' '' @ Unit_label Unit_Kb \<and>
     format_bytes 1536 Unit_Kb = show_hundredths k @ txt_of '' '' @ Unit_label Unit_Kb \<and> h \<le> k)"
proof -
  have "format_bytes 1536 Unit_Kb = txt_of ''1.50 KB''"
    by (simp add: format_bytes_def in_unit_hundredths u64_as_f64_exact hundredths_def
        round_half_even_def show_hundredths_def decimal_rec txt_of_def)
  moreover have "\<exists>h k. format_bytes 1000 Unit_Kb = show_hundredths h @ txt_of '' '' @ Unit_label Unit_Kb \<and>
     format_bytes 1536 Unit_Kb = show_hundredths k @ txt_of '' '' @ Unit_label Unit_Kb \<and> h \<le> k"
    using format_bytes_accurate [of Unit_Kb 1000 1536] by auto
  ultimately show ?thesis by simp
qed

text \<open>
  The automatic unit: below 1024 bytes the count itself, and from there on the text of one of the
  fixed units, chosen so that the number shown lies between 1.00 and 1024.00 (with no upper limit
  for the largest unit).
\<close>

lemma auto_unit_readable:
  "if n < 1024 then format_bytes n Unit_Auto = decimal (unat n) @ txt_of '' B''
   else \<exists>u h. u \<in> {Unit_Kb, Unit_Mb, Unit_Gb, Unit_Tb} \<and> format_bytes n Unit_Auto = format_bytes n u \<and>
     format_bytes n u = show_hundredths h @ txt_of '' '' @ Unit_label u \<and> 100 \<le> h \<and>
     (h \<le> 102400 \<or> u = Unit_Tb)"
proof (cases "n < 1024")
  case True
  then show ?thesis by (simp add: format_bytes_def)
next
  case False
  then have ge: "1024 \<le> n" by simp
  obtain u where u: "u \<noteq> Unit_Auto" "u \<noteq> Unit_B" "format_bytes n Unit_Auto = format_bytes n u"
    "Unit_divisor u \<le> n" "u = Unit_Tb \<or> unat n \<le> 1024 * unat (Unit_divisor u)"
    by (rule auto_unit [OF ge])
  define d where "d = unat (Unit_divisor u)"
  define h where "h = hundredths (u64_as_f64 n) d"
  have d: "0 < d" "d < 2 ^ 53" using Unit_divisor_small [OF u(1)] by (simp_all add: d_def)
  have "hundredths d d \<le> h"
    using hundredths_mono [OF u(4) d(1)] d u64_as_f64_exact [of "Unit_divisor u"]
    by (simp add: d_def h_def)
  moreover have "hundredths d d = 100" using d by (simp add: hundredths_def mult.commute)
  ultimately have lo: "100 \<le> h" by simp
  have hi: "h \<le> 102400" if "u \<noteq> Unit_Tb"
  proof -
    have "unat (Unit_divisor u) \<le> 2 ^ 30" using u(1,2) that by (cases u) simp_all
    with u(5) that have "unat n < 2 ^ 53" by simp
    with u(5) that have "h \<le> hundredths (1024 * d) d"
      unfolding h_def hundredths_def d_def using d
      by (intro round_half_even_mono) (simp_all add: u64_as_f64_exact d_def)
    also have "\<dots> = 102400"
      using round_half_even_multiple [OF d(1), of 102400] by (simp add: hundredths_def mult_ac)
    finally show ?thesis .
  qed
  have "format_bytes n u = show_hundredths h @ txt_of '' '' @ Unit_label u"
    using u(1,2) d by (cases u) (simp_all add: format_bytes_def in_unit_hundredths d_def h_def)
  moreover have "u \<in> {Unit_Kb, Unit_Mb, Unit_Gb, Unit_Tb}" using u(1,2) by (cases u) auto
  ultimately show ?thesis
    unfolding if_not_P [OF False] using u(3) lo hi by (intro exI [of _ u] exI [of _ h]) blast
qed

text \<open>
  Colours follow the traffic: a row with more traffic than another is never shown in a cooler
  colour, the row with the most traffic is red and a row without traffic is green.
\<close>

lemma row_color_follows_traffic:
  assumes "m \<le> n" and "n \<le> most" and "0 < most"
  shows "heat (row_color m most) \<le> heat (row_color n most) \<and> row_color most most = HOT \<and>
    row_color 0 most = OK"
proof (intro conjI)
  show "heat (row_color m most) \<le> heat (row_color n most)"
    unfolding row_color_def using assms u64_as_f64_mono u64_as_f64_pos
    by (intro traffic_color_mono f64_ratio_mono) simp_all
  show "row_color most most = HOT"
    using f64_ratio_same [OF u64_as_f64_pos [OF assms(3)]]
    by (simp add: row_color_def traffic_color_def f64_literals f64_less_def)
  show "row_color 0 most = OK"
    using u64_as_f64_pos [OF assms(3)]
    by (simp add: row_color_def traffic_color_def f64_literals f64_less_def f64_ratio_def
        round_half_even_def)
qed

text \<open>
  C37. The endpoint shown identifies the peer. It prints the ports and the four octets of an IPv4
  address in the order they have on the wire, or an IPv6 address in brackets, or a dash when a port or
  the address is missing; and of any two endpoints, of whichever family and abbreviated or not, the
  texts are equal exactly when the ports and addresses are, or both are hidden.
\<close>

theorem endpoint_text_identifies:
  assumes "length (dst_ipv6 a) = 16" and "length (dst_ipv6 b) = 16"
  shows "format_endpoint a =
      (case endpoint_key a of
         None \<Rightarrow> NO_ENDPOINT
       | Some (s, Inl ip, d) \<Rightarrow> endpoint_text s (show_octets (put_word 4 ip)) d
       | Some (s, Inr ip, d) \<Rightarrow> endpoint_text s (91 # show_ipv6 ip @ [93]) d) \<and>
    (format_endpoint a = format_endpoint b \<longleftrightarrow> endpoint_key a = endpoint_key b)"
proof -
  have len: "length bs = 16" if "endpoint_key a = Some (s, Inr bs, d) \<or> endpoint_key b = Some (s, Inr bs, d)"
    for s bs d
    using that assms by (auto simp: endpoint_key_def split: if_splits)
  have "endpoint_key a = endpoint_key b" if eq: "format_endpoint a = format_endpoint b"
  proof (cases "endpoint_key a")
    case None
    then show ?thesis
      using eq endpoint_hidden by (cases "endpoint_key b") (auto simp: format_endpoint_key dest: sym)
  next
    case a: (Some x)
    obtain s ip d where x: "x = (s, ip, d)" by (cases x) blast
    show ?thesis
    proof (cases "endpoint_key b")
      case None
      then show ?thesis using eq a x endpoint_hidden by (simp add: format_endpoint_key)
    next
      case b: (Some y)
      obtain s' ip' d' where y: "y = (s', ip', d')" by (cases y) blast
      have "endpoint_text s (destination_text ip) d = endpoint_text s' (destination_text ip') d'"
        using eq unfolding format_endpoint_key a b x y by simp
      from endpoint_text_inject [OF this] have "s = s' \<and> ip = ip' \<and> d = d'"
        using len a b unfolding x y by blast
      then show ?thesis unfolding a b x y by simp
    qed
  qed
  moreover have "format_endpoint a =
      (case endpoint_key a of
         None \<Rightarrow> NO_ENDPOINT
       | Some (s, Inl ip, d) \<Rightarrow> endpoint_text s (show_octets (put_word 4 ip)) d
       | Some (s, Inr ip, d) \<Rightarrow> endpoint_text s (91 # show_ipv6 ip @ [93]) d)"
    by (simp add: format_endpoint_key split: option.split sum.split)
  moreover have "format_endpoint a = format_endpoint b" if "endpoint_key a = endpoint_key b"
    using that by (simp add: format_endpoint_key)
  ultimately show ?thesis by blast
qed

theorem endpoint_text_identifies_witness:
  "format_endpoint \<lparr>dst_port = 53, src_port = 12345, dst_ipv4 = 0,
      dst_ipv6 = [0x20, 0x01, 0x0d, 0xb8, 0, 0, 0, 0, 0, 0, 0, 0, 0, 0, 0, 1]\<rparr> =
    txt_of ''src 12345 '' @ [8594] @ txt_of '' dst [2001:db8::1]:53''"
proof -
  define ip :: bytes where "ip = [0x20, 0x01, 0x0d, 0xb8, 0, 0, 0, 0, 0, 0, 0, 0, 0, 0, 0, 1]"
  define a where "a = \<lparr>dst_port = 53, src_port = 12345, dst_ipv4 = 0, dst_ipv6 = ip\<rparr>"
  have "ip \<noteq> replicate 16 0" by (auto simp: ip_def dest: arg_cong [of _ _ hd])
  then have key: "endpoint_key a = Some (12345, Inr ip, 53)" by (simp add: endpoint_key_def a_def)
  have len: "length (dst_ipv6 a) = 16" by (simp add: a_def ip_def)
  have "show_ipv6 ip = txt_of ''2001:db8::1''"
    by (simp add: ip_def show_ipv6_def show_segments_def show_hex.simps txt_of_def Let_def)
  with endpoint_text_identifies [OF len len] key show ?thesis
    unfolding a_def ip_def by (simp add: endpoint_text_def decimal_rec txt_of_def)
qed

end
