(* ===== verification/Tui_View.thy ===== *)
theory Tui_View
  imports Tui_Order Tui_Theme "HOL-Library.Monad_Syntax"
begin

text \<open>
  Drawing a frame (\<open>render\<close> and its helpers in \<open>procnet/src/tui/view.rs\<close>): the state the renderer
  leaves behind and the widgets it hands to the terminal library, with their text, style and area.
  Dividing an area among constraints and turning a string into the pieces of a line are the
  library's, and parameters. \<open>None\<close> is a panic: an index or a slice out of range.
\<close>

section \<open>The terminal library\<close>

record Rect =
  rect_x :: u16
  rect_y :: u16
  rect_width :: u16
  rect_height :: u16

datatype Constraint = Constraint_Min u16 | Constraint_Length u16

datatype Direction = Vertical | Horizontal

text \<open>\<open>Layout::vertical(\<dots>).split\<close>, \<open>Layout::horizontal(\<dots>).split\<close> and \<open>Line::raw\<close>.\<close>

record terminal_lib =
  layout_split :: "Direction \<Rightarrow> Constraint list \<Rightarrow> Rect \<Rightarrow> Rect list"
  line_raw :: "rstring \<Rightarrow> Span list"

text \<open>Bordered blocks with an optional title, table rows with their cells, and widgets.\<close>

record Block =
  title_top :: "Span list option"
  border_fg :: "Color option"

record TableRow =
  cells :: "(rstring \<times> Style) list"
  row_style :: Style

datatype Widget =
    Clear
  | Paragraph "Span list list" "Block option"
  | Table "TableRow list" "Constraint list" TableRow Block nat

type_synonym draw = "Rect \<times> Widget"

definition rounded :: Block where
  "rounded = \<lparr>title_top = None, border_fg = None\<rparr>"

definition message :: "Rect \<Rightarrow> string \<Rightarrow> Block \<Rightarrow> draw" where
  "message area t b = (area, Paragraph [[raw_span (txt_of t)]] (Some b))"

text \<open>\<open>xs[i]\<close> and \<open>&xs[a..b]\<close>.\<close>

definition nth_opt :: "'a list \<Rightarrow> nat \<Rightarrow> 'a option" where
  "nth_opt xs i = (if i < length xs then Some (xs ! i) else None)"

definition slice_opt :: "nat \<Rightarrow> nat \<Rightarrow> 'a list \<Rightarrow> 'a list option" where
  "slice_opt a b xs = (if a \<le> b \<and> b \<le> length xs then Some (take (b - a) (drop a xs)) else None)"

definition get_all :: "'a list \<Rightarrow> nat list \<Rightarrow> 'a list option" where
  "get_all xs is = (if list_all (\<lambda>i. i < length xs) is then Some (map ((!) xs) is) else None)"

section \<open>Titles\<close>

abbreviation accent_bold :: Style where
  "accent_bold \<equiv> Style_new\<lparr>fg := Some ACCENT, bold := True\<rparr>"

abbreviation raw_txt :: "string \<Rightarrow> Span" where
  "raw_txt t \<equiv> raw_span (txt_of t)"

definition detail_block :: "string \<Rightarrow> Block" where
  "detail_block t =
     \<lparr>title_top = Some [raw_txt '' '', styled_span (txt_of t) accent_bold, raw_txt '' ''],
      border_fg = Some ACCENT\<rparr>"

definition popup_block :: "string \<Rightarrow> Block" where
  "popup_block t =
     \<lparr>title_top = Some [raw_txt '' '', styled_span (txt_of t) accent_bold, raw_txt '' ''],
      border_fg = None\<rparr>"

definition filter_summary_span :: "TuiState \<Rightarrow> Span" where
  "filter_summary_span s =
     (if filter_text s = [] then muted_span (txt_of ''none'')
      else styled_span (FilterTarget_label (filter_target s) @ [126, 34] @ filter_text s @ [34])
             (Style_new\<lparr>fg := Some ACCENT\<rparr>))"

definition table_title :: "TuiState \<Rightarrow> u64 \<Rightarrow> u64 \<Rightarrow> Span list" where
  "table_title s tck iv =
     [raw_txt '' '', styled_span (txt_of ''procnet'') accent_bold,
      raw_txt ''  '', muted_span (txt_of ''sort:''), raw_txt '' '',
      accent_span (SortKey_label (sort_key s) @ txt_of '' '' @ SortDir_arrow (sort_dir s)),
      raw_txt ''  '', muted_span (txt_of ''filter:''), raw_txt '' '', filter_summary_span s,
      raw_txt ''  '', muted_span (txt_of ''unit:''), raw_txt '' '', accent_span (Unit_label (unit s)),
      raw_txt ''  '', muted_span (txt_of ''tick:''), raw_txt '' '', accent_span (decimal (unat tck)),
      raw_txt ''  '', muted_span (txt_of ''interval:''), raw_txt '' '',
      accent_span (decimal (unat iv) @ txt_of ''ms'')] @
     (if paused s then [raw_txt ''  '', styled_span (txt_of ''PAUSED'') (Style_new\<lparr>fg := Some HOT\<rparr>)] else []) @
     (if view_mode s = Dead then [raw_txt ''  '', styled_span (txt_of ''DEAD'') accent_bold] else []) @
     [raw_txt '' '']"

section \<open>Tables\<close>

record ViewWindow =
  win_selected :: nat
  win_scroll_offset :: nat
  win_visible_rows :: u16
  win_max_total :: u64

definition header_style :: "SortKey \<Rightarrow> Style" where
  "header_style k =
     (case k of
        SortKey_Sent \<Rightarrow> Style_new\<lparr>fg := Some SENT, bold := True\<rparr>
      | SortKey_Recv \<Rightarrow> Style_new\<lparr>fg := Some RECV, bold := True\<rparr>
      | _ \<Rightarrow> Style_new\<lparr>fg := Some MUTED\<rparr>)"

definition header_row :: TableRow where
  "header_row =
     \<lparr>cells = map (\<lambda>k. (SortKey_label k, header_style k)) SortKey_ALL, row_style = Style_new\<rparr>"

definition column_widths :: "Constraint list" where
  "column_widths = [Constraint_Length 8, Constraint_Min 12, Constraint_Length 12, Constraint_Length 12,
     Constraint_Length 12]"

definition base_style :: "bool \<Rightarrow> Style" where
  "base_style is_selected =
     (if is_selected then Style_new\<lparr>bg := Some ACCENT, fg := Some INVERT_TEXT\<rparr> else Style_new)"

definition total_style :: "bool \<Rightarrow> u64 \<Rightarrow> u64 \<Rightarrow> Style" where
  "total_style is_selected n max_total =
     (if is_selected then base_style True
      else if 0 < max_total then Style_new\<lparr>fg := Some (row_color n max_total)\<rparr>
      else Style_new)"

text \<open>One line of a table: process id, name, sent, received and total.\<close>

definition table_row :: "Unit \<Rightarrow> u64 \<Rightarrow> bool \<Rightarrow> u32 \<Rightarrow> rstring \<Rightarrow> StatsBytes \<Rightarrow> TableRow" where
  "table_row u max_total is_selected pid nm b =
     \<lparr>cells = [(decimal (unat pid), Style_new), (nm, Style_new), (format_bytes (sent b) u, Style_new),
        (format_bytes (recv b) u, Style_new),
        (format_bytes (combine b) u, total_style is_selected (combine b) max_total)],
      row_style = base_style is_selected\<rparr>"

definition window_end :: "ViewWindow \<Rightarrow> TuiState \<Rightarrow> nat" where
  "window_end w s = min (win_scroll_offset w + unat (win_visible_rows w)) (length (view s))"

definition render_table_widget ::
    "Rect \<Rightarrow> SnapshotData \<Rightarrow> TuiState \<Rightarrow> ViewWindow \<Rightarrow> draw option" where
  "render_table_widget area snap s w = do {
     display \<leftarrow> slice_opt (win_scroll_offset w) (window_end w s) (view s);
     rows \<leftarrow> get_all (snap_rows snap) display;
     let table_rows = map (\<lambda>(i, r). table_row (unit s) (win_max_total w)
           (win_scroll_offset w + i = win_selected w) (row_pid r) (row_name r) (row_total r))
         (enumerate 0 rows);
     Some (area, Table table_rows column_widths header_row
       (rounded\<lparr>title_top := Some (table_title s (snap_tick snap) (snap_interval snap))\<rparr>) 1) }"

definition render_dead_table_widget ::
    "Rect \<Rightarrow> SnapshotData \<Rightarrow> TuiState \<Rightarrow> ViewWindow \<Rightarrow> draw option" where
  "render_dead_table_widget area snap s w = do {
     display \<leftarrow> slice_opt (win_scroll_offset w) (window_end w s) (view s);
     ps \<leftarrow> get_all (snap_dead_procs snap) display;
     let table_rows = map (\<lambda>(i, p). table_row (unit s) (win_max_total w)
           (win_scroll_offset w + i = win_selected w) (pi_pid p) (pi_name p) (dead_total p))
         (enumerate 0 ps);
     Some (area, Table table_rows column_widths header_row
       (rounded\<lparr>title_top := Some (table_title s (snap_tick snap) (snap_interval snap))\<rparr>) 1) }"

text \<open>
  The cursor: on the row of the process it is locked onto, if that is in the view; otherwise on the
  top row, with the lock released.
\<close>

definition resolve_cursor :: "u32 list \<Rightarrow> u32 option \<Rightarrow> nat \<times> u32 option" where
  "resolve_cursor pids locked =
     (case locked of
        None \<Rightarrow> (0, None)
      | Some pid \<Rightarrow>
          (case position (\<lambda>p. p = pid) pids of Some i \<Rightarrow> (i, Some pid) | None \<Rightarrow> (0, None)))"

text \<open>
  The part both tables share: cursor, window and process ids of the view are computed from the
  process ids and totals of the view's rows and stored in the state.
\<close>

definition place_window ::
    "Rect \<Rightarrow> u32 list \<Rightarrow> u64 list \<Rightarrow> TuiState \<Rightarrow> TuiState \<times> ViewWindow" where
  "place_window area pids totals s =
     (let (sel, resolved_pid) = resolve_cursor pids (selected_pid s);
          vis = saturating_sub (rect_height area) 3;
          (sel', offset) = clamp_scroll sel (scroll_offset s) vis (length (view s));
          max_total = fold max totals 0
      in (s\<lparr>selected := sel', scroll_offset := offset, visible_rows := vis, view_pids := pids,
            selected_pid := resolved_pid\<rparr>,
          \<lparr>win_selected = sel', win_scroll_offset = offset, win_visible_rows = vis,
           win_max_total = max_total\<rparr>))"

definition empty_table :: "TuiState \<Rightarrow> TuiState" where
  "empty_table s = s\<lparr>visible_rows := 0, view_pids := []\<rparr>"

definition render_table ::
    "Rect \<Rightarrow> SnapshotData \<Rightarrow> TuiState \<Rightarrow> (TuiState \<times> draw) option" where
  "render_table area snap s =
     (if snap_rows snap = []
      then Some (empty_table s, message area ''Waiting for process stats...'' rounded)
      else if view s = []
      then Some (empty_table s, message area ''No processes match the filter...'' rounded)
      else do {
        rows \<leftarrow> get_all (snap_rows snap) (view s);
        let (s', w) = place_window area (map row_pid rows) (map (\<lambda>r. combine (row_total r)) rows) s;
        d \<leftarrow> render_table_widget area snap s' w;
        Some (s', d) })"

definition render_dead_table ::
    "Rect \<Rightarrow> SnapshotData \<Rightarrow> TuiState \<Rightarrow> (TuiState \<times> draw) option" where
  "render_dead_table area snap s =
     (if snap_dead_procs snap = []
      then Some (empty_table s, message area ''No dead processes yet.'' rounded)
      else if view s = []
      then Some (empty_table s, message area ''No dead processes match the filter...'' rounded)
      else do {
        ps \<leftarrow> get_all (snap_dead_procs snap) (view s);
        let (s', w) = place_window area (map pi_pid ps) (map (\<lambda>p. combine (dead_total p)) ps) s;
        d \<leftarrow> render_dead_table_widget area snap s' w;
        Some (s', d) })"

section \<open>The detail pane\<close>

definition cum_only_line :: "rstring \<Rightarrow> StatsBytes \<Rightarrow> Unit \<Rightarrow> Span list" where
  "cum_only_line lbl cum u =
     [styled_span (pad_right 5 lbl) accent_bold, muted_span (txt_of ''sent: ''),
      styled_span (format_bytes (sent cum) u) (Style_new\<lparr>fg := Some SENT\<rparr>), raw_txt ''   '',
      muted_span (txt_of ''recv: ''),
      styled_span (format_bytes (recv cum) u) (Style_new\<lparr>fg := Some RECV\<rparr>)]"

definition traffic_spans :: "rstring \<Rightarrow> StatsBytes \<Rightarrow> StatsBytes \<Rightarrow> Unit \<Rightarrow> Span list" where
  "traffic_spans lbl tck cum u =
     [styled_span (pad_right 5 lbl) accent_bold, muted_span (txt_of ''sent: ''),
      styled_span (format_bytes (sent tck) u @ txt_of '' / '' @ format_bytes (sent cum) u)
        (Style_new\<lparr>fg := Some SENT\<rparr>), raw_txt ''   '', muted_span (txt_of ''recv: ''),
      styled_span (format_bytes (recv tck) u @ txt_of '' / '' @ format_bytes (recv cum) u)
        (Style_new\<lparr>fg := Some RECV\<rparr>)]"

definition proto_line :: "rstring \<Rightarrow> ProtocolStats \<Rightarrow> StatsBytes \<Rightarrow> Unit \<Rightarrow> Span list" where
  "proto_line lbl st cum u =
     traffic_spans lbl (pbytes st) cum u @
     [raw_txt ''   '', muted_span (txt_of ''endpoint: ''), raw_span (format_endpoint (paddr st))]"

definition detail_head :: "u32 \<Rightarrow> rstring \<Rightarrow> Span list" where
  "detail_head pid nm = [styled_span (decimal (unat pid)) accent_bold, raw_txt ''  '', raw_span nm]"

definition live_detail :: "terminal_lib \<Rightarrow> Unit \<Rightarrow> StatsRow \<Rightarrow> Span list list" where
  "live_detail lib u r =
     [detail_head (row_pid r) (row_name r),
      proto_line (txt_of ''TCP  '') (row_tcp r) (fst (row_cum r)) u,
      proto_line (txt_of ''UDP  '') (row_udp r) (snd (row_cum r)) u,
      line_raw lib [],
      traffic_spans (txt_of ''TOT  '') (row_total r) (row_total_cum r) u]"

definition dead_detail :: "terminal_lib \<Rightarrow> Unit \<Rightarrow> ProcInfo \<Rightarrow> Span list list" where
  "dead_detail lib u p =
     [detail_head (pi_pid p) (pi_name p),
      cum_only_line (txt_of ''TCP  '') (pi_tcp_cum p) u,
      cum_only_line (txt_of ''UDP  '') (pi_udp_cum p) u,
      line_raw lib [],
      cum_only_line (txt_of ''TOT  '') (dead_total p) u]"

definition render_detail ::
    "terminal_lib \<Rightarrow> Rect \<Rightarrow> SnapshotData \<Rightarrow> TuiState \<Rightarrow> draw option" where
  "render_detail lib area snap s =
     (case nth_opt (view s) (selected s) of
        None \<Rightarrow> Some (message area ''No process selected'' (detail_block ''details''))
      | Some idx \<Rightarrow> do {
          lines \<leftarrow> (case view_mode s of
              Live \<Rightarrow> map_option (live_detail lib (unit s)) (nth_opt (snap_rows snap) idx)
            | Dead \<Rightarrow> map_option (dead_detail lib (unit s)) (nth_opt (snap_dead_procs snap) idx));
          Some (area, Paragraph lines (Some (detail_block ''details''))) })"

section \<open>The bar of key bindings\<close>

fun bar_display_key :: "KeySpec \<Rightarrow> rstring" where
  "bar_display_key (Chars t) = (if t = ''+'' \<or> t = ''-'' then txt_of ''+-'' else txt_of t)"
| "bar_display_key KeySpec_Up = [8593, 8595]"
| "bar_display_key KeySpec_Down = [8593, 8595]"
| "bar_display_key KeySpec_Enter = txt_of ''enter''"
| "bar_display_key KeySpec_Esc = txt_of ''esc''"
| "bar_display_key KeySpec_Backspace = txt_of ''bksp''"
| "bar_display_key KeySpec_Tab = txt_of ''tab''"
| "bar_display_key (Ctrl _) = []"

definition bar_active :: "Keybind \<Rightarrow> TuiState \<Rightarrow> bool" where
  "bar_active kb s =
     (if label kb = txt_of ''pause'' then paused s
      else if label kb = txt_of ''details'' then show_detail s
      else if label kb = txt_of ''dead'' then view_mode s = Dead
      else False)"

definition bar_label :: "Keybind \<Rightarrow> TuiState \<Rightarrow> rstring" where
  "bar_label kb s =
     (if label kb = txt_of ''pause''
      then if paused s then txt_of ''resume'' else txt_of ''pause''
      else label kb)"

text \<open>The loop over the groups: bindings of one group are set apart by spaces, groups by a bar.\<close>

fun bar_spans :: "TuiState \<Rightarrow> nat option \<Rightarrow> (nat \<times> Keybind) list \<Rightarrow> Span list" where
  "bar_spans s prev [] = []"
| "bar_spans s prev ((gi, kb) # rest) =
     (if \<not> bar kb \<or> label kb = [] then bar_spans s prev rest
      else (case prev of None \<Rightarrow> [] | Some p \<Rightarrow> if p = gi then [raw_txt ''  ''] else [sep_span]) @
        [raw_span (bar_display_key (Keybind.key kb)), raw_txt '' '',
         styled_span (bar_label kb s)
           (Style_new\<lparr>fg := Some (if bar_active kb s then ACCENT else MUTED)\<rparr>)] @
        bar_spans s (Some gi) rest)"

definition render_keybind_bar :: "Rect \<Rightarrow> TuiState \<Rightarrow> draw" where
  "render_keybind_bar area s =
     (let spans = bar_spans s None
            (concat (map (\<lambda>(gi, group). map (Pair gi) group) (enumerate 0 (keybinds (active_pane s)))))
      in (area, Paragraph [spans @ (if spans = [] then [] else [raw_txt ''  ''])] None))"

section \<open>Prompts and popups\<close>

definition render_filter_prompt :: "Rect \<Rightarrow> TuiState \<Rightarrow> draw" where
  "render_filter_prompt area s =
     (area, Paragraph [[
        muted_span (txt_of ''Filter by '' @ FilterTarget_label (filter_target s) @ txt_of '': ''),
        styled_span (filter_text s) (Style_new\<lparr>fg := Some ACCENT\<rparr>), raw_txt ''_'']] None)"

definition centered_fixed :: "terminal_lib \<Rightarrow> Rect \<Rightarrow> u16 \<Rightarrow> u16 \<Rightarrow> Rect option" where
  "centered_fixed lib area width height = (
     let h = min (rect_height area) height; w = min (rect_width area) width;
         vertical = layout_split lib Vertical
           [Constraint_Length (saturating_sub (rect_height area) h div 2), Constraint_Length h,
            Constraint_Min 0] area
     in do {
       middle \<leftarrow> nth_opt vertical 1;
       nth_opt (layout_split lib Horizontal
         [Constraint_Length (saturating_sub (rect_width area) w div 2), Constraint_Length w,
          Constraint_Min 0] middle) 1 })"

definition unit_line :: "TuiState \<Rightarrow> nat \<times> Unit \<Rightarrow> Span list" where
  "unit_line s iu =
     (let is_cursor = (fst iu = unit_picker_cursor s); is_applied = (snd iu = unit s) in
      [styled_span
        ((if is_cursor then [9656, 32] else txt_of ''  '') @ Unit_label (snd iu) @
         (if is_applied then txt_of ''  (current)'' else []))
        (if is_cursor then accent_bold else Style_new)])"

definition render_unit_picker :: "terminal_lib \<Rightarrow> Rect \<Rightarrow> TuiState \<Rightarrow> draw list option" where
  "render_unit_picker lib area s = do {
     popup \<leftarrow> centered_fixed lib area 22 (of_nat (length Unit_ALL) + 3);
     Some [(popup, Clear),
       (popup, Paragraph (map (unit_line s) (enumerate 0 Unit_ALL)) (Some (popup_block ''unit'')))] }"

definition section_header :: "rstring \<Rightarrow> Span list" where
  "section_header lbl = [styled_span lbl accent_bold]"

definition help_line :: "rstring \<Rightarrow> rstring \<Rightarrow> Span list" where
  "help_line k desc = [raw_txt '' '', styled_span (pad_right 6 k) accent_bold, raw_txt '' '', muted_span desc]"

text \<open>A group of bindings has one line, where its first binding stands.\<close>

fun help_entries :: "HelpGroup list \<Rightarrow> Keybind list \<Rightarrow> Span list list" where
  "help_entries seen [] = []"
| "help_entries seen (kb # kbs) =
     (case help_group (kb_help kb) of
        Some g \<Rightarrow>
          if g \<in> set seen then help_entries seen kbs
          else help_line (HelpGroup_glyph g) (HelpGroup_text g) # help_entries (seen @ [g]) kbs
      | None \<Rightarrow>
          help_line (bar_display_key (Keybind.key kb)) (help_text (kb_help kb)) # help_entries seen kbs)"

definition help_section :: "terminal_lib \<Rightarrow> Section \<Rightarrow> Span list list" where
  "help_section lib sec =
     (let entries = filter (\<lambda>kb. help_active (kb_help kb) \<and> section_of kb = sec) (concat ALL_KEYS) in
      if entries = [] then []
      else section_header (Section_text sec) # help_entries [] entries @ [line_raw lib []])"

definition help_lines :: "terminal_lib \<Rightarrow> Span list list" where
  "help_lines lib =
     (let lines = concat (map (help_section lib) Section_ALL) in
      if lines \<noteq> [] \<and> last lines = [] then butlast lines else lines)"

definition render_help :: "terminal_lib \<Rightarrow> Rect \<Rightarrow> draw list option" where
  "render_help lib area = do {
     popup \<leftarrow> centered_fixed lib area 52 22;
     Some [(popup, Clear), (popup, Paragraph (help_lines lib) (Some (popup_block ''help'')))] }"

section \<open>A frame\<close>

definition frame_constraints :: "TuiState \<Rightarrow> Constraint list" where
  "frame_constraints s =
     [Constraint_Min 1] @ (if show_detail s then [Constraint_Length 8] else []) @
     [Constraint_Length 1] @ (if active_pane s = Pane_Filter then [Constraint_Length 1] else [])"

definition render_popup ::
    "terminal_lib \<Rightarrow> Rect \<Rightarrow> Rect list \<Rightarrow> nat \<Rightarrow> TuiState \<Rightarrow> draw list option" where
  "render_popup lib area layout idx s =
     (case active_pane s of
        Pane_Filter \<Rightarrow> map_option (\<lambda>a. [render_filter_prompt a s]) (nth_opt layout idx)
      | Pane_Help \<Rightarrow> render_help lib area
      | Pane_Unit \<Rightarrow> render_unit_picker lib area s
      | Pane_Main \<Rightarrow> Some [])"

definition render ::
    "terminal_lib \<Rightarrow> Rect \<Rightarrow> SnapshotData \<Rightarrow> TuiState \<Rightarrow> (TuiState \<times> draw list) option" where
  "render lib area snap s = do {
     s1 \<leftarrow> refresh_view snap s;
     let layout = layout_split lib Vertical (frame_constraints s1) area;
     table_area \<leftarrow> nth_opt layout 0;
     (s2, table) \<leftarrow> (case view_mode s1 of
         Live \<Rightarrow> render_table table_area snap s1
       | Dead \<Rightarrow> render_dead_table table_area snap s1);
     (detail, idx) \<leftarrow> (if show_detail s2
       then do {
         detail_area \<leftarrow> nth_opt layout 1;
         d \<leftarrow> render_detail lib detail_area snap s2;
         Some ([d], 2) }
       else Some ([], 1));
     bar_area \<leftarrow> nth_opt layout idx;
     popup \<leftarrow> render_popup lib area layout (idx + 1) s2;
     Some (s2, [table] @ detail @ [render_keybind_bar bar_area s2] @ popup) }"

section \<open>What a table shows\<close>

text \<open>
  The reference for both tables: the line of the row at each position of the window, the line at the
  cursor highlighted.
\<close>

definition view_rows :: "SnapshotData \<Rightarrow> TuiState \<Rightarrow> (u32 \<times> rstring \<times> StatsBytes) list" where
  "view_rows snap s = map ((!) (table_rows snap s)) (view s)"

definition shown_rows :: "SnapshotData \<Rightarrow> TuiState \<Rightarrow> ViewWindow \<Rightarrow> TableRow list" where
  "shown_rows snap s w =
     map (\<lambda>k. case view_rows snap s ! k of (pid, nm, b) \<Rightarrow>
          table_row (unit s) (win_max_total w) (k = win_selected w) pid nm b)
       [win_scroll_offset w..<window_end w s]"

definition shown_table :: "SnapshotData \<Rightarrow> TuiState \<Rightarrow> ViewWindow \<Rightarrow> Widget" where
  "shown_table snap s w = Table (shown_rows snap s w) column_widths header_row
     (rounded\<lparr>title_top := Some (table_title s (snap_tick snap) (snap_interval snap))\<rparr>) 1"

definition placed :: "Rect \<Rightarrow> SnapshotData \<Rightarrow> TuiState \<Rightarrow> TuiState \<times> ViewWindow" where
  "placed area snap s =
     place_window area (map fst (view_rows snap s)) (map (\<lambda>r. combine (snd (snd r))) (view_rows snap s)) s"

text \<open>
  What a line has to show, without the renderer's own functions: of row \<open>i\<close> of the snapshot, live or
  ended, the process id, the name and the bytes sent and received over TCP and UDP together, each sum
  capped at the largest 64-bit number; and how the line prints them.
\<close>

definition capped_sum :: "u64 \<Rightarrow> u64 \<Rightarrow> u64" where
  "capped_sum a b = word_of_nat (min (2 ^ 64 - 1) (unat a + unat b))"

definition shown_process :: "u32 \<Rightarrow> rstring \<Rightarrow> StatsBytes \<Rightarrow> StatsBytes \<Rightarrow> u32 \<times> rstring \<times> u64 \<times> u64" where
  "shown_process pid nm t u = (pid, nm, capped_sum (sent t) (sent u), capped_sum (recv t) (recv u))"

definition row_content :: "SnapshotData \<Rightarrow> TuiState \<Rightarrow> nat \<Rightarrow> u32 \<times> rstring \<times> u64 \<times> u64" where
  "row_content snap s i =
     (case view_mode s of
        Live \<Rightarrow> (let r = snap_rows snap ! i in
          shown_process (row_pid r) (row_name r) (pbytes (row_tcp r)) (pbytes (row_udp r)))
      | Dead \<Rightarrow> (let p = snap_dead_procs snap ! i in
          shown_process (pi_pid p) (pi_name p) (pi_tcp_cum p) (pi_udp_cum p)))"

definition number_of_rows :: "SnapshotData \<Rightarrow> TuiState \<Rightarrow> nat" where
  "number_of_rows snap s =
     (case view_mode s of Live \<Rightarrow> length (snap_rows snap) | Dead \<Rightarrow> length (snap_dead_procs snap))"

definition largest_total :: "SnapshotData \<Rightarrow> TuiState \<Rightarrow> u64" where
  "largest_total snap s =
     Max ((\<lambda>i. case row_content snap s i of (_, _, out, inn) \<Rightarrow> capped_sum out inn) ` set (view s))"

definition plain_text :: Style where
  "plain_text = \<lparr>fg = None, bg = None, bold = False\<rparr>"

definition highlighted :: Style where
  "highlighted = \<lparr>fg = Some Black, bg = Some Cyan, bold = False\<rparr>"

definition line_shows ::
    "Unit \<Rightarrow> u64 \<Rightarrow> bool \<Rightarrow> u32 \<times> rstring \<times> u64 \<times> u64 \<Rightarrow> TableRow \<Rightarrow> bool" where
  "line_shows u most at_cursor content line \<longleftrightarrow>
     (case content of (pid, nm, out, inn) \<Rightarrow>
        map fst (cells line) =
          [decimal (unat pid), nm, format_bytes out u, format_bytes inn u,
           format_bytes (capped_sum out inn) u]
        \<and> row_style line = (if at_cursor then highlighted else plain_text)
        \<and> map snd (cells line) = replicate 4 plain_text @
            [if at_cursor then highlighted
             else if most = 0 then plain_text
             else plain_text\<lparr>fg := Some (row_color (capped_sum out inn) most)\<rparr>])"

section \<open>Lemmas on tables\<close>

lemma capped_sum_merge:
  "sent (merge a b) = capped_sum (sent a) (sent b)" "recv (merge a b) = capped_sum (recv a) (recv b)"
  "combine b = capped_sum (sent b) (recv b)"
proof -
  have "saturating_add x y = capped_sum x y" for x y :: u64
    by (simp add: capped_sum_def word_unat_eq_iff unat_saturating_add unat_of_nat)
  then show "sent (merge a b) = capped_sum (sent a) (sent b)"
    "recv (merge a b) = capped_sum (recv a) (recv b)" "combine b = capped_sum (sent b) (recv b)"
    by (simp_all add: merge_def combine_def)
qed

lemma table_row_shows:
  "line_shows u most at_cursor (pid, nm, sent b, recv b) (table_row u most at_cursor pid nm b)"
  by (simp add: line_shows_def table_row_def total_style_def base_style_def plain_text_def highlighted_def
      Style_new_def ACCENT_def INVERT_TEXT_def capped_sum_merge numeral_eq_Suc word_gt_0)

lemma number_of_rows_table: "length (table_rows snap s) = number_of_rows snap s"
  by (simp add: table_rows_def number_of_rows_def split: ViewMode.split)

lemma table_rows_content:
  assumes "i < number_of_rows snap s"
  shows "row_content snap s i =
    (case table_rows snap s ! i of (pid, nm, b) \<Rightarrow> (pid, nm, sent b, recv b))"
  using assms
  by (cases "view_mode s")
    (simp_all add: row_content_def number_of_rows_def table_rows_def shown_process_def row_total_def
      dead_total_def capped_sum_merge Let_def)

lemma largest_total_placed:
  assumes "\<forall>i \<in> set (view s). i < length (table_rows snap s)" and "view s \<noteq> []"
  shows "fold max (map (\<lambda>r. combine (snd (snd r))) (view_rows snap s)) 0 = largest_total snap s"
proof -
  let ?f = "\<lambda>r. combine (snd (snd r))"
  have eq: "(case row_content snap s i of (_, _, out, inn) \<Rightarrow> capped_sum out inn) =
      ?f (table_rows snap s ! i)" if "i \<in> set (view s)" for i
    using assms(1) that
    by (simp add: table_rows_content number_of_rows_table capped_sum_merge(3) split: prod.split)
  have "fold max (map ?f (view_rows snap s)) 0 = Max (insert 0 (set (map ?f (view_rows snap s))))"
    using Max.set_eq_fold [of 0 "map ?f (view_rows snap s)"] by simp
  also have "\<dots> = Max (set (map ?f (view_rows snap s)))"
    using assms(2) by (subst Max_insert) (simp_all add: view_rows_def max_def)
  also have "set (map ?f (view_rows snap s)) =
      (\<lambda>i. case row_content snap s i of (_, _, out, inn) \<Rightarrow> capped_sum out inn) ` set (view s)"
    using eq by (auto simp: view_rows_def image_image intro!: image_cong)
  finally show ?thesis by (simp add: largest_total_def)
qed

lemma clamp_scroll_offset_le: "snd (clamp_scroll sel off vis len) \<le> len"
proof (cases "len = 0 \<or> unat vis = 0")
  case True
  then show ?thesis by (auto simp: clamp_scroll_def)
next
  case False
  then show ?thesis
    using clamp_scroll_snd(1) [of len vis sel off] clamp_scroll_fst [of len sel off vis] by linarith
qed

lemma place_window_simps:
  assumes "place_window area pids totals s = (s', w)"
  shows "win_scroll_offset w = scroll_offset s'" "win_selected w = selected s'"
    "win_visible_rows w = visible_rows s'" "win_scroll_offset w \<le> length (view s)" "view s' = view s"
    "view_pids s' = pids" "view_mode s' = view_mode s" "unit s' = unit s" "show_detail s' = show_detail s"
    "active_pane s' = active_pane s" "unit_picker_cursor s' = unit_picker_cursor s"
    "visible_rows s' = saturating_sub (rect_height area) 3" "win_max_total w = fold max totals 0"
    "selected_pid s' = snd (resolve_cursor pids (selected_pid s))"
    "(selected s', scroll_offset s') = clamp_scroll (fst (resolve_cursor pids (selected_pid s)))
       (scroll_offset s) (visible_rows s') (length (view s))"
    "paused s' = paused s"
  using assms clamp_scroll_offset_le [of _ "scroll_offset s" "saturating_sub (rect_height area) 3" "length (view s)"]
  by (auto simp: place_window_def Let_def split: prod.splits) (metis snd_conv)

lemma get_all_range: "\<forall>i \<in> set is. i < length xs \<Longrightarrow> get_all xs is = Some (map ((!) xs) is)"
  by (simp add: get_all_def list_all_iff)

lemma slice_opt_range:
  "a \<le> b \<Longrightarrow> b \<le> length xs \<Longrightarrow> slice_opt a b xs = Some (map ((!) xs) [a..<b])"
  by (auto simp: slice_opt_def intro!: nth_equalityI)

lemma enumerate_window:
  "map (\<lambda>(i, x). f (a + i) x) (enumerate 0 (map g [a..<b])) = map (\<lambda>k. f k (g k)) [a..<b]"
  by (rule nth_equalityI) (simp_all add: nth_enumerate_eq)

lemma window_range: "win_scroll_offset w \<le> length (view s) \<Longrightarrow> win_scroll_offset w \<le> window_end w s"
  by (simp add: window_end_def)

lemma table_widget_shows:
  assumes "\<forall>i \<in> set (view s). i < length (table_rows snap s)" and "win_scroll_offset w \<le> length (view s)"
  shows "view_mode s = Live \<Longrightarrow> render_table_widget area snap s w = Some (area, shown_table snap s w)"
    and "view_mode s = Dead \<Longrightarrow> render_dead_table_widget area snap s w = Some (area, shown_table snap s w)"
proof -
  define a b where "a = win_scroll_offset w" and "b = window_end w s"
  have ab: "a \<le> b" "b \<le> length (view s)"
    using window_range [OF assms(2)] by (simp_all add: a_def b_def window_end_def)
  have range: "\<forall>i \<in> set (map ((!) (view s)) [a..<b]). i < length (table_rows snap s)"
    using assms(1) ab(2) by auto
  have at: "view_rows snap s ! k = table_rows snap s ! (view s ! k)" "view s ! k < length (table_rows snap s)"
    if "k \<in> set [a..<b]" for k
    using that ab(2) assms(1) by (auto simp: view_rows_def)
  show "render_table_widget area snap s w = Some (area, shown_table snap s w)" if "view_mode s = Live"
    using that range at
    unfolding render_table_widget_def shown_table_def shown_rows_def a_def [symmetric] b_def [symmetric]
    by (auto simp: slice_opt_range [OF ab] get_all_range table_rows_def comp_def enumerate_window
        [of "\<lambda>k r. table_row (unit s) (win_max_total w) (k = win_selected w) (row_pid r) (row_name r) (row_total r)"])
  show "render_dead_table_widget area snap s w = Some (area, shown_table snap s w)" if "view_mode s = Dead"
    using that range at
    unfolding render_dead_table_widget_def shown_table_def shown_rows_def a_def [symmetric] b_def [symmetric]
    by (auto simp: slice_opt_range [OF ab] get_all_range table_rows_def comp_def enumerate_window
        [of "\<lambda>k r. table_row (unit s) (win_max_total w) (k = win_selected w) (pi_pid r) (pi_name r) (dead_total r)"])
qed

lemma view_rows_pids:
  assumes "\<forall>i \<in> set (view s). i < length (table_rows snap s)"
  shows "view_mode s = Live \<Longrightarrow> map fst (view_rows snap s) = map row_pid (map ((!) (snap_rows snap)) (view s))"
    and "view_mode s = Live \<Longrightarrow> map (\<lambda>r. combine (snd (snd r))) (view_rows snap s) =
      map (\<lambda>r. combine (row_total r)) (map ((!) (snap_rows snap)) (view s))"
    and "view_mode s = Dead \<Longrightarrow> map fst (view_rows snap s) = map pi_pid (map ((!) (snap_dead_procs snap)) (view s))"
    and "view_mode s = Dead \<Longrightarrow> map (\<lambda>r. combine (snd (snd r))) (view_rows snap s) =
      map (\<lambda>p. combine (dead_total p)) (map ((!) (snap_dead_procs snap)) (view s))"
  using assms by (auto simp: view_rows_def table_rows_def)

lemma table_rows_state: "view_mode s' = view_mode s \<Longrightarrow> table_rows snap s' = table_rows snap s"
  by (simp add: table_rows_def)

text \<open>The table of either mode, when there is something to show.\<close>

lemma table_drawn:
  assumes range: "\<forall>i \<in> set (view s). i < length (table_rows snap s)" and "view s \<noteq> []"
    and p: "placed area snap s = (s', w)"
  shows "(case view_mode s of Live \<Rightarrow> render_table area snap s | Dead \<Rightarrow> render_dead_table area snap s) =
    Some (s', area, shown_table snap s' w)"
proof -
  note ps = place_window_simps [OF p [unfolded placed_def]]
  have "hd (view s) < length (table_rows snap s)" using range assms(2) hd_in_set by blast
  then have rows: "table_rows snap s \<noteq> []" by auto
  have range': "\<forall>i \<in> set (view s'). i < length (table_rows snap s')"
    using range ps(5) by (simp add: table_rows_state [OF ps(7)])
  have off: "win_scroll_offset w \<le> length (view s')" using ps(4,5) by simp
  note widget = table_widget_shows [OF range' off]
  show ?thesis
  proof (cases "view_mode s")
    case Live
    then have "get_all (snap_rows snap) (view s) = Some (map ((!) (snap_rows snap)) (view s))"
      using range by (simp add: get_all_range table_rows_def)
    with Live p rows widget(1) assms(2) ps(7) view_rows_pids(1,2) [OF range] show ?thesis
      by (simp add: render_table_def placed_def table_rows_def)
  next
    case Dead
    then have "get_all (snap_dead_procs snap) (view s) = Some (map ((!) (snap_dead_procs snap)) (view s))"
      using range by (simp add: get_all_range table_rows_def)
    with Dead p rows widget(2) assms(2) ps(7) view_rows_pids(3,4) [OF range] show ?thesis
      by (simp add: render_dead_table_def placed_def table_rows_def)
  qed
qed

lemma empty_table_drawn:
  assumes "view s = []"
  shows "\<exists>m. (case view_mode s of Live \<Rightarrow> render_table area snap s | Dead \<Rightarrow> render_dead_table area snap s) =
    Some (empty_table s, area, m)"
  using assms by (cases "view_mode s") (auto simp: render_table_def render_dead_table_def message_def)

lemma detail_drawn:
  assumes "\<forall>i \<in> set (view s). i < length (table_rows snap s)"
  shows "\<exists>d. render_detail lib area snap s = Some (area, d)"
  using assms
  by (cases "view_mode s") (auto simp: render_detail_def nth_opt_def message_def table_rows_def)

section \<open>The terminal library's contract\<close>

text \<open>A layout has one area per constraint.\<close>

locale terminal_library =
  fixes lib :: terminal_lib
  assumes split_length: "length (layout_split lib dir cs area) = length cs"
begin

lemma popup_drawn: "\<exists>r. centered_fixed lib area width height = Some r"
  by (simp add: centered_fixed_def nth_opt_def split_length Let_def)

lemma render_popup_drawn:
  assumes "active_pane s = Pane_Filter \<Longrightarrow> idx < length layout"
  shows "\<exists>ds. render_popup lib area layout idx s = Some ds"
  using assms popup_drawn [of area]
  by (cases "active_pane s")
    (auto simp: render_popup_def render_help_def render_unit_picker_def nth_opt_def bind_eq_Some_conv)

text \<open>
  A frame never panics. It starts with the table; the state it leaves is the one the table has
  computed from the refreshed view.
\<close>

lemma render_table_first:
  assumes "refresh_view snap s = Some s1"
    and "(case view_mode s1 of Live \<Rightarrow> render_table area0 snap s1 | Dead \<Rightarrow> render_dead_table area0 snap s1) =
      Some (s2, area0, table)"
    and "area0 = layout_split lib Vertical (frame_constraints s1) area ! 0"
    and "\<forall>i \<in> set (view s2). i < length (table_rows snap s2)"
    and "active_pane s2 = active_pane s1" "show_detail s2 = show_detail s1"
  shows "\<exists>rest. render lib area snap s = Some (s2, (area0, table) # rest)"
proof -
  define layout where "layout = layout_split lib Vertical (frame_constraints s1) area"
  define idx :: nat where "idx = (if show_detail s2 then 2 else 1)"
  have len: "length layout = length (frame_constraints s1)" by (simp add: layout_def split_length)
  obtain ds where ds: "render_popup lib area layout (idx + 1) s2 = Some ds"
    using render_popup_drawn [of s2 "idx + 1" layout area] assms(5,6) len
    by (auto simp: frame_constraints_def idx_def)
  obtain d where "render_detail lib (layout ! 1) snap s2 = Some (layout ! 1, d)"
    using detail_drawn [OF assms(4)] by blast
  moreover have "nth_opt layout 0 = Some area0" "nth_opt layout idx = Some (layout ! idx)"
    "show_detail s2 \<Longrightarrow> nth_opt layout 1 = Some (layout ! 1)"
    using len assms(3,6) by (auto simp: nth_opt_def frame_constraints_def layout_def idx_def)
  ultimately show ?thesis
    using assms(1,2) ds unfolding render_def layout_def [symmetric]
    by (cases "show_detail s2") (simp_all add: layout_def [symmetric] idx_def Let_def)
qed

lemma render_spec:
  "\<exists>v s2 m rest. refresh_view snap s = Some (s\<lparr>view := v\<rparr>) \<and>
    (\<forall>i \<in> set v. i < length (table_rows snap s)) \<and>
    render lib area snap s = Some (s2, m # rest) \<and>
    (if v = [] then s2 = empty_table (s\<lparr>view := []\<rparr>)
     else \<exists>area0 w. placed area0 snap (s\<lparr>view := v\<rparr>) = (s2, w) \<and> m = (area0, shown_table snap s2 w) \<and>
       area0 = layout_split lib Vertical (frame_constraints (s\<lparr>view := v\<rparr>)) area ! 0)"
proof -
  obtain v where v: "refresh_view snap s = Some (s\<lparr>view := v\<rparr>)" "\<forall>i \<in> set v. i < length (table_rows snap s)"
    using refresh_view_range by blast
  define s1 where "s1 = s\<lparr>view := v\<rparr>"
  define area0 where "area0 = layout_split lib Vertical (frame_constraints s1) area ! 0"
  have s1: "refresh_view snap s = Some s1" "view s1 = v" "table_rows snap s1 = table_rows snap s"
    using v(1) by (simp_all add: s1_def table_rows_def)
  show ?thesis
  proof (cases "v = []")
    case True
    then have "view s1 = []" using s1(2) by simp
    then obtain m where m: "(case view_mode s1 of Live \<Rightarrow> render_table area0 snap s1
        | Dead \<Rightarrow> render_dead_table area0 snap s1) = Some (empty_table s1, area0, m)"
      using empty_table_drawn by blast
    have "\<exists>rest. render lib area snap s = Some (empty_table s1, (area0, m) # rest)"
      by (rule render_table_first [OF s1(1) m area0_def]) (simp_all add: empty_table_def \<open>view s1 = []\<close>)
    then show ?thesis using v True unfolding s1_def by auto
  next
    case False
    obtain s2 w where p: "placed area0 snap s1 = (s2, w)" by (cases "placed area0 snap s1")
    note ps = place_window_simps [OF p [unfolded placed_def]]
    have range: "\<forall>i \<in> set (view s1). i < length (table_rows snap s1)" using v(2) s1 by simp
    have range2: "\<forall>i \<in> set (view s2). i < length (table_rows snap s2)"
      using range ps(5) by (simp add: table_rows_state [OF ps(7)])
    have ne: "view s1 \<noteq> []" using False s1(2) by simp
    from render_table_first [OF s1(1) table_drawn [OF range ne p] area0_def range2 ps(10) ps(9)]
    show ?thesis using False v p area0_def unfolding s1_def by auto
  qed
qed

text \<open>What a frame keeps of the state.\<close>

lemma render_keeps:
  "\<exists>s' ds. render lib area snap s = Some (s', ds) \<and> length (view_pids s') = length (view s') \<and>
    unit_picker_cursor s' = unit_picker_cursor s \<and> active_pane s' = active_pane s \<and> paused s' = paused s"
proof -
  obtain v s2 m rest where v: "render lib area snap s = Some (s2, m # rest)"
    "if v = [] then s2 = empty_table (s\<lparr>view := []\<rparr>)
     else \<exists>area0 w. placed area0 snap (s\<lparr>view := v\<rparr>) = (s2, w) \<and> m = (area0, shown_table snap s2 w) \<and>
       area0 = layout_split lib Vertical (frame_constraints (s\<lparr>view := v\<rparr>)) area ! 0"
    using render_spec by blast
  show ?thesis
  proof (cases "v = []")
    case True
    with v show ?thesis by (auto simp: empty_table_def)
  next
    case False
    with v(2) obtain area0 w where "placed area0 snap (s\<lparr>view := v\<rparr>) = (s2, w)" by auto
    note ps = place_window_simps [OF this [unfolded placed_def]]
    have "length (view_pids s2) = length (view s2)" using ps(5,6) by (simp add: view_rows_def)
    then show ?thesis using v(1) ps(10,11,16) by simp
  qed
qed

lemma render_refreshed:
  assumes "refresh_view snap s = Some (s\<lparr>view := v\<rparr>)" and "v \<noteq> []"
  obtains s2 area0 w rest where "render lib area snap s = Some (s2, (area0, shown_table snap s2 w) # rest)"
    "placed area0 snap (s\<lparr>view := v\<rparr>) = (s2, w)"
    "area0 = layout_split lib Vertical (frame_constraints (s\<lparr>view := v\<rparr>)) area ! 0"
proof -
  obtain v' s2 m rest where r: "refresh_view snap s = Some (s\<lparr>view := v'\<rparr>)"
    "render lib area snap s = Some (s2, m # rest)"
    "if v' = [] then s2 = empty_table (s\<lparr>view := []\<rparr>)
     else \<exists>area0 w. placed area0 snap (s\<lparr>view := v'\<rparr>) = (s2, w) \<and> m = (area0, shown_table snap s2 w) \<and>
       area0 = layout_split lib Vertical (frame_constraints (s\<lparr>view := v'\<rparr>)) area ! 0"
    using render_spec by blast
  from assms(1) r(1) have "view (s\<lparr>view := v'\<rparr>) = view (s\<lparr>view := v\<rparr>)" by simp
  then have "v' = v" by simp
  with r assms(2) show thesis using that by auto
qed

lemma render_placed:
  assumes "render lib area snap s = Some (s2, ds)" and "view s2 \<noteq> []"
  obtains v area0 w rest where "refresh_view snap s = Some (s\<lparr>view := v\<rparr>)"
    "\<forall>i \<in> set v. i < length (table_rows snap s)"
    "placed area0 snap (s\<lparr>view := v\<rparr>) = (s2, w)" "ds = (area0, shown_table snap s2 w) # rest"
    "area0 = layout_split lib Vertical (frame_constraints (s\<lparr>view := v\<rparr>)) area ! 0"
proof -
  obtain v s2' m rest where v: "refresh_view snap s = Some (s\<lparr>view := v\<rparr>)"
    "\<forall>i \<in> set v. i < length (table_rows snap s)" "render lib area snap s = Some (s2', m # rest)"
    "if v = [] then s2' = empty_table (s\<lparr>view := []\<rparr>)
     else \<exists>area0 w. placed area0 snap (s\<lparr>view := v\<rparr>) = (s2', w) \<and> m = (area0, shown_table snap s2' w) \<and>
       area0 = layout_split lib Vertical (frame_constraints (s\<lparr>view := v\<rparr>)) area ! 0"
    using render_spec by blast
  from v(3) assms(1) have eq: "s2' = s2" "ds = m # rest" by simp_all
  with v(4) assms(2) have "v \<noteq> []" by (auto simp: empty_table_def split: if_splits)
  with v eq show thesis using that by auto
qed

end

text \<open>
  An instance of the contract: lengths are granted in order as far as the area reaches, and the rest
  goes to the constraint that only names a minimum.
\<close>

fun granted :: "u16 \<Rightarrow> Constraint list \<Rightarrow> u16 list" where
  "granted avail [] = []"
| "granted avail (Constraint_Length n # cs) = min avail n # granted (avail - min avail n) cs"
| "granted avail (Constraint_Min n # cs) =
     (let rest = fold (\<lambda>c a. case c of Constraint_Length k \<Rightarrow> saturating_add a k | Constraint_Min _ \<Rightarrow> a) cs 0;
          own = saturating_sub avail rest
      in own # granted (avail - own) cs)"

definition stack_areas :: "Direction \<Rightarrow> Constraint list \<Rightarrow> Rect \<Rightarrow> Rect list" where
  "stack_areas dir cs area =
     (case dir of
        Vertical \<Rightarrow> map (\<lambda>h. area\<lparr>rect_height := h\<rparr>) (granted (rect_height area) cs)
      | Horizontal \<Rightarrow> map (\<lambda>w. area\<lparr>rect_width := w\<rparr>) (granted (rect_width area) cs))"

definition stacking_lib :: terminal_lib where
  "stacking_lib = \<lparr>layout_split = stack_areas, line_raw = (\<lambda>t. if t = [] then [] else [raw_span t])\<rparr>"

lemma length_granted: "length (granted avail cs) = length cs"
  by (induction avail cs rule: granted.induct) (simp_all add: Let_def)

interpretation stacking: terminal_library stacking_lib
  by unfold_locales (simp add: stacking_lib_def stack_areas_def length_granted split: Direction.split)

section \<open>Lemmas on the cursor\<close>

lemma position_found: "p \<in> set pids \<Longrightarrow> \<exists>i. position (\<lambda>q. q = p) pids = Some i"
  using position_None [of "\<lambda>q. q = p" pids] by (cases "position (\<lambda>q. q = p) pids") auto

lemma resolve_cursor_bound:
  assumes "pids \<noteq> []"
  shows "fst (resolve_cursor pids locked) < length pids"
  using assms position_Some [of _ pids]
  by (auto simp: resolve_cursor_def split: option.splits)

lemma resolve_cursor_locked:
  assumes "p \<in> set pids"
  shows "snd (resolve_cursor pids (Some p)) = Some p \<and> pids ! fst (resolve_cursor pids (Some p)) = p"
  using position_found [OF assms] position_Some [of "\<lambda>q. q = p" pids]
  by (auto simp: resolve_cursor_def)

lemma resolve_cursor_released:
  "resolve_cursor pids None = (0, None)" "p \<notin> set pids \<Longrightarrow> resolve_cursor pids (Some p) = (0, None)"
  using position_None [of "\<lambda>q. q = p" pids] by (auto simp: resolve_cursor_def split: option.split)

lemma placed_cursor:
  assumes "placed area snap s = (s', w)" and "view s \<noteq> []"
  shows "view_pids s' = map fst (view_rows snap s)"
    and "selected s' = fst (resolve_cursor (view_pids s') (selected_pid s))"
    and "selected_pid s' = snd (resolve_cursor (view_pids s') (selected_pid s))"
    and "selected s' < length (view s)"
    and "0 < unat (visible_rows s') \<Longrightarrow>
      scroll_offset s' \<le> selected s' \<and> selected s' < scroll_offset s' + unat (visible_rows s')"
proof -
  note ps = place_window_simps [OF assms(1) [unfolded placed_def]]
  show pids: "view_pids s' = map fst (view_rows snap s)" by (rule ps(6))
  show "selected_pid s' = snd (resolve_cursor (view_pids s') (selected_pid s))" using ps(14) pids by simp
  have len: "length (view_pids s') = length (view s)" by (simp add: pids view_rows_def)
  define c where "c = fst (resolve_cursor (view_pids s') (selected_pid s))"
  have c: "c < length (view s)"
    using resolve_cursor_bound [of "view_pids s'" "selected_pid s"] assms(2) len unfolding c_def by fastforce
  have pos: "0 < length (view s)" using assms(2) by simp
  have clamp: "clamp_scroll c (scroll_offset s) (visible_rows s') (length (view s)) = (selected s', scroll_offset s')"
    using ps(15) by (simp add: pids c_def)
  show sel: "selected s' = fst (resolve_cursor (view_pids s') (selected_pid s))"
    using clamp_scroll_fst [OF pos, of c "scroll_offset s" "visible_rows s'"] c
    by (simp add: clamp c_def [symmetric])
  show "selected s' < length (view s)" using c sel by (simp add: c_def)
  show "scroll_offset s' \<le> selected s' \<and> selected s' < scroll_offset s' + unat (visible_rows s')"
    if "0 < unat (visible_rows s')"
    using clamp_scroll_snd(1,2) [OF pos that, of c "scroll_offset s"] by (simp add: clamp)
qed

text \<open>The view depends on the snapshot, the table, the filter and the order alone.\<close>

lemma refresh_view_cong:
  assumes "view_mode s' = view_mode s" "sort_key s' = sort_key s" "sort_dir s' = sort_dir s"
    "filter_text s' = filter_text s" "filter_target s' = filter_target s"
    and "refresh_view snap s = Some (s\<lparr>view := v\<rparr>)"
  shows "refresh_view snap s' = Some (s'\<lparr>view := v\<rparr>)"
proof -
  have "matching s' rows = matching s rows" for rows
    using assms(4,5) by (simp add: matching_def)
  then have same: "live_view snap s' = live_view snap s" "dead_view snap s' = dead_view snap s"
    using assms(2,3) by (simp_all add: live_view_def dead_view_def)
  obtain v' where v': "(case view_mode s of Live \<Rightarrow> live_view snap s | Dead \<Rightarrow> dead_view snap s) = Some v'"
    "s\<lparr>view := v'\<rparr> = s\<lparr>view := v\<rparr>"
    using assms(6) unfolding refresh_view_def by auto
  have "v' = v" using arg_cong [OF v'(2), of view] by simp
  with v'(1) show ?thesis unfolding refresh_view_def assms(1) same by simp
qed

lemma placed_fields:
  assumes "placed area snap s = (s', w)"
  shows "sort_key s' = sort_key s" "sort_dir s' = sort_dir s" "filter_text s' = filter_text s"
    "filter_target s' = filter_target s"
  using assms by (auto simp: placed_def place_window_def Let_def split: prod.splits)

lemma move_down_fields:
  assumes "active_pane s = Pane_Main" and "Suc (selected s) < length (view s)"
    and "length (view_pids s) = length (view s)"
  defines "s' \<equiv> fst (move_cursor False s)"
  shows "selected_pid s' = Some (view_pids s ! Suc (selected s))" "view_mode s' = view_mode s"
    "sort_key s' = sort_key s" "sort_dir s' = sort_dir s" "filter_text s' = filter_text s"
    "filter_target s' = filter_target s"
proof -
  have "fst (clamp_scroll (Suc (selected s)) (scroll_offset s) (visible_rows s) (length (view s))) =
      Suc (selected s)"
    using assms(2) by (subst clamp_scroll_fst) auto
  then show "selected_pid s' = Some (view_pids s ! Suc (selected s))" "view_mode s' = view_mode s"
    "sort_key s' = sort_key s" "sort_dir s' = sort_dir s" "filter_text s' = filter_text s"
    "filter_target s' = filter_target s"
    using assms(1,2,3) unfolding s'_def by (auto simp: move_cursor_def Let_def split: prod.splits)
qed

text \<open>Two processes of one id that ended, as a reused id leaves them, and the table of them.\<close>

definition demo_dead :: SnapshotData where
  "demo_dead = \<lparr>snap_interval = 1000, snap_tick = 5, snap_rows = [],
     snap_dead_procs = [
       \<lparr>pi_pid = 7, pi_name = txt_of ''a'', pi_tcp_cum = StatsBytes_default, pi_udp_cum = StatsBytes_default\<rparr>,
       \<lparr>pi_pid = 7, pi_name = txt_of ''b'', pi_tcp_cum = StatsBytes_default, pi_udp_cum = StatsBytes_default\<rparr>]\<rparr>"

definition demo_state :: TuiState where
  "demo_state = TuiState_new\<lparr>view_mode := Dead\<rparr>"

lemma demo_view: "refresh_view demo_dead demo_state = Some (demo_state\<lparr>view := [1, 0]\<rparr>)"
  by (simp add: refresh_view_def dead_view_def demo_state_def TuiState_new_def demo_dead_def
      sort_dead_procs_def sort_indices_def matching_def dead_order_def then_pid_def directed_def
      compare_prod_lex_apply to_utf8_def encode_char_def char_units_def txt_of_def upt_rec
      split: comp.split)

definition demo_area :: Rect where
  "demo_area = \<lparr>rect_x = 0, rect_y = 0, rect_width = 80, rect_height = 24\<rparr>"

lemma demo_render:
  assumes "view_mode s = view_mode demo_state" "sort_key s = sort_key demo_state"
    "sort_dir s = sort_dir demo_state" "filter_text s = filter_text demo_state"
    "filter_target s = filter_target demo_state"
  obtains s' ds where "render stacking_lib demo_area demo_dead s = Some (s', ds)"
    "view s' = [1, 0]" "view_pids s' = [7, 7]" "active_pane s' = active_pane s"
    "selected s' = fst (resolve_cursor [7, 7] (selected_pid s))"
proof -
  have r: "refresh_view demo_dead s = Some (s\<lparr>view := [1, 0]\<rparr>)"
    using assms by (rule refresh_view_cong) (rule demo_view)
  obtain s2 area0 w rest where d: "render stacking_lib demo_area demo_dead s =
      Some (s2, (area0, shown_table demo_dead s2 w) # rest)"
    and p: "placed area0 demo_dead (s\<lparr>view := [1, 0]\<rparr>) = (s2, w)"
    by (rule stacking.render_refreshed [OF r]) simp_all
  note ps = place_window_simps [OF p [unfolded placed_def]]
  have ne: "view (s\<lparr>view := [1, 0]\<rparr>) \<noteq> []" by simp
  have mode: "view_mode s = Dead" using assms(1) by (simp add: demo_state_def)
  have pids: "view_pids s2 = [7, 7]"
    using placed_cursor(1) [OF p ne] mode by (simp add: view_rows_def table_rows_def demo_dead_def)
  have "selected s2 = fst (resolve_cursor [7, 7] (selected_pid s))"
    using placed_cursor(2) [OF p ne] pids by simp
  with d pids ps(5,10) show thesis using that by auto
qed

section \<open>Properties\<close>

text \<open>In the small terminal of the witnesses twenty rows fit, and a table of fewer does not scroll.\<close>

lemma demo_window:
  assumes "render stacking_lib demo_area snap s = Some (s', ds)" and "view s' \<noteq> []"
    and "length (view s') \<le> 20" and "\<not> show_detail s" and "active_pane s \<noteq> Pane_Filter"
  shows "visible_rows s' = 20 \<and> scroll_offset s' = 0 \<and> unit s' = unit s \<and> view_mode s' = view_mode s"
proof -
  obtain v area0 w rest where p: "placed area0 snap (s\<lparr>view := v\<rparr>) = (s', w)"
    and area0: "area0 = layout_split stacking_lib Vertical (frame_constraints (s\<lparr>view := v\<rparr>)) demo_area ! 0"
    by (rule stacking.render_placed [OF assms(1,2)])
  note ps = place_window_simps [OF p [unfolded placed_def]]
  have "rect_height area0 = 23"
    using assms(4,5) by (simp add: area0 frame_constraints_def stacking_lib_def stack_areas_def demo_area_def
        saturating_sub_def saturating_add_def)
  then have vis: "visible_rows s' = 20" using ps(12) by (simp add: saturating_sub_def)
  with assms(2,3) ps(5,15) have "scroll_offset s' = 0" by (simp add: clamp_scroll_fits)
  with vis ps(7,8) show ?thesis by simp
qed

text \<open>
  C21. The cursor follows the process it is locked onto: after a frame with rows it is on that process
  if the view has it, and otherwise on the top row with the lock released; the cursor is on a row of
  the view, inside the visible part of it, and the process ids the input handler uses are those of
  the rows shown.
\<close>

theorem cursor_follows_process:
  assumes "terminal_library lib" and "render lib area snap s = Some (s', ds)" and "view s' \<noteq> []"
  shows "view_pids s' = map fst (view_rows snap s') \<and> selected s' < length (view s') \<and>
    (visible_rows s' = 0 \<or>
      scroll_offset s' \<le> selected s' \<and> selected s' < scroll_offset s' + unat (visible_rows s')) \<and>
    (case selected_pid s of
       None \<Rightarrow> selected s' = 0 \<and> selected_pid s' = None
     | Some p \<Rightarrow>
         if p \<in> set (view_pids s') then view_pids s' ! selected s' = p \<and> selected_pid s' = Some p
         else selected s' = 0 \<and> selected_pid s' = None)"
proof -
  obtain v area0 w rest where "refresh_view snap s = Some (s\<lparr>view := v\<rparr>)"
    "\<forall>i \<in> set v. i < length (table_rows snap s)" and p: "placed area0 snap (s\<lparr>view := v\<rparr>) = (s', w)"
    and "ds = (area0, shown_table snap s' w) # rest"
    by (rule terminal_library.render_placed [OF assms])
  note ps = place_window_simps [OF p [unfolded placed_def]]
  have ne: "view (s\<lparr>view := v\<rparr>) \<noteq> []" using assms(3) ps(5) by simp
  note pc = placed_cursor [OF p ne]
  have rows: "view_rows snap (s\<lparr>view := v\<rparr>) = view_rows snap s'"
    using ps(5,7) by (simp add: view_rows_def table_rows_def)
  have "visible_rows s' = 0 \<or> 0 < unat (visible_rows s')" by (simp add: unat_gt_0)
  then show ?thesis
    using pc(1-5) ps(5) rows resolve_cursor_locked [of _ "view_pids s'"]
      resolve_cursor_released [where pids = "view_pids s'"]
    by (cases "selected_pid s") auto
qed

theorem cursor_follows_process_witness:
  "\<exists>s' ds. render stacking_lib demo_area demo_dead (demo_state\<lparr>selected_pid := Some 7\<rparr>) = Some (s', ds) \<and>
     view s' = [1, 0] \<and> view_pids s' ! selected s' = 7 \<and> selected_pid s' = Some 7"
proof -
  obtain s' ds where r: "render stacking_lib demo_area demo_dead (demo_state\<lparr>selected_pid := Some 7\<rparr>) = Some (s', ds)"
    and v: "view s' = [1, 0]" "view_pids s' = [7, 7]"
    by (rule demo_render [of "demo_state\<lparr>selected_pid := Some 7\<rparr>"]) simp_all
  have mem: "7 \<in> set (view_pids s')" using v(2) by simp
  have "view s' \<noteq> []" using v(1) by simp
  from cursor_follows_process [OF stacking.terminal_library_axioms r this] mem
  have "view_pids s' ! selected s' = 7 \<and> selected_pid s' = Some 7" by auto
  with r v show ?thesis by blast
qed

lemma window_shown:
  assumes "terminal_library lib" and "render lib area snap s = Some (s', ds)" and "view s' \<noteq> []"
  shows "\<exists>area0 lines rest. ds = (area0, Table lines column_widths header_row
      (rounded\<lparr>title_top := Some (table_title s' (snap_tick snap) (snap_interval snap))\<rparr>) 1) # rest \<and>
    length lines = min (unat (visible_rows s')) (length (view s') - scroll_offset s') \<and>
    (\<forall>k < length lines. view s' ! (scroll_offset s' + k) < number_of_rows snap s' \<and>
      line_shows (unit s') (largest_total snap s') (scroll_offset s' + k = selected s')
        (row_content snap s' (view s' ! (scroll_offset s' + k))) (lines ! k))"
proof -
  obtain v area0 w rest where "refresh_view snap s = Some (s\<lparr>view := v\<rparr>)"
    and v: "\<forall>i \<in> set v. i < length (table_rows snap s)" and p: "placed area0 snap (s\<lparr>view := v\<rparr>) = (s', w)"
    and ds: "ds = (area0, shown_table snap s' w) # rest"
    by (rule terminal_library.render_placed [OF assms])
  note ps = place_window_simps [OF p [unfolded placed_def]]
  have range: "\<forall>i \<in> set (view s'). i < length (table_rows snap s')"
    using v ps(5,7) by (simp add: table_rows_def)
  have "view_rows snap (s\<lparr>view := v\<rparr>) = view_rows snap s'"
    using ps(5,7) by (simp add: view_rows_def table_rows_def)
  with ps(13) largest_total_placed [OF range assms(3)]
  have most: "win_max_total w = largest_total snap s'" by (simp add: comp_def)
  have len: "length (shown_rows snap s' w) =
      min (unat (visible_rows s')) (length (view s') - scroll_offset s')"
    using ps(1,3) by (simp add: shown_rows_def window_end_def)
  have "view s' ! (scroll_offset s' + k) < number_of_rows snap s' \<and>
      line_shows (unit s') (largest_total snap s') (scroll_offset s' + k = selected s')
        (row_content snap s' (view s' ! (scroll_offset s' + k))) (shown_rows snap s' w ! k)"
    if "k < length (shown_rows snap s' w)" for k
  proof -
    let ?i = "view s' ! (scroll_offset s' + k)"
    have k: "scroll_offset s' + k < length (view s')" using that len by auto
    with range have i: "?i < number_of_rows snap s'" by (simp add: number_of_rows_table)
    obtain pid nm b where r: "table_rows snap s' ! ?i = (pid, nm, b)" by (metis prod_cases3)
    have "shown_rows snap s' w ! k =
        table_row (unit s') (largest_total snap s') (scroll_offset s' + k = selected s') pid nm b"
      using that k r most ps(1,2) by (simp add: shown_rows_def view_rows_def)
    with i r table_row_shows show ?thesis by (simp add: table_rows_content)
  qed
  with ds len show ?thesis unfolding shown_table_def by blast
qed

text \<open>
  C20. The table on screen is the visible part of the view: its lines are those of the rows at the
  consecutive positions from the scroll offset on, as many as fit or are left. Each line prints, of
  its row of the snapshot, the process id in decimal, the name, and in the chosen unit the bytes sent,
  the bytes received (TCP and UDP together) and their sum; exactly the line at the cursor is
  highlighted, and on the others the sum alone is coloured, by its share of the largest sum in the
  view.
\<close>

theorem table_shows_window:
  assumes "terminal_library lib" and "render lib area snap s = Some (s', ds)" and "view s' \<noteq> []"
  shows "\<exists>area0 lines rest. ds = (area0, Table lines column_widths header_row
      (rounded\<lparr>title_top := Some (table_title s' (snap_tick snap) (snap_interval snap))\<rparr>) 1) # rest \<and>
    length lines = min (unat (visible_rows s')) (length (view s') - scroll_offset s') \<and>
    (\<forall>k < length lines. view s' ! (scroll_offset s' + k) < number_of_rows snap s' \<and>
      line_shows (unit s') (largest_total snap s') (scroll_offset s' + k = selected s')
        (row_content snap s' (view s' ! (scroll_offset s' + k))) (lines ! k))"
  using assms by (rule window_shown)

theorem table_shows_window_witness:
  "\<exists>s' area0 upper lower b rest. render stacking_lib demo_area demo_dead demo_state =
      Some (s', (area0, Table [upper, lower] column_widths header_row b 1) # rest) \<and>
     map fst (cells upper) = [txt_of ''7'', txt_of ''b'', txt_of ''0 B'', txt_of ''0 B'', txt_of ''0 B''] \<and>
     map fst (cells lower) = [txt_of ''7'', txt_of ''a'', txt_of ''0 B'', txt_of ''0 B'', txt_of ''0 B''] \<and>
     row_style upper = highlighted \<and> row_style lower = plain_text"
proof -
  obtain s' ds where r: "render stacking_lib demo_area demo_dead demo_state = Some (s', ds)"
    and v: "view s' = [1, 0]" "view_pids s' = [7, 7]" "selected s' = fst (resolve_cursor [7, 7] (selected_pid demo_state))"
    by (rule demo_render [of demo_state]) simp_all
  have "view s' \<noteq> []" using v(1) by simp
  have w: "visible_rows s' = 20" "scroll_offset s' = 0" "unit s' = Unit_Auto" "view_mode s' = Dead"
    using demo_window [OF r] v(1) by (simp_all add: demo_state_def TuiState_new_def)
  have sel: "selected s' = 0" using v(3) by (simp add: demo_state_def TuiState_new_def resolve_cursor_def)
  from table_shows_window [OF stacking.terminal_library_axioms r \<open>view s' \<noteq> []\<close>] obtain area0 lines b rest
    where ds: "ds = (area0, Table lines column_widths header_row b 1) # rest" and len: "length lines = 2"
    and at: "\<forall>k < length lines. line_shows Unit_Auto (largest_total demo_dead s') (k = 0)
        (row_content demo_dead s' ([1, 0] ! k)) (lines ! k)"
    by (auto simp: v(1) w sel)
  obtain upper lower where lines: "lines = [upper, lower]"
    using len by (auto simp: numeral_2_eq_2 length_Suc_conv)
  have "line_shows Unit_Auto (largest_total demo_dead s') True (row_content demo_dead s' 1) upper"
    "line_shows Unit_Auto (largest_total demo_dead s') False (row_content demo_dead s' 0) lower"
    using at [rule_format, of 0] at [rule_format, of 1] by (simp_all add: lines)
  with r ds lines show ?thesis
    by (simp add: row_content_def w(4) demo_dead_def shown_process_def capped_sum_def line_shows_def
        format_bytes_def txt_of_def StatsBytes_default_def decimal_rec [of 7] decimal_rec [of 0])
qed

text \<open>
  C35. Two ended processes with the same id, one below the other in the table, stop the cursor: moving
  down from the upper one puts the lock on the id they share, and the next frame resolves that lock to
  the upper one again, so the rows below cannot be reached with the cursor keys.
\<close>

theorem repeated_pid_stops_cursor:
  assumes "terminal_library lib" and "render lib area snap s = Some (s1, ds)"
    and "active_pane s1 = Pane_Main" and "Suc (selected s1) < length (view s1)"
    and "view_pids s1 ! Suc (selected s1) = view_pids s1 ! selected s1"
    and "position (\<lambda>p. p = view_pids s1 ! selected s1) (view_pids s1) = Some (selected s1)"
  shows "\<exists>s2 ds2. render lib area snap (fst (move_cursor False s1)) = Some (s2, ds2) \<and>
    view s2 = view s1 \<and> selected s2 = selected s1"
proof -
  have ne: "view s1 \<noteq> []" using assms(4) by auto
  obtain v area0 w rest where v: "refresh_view snap s = Some (s\<lparr>view := v\<rparr>)"
    "\<forall>i \<in> set v. i < length (table_rows snap s)" and p: "placed area0 snap (s\<lparr>view := v\<rparr>) = (s1, w)"
    and "ds = (area0, shown_table snap s1 w) # rest"
    by (rule terminal_library.render_placed [OF assms(1,2) ne])
  note ps = place_window_simps [OF p [unfolded placed_def]] and pf = placed_fields [OF p]
  have vne: "view (s\<lparr>view := v\<rparr>) \<noteq> []" using ne ps(5) by simp
  have pids: "view_pids s1 = map (\<lambda>i. fst (table_rows snap s ! i)) v"
    using placed_cursor(1) [OF p vne] by (simp add: view_rows_def table_rows_def comp_def)
  define s' where "s' = fst (move_cursor False s1)"
  have len: "length (view_pids s1) = length (view s1)" using pids ps(5) by simp
  note mv = move_down_fields [OF assms(3,4) len, folded s'_def]
  have r: "refresh_view snap s' = Some (s'\<lparr>view := v\<rparr>)"
    using mv pf ps(7) by (intro refresh_view_cong [OF _ _ _ _ _ v(1)]) simp_all
  have "v \<noteq> []" using vne by simp
  then obtain s2 area2 w2 rest2 where r2: "render lib area snap s' = Some (s2, (area2, shown_table snap s2 w2) # rest2)"
    and p2: "placed area2 snap (s'\<lparr>view := v\<rparr>) = (s2, w2)"
    by (rule terminal_library.render_refreshed [OF assms(1) r])
  have vne2: "view (s'\<lparr>view := v\<rparr>) \<noteq> []" using vne by simp
  have pids2: "view_pids s2 = view_pids s1"
    using placed_cursor(1) [OF p2 vne2] mv(2) ps(7) pids
    by (simp add: view_rows_def table_rows_def comp_def)
  have "selected s2 = fst (resolve_cursor (view_pids s1) (Some (view_pids s1 ! selected s1)))"
    using placed_cursor(2) [OF p2 vne2] mv(1) assms(5) pids2 by simp
  then have "selected s2 = selected s1" using assms(6) by (simp add: resolve_cursor_def)
  moreover have "view s2 = view s1"
    using place_window_simps(5) [OF p2 [unfolded placed_def]] ps(5) by simp
  ultimately show ?thesis using r2 unfolding s'_def by blast
qed

theorem repeated_pid_stops_cursor_witness:
  "\<exists>s1 ds s2 ds2. render stacking_lib demo_area demo_dead demo_state = Some (s1, ds) \<and>
     view s1 = [1, 0] \<and> selected s1 = 0 \<and>
     render stacking_lib demo_area demo_dead (fst (move_cursor False s1)) = Some (s2, ds2) \<and> selected s2 = 0"
proof -
  obtain s1 ds where r: "render stacking_lib demo_area demo_dead demo_state = Some (s1, ds)"
    and v: "view s1 = [1, 0]" "view_pids s1 = [7, 7]" "active_pane s1 = active_pane demo_state"
    "selected s1 = fst (resolve_cursor [7, 7] (selected_pid demo_state))"
    by (rule demo_render [of demo_state]) simp_all
  have s: "selected s1 = 0" "active_pane s1 = Pane_Main"
    using v(3,4) by (simp_all add: demo_state_def TuiState_new_def resolve_cursor_def)
  have "\<exists>s2 ds2. render stacking_lib demo_area demo_dead (fst (move_cursor False s1)) = Some (s2, ds2) \<and>
      view s2 = view s1 \<and> selected s2 = selected s1"
    using v s by (intro repeated_pid_stops_cursor [OF stacking.terminal_library_axioms r]) simp_all
  with r v s show ?thesis by auto
qed

text \<open>
  The help popup is too small for its content: it is 22 rows high, 2 of them the border, but the
  text has 22 lines, and the two that do not fit are how to toggle the help and how to quit.
\<close>

lemma help_popup_cuts_off_quit:
  "drop 20 (help_lines lib) =
     [help_line (txt_of ''?h'') (txt_of ''Toggle this help''),
      help_line (txt_of ''q'') (txt_of ''Quit (Ctrl-C also works)'')] @
     (if line_raw lib [] = [] then [] else [line_raw lib []])"
  by (simp add: help_lines_def Section_ALL_def help_section_def ALL_KEYS_def key_tables shown_def
      grouped_def unlisted_def txt_of_def help_line_def Let_def)

end
