(* ===== verification/Bincode.thy ===== *)
theory Bincode
  imports Ipc Utf8
begin

text \<open>
  An instance of the serialisation interface for snapshots, following bincode's documented default
  format: integers in their width, least significant byte first; a sequence or string as its length
  in 8 bytes and its elements; a structure as its fields in order; a fixed-size array as its
  elements. It shows that the assumptions made of the serialiser hold together, and gives the size
  of a snapshot on the wire.
\<close>

section \<open>Parsers\<close>

type_synonym 'a parser = "bytes \<Rightarrow> ('a \<times> bytes) option"

definition get_int :: "nat \<Rightarrow> 'w::len word parser" where
  "get_int k bs = (if k \<le> length bs then Some (get_word (take k bs), drop k bs) else None)"

definition get_bytes :: "nat \<Rightarrow> bytes parser" where
  "get_bytes n bs = (if n \<le> length bs then Some (take n bs, drop n bs) else None)"

definition andthen :: "'a parser \<Rightarrow> ('a \<Rightarrow> 'b parser) \<Rightarrow> 'b parser" where
  "andthen p f bs = (case p bs of None \<Rightarrow> None | Some (x, rest) \<Rightarrow> f x rest)"

definition yields :: "'a \<Rightarrow> 'a parser" where
  "yields x bs = Some (x, bs)"

fun get_many :: "'a parser \<Rightarrow> nat \<Rightarrow> 'a list parser" where
  "get_many p 0 = yields []"
| "get_many p (Suc n) = andthen p (\<lambda>x. andthen (get_many p n) (\<lambda>xs. yields (x # xs)))"

named_theorems reads_back \<open>a parser reads back what was written, whatever follows\<close>

lemma get_int_put [reads_back]:
  assumes "LENGTH('w) \<le> 8 * k"
  shows "get_int k (put_word k (w :: 'w::len word) @ rest) = Some (w, rest)"
  using assms by (simp add: get_int_def)

lemma get_bytes_put [reads_back]: "length xs = n \<Longrightarrow> get_bytes n (xs @ rest) = Some (xs, rest)"
  by (simp add: get_bytes_def)

lemma get_many_put:
  assumes "\<And>x rest. x \<in> set xs \<Longrightarrow> p (e x @ rest) = Some (x, rest)"
  shows "get_many p (length xs) (concat (map e xs) @ rest) = Some (xs, rest)"
  using assms by (induction xs) (simp_all add: andthen_def yields_def)

section \<open>Strings and sequences\<close>

definition put_len :: "nat \<Rightarrow> bytes" where
  "put_len n = put_word 8 (word_of_nat n :: u64)"

definition put_string :: "rstring \<Rightarrow> bytes" where
  "put_string s = put_len (length (to_utf8 s)) @ to_utf8 s"

definition get_string :: "rstring parser" where
  "get_string = andthen (get_int 8 :: u64 parser) (\<lambda>n. andthen (get_bytes (unat n))
     (\<lambda>bs. case from_utf8 bs of Some s \<Rightarrow> yields s | None \<Rightarrow> \<lambda>_. None))"

definition string_ok :: "rstring \<Rightarrow> bool" where
  "string_ok s \<longleftrightarrow> list_all scalar_value s \<and> length (to_utf8 s) < 2 ^ 64"

definition put_seq :: "('a \<Rightarrow> bytes) \<Rightarrow> 'a list \<Rightarrow> bytes" where
  "put_seq e xs = put_len (length xs) @ concat (map e xs)"

definition get_seq :: "'a parser \<Rightarrow> 'a list parser" where
  "get_seq p = andthen (get_int 8 :: u64 parser) (\<lambda>n. get_many p (unat n))"

lemma unat_len: "n < 2 ^ 64 \<Longrightarrow> unat (word_of_nat n :: u64) = n"
  unfolding unat_of_nat by simp

lemma get_string_put [reads_back]:
  "string_ok s \<Longrightarrow> get_string (put_string s @ rest) = Some (s, rest)"
  by (simp add: get_string_def put_string_def put_len_def string_ok_def andthen_def yields_def
      reads_back unat_len from_utf8_to_utf8)

lemma get_seq_put:
  assumes "\<And>x rest. x \<in> set xs \<Longrightarrow> p (e x @ rest) = Some (x, rest)" and "length xs < 2 ^ 64"
  shows "get_seq p (put_seq e xs @ rest) = Some (xs, rest)"
  using get_many_put [OF assms(1), of xs] assms(2)
  by (simp add: get_seq_def put_seq_def put_len_def andthen_def reads_back unat_len)

section \<open>Structures\<close>

definition put_StatsBytes :: "StatsBytes \<Rightarrow> bytes" where
  "put_StatsBytes b = put_word 8 (sent b) @ put_word 8 (recv b)"

definition get_StatsBytes :: "StatsBytes parser" where
  "get_StatsBytes = andthen (get_int 8) (\<lambda>s. andthen (get_int 8) (\<lambda>r. yields \<lparr>sent = s, recv = r\<rparr>))"

definition put_ProtocolStats :: "ProtocolStats \<Rightarrow> bytes" where
  "put_ProtocolStats p =
     put_StatsBytes (pbytes p) @ put_word 2 (dst_port (paddr p)) @ put_word 2 (src_port (paddr p))
     @ put_word 4 (dst_ipv4 (paddr p)) @ dst_ipv6 (paddr p)"

definition get_ProtocolStats :: "ProtocolStats parser" where
  "get_ProtocolStats =
     andthen get_StatsBytes (\<lambda>b. andthen (get_int 2) (\<lambda>d. andthen (get_int 2) (\<lambda>s.
       andthen (get_int 4) (\<lambda>i. andthen (get_bytes 16) (\<lambda>i6.
         yields \<lparr>pbytes = b, paddr = \<lparr>dst_port = d, src_port = s, dst_ipv4 = i, dst_ipv6 = i6\<rparr>\<rparr>)))))"

definition put_StatsRow :: "StatsRow \<Rightarrow> bytes" where
  "put_StatsRow r =
     put_word 4 (row_pid r) @ put_string (row_name r) @ put_ProtocolStats (row_tcp r)
     @ put_ProtocolStats (row_udp r) @ put_StatsBytes (row_tcp_cum r) @ put_StatsBytes (row_udp_cum r)"

definition get_StatsRow :: "StatsRow parser" where
  "get_StatsRow =
     andthen (get_int 4) (\<lambda>pid. andthen get_string (\<lambda>name. andthen get_ProtocolStats (\<lambda>t.
       andthen get_ProtocolStats (\<lambda>u. andthen get_StatsBytes (\<lambda>tc. andthen get_StatsBytes (\<lambda>uc.
         yields \<lparr>row_pid = pid, row_name = name, row_tcp = t, row_udp = u, row_tcp_cum = tc,
           row_udp_cum = uc\<rparr>))))))"

definition put_ProcInfo :: "ProcInfo \<Rightarrow> bytes" where
  "put_ProcInfo p =
     put_word 4 (pi_pid p) @ put_string (pi_name p) @ put_StatsBytes (pi_tcp_cum p)
     @ put_StatsBytes (pi_udp_cum p)"

definition get_ProcInfo :: "ProcInfo parser" where
  "get_ProcInfo =
     andthen (get_int 4) (\<lambda>pid. andthen get_string (\<lambda>name. andthen get_StatsBytes (\<lambda>tc.
       andthen get_StatsBytes (\<lambda>uc.
         yields \<lparr>pi_pid = pid, pi_name = name, pi_tcp_cum = tc, pi_udp_cum = uc\<rparr>))))"

definition put_Snapshot :: "SnapshotData \<Rightarrow> bytes" where
  "put_Snapshot s =
     put_word 8 (snap_interval s) @ put_word 8 (snap_tick s)
     @ put_seq put_StatsRow (snap_rows s) @ put_seq put_ProcInfo (snap_dead_procs s)"

definition get_Snapshot :: "SnapshotData parser" where
  "get_Snapshot =
     andthen (get_int 8) (\<lambda>i. andthen (get_int 8) (\<lambda>t. andthen (get_seq get_StatsRow) (\<lambda>rows.
       andthen (get_seq get_ProcInfo) (\<lambda>dead.
         yields \<lparr>snap_interval = i, snap_tick = t, snap_rows = rows, snap_dead_procs = dead\<rparr>))))"

text \<open>What Rust's types guarantee of a snapshot: strings are UTF-8, the address arrays have 16 bytes.\<close>

definition row_ok :: "StatsRow \<Rightarrow> bool" where
  "row_ok r \<longleftrightarrow> string_ok (row_name r) \<and> length (dst_ipv6 (paddr (row_tcp r))) = 16 \<and>
     length (dst_ipv6 (paddr (row_udp r))) = 16"

definition snapshot_ok :: "SnapshotData \<Rightarrow> bool" where
  "snapshot_ok s \<longleftrightarrow> list_all row_ok (snap_rows s) \<and> length (snap_rows s) < 2 ^ 64 \<and>
     list_all (\<lambda>p. string_ok (pi_name p)) (snap_dead_procs s) \<and> length (snap_dead_procs s) < 2 ^ 64"

lemma get_StatsBytes_put [reads_back]: "get_StatsBytes (put_StatsBytes b @ rest) = Some (b, rest)"
  by (simp add: get_StatsBytes_def put_StatsBytes_def andthen_def yields_def reads_back)

lemma get_ProtocolStats_put [reads_back]:
  "length (dst_ipv6 (paddr p)) = 16 \<Longrightarrow>
   get_ProtocolStats (put_ProtocolStats p @ rest) = Some (p, rest)"
  by (simp add: get_ProtocolStats_def put_ProtocolStats_def andthen_def yields_def reads_back)

lemma get_StatsRow_put: "row_ok r \<Longrightarrow> get_StatsRow (put_StatsRow r @ rest) = Some (r, rest)"
  by (simp add: get_StatsRow_def put_StatsRow_def row_ok_def andthen_def yields_def reads_back)

lemma get_ProcInfo_put:
  "string_ok (pi_name p) \<Longrightarrow> get_ProcInfo (put_ProcInfo p @ rest) = Some (p, rest)"
  by (simp add: get_ProcInfo_def put_ProcInfo_def andthen_def yields_def reads_back)

lemma get_Snapshot_put:
  assumes "snapshot_ok s"
  shows "get_Snapshot (put_Snapshot s @ rest) = Some (s, rest)"
  using assms get_seq_put [of "snap_rows s" get_StatsRow put_StatsRow]
    get_seq_put [of "snap_dead_procs s" get_ProcInfo put_ProcInfo]
  by (simp add: get_Snapshot_def put_Snapshot_def snapshot_ok_def list_all_iff andthen_def yields_def
      reads_back get_StatsRow_put get_ProcInfo_put)

section \<open>The codec\<close>

definition encode_snapshot :: "SnapshotData \<Rightarrow> unit + bytes" where
  "encode_snapshot s = (if snapshot_ok s then Inr (put_Snapshot s) else Inl ())"

definition decode_snapshot :: "bytes \<Rightarrow> unit + SnapshotData" where
  "decode_snapshot bs = (case get_Snapshot bs of Some (s, _) \<Rightarrow> Inr s | None \<Rightarrow> Inl ())"

interpretation snapshot_codec: codec encode_snapshot decode_snapshot
proof
  fix x bs
  assume "encode_snapshot x = Inr bs"
  then have "snapshot_ok x" "bs = put_Snapshot x"
    by (auto simp: encode_snapshot_def split: if_splits)
  with get_Snapshot_put [of x "[]"] show "decode_snapshot bs = Inr x"
    by (simp add: decode_snapshot_def)
qed

section \<open>Size on the wire\<close>

definition row_size :: "StatsRow \<Rightarrow> nat" where
  "row_size r = 124 + length (to_utf8 (row_name r))"

definition info_size :: "ProcInfo \<Rightarrow> nat" where
  "info_size p = 44 + length (to_utf8 (pi_name p))"

definition snapshot_size :: "SnapshotData \<Rightarrow> nat" where
  "snapshot_size s =
     32 + sum_list (map row_size (snap_rows s)) + sum_list (map info_size (snap_dead_procs s))"

lemma length_put_StatsRow: "row_ok r \<Longrightarrow> length (put_StatsRow r) = row_size r"
  by (simp add: put_StatsRow_def put_string_def put_len_def put_ProtocolStats_def put_StatsBytes_def
      row_ok_def row_size_def)

lemma length_put_ProcInfo: "length (put_ProcInfo p) = info_size p"
  by (simp add: put_ProcInfo_def put_string_def put_len_def put_StatsBytes_def info_size_def)

lemma length_concat_map:
  "list_all (\<lambda>x. length (e x) = n x) xs \<Longrightarrow> length (concat (map e xs)) = sum_list (map n xs)"
  by (induction xs) auto

lemma length_put_Snapshot:
  assumes "snapshot_ok s"
  shows "length (put_Snapshot s) = snapshot_size s"
proof -
  have "length (concat (map put_StatsRow (snap_rows s))) = sum_list (map row_size (snap_rows s))"
    using assms by (intro length_concat_map) (auto simp: snapshot_ok_def list_all_iff length_put_StatsRow)
  moreover have "length (concat (map put_ProcInfo (snap_dead_procs s))) =
      sum_list (map info_size (snap_dead_procs s))"
    by (intro length_concat_map) (auto simp: list_all_iff length_put_ProcInfo)
  ultimately show ?thesis
    by (simp add: put_Snapshot_def put_seq_def put_len_def snapshot_size_def del: length_concat)
qed

lemma encode_snapshot_size: "encode_snapshot s = Inr bs \<Longrightarrow> length bs = snapshot_size s"
  by (auto simp: encode_snapshot_def length_put_Snapshot split: if_splits)

end
