(* ===== verification/Client.thy ===== *)
theory Client
  imports Tui_View Bincode
begin

text \<open>
  The client program (\<open>procnet/src/main.rs\<close>, \<open>cli.rs\<close>, \<open>tui.rs\<close> and \<open>errors.rs\<close>): connecting and
  sending the command, the thread that reads snapshots from the daemon, and the main loop that
  receives them, draws a frame and handles a key. The two threads run interleaved.
\<close>

section \<open>Errors and outcomes\<close>

datatype 'e ClientError =
    SocketConnection ConnectError | StreamClone io_error | ClientMsgSend "'e MsgSendError"
  | TuiDraw io_error | TuiEvent io_error | DaemonHangup | ThreadPanic

text \<open>How \<open>main\<close> ends: by returning, or by a panic.\<close>

datatype 'e exit_result = Returned "'e ClientError + unit" | MainPanicked

section \<open>Sending a command\<close>

text \<open>
  \<open>write_all\<close> is the socket's: \<open>None\<close> when every byte was written. The bytes written are returned.
\<close>

definition send_daemon_command ::
    "(DaemonCommand \<Rightarrow> 'e + bytes) \<Rightarrow> (bytes \<Rightarrow> io_error option) \<Rightarrow> DaemonCommand \<Rightarrow> 'e MsgSendError + bytes" where
  "send_daemon_command serialize write_all command =
     (case write_msg serialize command of
        Inl e \<Rightarrow> Inl e
      | Inr buf \<Rightarrow> (case write_all buf of None \<Rightarrow> Inr buf | Some e \<Rightarrow> Inl (SendIo e)))"

section \<open>State\<close>

text \<open>
  The thread that reads from the daemon, the channel it sends snapshots through, and where the main
  loop is: about to look at the channel, about to draw, or about to wait for an event.
\<close>

datatype reader = Reading byte_stream | ReaderReturned | ReaderPanicked

datatype 'e phase = Receive | Draw | Await | Ended "'e exit_result"

record 'e client =
  cl_state :: TuiState
  cl_snap :: SnapshotData
  cl_rx :: "SnapshotData list"
  cl_reader :: reader
  cl_phase :: "'e phase"
  cl_screen :: "draw list"
  cl_sent :: bytes

definition SnapshotData_default :: SnapshotData where
  "SnapshotData_default = \<lparr>snap_interval = 0, snap_tick = 0, snap_rows = [], snap_dead_procs = []\<rparr>"

section \<open>The reader thread\<close>

definition reader_iteration ::
    "(bytes \<Rightarrow> 'e + SnapshotData) \<Rightarrow> byte_stream \<Rightarrow> 'e client \<Rightarrow> 'e client" where
  "reader_iteration deserialize stream c =
     (case read_msg deserialize stream of
        (Inr s, stream') \<Rightarrow> c\<lparr>cl_rx := cl_rx c @ [s], cl_reader := Reading stream'\<rparr>
      | (Inl _, _) \<Rightarrow> c\<lparr>cl_reader := ReaderReturned\<rparr>)"

section \<open>The main loop\<close>

text \<open>\<open>snap_rx.try_recv()\<close> and what the inner loop does with its result.\<close>

definition receive_step :: "'e client \<Rightarrow> 'e client" where
  "receive_step c =
     (case cl_rx c of
        new_snap # rest \<Rightarrow>
          c\<lparr>cl_rx := rest, cl_snap := if paused (cl_state c) then cl_snap c else new_snap\<rparr>
      | [] \<Rightarrow>
          (case cl_reader c of
             Reading _ \<Rightarrow> c\<lparr>cl_phase := Draw\<rparr>
           | ReaderReturned \<Rightarrow> c\<lparr>cl_phase := Ended (Returned (Inl DaemonHangup))\<rparr>
           | ReaderPanicked \<Rightarrow> c\<lparr>cl_phase := Ended (Returned (Inl ThreadPanic))\<rparr>))"

text \<open>
  What the terminal does at one step: the area of the frame and whether drawing fails; and the result
  of polling for and reading an event, \<open>None\<close> when the time-out passes.
\<close>

datatype term_event = KeyEvent bool bool KeyCode | OtherEvent

record terminal =
  frame_area :: Rect
  draw_error :: "io_error option"
  next_event :: "io_error + term_event option"
  socket_write :: "bytes \<Rightarrow> io_error option"

definition draw_frame ::
    "terminal_lib \<Rightarrow> terminal \<Rightarrow> 'e phase \<Rightarrow> 'e client \<Rightarrow> 'e client" where
  "draw_frame lib t next c =
     (case draw_error t of
        Some e \<Rightarrow> c\<lparr>cl_phase := Ended (Returned (Inl (TuiDraw e)))\<rparr>
      | None \<Rightarrow>
          (case render lib (frame_area t) (cl_snap c) (cl_state c) of
             None \<Rightarrow> c\<lparr>cl_phase := Ended MainPanicked\<rparr>
           | Some (s, ds) \<Rightarrow> c\<lparr>cl_state := s, cl_screen := ds, cl_phase := next\<rparr>))"

text \<open>
  \<open>Tui::handle_event\<close>: only key presses count (the first flag of a key event). \<open>None\<close> is a panic.
  The commands an action sends are written to the socket; a failure to send is ignored.
\<close>

definition handle_event :: "terminal \<Rightarrow> TuiState \<Rightarrow> io_error + key_result" where
  "handle_event t s =
     (case next_event t of
        Inl e \<Rightarrow> Inl e
      | Inr None \<Rightarrow> Inr (quietly (s, NoAction))
      | Inr (Some OtherEvent) \<Rightarrow> Inr (quietly (s, NoAction))
      | Inr (Some (KeyEvent pressed ctrl code)) \<Rightarrow>
          if pressed then Inr (handle_key ctrl code s) else Inr (quietly (s, NoAction)))"

definition sent_by ::
    "(DaemonCommand \<Rightarrow> 'e + bytes) \<Rightarrow> (bytes \<Rightarrow> io_error option) \<Rightarrow> DaemonCommand \<Rightarrow> bytes" where
  "sent_by serialize write_all command =
     (case send_daemon_command serialize write_all command of Inl _ \<Rightarrow> [] | Inr bs \<Rightarrow> bs)"

definition await_step ::
    "terminal_lib \<Rightarrow> (DaemonCommand \<Rightarrow> 'e + bytes) \<Rightarrow> terminal \<Rightarrow> 'e client \<Rightarrow> 'e client" where
  "await_step lib serialize t c =
     (case handle_event t (cl_state c) of
        Inl e \<Rightarrow> c\<lparr>cl_phase := Ended (Returned (Inl (TuiEvent e)))\<rparr>
      | Inr None \<Rightarrow> c\<lparr>cl_phase := Ended MainPanicked\<rparr>
      | Inr (Some (s, act, cmds)) \<Rightarrow>
          (let c' = c\<lparr>cl_state := s,
                      cl_sent := cl_sent c @ concat (map (sent_by serialize (socket_write t)) cmds)\<rparr>
           in case act of
                Quit \<Rightarrow> c'\<lparr>cl_phase := Ended (Returned (Inr ()))\<rparr>
              | Redraw \<Rightarrow> draw_frame lib t Receive c'
              | NoAction \<Rightarrow> c'\<lparr>cl_phase := Receive\<rparr>))"

definition main_step ::
    "terminal_lib \<Rightarrow> (DaemonCommand \<Rightarrow> 'e + bytes) \<Rightarrow> terminal \<Rightarrow> 'e client \<Rightarrow> 'e client" where
  "main_step lib serialize t c =
     (case cl_phase c of
        Receive \<Rightarrow> receive_step c
      | Draw \<Rightarrow> draw_frame lib t Await c
      | Await \<Rightarrow> await_step lib serialize t c
      | Ended _ \<Rightarrow> c)"

section \<open>Starting\<close>

datatype Command = Command_Run | Command_Daemon DaemonCommand

text \<open>
  \<open>main\<close> up to the loop: what connecting and cloning the socket return, the command of the command
  line, and the bytes the daemon will send. The left result is the end of the program.
\<close>

definition start_client ::
    "(DaemonCommand \<Rightarrow> 'e + bytes) \<Rightarrow> (bytes \<Rightarrow> io_error option) \<Rightarrow> ConnectError + unit \<Rightarrow> io_error option \<Rightarrow>
     Command option \<Rightarrow> byte_stream \<Rightarrow> 'e exit_result \<times> bytes + 'e client" where
  "start_client serialize write_all connect clone command incoming =
     (case connect of
        Inl e \<Rightarrow> Inl (Returned (Inl (SocketConnection e)), [])
      | Inr _ \<Rightarrow>
          (case clone of
             Some e \<Rightarrow> Inl (Returned (Inl (StreamClone e)), [])
           | None \<Rightarrow>
               (case command of
                  Some (Command_Daemon cmd) \<Rightarrow>
                    (case send_daemon_command serialize write_all cmd of
                       Inl e \<Rightarrow> Inl (Returned (Inl (ClientMsgSend e)), [])
                     | Inr bs \<Rightarrow> Inl (Returned (Inr ()), bs))
                | _ \<Rightarrow>
                    (case send_daemon_command serialize write_all Run of
                       Inl e \<Rightarrow> Inl (Returned (Inl (ClientMsgSend e)), [])
                     | Inr bs \<Rightarrow>
                         Inr \<lparr>cl_state = TuiState_new, cl_snap = SnapshotData_default, cl_rx = [],
                              cl_reader = Reading incoming, cl_phase = Receive, cl_screen = [],
                              cl_sent = bs\<rparr>))))"

section \<open>Interleaving\<close>

text \<open>
  The reader thread handles one message, or the main thread does one step; the main thread's steps
  take whatever the terminal does. (The reader's own panic, for which the main loop has an error, is
  a step too.) When \<open>main\<close> returns the process ends and the reader thread with it; until then the
  receiver exists and \<open>snap_tx.send\<close> cannot fail.
\<close>

definition running :: "'e client \<Rightarrow> bool" where
  "running c = (case cl_phase c of Ended _ \<Rightarrow> False | _ \<Rightarrow> True)"

inductive client_step ::
    "terminal_lib \<Rightarrow> (DaemonCommand \<Rightarrow> 'e + bytes) \<Rightarrow> (bytes \<Rightarrow> 'e + SnapshotData) \<Rightarrow>
     'e client \<Rightarrow> 'e client \<Rightarrow> bool"
  for lib serialize deserialize where
  reader: "running c \<Longrightarrow> cl_reader c = Reading stream \<Longrightarrow>
    client_step lib serialize deserialize c (reader_iteration deserialize stream c)"
| reader_panics: "running c \<Longrightarrow> cl_reader c = Reading stream \<Longrightarrow>
    client_step lib serialize deserialize c (c\<lparr>cl_reader := ReaderPanicked\<rparr>)"
| main: "client_step lib serialize deserialize c (main_step lib serialize t c)"

inductive client_reachable ::
    "terminal_lib \<Rightarrow> (DaemonCommand \<Rightarrow> 'e + bytes) \<Rightarrow> (bytes \<Rightarrow> 'e + SnapshotData) \<Rightarrow>
     'e client \<Rightarrow> 'e client \<Rightarrow> bool"
  for lib serialize deserialize c0 where
  start: "client_reachable lib serialize deserialize c0 c0"
| step: "client_reachable lib serialize deserialize c0 c \<Longrightarrow> client_step lib serialize deserialize c c' \<Longrightarrow>
    client_reachable lib serialize deserialize c0 c'"

section \<open>Lemmas\<close>

definition client_inv :: "'e client \<Rightarrow> bool" where
  "client_inv c \<longleftrightarrow> tui_inv (cl_state c) \<and> cl_phase c \<noteq> Ended MainPanicked"

lemma handle_key_total: "tui_inv s \<Longrightarrow> \<exists>s' a cmds. handle_key ctrl code s = Some (s', a, cmds) \<and> tui_inv s'"
  using handle_key_safe by (simp add: safe_action_def)

lemma handle_event_safe:
  assumes "tui_inv s"
  shows "(\<exists>e. handle_event t s = Inl e) \<or>
    (\<exists>s' a cmds. handle_event t s = Inr (Some (s', a, cmds)) \<and> tui_inv s')"
  using assms handle_key_total
  by (auto simp: handle_event_def quietly_def split: sum.split option.split term_event.split)

lemma draw_frame_inv:
  assumes "terminal_library lib" and "client_inv c" and "next \<noteq> Ended MainPanicked"
  shows "client_inv (draw_frame lib t next c)"
proof -
  obtain s' ds where "render lib (frame_area t) (cl_snap c) (cl_state c) = Some (s', ds)" "tui_inv s'"
    using terminal_library.render_keeps [OF assms(1), of "frame_area t" "cl_snap c" "cl_state c"] assms(2)
    by (auto simp: client_inv_def tui_inv_def)
  with assms(2,3) show ?thesis by (simp add: draw_frame_def client_inv_def split: option.split)
qed

lemma await_step_inv:
  assumes "terminal_library lib" and "client_inv c" and "cl_phase c = Await"
  shows "client_inv (await_step lib serialize t c)"
proof -
  have inv: "tui_inv (cl_state c)" using assms(2) by (simp add: client_inv_def)
  from handle_event_safe [OF inv, of t] show ?thesis
  proof (elim disjE exE conjE)
    fix e assume "handle_event t (cl_state c) = Inl e"
    with inv show ?thesis by (simp add: await_step_def client_inv_def)
  next
    fix s' a cmds assume h: "handle_event t (cl_state c) = Inr (Some (s', a, cmds))" "tui_inv s'"
    define c' where "c' = c\<lparr>cl_state := s',
      cl_sent := cl_sent c @ concat (map (sent_by serialize (socket_write t)) cmds)\<rparr>"
    have c': "client_inv c'" using h(2) assms(3) by (simp add: c'_def client_inv_def)
    with h draw_frame_inv [OF assms(1) c', of Receive t] show ?thesis
      by (cases a) (simp_all add: await_step_def c'_def [symmetric] client_inv_def)
  qed
qed

lemma receive_step_inv: "client_inv c \<Longrightarrow> client_inv (receive_step c)"
  by (simp add: receive_step_def client_inv_def split: list.split reader.split)

lemma main_step_inv:
  assumes "terminal_library lib" and "client_inv c"
  shows "client_inv (main_step lib serialize t c)"
  using assms draw_frame_inv [OF assms, of Await t] await_step_inv [OF assms, of serialize t]
    receive_step_inv [OF assms(2)]
  by (cases "cl_phase c") (simp_all add: main_step_def)

lemma reader_iteration_inv: "client_inv c \<Longrightarrow> client_inv (reader_iteration deserialize stream c)"
  by (simp add: reader_iteration_def client_inv_def split: prod.split sum.split)

lemma client_step_inv:
  assumes "terminal_library lib" and "client_step lib serialize deserialize c c'" and "client_inv c"
  shows "client_inv c'"
  using assms(2)
proof cases
  case (reader stream)
  then show ?thesis using assms(3) reader_iteration_inv by simp
next
  case (reader_panics stream)
  then show ?thesis using assms(3) by (simp add: client_inv_def)
next
  case (main t)
  then show ?thesis using assms main_step_inv by simp
qed

lemma start_client_inv:
  assumes "start_client serialize write_all connect clone command incoming = Inr c"
  shows "client_inv c"
  using assms new_tui_inv
  by (auto simp: start_client_def client_inv_def split: option.splits Command.splits sum.splits)

lemma reachable_inv:
  assumes "terminal_library lib" and "client_reachable lib serialize deserialize c0 c" and "client_inv c0"
  shows "client_inv c"
  using assms(2,3) by induction (blast intro: client_step_inv [OF assms(1)])+

text \<open>The inner loop of \<open>main\<close>, which empties the channel.\<close>

lemma receive_all:
  assumes "cl_phase c = Receive"
  shows "(receive_step ^^ length (cl_rx c)) c =
    c\<lparr>cl_rx := [], cl_snap := if paused (cl_state c) then cl_snap c else last (cl_snap c # cl_rx c)\<rparr>"
  using assms
proof (induction "cl_rx c" arbitrary: c)
  case Nil
  then have "cl_rx c = []" by simp
  then show ?case by (simp add: client.equality)
next
  case (Cons x xs)
  define c' where "c' = receive_step c"
  have c': "c' = c\<lparr>cl_rx := xs, cl_snap := if paused (cl_state c) then cl_snap c else x\<rparr>"
    unfolding c'_def receive_step_def Cons.hyps(2) [symmetric] by simp
  have "(receive_step ^^ length (cl_rx c)) c = (receive_step ^^ length (cl_rx c')) c'"
    unfolding Cons.hyps(2) [symmetric] by (simp add: c' funpow_Suc_right del: funpow.simps flip: c'_def)
  also have "\<dots> = c'\<lparr>cl_rx := [], cl_snap := if paused (cl_state c') then cl_snap c' else last (cl_snap c' # cl_rx c')\<rparr>"
    using Cons.prems by (intro Cons.hyps(1)) (simp_all add: c')
  finally show ?case unfolding Cons.hyps(2) [symmetric] by (simp add: c')
qed

section \<open>Delivery of snapshots\<close>

text \<open>
  Where the snapshots of a connection are: the first \<open>k\<close> have been read from the socket, the first
  \<open>j\<close> of these taken from the channel, and the \<open>m\<close>th is shown (the initial empty one for \<open>m = 0\<close>). The
  daemon's stream is its frames and then \<open>tail\<close>, from which no message can be read.
\<close>

definition delivered ::
    "SnapshotData list \<Rightarrow> bytes list \<Rightarrow> byte_stream \<Rightarrow> nat \<Rightarrow> nat \<Rightarrow> nat \<Rightarrow> 'e client \<Rightarrow> bool" where
  "delivered xs frames tail m j k c \<longleftrightarrow>
     m \<le> j \<and> j \<le> k \<and> k \<le> length xs \<and> cl_rx c = drop j (take k xs) \<and>
     cl_snap c = (SnapshotData_default # xs) ! m \<and>
     (case cl_reader c of
        Reading stream \<Rightarrow> stream = tail\<lparr>pending_bytes := concat (drop k frames) @ pending_bytes tail\<rparr>
      | ReaderReturned \<Rightarrow> k = length xs
      | ReaderPanicked \<Rightarrow> True) \<and>
     (cl_phase c = Ended (Returned (Inl DaemonHangup)) \<longrightarrow> cl_reader c = ReaderReturned \<and> j = k)"

lemma reader_delivers:
  assumes "codec enc dec" and "list_all2 (\<lambda>x frame. write_msg enc x = Inr frame) xs frames"
    and "fst (read_msg dec tail) = Inl err"
    and "delivered xs frames tail m j k c" and "cl_reader c = Reading stream"
  shows "\<exists>k'. delivered xs frames tail m j k' (reader_iteration dec stream c)"
proof (cases "k < length xs")
  case True
  have len: "length frames = length xs" using assms(2) by (simp add: list_all2_lengthD)
  have st: "stream = \<lparr>pending_bytes = concat (drop k frames) @ pending_bytes tail, ending = ending tail\<rparr>"
    and "j \<le> k"
    using assms(4,5) by (cases tail, simp_all add: delivered_def)
  have "drop k frames = frames ! k # drop (Suc k) frames" using True len by (simp add: Cons_nth_drop_Suc)
  moreover have "write_msg enc (xs ! k) = Inr (frames ! k)" using assms(2) True by (rule list_all2_nthD)
  ultimately have "read_msg dec stream = (Inr (xs ! k),
      tail\<lparr>pending_bytes := concat (drop (Suc k) frames) @ pending_bytes tail\<rparr>)"
    using codec.read_msg_frame [OF assms(1)] st by (cases tail) simp
  moreover have "drop j (take k xs) @ [xs ! k] = drop j (take (Suc k) xs)"
    using True \<open>j \<le> k\<close> by (simp add: take_Suc_conv_app_nth)
  ultimately have "delivered xs frames tail m j (Suc k) (reader_iteration dec stream c)"
    using assms(4,5) True by (auto simp: delivered_def reader_iteration_def)
  then show ?thesis ..
next
  case False
  then have k: "k = length xs" and "length frames = length xs"
    using assms(2,4) by (simp_all add: delivered_def list_all2_lengthD)
  then have "stream = tail" using assms(4,5) by (simp add: delivered_def)
  then obtain st where "read_msg dec stream = (Inl err, st)"
    using assms(3) by (cases "read_msg dec stream") auto
  then have "delivered xs frames tail m j k (reader_iteration dec stream c)"
    using assms(4,5) k by (auto simp: delivered_def reader_iteration_def)
  then show ?thesis ..
qed

lemma receive_delivers:
  assumes "delivered xs frames tail m j k c" and "cl_phase c = Receive"
  shows "\<exists>m' j'. m \<le> m' \<and> delivered xs frames tail m' j' k (receive_step c)"
proof (cases "cl_rx c")
  case Nil
  then have "j = k" using assms(1) by (auto simp: delivered_def)
  then have "delivered xs frames tail m j k (receive_step c)"
    using assms Nil by (auto simp: delivered_def receive_step_def split: reader.split)
  then show ?thesis by blast
next
  case (Cons x rest)
  have d: "m \<le> j" "j \<le> k" "k \<le> length xs" "drop j (take k xs) = x # rest"
    using assms(1) Cons by (simp_all add: delivered_def)
  then have jk: "j < k" by (metis drop_all length_take list.distinct(1) min.absorb2 not_le)
  with d have x: "x = xs ! j" "rest = drop (Suc j) (take k xs)"
    by (simp_all add: Cons_nth_drop_Suc [symmetric])
  have "delivered xs frames tail (if paused (cl_state c) then m else Suc j) (Suc j) k (receive_step c)"
    using assms Cons d jk x by (auto simp: delivered_def receive_step_def)
  then show ?thesis using d(1) by (metis le_SucI order_refl)
qed

lemma unchanged_delivers:
  assumes "delivered xs frames tail m j k c" and "cl_rx c' = cl_rx c" "cl_snap c' = cl_snap c"
    "cl_reader c' = cl_reader c" and "cl_phase c' \<noteq> Ended (Returned (Inl DaemonHangup))"
  shows "delivered xs frames tail m j k c'"
  using assms by (simp add: delivered_def)

lemma draw_frame_fields:
  "cl_rx (draw_frame lib t nxt c) = cl_rx c" "cl_snap (draw_frame lib t nxt c) = cl_snap c"
  "cl_reader (draw_frame lib t nxt c) = cl_reader c" "cl_sent (draw_frame lib t nxt c) = cl_sent c"
  "nxt \<noteq> Ended (Returned (Inl DaemonHangup)) \<Longrightarrow>
    cl_phase (draw_frame lib t nxt c) \<noteq> Ended (Returned (Inl DaemonHangup))"
  by (auto simp: draw_frame_def split: option.splits)

lemma await_step_fields:
  "cl_rx (await_step lib serialize t c) = cl_rx c" "cl_snap (await_step lib serialize t c) = cl_snap c"
  "cl_reader (await_step lib serialize t c) = cl_reader c"
  "cl_phase (await_step lib serialize t c) \<noteq> Ended (Returned (Inl DaemonHangup))"
  by (auto simp: await_step_def Let_def draw_frame_fields split: sum.splits option.splits Action.splits)

lemma main_delivers:
  assumes "delivered xs frames tail m j k c"
  shows "\<exists>m' j'. m \<le> m' \<and> delivered xs frames tail m' j' k (main_step lib serialize t c)"
proof (cases "cl_phase c")
  case Receive
  then show ?thesis using receive_delivers [OF assms] by (simp add: main_step_def)
next
  case Draw
  then show ?thesis
    using unchanged_delivers [OF assms, of "draw_frame lib t Await c"]
    by (auto simp: main_step_def draw_frame_fields)
next
  case Await
  then show ?thesis
    using unchanged_delivers [OF assms, of "await_step lib serialize t c"]
    by (auto simp: main_step_def await_step_fields)
next
  case (Ended o')
  then show ?thesis using assms by (auto simp: main_step_def)
qed

lemma client_step_delivers:
  assumes "codec enc dec" and "list_all2 (\<lambda>x frame. write_msg enc x = Inr frame) xs frames"
    and "fst (read_msg dec tail) = Inl err"
    and "client_step lib serialize dec c c'" and "delivered xs frames tail m j k c"
  shows "\<exists>m' j' k'. m \<le> m' \<and> delivered xs frames tail m' j' k' c'"
  using assms(4)
proof cases
  case (reader stream)
  then show ?thesis using reader_delivers [OF assms(1-3,5)] by blast
next
  case (reader_panics stream)
  then have "delivered xs frames tail m j k c'" using assms(5) by (auto simp: delivered_def)
  then show ?thesis by blast
next
  case (main t)
  then show ?thesis using main_delivers [OF assms(5)] by blast
qed

lemma reachable_delivers:
  assumes "codec enc dec" and "list_all2 (\<lambda>x frame. write_msg enc x = Inr frame) xs frames"
    and "fst (read_msg dec tail) = Inl err"
    and "client_reachable lib serialize dec c c'" and "delivered xs frames tail m j k c"
  shows "\<exists>m' j' k'. m \<le> m' \<and> delivered xs frames tail m' j' k' c'"
  using assms(4)
proof induction
  case start
  show ?case using assms(5) by blast
next
  case (step c1 c2)
  then show ?case using client_step_delivers [OF assms(1-3)] by (meson order_trans)
qed

lemma start_delivers:
  assumes "start_client serialize write_all connect clone command
      (tail\<lparr>pending_bytes := concat frames @ pending_bytes tail\<rparr>) = Inr c"
  shows "delivered xs frames tail 0 0 0 c"
  using assms
  by (auto simp: start_client_def delivered_def split: option.splits Command.splits sum.splits)

section \<open>Leaving the program\<close>

lemma main_step_receives:
  assumes "cl_phase c = Receive"
  shows "(main_step lib serialize t ^^ length (cl_rx c)) c = (receive_step ^^ length (cl_rx c)) c"
  using assms
proof (induction "cl_rx c" arbitrary: c)
  case Nil
  then have "cl_rx c = []" by simp
  then show ?case by simp
next
  case (Cons x xs)
  define c' where "c' = receive_step c"
  have c': "cl_rx c' = xs" "cl_phase c' = Receive" "main_step lib serialize t c = c'"
    using Cons.prems Cons.hyps(2) [symmetric] by (simp_all add: c'_def receive_step_def main_step_def)
  have "(main_step lib serialize t ^^ length (cl_rx c')) c' = (receive_step ^^ length (cl_rx c')) c'"
    using c' by (intro Cons.hyps(1)) simp_all
  then show ?case
    unfolding Cons.hyps(2) [symmetric] by (simp add: c' funpow_Suc_right del: funpow.simps flip: c'_def)
qed

text \<open>One round of the main loop up to the next event, with the reader thread alive.\<close>

lemma round_keeps_pane:
  fixes serialize :: "DaemonCommand \<Rightarrow> 'e + bytes" and t t' :: terminal and c :: "'e client"
  assumes "terminal_library lib" and "cl_phase c = Receive" and "cl_reader c = Reading stream"
    and "draw_error t' = None"
  defines "c' \<equiv> main_step lib serialize t' ((main_step lib serialize t ^^ Suc (length (cl_rx c))) c)"
  shows "cl_phase c' = Await \<and> active_pane (cl_state c') = active_pane (cl_state c)"
proof -
  define r where "r = c\<lparr>cl_rx := [], cl_snap := if paused (cl_state c) then cl_snap c else last (cl_snap c # cl_rx c)\<rparr>"
  have "(main_step lib serialize t ^^ length (cl_rx c)) c = r"
    unfolding r_def using main_step_receives [OF assms(2)] receive_all [OF assms(2)] by simp
  then have "(main_step lib serialize t ^^ Suc (length (cl_rx c))) c = r\<lparr>cl_phase := Draw\<rparr>"
    using assms(2,3) by (simp add: main_step_def receive_step_def r_def)
  then have "c' = draw_frame lib t' Await (r\<lparr>cl_phase := Draw\<rparr>)"
    by (simp add: c'_def main_step_def)
  then show ?thesis
    using terminal_library.render_keeps [OF assms(1), of "frame_area t'" "cl_snap r" "cl_state r"] assms(4)
    by (auto simp: draw_frame_def r_def)
qed

lemma handle_escape:
  "\<exists>s' a. handle_key False KeyCode_Esc s = Some (s', a, []) \<and> active_pane s' = Pane_Main \<and> a \<noteq> Quit"
  by (cases "active_pane s")
    (auto simp: handle_key_def handle_filter_input_def binding_for_def fires_def key_tables quietly_def)

lemma handle_q:
  "active_pane s = Pane_Main \<Longrightarrow> handle_key False (KeyCode_Char 113) s = Some (s, Quit, [])"
  by (simp add: handle_key_def binding_for_def fires_def key_tables quietly_def txt_of_def
      to_ascii_lowercase_def)

lemma escape_step:
  fixes serialize :: "DaemonCommand \<Rightarrow> 'e + bytes" and t :: terminal and c :: "'e client"
  assumes "terminal_library lib" and "cl_phase c = Await" and "draw_error t = None"
    and "next_event t = Inr (Some (KeyEvent True False KeyCode_Esc))"
  defines "c' \<equiv> main_step lib serialize t c"
  shows "cl_phase c' = Receive \<and> active_pane (cl_state c') = Pane_Main \<and> cl_rx c' = cl_rx c \<and>
    cl_reader c' = cl_reader c"
proof -
  obtain s' a where k: "handle_key False KeyCode_Esc (cl_state c) = Some (s', a, [])"
    "active_pane s' = Pane_Main" "a \<noteq> Quit"
    using handle_escape by blast
  obtain s2 ds where "render lib (frame_area t) (cl_snap c) s' = Some (s2, ds)" "active_pane s2 = Pane_Main"
    using terminal_library.render_keeps [OF assms(1), of "frame_area t" "cl_snap c" s'] k(2) by auto
  with k assms(2-4) show ?thesis
    by (cases a) (simp_all add: c'_def main_step_def await_step_def handle_event_def draw_frame_def)
qed

section \<open>A client for the witnesses\<close>

definition demo_snapshot :: "u64 \<Rightarrow> SnapshotData" where
  "demo_snapshot n = \<lparr>snap_interval = 1000, snap_tick = n, snap_rows = [], snap_dead_procs = []\<rparr>"

definition demo_client :: "byte_stream \<Rightarrow> unit client" where
  "demo_client incoming = \<lparr>cl_state = TuiState_new, cl_snap = SnapshotData_default, cl_rx = [],
     cl_reader = Reading incoming, cl_phase = Receive, cl_screen = [],
     cl_sent = put_word 2 (4 :: u16) @ put_word 4 (0 :: u32)\<rparr>"

lemma demo_client_starts:
  "start_client encode_command (\<lambda>_. None) (Inr ()) None None incoming = Inr (demo_client incoming)"
  by (simp add: start_client_def send_daemon_command_def write_msg_def demo_client_def PREFIX_LEN_def)

definition demo_terminal :: "KeyCode \<Rightarrow> terminal" where
  "demo_terminal code = \<lparr>frame_area = demo_area, draw_error = None,
     next_event = Inr (Some (KeyEvent True False code)), socket_write = (\<lambda>_. None)\<rparr>"

lemma demo_frame: "\<exists>frame. write_msg encode_snapshot (demo_snapshot n) = Inr frame"
  by (simp add: write_msg_def encode_snapshot_def demo_snapshot_def snapshot_ok_def put_Snapshot_def
      put_seq_def put_len_def PREFIX_LEN_def)

section \<open>Properties\<close>

text \<open>
  C11. The client never panics: whatever the user types, whatever the daemon sends and however the
  threads interleave, every state the client reaches satisfies the invariant of its user interface,
  and its main thread has not panicked.
\<close>

theorem client_never_panics:
  assumes "terminal_library lib"
    and "start_client serialize write_all connect clone command incoming = Inr c0"
    and "client_reachable lib serialize deserialize c0 c"
  shows "tui_inv (cl_state c) \<and> cl_phase c \<noteq> Ended MainPanicked"
  using reachable_inv [OF assms(1,3) start_client_inv [OF assms(2)]] by (simp add: client_inv_def)

theorem client_never_panics_witness:
  "start_client encode_command (\<lambda>_. None) (Inr ()) None None \<lparr>pending_bytes = [], ending = None\<rparr> =
     Inr (demo_client \<lparr>pending_bytes = [], ending = None\<rparr>) \<and>
   tui_inv (cl_state (main_step stacking_lib encode_command (demo_terminal KeyCode_Esc)
     (demo_client \<lparr>pending_bytes = [], ending = None\<rparr>)))"
  using client_never_panics [OF stacking.terminal_library_axioms demo_client_starts
      client_reachable.step [OF client_reachable.start client_step.main]] demo_client_starts
  by blast

text \<open>
  C25. What the main loop takes from the channel before it draws: it ends, and then the snapshot shown
  is the newest one received, or, while the client is paused, still the one before; with the reader
  thread gone the loop ends the program with the daemon's hang-up.
\<close>

theorem receive_takes_latest:
  assumes "cl_phase c = Receive"
  shows "(receive_step ^^ Suc (length (cl_rx c))) c =
    c\<lparr>cl_rx := [], cl_snap := if paused (cl_state c) then cl_snap c else last (cl_snap c # cl_rx c),
      cl_phase := (case cl_reader c of
         Reading _ \<Rightarrow> Draw
       | ReaderReturned \<Rightarrow> Ended (Returned (Inl DaemonHangup))
       | ReaderPanicked \<Rightarrow> Ended (Returned (Inl ThreadPanic)))\<rparr>"
  by (simp add: receive_all [OF assms] receive_step_def split: reader.split)

theorem receive_takes_latest_witness:
  "cl_snap ((receive_step ^^ 3) ((demo_client \<lparr>pending_bytes = [], ending = None\<rparr>)
     \<lparr>cl_rx := [demo_snapshot 1, demo_snapshot 2]\<rparr>)) = demo_snapshot 2"
  using receive_takes_latest [of "(demo_client \<lparr>pending_bytes = [], ending = None\<rparr>)
     \<lparr>cl_rx := [demo_snapshot 1, demo_snapshot 2]\<rparr>"]
  by (simp add: demo_client_def TuiState_new_def numeral_3_eq_3)

text \<open>
  C18. Snapshots reach the client in order and complete. The daemon sends the frames of a sequence of
  snapshots, and the connection then ends, perhaps within a frame. At every moment of every
  interleaving the channel holds a segment of that sequence; what is shown is one of the snapshots
  already taken from the channel (or the initial empty one) and never an earlier one than before; and
  a client that ended because the daemon hung up has taken them all.
\<close>

theorem snapshots_delivered_in_order:
  assumes "list_all2 (\<lambda>x frame. write_msg encode_snapshot x = Inr frame) xs frames"
    and "fst (read_msg decode_snapshot tail) = Inl err"
    and "start_client serialize write_all connect clone command
      (tail\<lparr>pending_bytes := concat frames @ pending_bytes tail\<rparr>) = Inr c0"
    and "client_reachable lib serialize decode_snapshot c0 c"
    and "client_reachable lib serialize decode_snapshot c c'"
  shows "\<exists>m m' j k. m \<le> m' \<and> m' \<le> j \<and> j \<le> k \<and> k \<le> length xs \<and>
    cl_snap c = (SnapshotData_default # xs) ! m \<and> cl_snap c' = (SnapshotData_default # xs) ! m' \<and>
    cl_rx c' = drop j (take k xs) \<and>
    (cl_phase c' = Ended (Returned (Inl DaemonHangup)) \<longrightarrow> j = length xs)"
proof -
  note reach = reachable_delivers [OF snapshot_codec.codec_axioms assms(1,2)]
  obtain m j k where d: "delivered xs frames tail m j k c"
    using reach [OF assms(4) start_delivers [OF assms(3)]] by blast
  obtain m' j' k' where d': "m \<le> m'" "delivered xs frames tail m' j' k' c'"
    using reach [OF assms(5) d] by blast
  then have "cl_phase c' = Ended (Returned (Inl DaemonHangup)) \<longrightarrow> j' = length xs"
    by (auto simp: delivered_def)
  with d d' show ?thesis unfolding delivered_def by blast
qed

theorem snapshots_delivered_in_order_witness:
  "\<exists>frame c m k. write_msg encode_snapshot (demo_snapshot 1) = Inr frame \<and>
     c = reader_iteration decode_snapshot \<lparr>pending_bytes = frame @ [4], ending = None\<rparr>
       (demo_client \<lparr>pending_bytes = frame @ [4], ending = None\<rparr>) \<and>
     m \<le> k \<and> k \<le> 1 \<and> cl_snap c = [SnapshotData_default, demo_snapshot 1] ! m"
proof -
  obtain frame where f: "write_msg encode_snapshot (demo_snapshot 1) = Inr frame" using demo_frame by blast
  define st where "st = \<lparr>pending_bytes = frame @ [4], ending = None\<rparr>"
  have frames: "list_all2 (\<lambda>x frame. write_msg encode_snapshot x = Inr frame) [demo_snapshot 1] [frame]"
    using f by simp
  define tail where "tail = \<lparr>pending_bytes = [4 :: u8], ending = None\<rparr>"
  have tail: "fst (read_msg decode_snapshot tail) = Inl Eof"
    unfolding tail_def by (subst read_msg_truncated) simp_all
  have start: "start_client encode_command (\<lambda>_. None) (Inr ()) None None
      (tail\<lparr>pending_bytes := concat [frame] @ pending_bytes tail\<rparr>) = Inr (demo_client st)"
    using demo_client_starts by (simp add: st_def tail_def)
  have "client_step stacking_lib encode_command decode_snapshot (demo_client st)
      (reader_iteration decode_snapshot st (demo_client st))"
    by (rule client_step.reader) (simp_all add: demo_client_def running_def)
  from snapshots_delivered_in_order [OF frames tail start client_reachable.start
      client_reachable.step [OF client_reachable.start this]]
  show ?thesis using f unfolding st_def by force
qed

text \<open>
  C26. Escape and then q leave the program from every state, whichever pane is open: after the escape
  the main pane is active, and once the main loop has emptied the channel and drawn the next frame
  the second key ends the program normally.
\<close>

theorem escape_then_q_quits:
  assumes "terminal_library lib" and "cl_phase c = Await" and "cl_reader c = Reading stream"
    and "next_event esc = Inr (Some (KeyEvent True False KeyCode_Esc))"
    and "next_event q = Inr (Some (KeyEvent True False (KeyCode_Char 113)))"
    and "draw_error esc = None" and "draw_error q = None"
  shows "cl_phase (main_step lib serialize q (main_step lib serialize q
      ((main_step lib serialize q ^^ Suc (length (cl_rx c))) (main_step lib serialize esc c)))) =
    Ended (Returned (Inr ()))"
proof -
  define c1 where "c1 = main_step lib serialize esc c"
  have c1: "cl_phase c1 = Receive" "active_pane (cl_state c1) = Pane_Main" "cl_rx c1 = cl_rx c"
    "cl_reader c1 = Reading stream"
    using escape_step [OF assms(1,2,6,4), of serialize] assms(3) by (simp_all add: c1_def)
  define c2 where "c2 = main_step lib serialize q ((main_step lib serialize q ^^ Suc (length (cl_rx c1))) c1)"
  have "cl_phase c2 = Await" "active_pane (cl_state c2) = Pane_Main"
    using round_keeps_pane [OF assms(1) c1(1,4) assms(7), of serialize q] c1(2) by (simp_all add: c2_def)
  then have "cl_phase (main_step lib serialize q c2) = Ended (Returned (Inr ()))"
    using assms(5) by (simp add: main_step_def await_step_def handle_event_def handle_q)
  then show ?thesis unfolding c2_def c1(3) unfolding c1_def .
qed

theorem escape_then_q_quits_witness:
  "cl_phase (main_step stacking_lib encode_command (demo_terminal (KeyCode_Char 113))
     (main_step stacking_lib encode_command (demo_terminal (KeyCode_Char 113))
       ((main_step stacking_lib encode_command (demo_terminal (KeyCode_Char 113)) ^^ 1)
         (main_step stacking_lib encode_command (demo_terminal KeyCode_Esc)
           ((demo_client \<lparr>pending_bytes = [], ending = None\<rparr>)\<lparr>cl_phase := Await\<rparr>))))) =
   Ended (Returned (Inr ()))"
  using escape_then_q_quits [OF stacking.terminal_library_axioms, of
      "(demo_client \<lparr>pending_bytes = [], ending = None\<rparr>)\<lparr>cl_phase := Await\<rparr>"
      "\<lparr>pending_bytes = [], ending = None\<rparr>" "demo_terminal KeyCode_Esc"
      "demo_terminal (KeyCode_Char 113)" encode_command]
  by (simp add: demo_client_def demo_terminal_def)

end
