(* ===== verification/Daemon_State.thy ===== *)
theory Daemon_State
  imports Ipc
begin

text \<open>
  The daemon's state (\<open>procnetd/src/state.rs\<close>): refresh interval, tick counter and collector, and
  the commands that change it; and the lock it lives behind. A step that panics is \<open>None\<close>: the
  \<open>unreachable!\<close> of \<open>update\<close>. The daemon is built with \<open>cargo build --release\<close> and the profile leaves
  overflow checks off, so \<open>+\<close> and \<open>-\<close> on \<open>u64\<close> wrap.
\<close>

section \<open>State\<close>

record DaemonState =
  interval :: u64
  tick :: u64
  stats :: StatsCollector

definition DEFAULT_INTERVAL_MILLIS :: u64 where
  "DEFAULT_INTERVAL_MILLIS = 1000"

definition MIN_INTERVAL_MILLIS :: u64 where
  "MIN_INTERVAL_MILLIS = 100"

definition MAX_INTERVAL_MILLIS :: u64 where
  "MAX_INTERVAL_MILLIS = 5000"

definition daemon_default :: DaemonState where
  "daemon_default = \<lparr>interval = DEFAULT_INTERVAL_MILLIS, tick = 0, stats = collector_new\<rparr>"

text \<open>\<open>Ord::clamp\<close>.\<close>

definition clamp :: "u64 \<Rightarrow> u64 \<Rightarrow> u64 \<Rightarrow> u64" where
  "clamp lo hi x = (if x < lo then lo else if hi < x then hi else x)"

definition set_interval :: "DaemonState \<Rightarrow> u64 \<Rightarrow> DaemonState" where
  "set_interval d millis =
     d\<lparr>interval := clamp MIN_INTERVAL_MILLIS MAX_INTERVAL_MILLIS millis\<rparr>"

definition advance_tick :: "DaemonState \<Rightarrow> DaemonState" where
  "advance_tick d = d\<lparr>tick := tick d + 1\<rparr>"

definition reset_tick :: "DaemonState \<Rightarrow> DaemonState" where
  "reset_tick d = d\<lparr>tick := 0\<rparr>"

fun update :: "DaemonState \<Rightarrow> DaemonCommand \<Rightarrow> DaemonState option" where
  "update d Run = None"
| "update d Reset = Some (reset_tick (d\<lparr>stats := reset (stats d)\<rparr>))"
| "update d (Interval i) = Some (set_interval d i)"
| "update d IntervalIncrease = Some (set_interval d (interval d + 100))"
| "update d IntervalDecrease = Some (set_interval d (interval d - 100))"

fun_cases update_SomeE: "update d c = Some d'"

text \<open>Commands applied one after the other.\<close>

fun updates :: "DaemonState \<Rightarrow> DaemonCommand list \<Rightarrow> DaemonState option" where
  "updates d [] = Some d"
| "updates d (c # cs) = Option.bind (update d c) (\<lambda>d'. updates d' cs)"

section \<open>The lock\<close>

text \<open>
  \<open>Mutex<DaemonState>\<close>: a panic while the guard is held poisons it, and locking a poisoned mutex
  fails.
\<close>

record 'a mutex =
  poisoned :: bool
  content :: 'a

text \<open>\<open>if let Ok(mut guard) = mutex.lock() { guard.update(msg) }\<close>.\<close>

definition lock_and_update :: "DaemonState mutex \<Rightarrow> DaemonCommand \<Rightarrow> DaemonState mutex" where
  "lock_and_update m msg =
     (if poisoned m then m
      else case update (content m) msg of
             None \<Rightarrow> m\<lparr>poisoned := True\<rparr>
           | Some d \<Rightarrow> m\<lparr>content := d\<rparr>)"

section \<open>Invariant\<close>

definition daemon_inv :: "DaemonState \<Rightarrow> bool" where
  "daemon_inv d \<longleftrightarrow>
     MIN_INTERVAL_MILLIS \<le> interval d \<and> interval d \<le> MAX_INTERVAL_MILLIS \<and> collector_inv (stats d)"

lemmas interval_bounds = MIN_INTERVAL_MILLIS_def MAX_INTERVAL_MILLIS_def DEFAULT_INTERVAL_MILLIS_def

lemma daemon_default_inv: "daemon_inv daemon_default"
  by (simp add: daemon_inv_def daemon_default_def interval_bounds new_inv)

lemma clamp_bounds: "lo \<le> hi \<Longrightarrow> lo \<le> clamp lo hi x \<and> clamp lo hi x \<le> hi"
  by (auto simp: clamp_def)

lemma set_interval_inv: "collector_inv (stats d) \<Longrightarrow> daemon_inv (set_interval d i)"
  using clamp_bounds [of MIN_INTERVAL_MILLIS MAX_INTERVAL_MILLIS i]
  by (simp add: daemon_inv_def set_interval_def interval_bounds)

lemma update_inv:
  assumes "daemon_inv d" and "update d c = Some d'"
  shows "daemon_inv d'"
proof -
  have c: "collector_inv (stats d)" using assms(1) by (simp add: daemon_inv_def)
  have "daemon_inv (reset_tick (d\<lparr>stats := reset (stats d)\<rparr>))"
    using assms(1) by (simp add: daemon_inv_def reset_tick_def reset_inv)
  with assms(2) set_interval_inv [OF c] show ?thesis
    by (cases rule: update_SomeE) (auto dest!: sym [of "Some d'"])
qed

lemma advance_tick_inv: "daemon_inv (advance_tick d) \<longleftrightarrow> daemon_inv d"
  by (simp add: advance_tick_def daemon_inv_def)

lemma daemon_inv_nat:
  "daemon_inv d \<Longrightarrow> 100 \<le> unat (interval d) \<and> unat (interval d) \<le> 5000"
  by (simp add: daemon_inv_def interval_bounds word_le_nat_alt)

lemma update_total: "update d c = None \<longleftrightarrow> c = Run"
  by (cases c) simp_all

lemma updates_total:
  assumes "daemon_inv d" and "Run \<notin> set cs"
  shows "\<exists>d'. updates d cs = Some d' \<and> daemon_inv d'"
  using assms
proof (induction cs arbitrary: d)
  case Nil
  then show ?case by simp
next
  case (Cons c cs)
  then obtain d1 where d1: "update d c = Some d1" using update_total by fastforce
  then have "daemon_inv d1" using Cons.prems(1) update_inv by blast
  with Cons d1 show ?case by auto
qed

lemma unat_set_interval:
  "unat (interval (set_interval d i)) = max 100 (min 5000 (unat i))"
  by (auto simp: set_interval_def clamp_def interval_bounds word_less_nat_alt)

section \<open>Properties\<close>

text \<open>
  The interval stays between 100 and 5000 ms and the collector's invariant holds, from the start
  and after any sequence of commands other than \<open>Run\<close>; such a sequence never panics.
\<close>

lemma commands_keep_state_valid:
  assumes "Run \<notin> set cs"
  shows "\<exists>d. updates daemon_default cs = Some d \<and> daemon_inv d \<and>
    100 \<le> unat (interval d) \<and> unat (interval d) \<le> 5000"
  using updates_total [OF daemon_default_inv assms] daemon_inv_nat by blast

text \<open>
  What each command does to the interval, as a number: set it to the requested value, 100 more
  or 100 less, always brought into the range 100 to 5000; a reset leaves it alone.
\<close>

lemma interval_commands:
  assumes "daemon_inv d" and "update d c = Some d'"
  shows "unat (interval d') =
    (case c of
       Interval i \<Rightarrow> max 100 (min 5000 (unat i))
     | IntervalIncrease \<Rightarrow> min 5000 (unat (interval d) + 100)
     | IntervalDecrease \<Rightarrow> max 100 (unat (interval d) - 100)
     | _ \<Rightarrow> unat (interval d))"
proof (cases c)
  case IntervalIncrease
  have "unat (interval d + 100) = unat (interval d) + 100"
    using daemon_inv_nat [OF assms(1)] by (simp add: unat_word_ariths)
  with IntervalIncrease assms(2) show ?thesis by (auto simp: unat_set_interval)
next
  case IntervalDecrease
  have "unat (interval d - 100) = unat (interval d) - 100" "unat (interval d) - 100 \<le> 5000"
    using daemon_inv_nat [OF assms(1)] by (simp_all add: unat_sub word_le_nat_alt le_diff_conv)
  with IntervalDecrease assms(2) show ?thesis by (auto simp: unat_set_interval)
next
  case (Interval i)
  with assms(2) show ?thesis by (auto simp: unat_set_interval)
next
  case Reset
  with assms(2) show ?thesis by (auto simp: reset_tick_def)
qed (use assms(2) in simp)

text \<open>
  The snapshot that follows a start or a reset has tick 1, whatever the tick was before.
\<close>

lemma first_tick_after_reset:
  "tick (advance_tick daemon_default) = 1 \<and>
   map_option (\<lambda>d. tick (advance_tick d)) (update d Reset) = Some 1"
  by (simp add: advance_tick_def daemon_default_def reset_tick_def)

text \<open>
  A \<open>Run\<close> command that reaches \<open>update\<close> poisons the lock for good: whatever commands follow,
  the mutex stays poisoned with the state it had.
\<close>

lemma run_poisons_lock:
  "poisoned (lock_and_update m Run) \<and>
   foldl lock_and_update (lock_and_update m Run) cs = m\<lparr>poisoned := True\<rparr>"
proof -
  have "foldl lock_and_update x cs = x" if "poisoned x" for x
    using that by (induction cs) (simp_all add: lock_and_update_def)
  then show ?thesis by (cases "poisoned m") (simp_all add: lock_and_update_def)
qed

end
