(* ===== verification/Server.thy ===== *)
theory Server
  imports Daemon_State
begin

text \<open>
  The daemon's server (\<open>procnetd/src/server.rs\<close>): binding the socket, the handling of a connection,
  the registration of a subscribed client, the loop that reads its commands, its writer thread, and
  the distribution of snapshots to the clients' bounded channels. The operating system's socket calls
  are a parameter, a record of functions on a world that may all fail; the locale \<open>socket_os\<close> states
  what the code relies on.
\<close>

section \<open>Binding the socket\<close>

datatype ListenerError = Bind string io_error | InUse string

record 'w socket_calls =
  os_bind :: "string \<Rightarrow> 'w \<Rightarrow> (io_error + unit) \<times> 'w"
  os_connect :: "string \<Rightarrow> 'w \<Rightarrow> (io_error + unit) \<times> 'w"
  os_remove_file :: "string \<Rightarrow> 'w \<Rightarrow> (io_error + unit) \<times> 'w"
  os_set_permissions :: "string \<Rightarrow> nat \<Rightarrow> 'w \<Rightarrow> (io_error + unit) \<times> 'w"

definition probe_and_bind :: "'w socket_calls \<Rightarrow> string \<Rightarrow> 'w \<Rightarrow> (ListenerError + unit) \<times> 'w" where
  "probe_and_bind os path w =
     (case os_connect os path w of
        (Inr _, w') \<Rightarrow> (Inl (InUse path), w')
      | (Inl e, w') \<Rightarrow>
          if e = PermissionDenied then (Inl (InUse path), w')
          else if e = ConnectionRefused \<or> e = NotFound then
            (case os_bind os path (snd (os_remove_file os path w')) of
               (Inr _, w'') \<Rightarrow> (Inr (), w'')
             | (Inl source, w'') \<Rightarrow> (Inl (Bind path source), w''))
          else (Inl (Bind path e), w'))"

text \<open>A failure to set the permissions (\<open>0o666\<close>) is only logged.\<close>

definition bind_unix_listener ::
    "'w socket_calls \<Rightarrow> string \<Rightarrow> 'w \<Rightarrow> (ListenerError + unit) \<times> 'w" where
  "bind_unix_listener os path w =
     (let (bound, w') =
        (case os_bind os path w of
           (Inr _, w1) \<Rightarrow> (Inr (), w1)
         | (Inl e, w1) \<Rightarrow>
             if e = AddrInUse then probe_and_bind os path w1 else (Inl (Bind path e), w1))
      in case bound of
           Inl err \<Rightarrow> (Inl err, w')
         | Inr _ \<Rightarrow> (Inr (), snd (os_set_permissions os path 438 w')))"

text \<open>What can be at a path, and the calls on it.\<close>

datatype path_entry = NoFile | StaleSocket | LiveSocket | RegularFile

text \<open>
  A path where nothing stands in the way: each call does what the entry there allows.
\<close>

definition path_usable :: "'w socket_calls \<Rightarrow> (string \<Rightarrow> 'w \<Rightarrow> path_entry) \<Rightarrow> string \<Rightarrow> bool" where
  "path_usable os entry path \<longleftrightarrow> (\<forall>w.
     fst (os_bind os path w) = (if entry path w = NoFile then Inr () else Inl AddrInUse) \<and>
     (entry path w = LiveSocket \<longrightarrow> fst (os_connect os path w) \<in> {Inr (), Inl PermissionDenied}) \<and>
     (entry path w \<in> {StaleSocket, RegularFile} \<longrightarrow> fst (os_connect os path w) = Inl ConnectionRefused) \<and>
     (entry path w \<noteq> NoFile \<longrightarrow> fst (os_remove_file os path w) = Inr ()))"

text \<open>
  The laws. Every call may fail: binding a free path (no such directory, no permission, a read-only
  file system), connecting, and removing a file. What is at a path changes in the documented way only:
  binding creates a live socket or nothing and never replaces what is there, connecting leaves it, and
  a removal removes it or leaves it. Connecting succeeds to live sockets only, and to a live socket
  never ends in \<open>ConnectionRefused\<close> or \<open>NotFound\<close>.
\<close>

locale socket_os =
  fixes os :: "'w socket_calls" and entry :: "string \<Rightarrow> 'w \<Rightarrow> path_entry"
  assumes bind_free: "entry path w = NoFile \<Longrightarrow> os_bind os path w = (r, w') \<Longrightarrow>
      entry path w' = (if r = Inr () then LiveSocket else NoFile)"
    and bind_taken: "entry path w \<noteq> NoFile \<Longrightarrow> os_bind os path w = (r, w') \<Longrightarrow>
      r \<noteq> Inr () \<and> entry path w' = entry path w"
    and connect_keeps: "os_connect os path w = (r, w') \<Longrightarrow> entry path w' = entry path w"
    and connect_live: "entry path w = LiveSocket \<Longrightarrow>
      fst (os_connect os path w) \<noteq> Inl ConnectionRefused \<and> fst (os_connect os path w) \<noteq> Inl NotFound"
    and connect_dead: "entry path w \<noteq> LiveSocket \<Longrightarrow> fst (os_connect os path w) \<noteq> Inr ()"
    and remove: "os_remove_file os path w = (r, w') \<Longrightarrow>
      entry path w' = NoFile \<or> r \<noteq> Inr () \<and> entry path w' = entry path w"
    and chmod: "entry path (snd (os_set_permissions os path mode w)) = entry path w"
begin

text \<open>How binding can end, and what is at the path then.\<close>

lemma probe_result:
  assumes "probe_and_bind os path w = (r, w')"
  shows "case r of
      Inr _ \<Rightarrow> entry path w \<noteq> LiveSocket \<and> entry path w' = LiveSocket
    | Inl (InUse p) \<Rightarrow> p = path \<and> entry path w' = entry path w
    | Inl (Bind p e) \<Rightarrow> p = path \<and> (entry path w' = entry path w \<or>
        entry path w \<in> {StaleSocket, RegularFile} \<and> entry path w' = NoFile)"
proof -
  obtain c w1 where c: "os_connect os path w = (c, w1)" by fastforce
  then have w1: "entry path w1 = entry path w" by (rule connect_keeps)
  show ?thesis
  proof (cases "c = Inl ConnectionRefused \<or> c = Inl NotFound")
    case False
    then show ?thesis
      using assms(1) c w1
      by (auto simp: probe_and_bind_def split: sum.splits if_splits)
  next
    case True
    with c connect_live [of path w] have dead: "entry path w \<noteq> LiveSocket" by auto
    obtain u w2 where u: "os_remove_file os path w1 = (u, w2)" by fastforce
    from remove [OF this] w1 have w2: "entry path w2 = NoFile \<or> entry path w2 = entry path w" by auto
    obtain b w3 where b: "os_bind os path w2 = (b, w3)" by fastforce
    have r: "r = (case b of Inr _ \<Rightarrow> Inr () | Inl e \<Rightarrow> Inl (Bind path e))" "w' = w3"
      using assms(1) c u b True by (auto simp: probe_and_bind_def split: sum.splits)
    show ?thesis
    proof (cases "entry path w2 = NoFile")
      case free: True
      from bind_free [OF free b] r dead show ?thesis
        by (cases "entry path w") (auto split: sum.splits if_splits)
    next
      case taken: False
      from bind_taken [OF taken b] r w2 taken show ?thesis by (auto split: sum.splits)
    qed
  qed
qed

lemma bind_result:
  assumes "bind_unix_listener os path w = (r, w')"
  shows "case r of
      Inr _ \<Rightarrow> entry path w \<noteq> LiveSocket \<and> entry path w' = LiveSocket
    | Inl (InUse p) \<Rightarrow> p = path \<and> entry path w' = entry path w
    | Inl (Bind p e) \<Rightarrow> p = path \<and> (entry path w' = entry path w \<or>
        entry path w \<in> {StaleSocket, RegularFile} \<and> entry path w' = NoFile)"
proof -
  obtain b w1 where b: "os_bind os path w = (b, w1)" by fastforce
  have w1: "if b = Inr () then entry path w = NoFile \<and> entry path w1 = LiveSocket
      else entry path w1 = entry path w"
    using bind_free [OF _ b] bind_taken [OF _ b] by (cases "entry path w = NoFile") auto
  show ?thesis
  proof (cases b)
    case (Inr u)
    with b w1 assms show ?thesis by (auto simp: bind_unix_listener_def chmod)
  next
    case (Inl e)
    show ?thesis
    proof (cases "e = AddrInUse")
      case False
      with Inl b w1 assms show ?thesis by (auto simp: bind_unix_listener_def)
    next
      case True
      obtain p w2 where p: "probe_and_bind os path w1 = (p, w2)" by fastforce
      from probe_result [OF p] p Inl True b w1 assms show ?thesis
        by (auto simp: bind_unix_listener_def chmod split: sum.splits ListenerError.splits)
    qed
  qed
qed

text \<open>On a usable path binding fails for a live socket only.\<close>

lemma bind_usable:
  assumes "path_usable os entry path"
  shows "fst (bind_unix_listener os path w) =
    (if entry path w = LiveSocket then Inl (InUse path) else Inr ())"
proof -
  note use = assms [unfolded path_usable_def, rule_format]
  obtain b w1 where b: "os_bind os path w = (b, w1)" by fastforce
  show ?thesis
  proof (cases "entry path w = NoFile")
    case True
    with b use [of w] show ?thesis by (auto simp: bind_unix_listener_def)
  next
    case taken: False
    with b use [of w] bind_taken [OF taken b] have w1: "b = Inl AddrInUse" "entry path w1 = entry path w"
      by auto
    obtain c w2 where c: "os_connect os path w1 = (c, w2)" by fastforce
    with connect_keeps [OF c] w1 have w2: "entry path w2 = entry path w" by simp
    show ?thesis
    proof (cases "entry path w = LiveSocket")
      case True
      with use [of w1] w1 b c show ?thesis
        by (auto simp: bind_unix_listener_def probe_and_bind_def)
    next
      case False
      then have refused: "c = Inl ConnectionRefused"
        using use [of w1] w1(2) taken c by (cases "entry path w") auto
      obtain u w3 where u: "os_remove_file os path w2 = (u, w3)" by fastforce
      with use [of w2] w2 taken remove [OF u] have "entry path w3 = NoFile" by auto
      with use [of w3] have "fst (os_bind os path w3) = Inr ()" by simp
      with b w1(1) c refused u False show ?thesis
        by (auto simp: bind_unix_listener_def probe_and_bind_def split: prod.split)
    qed
  qed
qed

end

text \<open>A file system with one entry per path.\<close>

definition fs_calls :: "(string \<Rightarrow> path_entry) socket_calls" where
  "fs_calls = \<lparr>
     os_bind = (\<lambda>p w. if w p = NoFile then (Inr (), w(p := LiveSocket)) else (Inl AddrInUse, w)),
     os_connect = (\<lambda>p w. (case w p of NoFile \<Rightarrow> Inl NotFound | LiveSocket \<Rightarrow> Inr ()
        | _ \<Rightarrow> Inl ConnectionRefused, w)),
     os_remove_file = (\<lambda>p w. if w p = NoFile then (Inl NotFound, w) else (Inr (), w(p := NoFile))),
     os_set_permissions = (\<lambda>p m w. (Inr (), w))\<rparr>"

interpretation plain_fs: socket_os fs_calls "\<lambda>p w. w p"
  by unfold_locales (auto simp: fs_calls_def split: if_splits path_entry.splits)

lemma plain_fs_usable: "path_usable fs_calls (\<lambda>p w. w p) path"
  by (auto simp: path_usable_def fs_calls_def)

section \<open>Distribution of snapshots\<close>

text \<open>
  A client's channel: \<open>sync_channel(4)\<close> with the snapshots in it, the one its receiving thread has
  taken and is writing to the socket, and whether that thread still exists.
\<close>

record client_chan =
  ch_queue :: "bytes list"
  ch_writing :: "bytes option"
  ch_open :: bool

definition new_channel :: client_chan where
  "new_channel = \<lparr>ch_queue = [], ch_writing = None, ch_open = True\<rparr>"

definition CHANNEL_BOUND :: nat where
  "CHANNEL_BOUND = 4"

datatype try_send_result = SendOk | Full | Disconnected

definition try_send :: "client_chan \<Rightarrow> bytes \<Rightarrow> try_send_result \<times> client_chan" where
  "try_send ch bs =
     (if \<not> ch_open ch then (Disconnected, ch)
      else if CHANNEL_BOUND \<le> length (ch_queue ch) then (Full, ch)
      else (SendOk, ch\<lparr>ch_queue := ch_queue ch @ [bs]\<rparr>))"

text \<open>\<open>Vec::retain\<close> with the sending closure: the senders are visited in order.\<close>

fun retain_send :: "client_chan list \<Rightarrow> bytes \<Rightarrow> client_chan list" where
  "retain_send [] bs = []"
| "retain_send (ch # chs) bs =
     (case try_send ch bs of
        (Disconnected, _) \<Rightarrow> retain_send chs bs
      | (_, ch') \<Rightarrow> ch' # retain_send chs bs)"

datatype MutexPoison = MutexPoison

definition update_streams ::
    "client_chan list mutex \<Rightarrow> bytes \<Rightarrow> (MutexPoison + unit) \<times> client_chan list mutex" where
  "update_streams tx bs =
     (if poisoned tx then (Inl MutexPoison, tx)
      else (Inr (), tx\<lparr>content := retain_send (content tx) bs\<rparr>))"

text \<open>
  The two steps of the writer thread's loop: it takes a snapshot from its channel, and writes the
  one it has taken to the socket; when the write fails the thread ends and the receiver is dropped.
\<close>

definition writer_step :: "bool \<Rightarrow> client_chan \<Rightarrow> client_chan \<times> bytes option" where
  "writer_step write_ok ch =
     (if \<not> ch_open ch then (ch, None)
      else case ch_writing ch of
        None \<Rightarrow>
          (case ch_queue ch of
             [] \<Rightarrow> (ch, None)
           | data # rest \<Rightarrow> (ch\<lparr>ch_queue := rest, ch_writing := Some data\<rparr>, None))
      | Some data \<Rightarrow>
          if write_ok then (ch\<lparr>ch_writing := None\<rparr>, Some data)
          else (ch\<lparr>ch_queue := [], ch_writing := None, ch_open := False\<rparr>, None))"

section \<open>A connection\<close>

text \<open>
  The calls on the stream that can fail, and the number of bytes that the buffered reader of the
  first message took from the socket beyond that message: \<open>into_inner\<close> drops them.
\<close>

record conn_env =
  clone_ok :: bool
  read_timeout_ok :: bool
  clear_timeout_ok :: bool
  read_ahead :: nat

datatype outcome = Dropped | CommandDone | Reading byte_stream

definition after_into_inner :: "conn_env \<Rightarrow> byte_stream \<Rightarrow> byte_stream" where
  "after_into_inner env s = s\<lparr>pending_bytes := drop (read_ahead env) (pending_bytes s)\<rparr>"

text \<open>
  The thread of a connection up to where it starts the client's reader thread, with the stream that
  one reads: the daemon's state and what becomes of the client.
\<close>

definition handle_connection ::
    "(bytes \<Rightarrow> 'e + DaemonCommand) \<Rightarrow> conn_env \<Rightarrow> byte_stream \<Rightarrow> DaemonState mutex
      \<Rightarrow> DaemonState mutex \<times> outcome" where
  "handle_connection deserialize env stream m =
     (if \<not> clone_ok env \<or> \<not> read_timeout_ok env then (m, Dropped)
      else case read_msg deserialize stream of
        (Inl _, _) \<Rightarrow> (m, Dropped)
      | (Inr msg, rest) \<Rightarrow>
          if msg \<noteq> Run then (lock_and_update m msg, CommandDone)
          else if \<not> clear_timeout_ok env then (m, Dropped)
          else (m, Reading (after_into_inner env rest)))"

text \<open>
  What the thread does next: it registers the sender of a new channel, and goes on as the client's
  writer thread.
\<close>

definition register_client :: "bool \<Rightarrow> client_chan list mutex \<Rightarrow> client_chan list mutex" where
  "register_client write_timeout_ok senders =
     (if \<not> write_timeout_ok \<or> poisoned senders then senders
      else senders\<lparr>content := content senders @ [new_channel]\<rparr>)"

text \<open>
  One round of a client's reader thread: the state after the command it read, and the stream to go
  on with, or \<open>None\<close> when the thread has ended.
\<close>

definition reader_step ::
    "(bytes \<Rightarrow> 'e + DaemonCommand) \<Rightarrow> byte_stream \<Rightarrow> DaemonState mutex
      \<Rightarrow> DaemonState mutex \<times> byte_stream option" where
  "reader_step deserialize s m =
     (case read_msg deserialize s of
        (Inl _, _) \<Rightarrow> (m, None)
      | (Inr msg, s') \<Rightarrow>
          if poisoned m then (m, None)
          else (let m' = lock_and_update m msg
                in (m', if poisoned m' then None else Some s')))"

text \<open>The reader thread on its own, run to its end.\<close>

function reader_loop ::
    "(bytes \<Rightarrow> 'e + DaemonCommand) \<Rightarrow> byte_stream \<Rightarrow> DaemonState mutex \<Rightarrow> DaemonState mutex" where
  "reader_loop deserialize s m =
     (case reader_step deserialize s m of
        (m', None) \<Rightarrow> m'
      | (m', Some s') \<Rightarrow> reader_loop deserialize s' m')"
  by pat_completeness auto
termination
proof (relation "measure (\<lambda>(_, s, _). length (pending_bytes s))", goal_cases)
  case 1
  show ?case by simp
next
  case (2 deserialize s m m' t s')
  then show ?case
    by (auto simp: reader_step_def Let_def split: prod.splits sum.splits if_splits
        dest: read_msg_shrinks [OF sym])
qed

declare reader_loop.simps [simp del]

section \<open>Lemmas\<close>

lemma retain_send_eq:
  "retain_send chs bs = map (\<lambda>ch. snd (try_send ch bs)) (filter ch_open chs)"
  by (induction chs) (auto simp: try_send_def)

lemma try_send_bound:
  "length (ch_queue ch) \<le> CHANNEL_BOUND \<Longrightarrow> length (ch_queue (snd (try_send ch bs))) \<le> CHANNEL_BOUND"
  by (auto simp: try_send_def)

lemma lock_and_update_poisoned: "poisoned m \<Longrightarrow> foldl lock_and_update m cs = m"
  by (induction cs) (simp_all add: lock_and_update_def)

lemma reader_loop_fold:
  "reader_loop deserialize s m = foldl lock_and_update m (fst (read_until_error deserialize s))"
proof (induction deserialize s m rule: reader_loop.induct)
  case (1 deserialize s m)
  obtain r s' where r: "read_msg deserialize s = (r, s')" by fastforce
  show ?case
  proof (cases r)
    case (Inl e)
    with r show ?thesis
      by (simp add: reader_loop.simps [of deserialize s] reader_step_def
          read_until_error.simps [of deserialize s])
  next
    case (Inr msg)
    obtain msgs e where rest: "read_until_error deserialize s' = (msgs, e)" by fastforce
    then have msgs: "fst (read_until_error deserialize s) = msg # msgs"
      using r Inr by (simp add: read_until_error.simps [of deserialize s])
    show ?thesis
    proof (cases "poisoned m \<or> poisoned (lock_and_update m msg)")
      case True
      then have "reader_loop deserialize s m = lock_and_update m msg"
        using r Inr by (auto simp: reader_loop.simps [of deserialize s] reader_step_def Let_def
            lock_and_update_def)
      moreover have "poisoned (lock_and_update m msg)"
        using True by (auto simp: lock_and_update_def)
      ultimately show ?thesis using msgs by (simp add: lock_and_update_poisoned)
    next
      case False
      then have "reader_step deserialize s m = (lock_and_update m msg, Some s')"
        using r Inr by (simp add: reader_step_def Let_def)
      with 1 [of "lock_and_update m msg" "Some s'" s'] rest msgs show ?thesis
        by (simp add: reader_loop.simps [of deserialize s])
    qed
  qed
qed

section \<open>Properties\<close>

text \<open>
  A second daemon never takes the socket from a live one: binding fails and leaves the live socket in
  place. Any other file at the path that refuses a connection is removed, not only a left-over
  socket: on a usable path a regular file is replaced by the daemon's socket.
\<close>

lemma bind_respects_live_daemon:
  assumes "socket_os os entry" and "entry path w = LiveSocket"
  shows "fst (bind_unix_listener os path w) \<noteq> Inr () \<and>
    entry path (snd (bind_unix_listener os path w)) = LiveSocket"
  using socket_os.bind_result [OF assms(1), of path w] assms(2)
  by (cases "bind_unix_listener os path w") (auto split: sum.splits ListenerError.splits)

lemma bind_replaces_regular_file:
  assumes "socket_os os entry" and "entry path w = RegularFile" and "path_usable os entry path"
  shows "fst (bind_unix_listener os path w) = Inr () \<and>
    entry path (snd (bind_unix_listener os path w)) = LiveSocket"
  using socket_os.bind_result [OF assms(1), of path w] socket_os.bind_usable [OF assms(1,3), of w] assms(2)
  by (cases "bind_unix_listener os path w") auto

text \<open>
  Distribution: the clients whose receiver is gone are removed, the others keep their order;
  one with room gets the snapshot last in its queue, one with four snapshots waiting misses this one
  and keeps what it has. No queue grows beyond four, and nobody is waited for.
\<close>

lemma snapshot_distribution:
  "content (snd (update_streams \<lparr>poisoned = False, content = chs\<rparr> bs)) =
     map (\<lambda>ch. if length (ch_queue ch) < 4 then ch\<lparr>ch_queue := ch_queue ch @ [bs]\<rparr> else ch)
       (filter ch_open chs)"
  by (auto simp: update_streams_def retain_send_eq try_send_def CHANNEL_BOUND_def)

text \<open>
  A subscribed client's commands are applied in the order sent: the reader thread leaves the
  daemon's state as if every message received before the stream's end or first error had been
  applied one after the other.
\<close>

lemma client_commands_in_order:
  assumes "codec serialize deserialize"
    and "list_all2 (\<lambda>c frame. write_msg serialize c = Inr frame) cs frames"
  shows "reader_loop deserialize \<lparr>pending_bytes = concat frames, ending = e\<rparr> m =
    foldl lock_and_update m cs"
proof -
  have "fst (read_until_error deserialize \<lparr>pending_bytes = [], ending = e\<rparr>) = []"
    by (simp add: read_until_error.simps read_msg_def read_exact_or_eof_def read_exact_def
        PREFIX_LEN_def)
  with codec.read_frames [OF assms, of "[]" e] show ?thesis
    by (simp add: reader_loop_fold split: prod.splits)
qed

text \<open>
  What the first buffered reader had read ahead is dropped with it, and the reader thread starts
  behind it.
\<close>

lemma read_ahead_is_lost:
  assumes "codec serialize deserialize" and "write_msg serialize Run = Inr frame"
    and "clone_ok env" "read_timeout_ok env" "clear_timeout_ok env"
  shows "snd (handle_connection deserialize env \<lparr>pending_bytes = frame @ rest, ending = e\<rparr> m) =
    Reading \<lparr>pending_bytes = drop (read_ahead env) rest, ending = e\<rparr>"
  using assms codec.read_msg_frame [OF assms(1,2), of rest e]
  by (simp add: handle_connection_def after_into_inner_def)

text \<open>
  C38. The commands a client sends behind \<open>Run\<close>, on a connection whose calls succeed: those that the
  buffered reader of the first message had read ahead of it, up to the boundary of a frame, are lost;
  the reader thread applies the others in the order sent.
\<close>

theorem commands_behind_run:
  assumes "codec serialize deserialize" and "write_msg serialize Run = Inr run_frame"
    and "list_all2 (\<lambda>c frame. write_msg serialize c = Inr frame) cs frames"
    and "clone_ok env" "read_timeout_ok env" "clear_timeout_ok env"
    and ahead: "read_ahead env = length (concat (take n frames))"
  shows "\<exists>s. handle_connection deserialize env
      \<lparr>pending_bytes = run_frame @ concat frames, ending = e\<rparr> m = (m, Reading s) \<and>
    reader_loop deserialize s m = foldl lock_and_update m (drop n cs)"
proof -
  have "concat frames = concat (take n frames) @ concat (drop n frames)"
    by (simp flip: concat_append)
  then have "drop (read_ahead env) (concat frames) = concat (drop n frames)" by (simp add: ahead)
  then have "handle_connection deserialize env
      \<lparr>pending_bytes = run_frame @ concat frames, ending = e\<rparr> m =
    (m, Reading \<lparr>pending_bytes = concat (drop n frames), ending = e\<rparr>)"
    using assms(4-6) codec.read_msg_frame [OF assms(1,2), of "concat frames" e]
    by (simp add: handle_connection_def after_into_inner_def)
  moreover have "list_all2 (\<lambda>c frame. write_msg serialize c = Inr frame) (drop n cs) (drop n frames)"
    using assms(3) by (rule list_all2_dropI)
  ultimately show ?thesis using client_commands_in_order [OF assms(1)] by blast
qed

text \<open>
  A client asks twice for a longer interval right behind \<open>Run\<close>. With the first request read ahead, the
  interval grows once, to 1100 milliseconds.
\<close>

theorem commands_behind_run_witness:
  "\<exists>s. handle_connection decode_command
      \<lparr>clone_ok = True, read_timeout_ok = True, clear_timeout_ok = True, read_ahead = 6\<rparr>
      \<lparr>pending_bytes = [4, 0, 0, 0, 0, 0] @ [4, 0, 2, 0, 0, 0, 4, 0, 2, 0, 0, 0], ending = None\<rparr>
      \<lparr>poisoned = False, content = daemon_default\<rparr> =
      (\<lparr>poisoned = False, content = daemon_default\<rparr>, Reading s) \<and>
    unat (interval (content (reader_loop decode_command s
      \<lparr>poisoned = False, content = daemon_default\<rparr>))) = 1100"
proof -
  have "write_msg encode_command Run = Inr [4, 0, 0, 0, 0, 0]"
    "list_all2 (\<lambda>c frame. write_msg encode_command c = Inr frame)
      [IntervalIncrease, IntervalIncrease] [[4, 0, 2, 0, 0, 0], [4, 0, 2, 0, 0, 0]]"
    by (simp_all add: write_msg_def PREFIX_LEN_def put_word_def eval_simps)
  from commands_behind_run [OF command_codec.codec_axioms this,
      of "\<lparr>clone_ok = True, read_timeout_ok = True, clear_timeout_ok = True, read_ahead = 6\<rparr>" 1 None
        "\<lparr>poisoned = False, content = daemon_default\<rparr>"] show ?thesis
    by (auto simp: lock_and_update_def set_interval_def clamp_def daemon_default_def interval_bounds)
qed

end
