(* ===== verification/Events.thy ===== *)
theory Events
  imports Bpf_Types Utf8 Ipc
begin

text \<open>
  Start events in the daemon (\<open>procnetd/src/events.rs\<close>): the record of the ring buffer read as the
  C structure, the name of a process from the proc file system or else from the record, and the
  queue between the ring buffer's callback and the main loop. The proc file system is a parameter;
  the ring buffer's \<open>consume\<close> is represented by the records it hands to the callback and its result.
\<close>

section \<open>The proc file system\<close>

record procfs =
  fs_read_link :: "string \<Rightarrow> io_error + bytes"
  fs_read :: "string \<Rightarrow> io_error + bytes"

definition proc_path :: "u32 \<Rightarrow> string \<Rightarrow> string" where
  "proc_path pid entry = ''/proc/'' @ show_nat (unat pid) @ ''/'' @ entry"

text \<open>
  \<open>Path::file_name\<close>: the last component, empty components and \<open>.\<close> being skipped; none for an empty
  path, the root, or a path that ends in \<open>..\<close>.
\<close>

fun split_on :: "'a \<Rightarrow> 'a list \<Rightarrow> 'a list list" where
  "split_on d [] = [[]]"
| "split_on d (x # xs) =
     (if x = d then [] # split_on d xs
      else case split_on d xs of [] \<Rightarrow> [[x]] | c # cs \<Rightarrow> (x # c) # cs)"

definition file_name :: "bytes \<Rightarrow> bytes option" where
  "file_name path =
     (let comps = filter (\<lambda>c. c \<noteq> [] \<and> c \<noteq> [46]) (split_on 47 path)
      in if comps = [] \<or> last comps = [46, 46] then None else Some (last comps))"

text \<open>\<open>fs::read_to_string\<close>: invalid UTF-8 is an error.\<close>

definition read_to_string :: "procfs \<Rightarrow> string \<Rightarrow> rstring option" where
  "read_to_string fs path =
     (case fs_read fs path of Inl _ \<Rightarrow> None | Inr bs \<Rightarrow> from_utf8 bs)"

section \<open>Parsing\<close>

definition comm_to_string :: "bytes \<Rightarrow> rstring" where
  "comm_to_string comm =
     (let end = (case position (\<lambda>b. b = 0) comm of Some i \<Rightarrow> i | None \<Rightarrow> length comm)
      in from_utf8_lossy (take end comm))"

definition exe_name :: "procfs \<Rightarrow> u32 \<Rightarrow> rstring option" where
  "exe_name fs pid =
     (case fs_read_link fs (proc_path pid ''exe'') of
        Inl _ \<Rightarrow> None
      | Inr target \<Rightarrow>
          (case Option.bind (file_name target) from_utf8 of
             Some name \<Rightarrow> if name \<noteq> [] then Some name else None
           | None \<Rightarrow> None))"

definition get_proc_name :: "procfs \<Rightarrow> u32 \<Rightarrow> rstring option" where
  "get_proc_name fs pid =
     (case exe_name fs pid of
        Some name \<Rightarrow> Some name
      | None \<Rightarrow>
          (case read_to_string fs (proc_path pid ''comm'') of
             Some comm \<Rightarrow> (let trimmed = trim comm in if trimmed \<noteq> [] then Some trimmed else None)
           | None \<Rightarrow> None))"

definition sizeof_ProcStartEventBpf :: nat where
  "sizeof_ProcStartEventBpf = 20"

definition parse_proc_event :: "procfs \<Rightarrow> bytes \<Rightarrow> ProcStartEvent option" where
  "parse_proc_event fs data =
     (if length data \<noteq> sizeof_ProcStartEventBpf then None
      else let pid = get_word (slice_at 0 4 data); comm = slice_at 4 16 data in
        Some \<lparr>evt_pid = pid,
              evt_name = (case get_proc_name fs pid of Some name \<Rightarrow> name
                          | None \<Rightarrow> comm_to_string comm)\<rparr>)"

section \<open>The reader\<close>

datatype 'e EventError = Build 'e | Consume 'e

text \<open>The callback of \<open>EventReader::new\<close>: a record that does not parse is skipped.\<close>

definition event_callback :: "procfs \<Rightarrow> ProcStartEvent list \<Rightarrow> bytes \<Rightarrow> ProcStartEvent list" where
  "event_callback fs queue data =
     (case parse_proc_event fs data of Some event \<Rightarrow> queue @ [event] | None \<Rightarrow> queue)"

definition drain_available ::
    "procfs \<Rightarrow> bytes list \<times> 'e option \<Rightarrow> ProcStartEvent list
      \<Rightarrow> ('e EventError + ProcStartEvent list) \<times> ProcStartEvent list" where
  "drain_available fs consumed queue =
     (case consumed of (records, result) \<Rightarrow>
        (let queue' = foldl (event_callback fs) queue records
         in case result of
              Some e \<Rightarrow> (Inl (Consume e), queue')
            | None \<Rightarrow> (Inr queue', [])))"

section \<open>Lemmas\<close>

lemma parse_record:
  assumes "length (ev_comm e) = 16"
  shows "parse_proc_event fs (c_ProcStartEvent_bytes e) =
    Some \<lparr>evt_pid = ev_tgid e,
      evt_name = (case get_proc_name fs (ev_tgid e) of Some name \<Rightarrow> name
        | None \<Rightarrow> comm_to_string (ev_comm e))\<rparr>"
  using assms
  by (simp add: parse_proc_event_def sizeof_ProcStartEventBpf_def c_ProcStartEvent_bytes_def
      slice_simps Let_def)

lemma position_append_zero:
  "0 \<notin> set xs \<Longrightarrow> position (\<lambda>b. b = 0) (xs @ 0 # ys) = Some (length xs)"
  by (induction xs) auto

lemma comm_to_string_terminated:
  assumes "list_all (\<lambda>ch. 0 < ch \<and> scalar_value ch) s"
  shows "comm_to_string (to_utf8 s @ 0 # pad) = s"
proof -
  have "0 \<notin> set (to_utf8 s)"
    using assms encode_char_no_zero by (auto simp: to_utf8_def list_all_iff)
  moreover have "list_all scalar_value s" using assms by (simp add: list_all_iff)
  ultimately show ?thesis
    by (simp add: comm_to_string_def position_append_zero from_utf8_lossy_to_utf8)
qed

lemma foldl_event_callback:
  "foldl (event_callback fs) queue records = queue @ List.map_filter (parse_proc_event fs) records"
  by (induction records arbitrary: queue)
    (auto simp: event_callback_def map_filter_simps split: option.split)

lemma split_on_ne: "split_on d xs \<noteq> []"
  by (induction xs) (auto split: list.split)

lemma split_on_append: "split_on d (xs @ d # ys) = split_on d xs @ split_on d ys"
proof (induction xs)
  case Nil
  show ?case by simp
next
  case (Cons x xs)
  then show ?case using split_on_ne [of d xs] by (auto split: list.split)
qed

lemma split_on_none: "d \<notin> set xs \<Longrightarrow> split_on d xs = [xs]"
  by (induction xs) auto

section \<open>Properties\<close>

definition no_procfs :: procfs where
  "no_procfs = \<lparr>fs_read_link = (\<lambda>_. Inl NotFound), fs_read = (\<lambda>_. Inl NotFound)\<rparr>"

text \<open>
  A start record written by the kernel program is understood by the daemon: the process id is
  the record's, and when the proc file system no longer knows the process, the name is the text of
  the record's name field up to its terminating zero.
\<close>

lemma start_record_parsed:
  assumes "get_proc_name fs tgid = None" and "list_all (\<lambda>ch. 0 < ch \<and> scalar_value ch) s"
    and "length (to_utf8 s @ 0 # pad) = 16"
  shows "parse_proc_event fs (c_ProcStartEvent_bytes \<lparr>ev_tgid = tgid, ev_comm = to_utf8 s @ 0 # pad\<rparr>) =
    Some \<lparr>evt_pid = tgid, evt_name = s\<rparr>"
proof -
  have "length (ev_comm \<lparr>ev_tgid = tgid, ev_comm = to_utf8 s @ 0 # pad\<rparr>) = 16"
    using assms(3) by simp
  from parse_record [OF this, of fs] assms(1) comm_to_string_terminated [OF assms(2)] show ?thesis
    by simp
qed

text \<open>
  Draining loses and reorders nothing: the events handed to the main loop are those left in the
  queue followed by the parsed new records in the order of the ring buffer, and the queue is then
  empty; when consuming fails they all stay queued for the next attempt.
\<close>

lemma drain_keeps_order:
  "drain_available fs (records, result) queue =
    (let events = queue @ List.map_filter (parse_proc_event fs) records
     in case result of None \<Rightarrow> (Inr events, []) | Some e \<Rightarrow> (Inl (Consume e), events))"
  by (simp add: drain_available_def foldl_event_callback Let_def split: option.split)

text \<open>
  Names prefer the executable: a readable \<open>exe\<close> link with a UTF-8 file name names the process
  after that file, whatever the record and the \<open>comm\<close> file say.
\<close>

lemma exe_link_names_process:
  assumes "fs_read_link fs (proc_path pid ''exe'') = Inr (dir @ 47 # to_utf8 s)"
    and "list_all scalar_value s" and "47 \<notin> set (to_utf8 s)"
    and "to_utf8 s \<noteq> []" and "to_utf8 s \<noteq> [46]" and "to_utf8 s \<noteq> [46, 46]"
  shows "get_proc_name fs pid = Some s"
proof -
  have "file_name (dir @ 47 # to_utf8 s) = Some (to_utf8 s)"
    using assms(4-6) by (simp add: file_name_def split_on_append split_on_none [OF assms(3)])
  moreover have "s \<noteq> []" using assms(4) by (auto simp: to_utf8_def)
  ultimately show ?thesis
    using assms(1,2) by (simp add: get_proc_name_def exe_name_def from_utf8_to_utf8)
qed

end
