(* ===== verification/App.thy ===== *)
theory App
  imports Server Events Bincode
begin

text \<open>
  The daemon's main loop (\<open>procnetd/src/app.rs\<close>): start-up, one iteration (drain events, collect
  rows, advance the tick, serialise the snapshot, distribute it), and what follows the wait. A step
  relation then interleaves the main loop with connecting clients, reader threads and writer threads
  at the points where a lock is taken, and an invariant is shown for every reachable state.
\<close>

section \<open>State and errors\<close>

datatype ('e, 'b) DaemonError =
    Event "'e EventError"
  | ListenerFailed ListenerError
  | Poisoned MutexPoison
  | Serialize "'b MsgSendError"
  | ThreadPanic
  | SignalMask nat

text \<open>
  The shared state and the senders behind their locks, the event reader's queue, the snapshot that
  is serialised but not yet distributed, the streams of the clients' reader threads, and how many
  connection threads have started a reader and are still to register their client.
\<close>

record daemon =
  d_state :: "DaemonState mutex"
  d_senders :: "client_chan list mutex"
  d_events :: "ProcStartEvent list"
  d_buf :: "bytes option"
  d_readers :: "byte_stream list"
  d_joining :: nat

definition daemon_init :: daemon where
  "daemon_init = \<lparr>d_state = \<lparr>poisoned = False, content = daemon_default\<rparr>,
     d_senders = \<lparr>poisoned = False, content = []\<rparr>, d_events = [], d_buf = None, d_readers = [],
     d_joining = 0\<rparr>"

text \<open>
  Start-up: bind the socket, install the signal handler, build the event reader; the results of the
  latter two are parameters.
\<close>

definition start_daemon ::
    "'w socket_calls \<Rightarrow> string \<Rightarrow> nat option \<Rightarrow> 'e option \<Rightarrow> 'w
      \<Rightarrow> (('e, 'b) DaemonError + daemon) \<times> 'w" where
  "start_daemon os path signal_error build_error w =
     (case bind_unix_listener os path w of
        (Inl e, w') \<Rightarrow> (Inl (ListenerFailed e), w')
      | (Inr _, w') \<Rightarrow>
          (case signal_error of
             Some n \<Rightarrow> (Inl (SignalMask n), w')
           | None \<Rightarrow>
               (case build_error of
                  Some e \<Rightarrow> (Inl (Event (Build e)), w')
                | None \<Rightarrow> (Inr daemon_init, w'))))"

section \<open>One iteration\<close>

datatype ('e, 'b) step_result = Continue u64 | Exit "('e, 'b) DaemonError"

text \<open>
  The part under the lock of the state: the result is the interval to wait for, and the serialised
  snapshot is left in \<open>d_buf\<close>.
\<close>

definition collect_tick ::
    "stats_map \<Rightarrow> ProcStartEvent list \<Rightarrow> DaemonState \<Rightarrow> DaemonState \<times> StatsRow list" where
  "collect_tick lookup events st =
     (let (collector, rows) = collect_rows lookup (foldl apply_event (stats st) events)
      in (st\<lparr>stats := collector\<rparr>, rows))"

definition snapshot_of :: "DaemonState \<Rightarrow> StatsRow list \<Rightarrow> SnapshotData" where
  "snapshot_of st rows =
     \<lparr>snap_interval = interval st, snap_tick = tick st, snap_rows = rows,
      snap_dead_procs = dead_procs (stats st)\<rparr>"

definition build_snapshot ::
    "(SnapshotData \<Rightarrow> 'b + bytes) \<Rightarrow> procfs \<Rightarrow> stats_map \<Rightarrow> bytes list \<times> 'e option \<Rightarrow> daemon
      \<Rightarrow> ('e, 'b) step_result \<times> daemon" where
  "build_snapshot serialize fs lookup consumed d =
     (if poisoned (d_state d) then (Exit (Poisoned MutexPoison), d)
      else case drain_available fs consumed (d_events d) of
        (Inl e, queue) \<Rightarrow> (Exit (Event e), d\<lparr>d_events := queue\<rparr>)
      | (Inr events, queue) \<Rightarrow>
          (let (st', rows) = collect_tick lookup events (content (d_state d));
               st'' = advance_tick st';
               d' = d\<lparr>d_events := queue, d_state := \<lparr>poisoned = False, content = st''\<rparr>\<rparr>
           in case write_msg serialize (snapshot_of st'' rows) of
                Inl e \<Rightarrow> (Exit (Serialize e), d')
              | Inr buf \<Rightarrow> (Continue (interval st''), d'\<lparr>d_buf := Some buf\<rparr>)))"

definition distribute :: "daemon \<Rightarrow> (MutexPoison + unit) \<times> daemon" where
  "distribute d =
     (case d_buf d of
        None \<Rightarrow> (Inr (), d)
      | Some buf \<Rightarrow>
          (let (r, senders) = update_streams (d_senders d) buf
           in (r, d\<lparr>d_senders := senders, d_buf := None\<rparr>)))"

definition run_iteration ::
    "(SnapshotData \<Rightarrow> 'b + bytes) \<Rightarrow> procfs \<Rightarrow> stats_map \<Rightarrow> bytes list \<times> 'e option \<Rightarrow> daemon
      \<Rightarrow> ('e, 'b) step_result \<times> daemon" where
  "run_iteration serialize fs lookup consumed d =
     (case build_snapshot serialize fs lookup consumed d of
        (Continue timeout, d') \<Rightarrow>
          (case distribute d' of
             (Inl e, d'') \<Rightarrow> (Exit (Poisoned e), d'')
           | (Inr _, d'') \<Rightarrow> (Continue timeout, d''))
      | (r, d') \<Rightarrow> (r, d'))"

text \<open>After the wait: a shutdown request, the death of the signal thread, or the listener's end.\<close>

datatype wait_result = ShutdownRequested | SenderGone | TimedOut

datatype listener_status = ListenerRunning | ListenerEnded ListenerError | ListenerPanicked

datatype ('e, 'b) loop_next = NextIteration | ReturnOk | ReturnErr "('e, 'b) DaemonError"

fun after_wait :: "wait_result \<Rightarrow> listener_status \<Rightarrow> ('e, 'b) loop_next" where
  "after_wait ShutdownRequested l = ReturnOk"
| "after_wait SenderGone l = ReturnOk"
| "after_wait TimedOut ListenerRunning = NextIteration"
| "after_wait TimedOut (ListenerEnded e) = ReturnErr (ListenerFailed e)"
| "after_wait TimedOut ListenerPanicked = ReturnErr ThreadPanic"

text \<open>
  The signal thread (\<open>procnetd/src/signals.rs\<close>): given the results of \<open>sigwait\<close>, it retries after a
  failure; on a signal it removes the socket file, whether or not that works, and requests shutdown.
  The result says whether shutdown was requested.
\<close>

fun signal_thread :: "'w socket_calls \<Rightarrow> string \<Rightarrow> (nat + nat) list \<Rightarrow> 'w \<Rightarrow> bool \<times> 'w" where
  "signal_thread os path [] w = (False, w)"
| "signal_thread os path (Inl err # waits) w = signal_thread os path waits w"
| "signal_thread os path (Inr sig # waits) w = (True, snd (os_remove_file os path w))"

section \<open>Interleaving\<close>

definition new_readers :: "outcome \<Rightarrow> byte_stream list" where
  "new_readers out = (case out of Reading r \<Rightarrow> [r] | _ \<Rightarrow> [])"

definition reader_update :: "nat \<Rightarrow> byte_stream option \<Rightarrow> byte_stream list \<Rightarrow> byte_stream list" where
  "reader_update i r rs =
     (case r of Some s \<Rightarrow> rs[i := s] | None \<Rightarrow> take i rs @ drop (Suc i) rs)"

inductive daemon_step ::
    "(SnapshotData \<Rightarrow> 'b + bytes) \<Rightarrow> (bytes \<Rightarrow> 'c + DaemonCommand) \<Rightarrow> daemon \<Rightarrow> daemon \<Rightarrow> bool"
  for serialize :: "SnapshotData \<Rightarrow> 'b + bytes" and deserialize :: "bytes \<Rightarrow> 'c + DaemonCommand" where
  connect: "handle_connection deserialize env stream (d_state d) = (m, out) \<Longrightarrow>
     daemon_step serialize deserialize d
       (d\<lparr>d_state := m, d_readers := d_readers d @ new_readers out,
          d_joining := d_joining d + length (new_readers out)\<rparr>)"
| join: "0 < d_joining d \<Longrightarrow>
     daemon_step serialize deserialize d
       (d\<lparr>d_senders := register_client timeout_ok (d_senders d), d_joining := d_joining d - 1\<rparr>)"
| read: "i < length (d_readers d) \<Longrightarrow> reader_step deserialize (d_readers d ! i) (d_state d) = (m, r) \<Longrightarrow>
     daemon_step serialize deserialize d
       (d\<lparr>d_state := m, d_readers := reader_update i r (d_readers d)\<rparr>)"
| deliver: "i < length (content (d_senders d)) \<Longrightarrow>
     writer_step write_ok (content (d_senders d) ! i) = (ch, sent_data) \<Longrightarrow>
     daemon_step serialize deserialize d
       (d\<lparr>d_senders := (d_senders d)\<lparr>content := (content (d_senders d))[i := ch]\<rparr>\<rparr>)"
| build: "d_buf d = None \<Longrightarrow>
     build_snapshot serialize fs lookup (records, None :: unit option) d = (Continue timeout, d') \<Longrightarrow>
     daemon_step serialize deserialize d d'"
| send: "d_buf d \<noteq> None \<Longrightarrow> distribute d = (Inr (), d') \<Longrightarrow> daemon_step serialize deserialize d d'"

inductive_cases daemon_stepE: "daemon_step serialize deserialize d d'"

section \<open>Invariant\<close>

definition daemon_ok :: "daemon \<Rightarrow> bool" where
  "daemon_ok d \<longleftrightarrow>
     daemon_inv (content (d_state d)) \<and> \<not> poisoned (d_senders d) \<and>
     list_all (\<lambda>ch. length (ch_queue ch) \<le> CHANNEL_BOUND) (content (d_senders d))"

lemma daemon_init_ok: "daemon_ok daemon_init"
  by (simp add: daemon_ok_def daemon_init_def daemon_default_inv)

lemma lock_and_update_inv: "daemon_inv (content m) \<Longrightarrow> daemon_inv (content (lock_and_update m c))"
  by (auto simp: lock_and_update_def intro: update_inv split: option.split)

lemma handle_connection_ok:
  assumes "handle_connection deserialize env stream m = (m', out)" and "daemon_inv (content m)"
  shows "daemon_inv (content m')"
  using assms
  by (auto simp: handle_connection_def intro: lock_and_update_inv
      split: if_splits prod.splits sum.splits)

lemma register_client_ok:
  "poisoned (register_client ok senders) = poisoned senders"
  "list_all P (content senders) \<Longrightarrow> P new_channel \<Longrightarrow> list_all P (content (register_client ok senders))"
  by (simp_all add: register_client_def)

lemma reader_step_inv:
  "reader_step deserialize s m = (m', r) \<Longrightarrow> daemon_inv (content m) \<Longrightarrow> daemon_inv (content m')"
  by (auto simp: reader_step_def Let_def intro: lock_and_update_inv
      split: if_splits prod.splits sum.splits)

lemma writer_step_bound:
  "writer_step ok ch = (ch', out) \<Longrightarrow> length (ch_queue ch') \<le> length (ch_queue ch)"
  by (auto simp: writer_step_def split: list.splits option.splits if_splits)

lemma foldl_apply_event_inv: "collector_inv c \<Longrightarrow> collector_inv (foldl apply_event c es)"
  by (induction es arbitrary: c) (simp_all add: apply_event_inv)

lemma collect_tick_inv:
  assumes "collect_tick lookup events st = (st', rows)" and "daemon_inv st"
  shows "daemon_inv st'"
  using assms collect_rows_inv [OF foldl_apply_event_inv, of "stats st" lookup events]
  by (auto simp: collect_tick_def daemon_inv_def split: prod.splits)

lemma build_snapshot_inv:
  assumes "build_snapshot serialize fs lookup consumed d = (r, d')"
    and "daemon_inv (content (d_state d))"
  shows "daemon_inv (content (d_state d')) \<and> d_senders d' = d_senders d"
  using assms
  by (auto simp: build_snapshot_def Let_def advance_tick_inv
      split: if_splits prod.splits sum.splits option.splits intro: collect_tick_inv)

lemma list_all_update: "list_all P xs \<Longrightarrow> P x \<Longrightarrow> list_all P (xs[i := x])"
  by (auto simp: list_all_iff dest!: set_update_subset_insert [THEN subsetD])

lemma distribute_ok:
  assumes "distribute d = (r, d')" and "daemon_ok d"
  shows "daemon_ok d'"
proof -
  have "list_all (\<lambda>ch. length (ch_queue ch) \<le> CHANNEL_BOUND) (retain_send chs bs)"
    if "list_all (\<lambda>ch. length (ch_queue ch) \<le> CHANNEL_BOUND) chs" for chs bs
    using that try_send_bound by (auto simp: retain_send_eq list_all_iff)
  with assms show ?thesis
    by (auto simp: distribute_def daemon_ok_def update_streams_def Let_def
        split: option.splits prod.splits if_splits)
qed

lemma daemon_step_ok:
  assumes "daemon_step serialize deserialize d d'" and "daemon_ok d"
  shows "daemon_ok d'"
  using assms(1)
proof cases
  case (connect env stream m out)
  with assms(2) handle_connection_ok [OF connect(2)] show ?thesis by (simp add: daemon_ok_def)
next
  case (join timeout_ok)
  with assms(2) show ?thesis by (simp add: daemon_ok_def register_client_ok new_channel_def)
next
  case (read i m r)
  with assms(2) reader_step_inv [OF read(3)] show ?thesis by (simp add: daemon_ok_def)
next
  case (deliver i write_ok ch sent_data)
  with assms(2) have "length (ch_queue ch) \<le> CHANNEL_BOUND"
    using writer_step_bound [OF deliver(3)] by (auto simp: daemon_ok_def list_all_length)
  with assms(2) deliver(1) show ?thesis by (simp add: daemon_ok_def list_all_update)
next
  case (build fs lookup records timeout)
  with assms(2) build_snapshot_inv [OF build(2)] show ?thesis by (simp add: daemon_ok_def)
next
  case send
  with assms(2) show ?thesis by (auto intro: distribute_ok)
qed

lemma reachable_ok:
  assumes "(daemon_step serialize deserialize)\<^sup>*\<^sup>* daemon_init d"
  shows "daemon_ok d"
  using assms by (induction rule: rtranclp_induct) (auto intro: daemon_init_ok daemon_step_ok)

lemma build_snapshot_ok:
  assumes "\<not> poisoned (d_state d)"
    and "collect_tick lookup (d_events d @ List.map_filter (parse_proc_event fs) records)
      (content (d_state d)) = (st', rows)"
  shows "build_snapshot serialize fs lookup (records, None) d =
    (let st'' = st'\<lparr>tick := tick (content (d_state d)) + 1\<rparr>;
         d' = d\<lparr>d_events := [], d_state := \<lparr>poisoned = False, content = st''\<rparr>\<rparr>
     in case write_msg serialize (snapshot_of st'' rows) of
          Inl e \<Rightarrow> (Exit (Serialize e), d')
        | Inr buf \<Rightarrow> (Continue (interval st''), d'\<lparr>d_buf := Some buf\<rparr>))"
proof -
  have t: "tick st' = tick (content (d_state d))"
    using assms(2) by (auto simp: collect_tick_def split: prod.splits)
  with assms show ?thesis
    by (simp add: build_snapshot_def drain_available_def foldl_event_callback advance_tick_def Let_def
        cong: sum.case_cong)
qed

lemma build_continues:
  assumes "build_snapshot serialize fs lookup (records, None) d = (Continue timeout, d')"
    and "collect_tick lookup (d_events d @ List.map_filter (parse_proc_event fs) records)
      (content (d_state d)) = (st, rows)"
  shows "\<exists>buf. d_buf d' = Some buf \<and> d_senders d' = d_senders d \<and>
    write_msg serialize (snapshot_of (content (d_state d')) rows) = Inr buf"
  using assms
  by (auto simp: build_snapshot_def drain_available_def foldl_event_callback Let_def
      split: if_splits option.splits sum.splits)

section \<open>Properties\<close>

text \<open>
  C13. Whatever the interleaving of the main loop with connecting clients and their reader and writer
  threads, the daemon's state stays valid: the interval lies between 100 and 5000 ms, a process has
  one entry, at most twenty dead ones are kept, no client has more than four snapshots waiting, and
  the lock of the senders is never poisoned.
\<close>

theorem reachable_daemon_valid:
  assumes "(daemon_step serialize deserialize)\<^sup>*\<^sup>* daemon_init d"
  shows "100 \<le> unat (interval (content (d_state d))) \<and> unat (interval (content (d_state d))) \<le> 5000 \<and>
    collector_inv (stats (content (d_state d))) \<and> \<not> poisoned (d_senders d) \<and>
    list_all (\<lambda>ch. length (ch_queue ch) \<le> 4) (content (d_senders d))"
  using reachable_ok [OF assms] daemon_inv_nat
  by (auto simp: daemon_ok_def daemon_inv_def CHANNEL_BOUND_def)

definition demo_env :: conn_env where
  "demo_env = \<lparr>clone_ok = True, read_timeout_ok = True, clear_timeout_ok = True,
     read_ahead = 0\<rparr>"

definition run_then_interval :: byte_stream where
  "run_then_interval = \<lparr>pending_bytes = [4, 0, 0, 0, 0, 0] @ [4, 0, 2, 0, 0, 0], ending = None\<rparr>"

definition demo_connected :: daemon where
  "demo_connected = daemon_init\<lparr>
     d_senders := \<lparr>poisoned = False, content = [new_channel]\<rparr>,
     d_readers := [\<lparr>pending_bytes = [4, 0, 2, 0, 0, 0], ending = None\<rparr>]\<rparr>"

lemma frame_eval:
  "write_msg encode_command Run = Inr [4, 0, 0, 0, 0, 0]"
  "write_msg encode_command IntervalIncrease = Inr [4, 0, 2, 0, 0, 0]"
  by (simp_all add: write_msg_def PREFIX_LEN_def put_word_def eval_simps)

lemma demo_reading:
  "handle_connection decode_command demo_env run_then_interval (d_state daemon_init) =
    (d_state daemon_init, Reading \<lparr>pending_bytes = [4, 0, 2, 0, 0, 0], ending = None\<rparr>)"
  using command_codec.read_msg_frame [OF frame_eval(1), of "[4, 0, 2, 0, 0, 0]" None]
  by (simp add: handle_connection_def run_then_interval_def demo_env_def after_into_inner_def
      daemon_init_def)

text \<open>The same daemon before it has registered the client.\<close>

definition demo_joining :: daemon where
  "demo_joining = daemon_init\<lparr>
     d_readers := [\<lparr>pending_bytes = [4, 0, 2, 0, 0, 0], ending = None\<rparr>], d_joining := 1\<rparr>"

lemma demo_starts_reader: "daemon_step serialize decode_command daemon_init demo_joining"
  using daemon_step.connect [OF demo_reading, of serialize]
  by (simp add: demo_joining_def daemon_init_def new_readers_def)

lemma demo_registered:
  "demo_joining\<lparr>d_senders := register_client True (d_senders demo_joining),
     d_joining := d_joining demo_joining - 1\<rparr> = demo_connected"
  by (simp add: demo_joining_def demo_connected_def daemon_init_def register_client_def)

lemma demo_connects: "(daemon_step serialize decode_command)\<^sup>*\<^sup>* daemon_init demo_connected"
proof -
  have "daemon_step serialize decode_command demo_joining demo_connected"
    using daemon_step.join [of demo_joining serialize decode_command True]
    by (simp only: demo_registered) (simp add: demo_joining_def)
  with demo_starts_reader [of serialize] show ?thesis by (meson rtranclp.simps)
qed

theorem reachable_daemon_valid_witness:
  "list_all (\<lambda>ch. length (ch_queue ch) \<le> 4) (content (d_senders demo_connected)) \<and>
   100 \<le> unat (interval (content (d_state demo_connected)))"
  using reachable_daemon_valid [OF demo_connects [of encode_snapshot]] by blast

text \<open>
  C14. What one iteration does when no lock is poisoned and the ring buffer reports no error. The
  processes announced since the last iteration are registered and the map is collected; if the
  snapshot of the result serialises, to at most 65535 bytes, the new collector and the next tick
  number are stored (the interval is kept, the state's lock stays sound, no announcement is left
  over), and every connected client with room in its channel is sent one frame, which it reads back
  as that snapshot: the next tick number, the current interval, the rows and the dead processes. The
  loop then waits for the current interval.
\<close>

theorem iteration_sends_snapshot:
  assumes "codec serialize deserialize"
    and "\<not> poisoned (d_state d)" and "\<not> poisoned (d_senders d)"
    and "collect_rows lookup (foldl apply_event (stats (content (d_state d)))
      (d_events d @ List.map_filter (parse_proc_event fs) records)) = (collector, rows)"
    and snap: "snap = \<lparr>snap_interval = interval (content (d_state d)),
      snap_tick = tick (content (d_state d)) + 1, snap_rows = rows,
      snap_dead_procs = dead_procs collector\<rparr>"
    and "serialize snap = Inr payload" and "length payload \<le> 65535"
  shows "\<exists>frame d'. run_iteration serialize fs lookup (records, None) d =
      (Continue (interval (content (d_state d))), d') \<and>
    d_state d' = \<lparr>poisoned = False, content = \<lparr>interval = interval (content (d_state d)),
      tick = tick (content (d_state d)) + 1, stats = collector\<rparr>\<rparr> \<and>
    d_events d' = [] \<and> d_readers d' = d_readers d \<and>
    d_senders d' = \<lparr>poisoned = False, content =
      map (\<lambda>ch. if length (ch_queue ch) < 4 then ch\<lparr>ch_queue := ch_queue ch @ [frame]\<rparr> else ch)
        (filter ch_open (content (d_senders d)))\<rparr> \<and>
    read_msg deserialize \<lparr>pending_bytes = frame @ rest, ending = e\<rparr> =
      (Inr snap, \<lparr>pending_bytes = rest, ending = e\<rparr>)"
proof -
  let ?st' = "(content (d_state d))\<lparr>stats := collector\<rparr>"
  let ?st = "?st'\<lparr>tick := tick (content (d_state d)) + 1\<rparr>"
  have col: "collect_tick lookup (d_events d @ List.map_filter (parse_proc_event fs) records)
      (content (d_state d)) = (?st', rows)"
    using assms(4) by (simp add: collect_tick_def)
  have is_snap: "snapshot_of ?st rows = snap" by (simp add: snapshot_of_def snap)
  obtain frame where f: "write_msg serialize snap = Inr frame"
    using assms(6,7) by (simp add: write_msg_def PREFIX_LEN_def Let_def)
  from codec.read_msg_frame [OF assms(1) f, of rest e] show ?thesis
    using assms(3) f
    by (intro exI [of _ frame])
      (auto simp: run_iteration_def build_snapshot_ok [OF assms(2) col, of serialize] is_snap
        distribute_def update_streams_def retain_send_eq try_send_def CHANNEL_BOUND_def Let_def)
qed

lemma demo_collect:
  "collect_tick (\<lambda>_. None) (d_events demo_connected @ List.map_filter (parse_proc_event no_procfs) [])
     (content (d_state demo_connected)) = (daemon_default, [])"
  by (simp add: collect_tick_def demo_connected_def daemon_init_def daemon_default_def
      collector_new_def collect_rows_def collect_loop.simps map_filter_simps)

definition demo_first_snapshot :: SnapshotData where
  "demo_first_snapshot = \<lparr>snap_interval = 1000, snap_tick = 1, snap_rows = [], snap_dead_procs = []\<rparr>"

theorem iteration_sends_snapshot_witness:
  "\<exists>frame d'. run_iteration encode_snapshot no_procfs (\<lambda>_. None) ([], None :: unit option)
      demo_connected = (Continue 1000, d') \<and>
    d_state d' = \<lparr>poisoned = False, content = \<lparr>interval = 1000, tick = 1, stats = collector_new\<rparr>\<rparr> \<and>
    d_events d' = [] \<and> d_readers d' = d_readers demo_connected \<and>
    d_senders d' = \<lparr>poisoned = False, content = [new_channel\<lparr>ch_queue := [frame]\<rparr>]\<rparr> \<and>
    read_msg decode_snapshot \<lparr>pending_bytes = frame @ [], ending = None\<rparr> =
      (Inr demo_first_snapshot, \<lparr>pending_bytes = [], ending = None\<rparr>)"
proof -
  let ?d = demo_connected
  have ok: "snapshot_ok demo_first_snapshot" by (simp add: snapshot_ok_def demo_first_snapshot_def)
  then have enc: "encode_snapshot demo_first_snapshot = Inr (put_Snapshot demo_first_snapshot)"
    by (simp add: encode_snapshot_def)
  have "length (put_Snapshot demo_first_snapshot) \<le> 65535"
    by (simp add: length_put_Snapshot [OF ok]) (simp add: snapshot_size_def demo_first_snapshot_def)
  moreover have "\<not> poisoned (d_state ?d)" "\<not> poisoned (d_senders ?d)"
    by (simp_all add: demo_connected_def daemon_init_def)
  moreover have "collect_rows (\<lambda>_. None) (foldl apply_event (stats (content (d_state ?d)))
      (d_events ?d @ List.map_filter (parse_proc_event no_procfs) [])) = (collector_new, [])"
    by (simp add: demo_connected_def daemon_init_def daemon_default_def collector_new_def
        collect_rows_def collect_loop.simps map_filter_simps)
  moreover have "demo_first_snapshot = \<lparr>snap_interval = interval (content (d_state ?d)),
      snap_tick = tick (content (d_state ?d)) + 1, snap_rows = [],
      snap_dead_procs = dead_procs collector_new\<rparr>"
    by (simp add: demo_first_snapshot_def demo_connected_def daemon_init_def daemon_default_def
        DEFAULT_INTERVAL_MILLIS_def collector_new_def)
  ultimately show ?thesis
    using iteration_sends_snapshot [OF snapshot_codec.codec_axioms, where rest = "[]" and e = None and
        d = ?d and snap = demo_first_snapshot and lookup = "\<lambda>_. None" and fs = no_procfs and records = "[]" and
        collector = collector_new and rows = "[]", OF _ _ _ _ enc]
    by (simp add: demo_connected_def new_channel_def daemon_init_def daemon_default_def DEFAULT_INTERVAL_MILLIS_def)
qed

text \<open>
  C29. A client that sends \<open>Run\<close> once more stops the daemon: its reader thread panics with the lock
  held, and the next iteration of the main loop returns the poison error.
\<close>

theorem second_run_stops_daemon:
  assumes "codec serialize deserialize" and "write_msg serialize Run = Inr frame"
    and "i < length (d_readers d)" and "pending_bytes (d_readers d ! i) = frame @ rest"
    and "\<not> poisoned (d_state d)"
  shows "\<exists>d'. daemon_step snapshot_bytes deserialize d d' \<and>
    fst (run_iteration snapshot_bytes fs lookup consumed d') = Exit (Poisoned MutexPoison)"
proof -
  have "d_readers d ! i = \<lparr>pending_bytes = frame @ rest, ending = ending (d_readers d ! i)\<rparr>"
    using assms(4) by (cases "d_readers d ! i") simp
  with codec.read_msg_frame [OF assms(1,2), of rest "ending (d_readers d ! i)"] assms(5)
  have "reader_step deserialize (d_readers d ! i) (d_state d) =
      ((d_state d)\<lparr>poisoned := True\<rparr>, None)"
    by (simp add: reader_step_def lock_and_update_def)
  from daemon_step.read [OF assms(3) this, of snapshot_bytes] show ?thesis
    by (intro exI conjI) (assumption, simp add: run_iteration_def build_snapshot_def)
qed

theorem second_run_stops_daemon_witness:
  "\<exists>d'. daemon_step encode_snapshot decode_command
      (demo_connected\<lparr>d_readers := [\<lparr>pending_bytes = [4, 0, 0, 0, 0, 0] @ [], ending = None\<rparr>]\<rparr>) d' \<and>
    fst (run_iteration encode_snapshot no_procfs (\<lambda>_. None) ([], None :: unit option) d') =
      Exit (Poisoned MutexPoison)"
  by (rule second_run_stops_daemon [OF command_codec.codec_axioms frame_eval(1), of 0])
    (simp_all add: demo_connected_def daemon_init_def)

text \<open>
  C30. A full table of processes stops the daemon. With the documented sizes of the serialised
  snapshot, 512 rows (the capacity of the map) whose names take four bytes or more do not fit the
  16-bit length, and the iteration returns the \<open>Oversized\<close> error, which ends the main loop.
\<close>

theorem full_table_stops_daemon:
  assumes sizes: "\<And>snap bs. serialize snap = Inr bs \<Longrightarrow> length bs = snapshot_size snap"
    and "\<not> poisoned (d_state d)"
    and "collect_tick lookup (d_events d @ List.map_filter (parse_proc_event fs) records)
      (content (d_state d)) = (st', rows)"
    and "serialize (snapshot_of (st'\<lparr>tick := tick (content (d_state d)) + 1\<rparr>) rows) = Inr payload"
    and "length rows = MAP_SIZE" and "list_all (\<lambda>r. 4 \<le> length (to_utf8 (row_name r))) rows"
  shows "fst (run_iteration serialize fs lookup (records, None) d) = Exit (Serialize Oversized)"
proof -
  have "128 * length rows \<le> sum_list (map row_size rows)"
    using assms(6) by (induction rows) (auto simp: row_size_def)
  then have "65535 < length payload"
    using sizes [OF assms(4)] assms(5) by (simp add: snapshot_size_def snapshot_of_def MAP_SIZE_def)
  then have "write_msg serialize (snapshot_of (st'\<lparr>tick := tick (content (d_state d)) + 1\<rparr>) rows) =
      Inl Oversized"
    using assms(4) by (simp add: write_msg_def PREFIX_LEN_def Let_def)
  then show ?thesis
    by (simp add: run_iteration_def build_snapshot_ok [OF assms(2,3), of serialize] Let_def)
qed

definition full_proc :: "nat \<Rightarrow> ProcInfo" where
  "full_proc i = \<lparr>pi_pid = word_of_nat i, pi_name = [97, 98, 99, 100],
     pi_tcp_cum = StatsBytes_default, pi_udp_cum = StatsBytes_default\<rparr>"

definition full_collector :: StatsCollector where
  "full_collector = \<lparr>procs = map full_proc [0..<512], dead_procs = []\<rparr>"

definition full_daemon :: daemon where
  "full_daemon = daemon_init\<lparr>d_state := \<lparr>poisoned = False,
     content = daemon_default\<lparr>stats := full_collector\<rparr>\<rparr>\<rparr>"

text \<open>A map in which every process has a value of no CPU: all are alive with zero traffic.\<close>

definition idle_map :: stats_map where
  "idle_map key = Some []"

lemma full_collect:
  obtains c' rows where "collect_rows idle_map full_collector = (c', rows)"
    "length rows = MAP_SIZE" "dead_procs c' = []"
    "list_all (\<lambda>r. row_name r = [97, 98, 99, 100] \<and> row_ok r) rows"
proof -
  obtain c' rows where cr: "collect_rows idle_map full_collector = (c', rows)" by fastforce
  have st: "merge_values_for_pid idle_map q = Some ProcStats_default" for q
    by (simp add: merge_values_for_pid_def idle_map_def)
  have alive: "alive idle_map = (\<lambda>_. True)" by (simp add: alive_def st fun_eq_iff)
  have none: "dead_procs full_collector = []" by (simp add: full_collector_def)
  from collect_rows_spec [of full_collector idle_map] cr obtain live ds where
    live: "mset live = mset (procs full_collector)"
      "rows = map (\<lambda>p. row_for ProcStats_default p) live"
    and dead: "mset ds = {#}" "dead_procs c' = last_n DEAD_PROC_LIMIT ds"
    by (auto simp: st alive none)
  have "length rows = MAP_SIZE"
    using mset_eq_length [OF live(1)] live(2) by (simp add: full_collector_def MAP_SIZE_def)
  moreover have "dead_procs c' = []" using dead by (simp add: last_n_def)
  moreover have "string_ok [97, 98, 99, 100]"
    by (simp add: string_ok_def scalar_value_def to_utf8_def encode_char_def char_units_def)
  then have "list_all (\<lambda>r. row_name r = [97, 98, 99, 100] \<and> row_ok r) rows"
    using mset_eq_setD [OF live(1)] live(2)
    by (auto simp: full_collector_def full_proc_def row_for_def row_ok_def list_all_iff
        ProcStats_default_def ProtocolStats_default_def StatsAddr_default_def)
  ultimately show thesis using cr that by blast
qed

theorem full_table_stops_daemon_witness:
  "fst (run_iteration encode_snapshot no_procfs idle_map ([], None :: unit option) full_daemon) =
   Exit (Serialize Oversized)"
proof -
  obtain c' rows where cr: "collect_rows idle_map full_collector = (c', rows)"
    and rows: "length rows = MAP_SIZE" "dead_procs c' = []"
    "list_all (\<lambda>r. row_name r = [97, 98, 99, 100] \<and> row_ok r) rows"
    by (rule full_collect)
  let ?st = "daemon_default\<lparr>stats := c'\<rparr>"
  have tick: "collect_tick idle_map
      (d_events full_daemon @ List.map_filter (parse_proc_event no_procfs) [])
      (content (d_state full_daemon)) = (?st, rows)"
    by (simp add: collect_tick_def full_daemon_def daemon_init_def map_filter_simps cr)
  let ?snap = "snapshot_of (?st\<lparr>tick := tick (content (d_state full_daemon)) + 1\<rparr>) rows"
  have "snapshot_ok ?snap"
    using rows by (auto simp: snapshot_ok_def snapshot_of_def list_all_iff MAP_SIZE_def)
  then have enc: "encode_snapshot ?snap = Inr (put_Snapshot ?snap)" by (simp add: encode_snapshot_def)
  have "list_all (\<lambda>r. 4 \<le> length (to_utf8 (row_name r))) rows"
    using rows(3) by (auto simp: list_all_iff to_utf8_def encode_char_def char_units_def)
  moreover have "\<not> poisoned (d_state full_daemon)" by (simp add: full_daemon_def)
  ultimately show ?thesis
    using full_table_stops_daemon [where serialize = encode_snapshot,
        OF encode_snapshot_size _ tick enc rows(1)] by simp
qed

section \<open>When the main loop goes on\<close>

lemma collect_tick_tick: "collect_tick lookup events st = (st', rows) \<Longrightarrow> tick st' = tick st \<and> interval st' = interval st"
  by (auto simp: collect_tick_def split: prod.splits)

lemma iteration_result:
  assumes "\<not> poisoned (d_state d)" and "\<not> poisoned (d_senders d)"
    and "collect_tick lookup (d_events d @ List.map_filter (parse_proc_event fs) records)
      (content (d_state d)) = (st', rows)"
  shows "fst (run_iteration serialize fs lookup (records, None) d) =
    (case write_msg serialize (snapshot_of (st'\<lparr>tick := tick (content (d_state d)) + 1\<rparr>) rows) of
       Inl e \<Rightarrow> Exit (Serialize e) | Inr _ \<Rightarrow> Continue (interval (content (d_state d))))"
  using assms(2) collect_tick_tick [OF assms(3)]
  by (auto simp: run_iteration_def build_snapshot_ok [OF assms(1,3), of serialize] distribute_def
      update_streams_def Let_def split: sum.split)

lemma sum_list_bound: "(\<And>x. x \<in> set xs \<Longrightarrow> f x \<le> b) \<Longrightarrow> sum_list (map f xs) \<le> b * length xs" for b :: nat
  by (induction xs) (simp_all add: add_mono)

text \<open>What a collection keeps of a bound on the names.\<close>

lemma collect_names:
  assumes "collector_inv c" and "list_all P (procs c @ dead_procs c)"
  obtains live where "snd (collect_rows L c) = map (\<lambda>p. row_for (stats_of L p) p) live"
    "length live \<le> length (procs c)" "list_all P live" "list_all P (dead_procs (fst (collect_rows L c)))"
proof -
  obtain live ds where sp: "mset live = filter_mset (alive L) (mset (procs c))"
    "mset ds = filter_mset (\<lambda>p. \<not> alive L p) (mset (procs c))"
    "dead_procs (fst (collect_rows L c)) = last_n DEAD_PROC_LIMIT (dead_procs c @ ds)"
    "snd (collect_rows L c) = map (\<lambda>p. row_for (stats_of L p) p) live"
    using collect_rows_spec [of c L] assms(1) by (auto simp: collector_inv_def)
  have "set live \<subseteq> set (procs c)" "set ds \<subseteq> set (procs c)"
    using arg_cong [OF sp(1), of set_mset] arg_cong [OF sp(2), of set_mset] by auto
  moreover have "length live \<le> length (procs c)"
    using arg_cong [OF sp(1), of size] size_filter_mset_lesseq [of "alive L" "mset (procs c)"] by simp
  moreover have "set (last_n DEAD_PROC_LIMIT (dead_procs c @ ds)) \<subseteq> set (dead_procs c) \<union> set ds"
    by (simp add: last_n_def set_drop_subset [THEN order_trans])
  ultimately show thesis
    using assms(2) sp(3,4) by (intro that [of live]) (auto 0 3 simp: list_all_iff)
qed

text \<open>
  C31. How many processes are safe. A file name has at most 255 bytes, and the kernel appends 10 to
  that of a deleted program; with names of at most 265 bytes and no more than 150 known processes the
  snapshot always fits its frame, dead processes included, and the main loop goes on.
\<close>

theorem small_table_continues:
  assumes sizes: "\<And>snap bs. serialize snap = Inr bs \<Longrightarrow> length bs = snapshot_size snap"
    and "(daemon_step serialize deserialize)\<^sup>*\<^sup>* daemon_init d"
    and "\<not> poisoned (d_state d)"
    and c: "c = foldl apply_event (stats (content (d_state d)))
      (d_events d @ List.map_filter (parse_proc_event fs) records)"
    and "length (procs c) \<le> 150"
    and "list_all (\<lambda>p. length (to_utf8 (pi_name p)) \<le> 265) (procs c @ dead_procs c)"
    and "collect_tick lookup (d_events d @ List.map_filter (parse_proc_event fs) records)
      (content (d_state d)) = (st', rows)"
    and "serialize (snapshot_of (st'\<lparr>tick := tick (content (d_state d)) + 1\<rparr>) rows) = Inr payload"
  shows "fst (run_iteration serialize fs lookup (records, None) d) =
    Continue (interval (content (d_state d)))"
proof -
  let ?snap = "snapshot_of (st'\<lparr>tick := tick (content (d_state d)) + 1\<rparr>) rows"
  have ok: "daemon_ok d" using assms(2) by (rule reachable_ok)
  then have inv: "collector_inv c"
    unfolding c by (intro foldl_apply_event_inv) (simp add: daemon_ok_def daemon_inv_def)
  obtain live where live: "snd (collect_rows lookup c) = map (\<lambda>p. row_for (stats_of lookup p) p) live"
    "length live \<le> length (procs c)" "list_all (\<lambda>p. length (to_utf8 (pi_name p)) \<le> 265) live"
    "list_all (\<lambda>p. length (to_utf8 (pi_name p)) \<le> 265) (dead_procs (fst (collect_rows lookup c)))"
    by (rule collect_names [OF inv assms(6), of lookup])
  have snap: "snap_rows ?snap = map (\<lambda>p. row_for (stats_of lookup p) p) live"
    "snap_dead_procs ?snap = dead_procs (fst (collect_rows lookup c))"
    using assms(7) live(1) by (auto simp: snapshot_of_def collect_tick_def c split: prod.splits)
  have "sum_list (map row_size (snap_rows ?snap)) \<le> 389 * length live"
    using sum_list_bound [of live "\<lambda>p. row_size (row_for (stats_of lookup p) p)" 389] live(3)
    by (simp add: snap(1) comp_def row_size_def row_for_def list_all_iff)
  moreover have "sum_list (map info_size (snap_dead_procs ?snap)) \<le> 309 * length (snap_dead_procs ?snap)"
    using sum_list_bound [of "snap_dead_procs ?snap" info_size 309] live(4)
    by (simp add: snap(2) info_size_def list_all_iff)
  moreover have "length (snap_dead_procs ?snap) \<le> 20"
    using collect_rows_inv [OF inv, of lookup] by (simp add: snap(2) collector_inv_def DEAD_PROC_LIMIT_def)
  ultimately have "length payload \<le> 65535"
    using sizes [OF assms(8)] live(2) assms(5) by (simp add: snapshot_size_def)
  then obtain frame where "write_msg serialize ?snap = Inr frame"
    using assms(8) by (simp add: write_msg_def PREFIX_LEN_def Let_def)
  moreover have "\<not> poisoned (d_senders d)" using ok by (simp add: daemon_ok_def)
  ultimately show ?thesis by (simp add: iteration_result [OF assms(3) _ assms(7), of serialize])
qed

theorem small_table_continues_witness:
  "fst (run_iteration encode_snapshot no_procfs (\<lambda>_. None) ([], None :: unit option) demo_connected) =
   Continue 1000"
proof -
  let ?d = demo_connected
  have reach: "(daemon_step encode_snapshot decode_command)\<^sup>*\<^sup>* daemon_init ?d"
    by (rule demo_connects)
  let ?snap = "snapshot_of (daemon_default\<lparr>tick := tick (content (d_state ?d)) + 1\<rparr>) []"
  have "encode_snapshot ?snap = Inr (put_Snapshot ?snap)"
    by (simp add: encode_snapshot_def snapshot_ok_def snapshot_of_def daemon_default_def collector_new_def)
  from small_table_continues [where serialize = encode_snapshot, OF encode_snapshot_size reach _ refl _ _
      demo_collect this]
  show ?thesis
    by (simp add: demo_connected_def daemon_init_def daemon_default_def collector_new_def
        DEFAULT_INTERVAL_MILLIS_def map_filter_simps)
qed

lemma signal_thread_requested:
  "fst (signal_thread os path waits w) \<Longrightarrow>
   snd (signal_thread os path waits w) = snd (os_remove_file os path w)"
  by (induction os path waits w rule: signal_thread.induct) auto

text \<open>
  A clean shutdown leaves the socket path free: after a daemon has started on a usable path and its
  signal thread has requested shutdown, nothing is left there, and a new daemon can start.
\<close>

lemma shutdown_frees_socket:
  assumes "socket_os os entry" and "path_usable os entry path"
    and "start_daemon os path None None w = (Inr d, w')"
    and "signal_thread os path waits w' = (True, w'')"
  shows "entry path w'' = NoFile \<and>
    (\<exists>w3. start_daemon os path None (None :: unit option) w'' = (Inr daemon_init, w3))"
proof -
  have "bind_unix_listener os path w = (Inr (), w')"
    using assms(3) by (auto simp: start_daemon_def split: prod.splits sum.splits)
  from socket_os.bind_result [OF assms(1) this] have live: "entry path w' = LiveSocket" by simp
  obtain u where u: "os_remove_file os path w' = (u, w'')"
    using signal_thread_requested [of os path waits w'] assms(4) by (metis fst_conv prod.collapse snd_conv)
  have "u = Inr ()" using assms(2) live u by (auto simp: path_usable_def dest!: spec [of _ w'])
  with socket_os.remove [OF assms(1) u] have free: "entry path w'' = NoFile" by simp
  obtain r w3 where b: "bind_unix_listener os path w'' = (r, w3)" by fastforce
  with socket_os.bind_usable [OF assms(1,2), of w''] free have "r = Inr ()" by simp
  with b free show ?thesis by (simp add: start_daemon_def)
qed

end
