(* ===== verification/Client_Daemon.thy ===== *)
theory Client_Daemon
  imports Client App
begin

text \<open>
  The client and the daemon together: what a key pressed in the client, or a command given on its
  command line, does to the daemon; which lines of the client's table show a row of the daemon; and how
  the names the daemon records fit the client's filter.
\<close>

section \<open>Names and the filter\<close>

lemma lowercase_idem [simp]: "to_ascii_lowercase (to_ascii_lowercase ch) = to_ascii_lowercase ch"
  by (simp add: to_ascii_lowercase_def)

lemma contains_lowercase:
  "contains (make_ascii_lowercase nm) (make_ascii_lowercase t) \<longleftrightarrow>
    (\<exists>before occurrence after. nm = before @ occurrence @ after \<and>
      make_ascii_lowercase occurrence = make_ascii_lowercase t)"
  unfolding contains_iff
proof
  assume "\<exists>before after. make_ascii_lowercase nm = before @ make_ascii_lowercase t @ after"
  then obtain b a where "map to_ascii_lowercase nm = b @ make_ascii_lowercase t @ a"
    by (auto simp: make_ascii_lowercase_def)
  then obtain before w occurrence after where "nm = before @ w" "map to_ascii_lowercase w = make_ascii_lowercase t @ a"
    "w = occurrence @ after" "map to_ascii_lowercase occurrence = make_ascii_lowercase t"
    by (metis map_eq_append_conv)
  then show "\<exists>before occurrence after. nm = before @ occurrence @ after \<and>
      make_ascii_lowercase occurrence = make_ascii_lowercase t"
    by (auto simp: make_ascii_lowercase_def)
next
  assume "\<exists>before occurrence after. nm = before @ occurrence @ after \<and>
      make_ascii_lowercase occurrence = make_ascii_lowercase t"
  then show "\<exists>before after. make_ascii_lowercase nm = before @ make_ascii_lowercase t @ after"
    by (auto simp: make_ascii_lowercase_def) blast
qed

text \<open>
  The daemon's list of ended processes can hold one process id twice: once for each process that had
  it.
\<close>

lemma reused_pid_listed_twice:
  "map pi_pid (dead_procs (fst (collect_rows (\<lambda>_. None)
     (apply_event (fst (collect_rows (\<lambda>_. None) (apply_event collector_new ev))) ev')))) =
   [evt_pid ev, evt_pid ev']"
  by (simp add: collector_new_def apply_event_def collect_rows_def collect_loop.simps
      merge_values_for_pid_def push_dead_def DEAD_PROC_LIMIT_def swap_remove_def Let_def)

section \<open>Commands\<close>

text \<open>What the main loop writes for a key whose action sends one command.\<close>

lemma key_sends:
  assumes "cl_phase c = Await" and "next_event t = Inr (Some (KeyEvent True ctrl code))"
    and "handle_key ctrl code (cl_state c) = Some (cl_state c, NoAction, [cmd])"
    and "socket_write t = (\<lambda>_. None)" and "write_msg serialize cmd = Inr frame"
  shows "main_step lib serialize t c = c\<lparr>cl_sent := cl_sent c @ frame, cl_phase := Receive\<rparr>"
  using assms
  by (simp add: main_step_def await_step_def handle_event_def sent_by_def send_daemon_command_def)

lemma handle_plus_minus:
  assumes "active_pane s = Pane_Main"
  shows "handle_key ctrl (KeyCode_Char 43) s = Some (s, NoAction, [IntervalIncrease])"
    and "handle_key ctrl (KeyCode_Char 45) s = Some (s, NoAction, [IntervalDecrease])"
  using assms
  by (simp_all add: handle_key_def binding_for_def fires_def key_tables txt_of_def to_ascii_lowercase_def)

section \<open>From the daemon's rows to the screen\<close>

text \<open>The client reads one frame, takes it from the channel and draws.\<close>

lemma frame_drawn:
  fixes c :: "unit client"
  assumes "terminal_library lib" and "write_msg encode_snapshot x = Inr frame"
    and "cl_phase c = Receive" "cl_rx c = []" "\<not> paused (cl_state c)" "draw_error t = None"
    and c': "c' = main_step lib serialize t (main_step lib serialize t (main_step lib serialize t
      (reader_iteration decode_snapshot \<lparr>pending_bytes = frame @ rest, ending = e\<rparr> c)))"
  shows "cl_phase c' = Await \<and> cl_snap c' = x \<and>
    render lib (frame_area t) x (cl_state c) = Some (cl_state c', cl_screen c')"
proof -
  obtain s ds where "render lib (frame_area t) x (cl_state c) = Some (s, ds)"
    using terminal_library.render_keeps [OF assms(1)] by blast
  then show ?thesis
    using assms(3-6) snapshot_codec.read_msg_frame [OF assms(2), of rest e]
    by (simp add: c' reader_iteration_def main_step_def receive_step_def draw_frame_def)
qed

lemma drawn_view:
  assumes "terminal_library lib" and "render lib area snap s = Some (s', ds)" and "view_mode s = Live"
    and "r \<in> set (snap_rows snap)" and "passes_filter s (row_pid r, row_name r, row_total r)"
  shows "view_mode s' = Live \<and> (\<exists>p < length (view s'). view s' ! p < length (snap_rows snap) \<and>
    snap_rows snap ! (view s' ! p) = r)"
proof -
  obtain i where i: "i < length (snap_rows snap)" "snap_rows snap ! i = r"
    using assms(4) by (auto simp: in_set_conv_nth)
  obtain v where v: "refresh_view snap s = Some (s\<lparr>view := v\<rparr>)"
    "set v = {i. i < length (table_rows snap s) \<and> passes_filter s (table_rows snap s ! i)}"
    using refresh_view_spec by blast
  then have iv: "i \<in> set v" using i assms(3,5) by (simp add: table_rows_def)
  then have ne: "v \<noteq> []" by auto
  obtain s2 area0 w rest where s2: "render lib area snap s = Some (s2, (area0, shown_table snap s2 w) # rest)"
    and p: "placed area0 snap (s\<lparr>view := v\<rparr>) = (s2, w)"
    by (rule terminal_library.render_refreshed [OF assms(1) v(1) ne])
  note ps = place_window_simps [OF p [unfolded placed_def]]
  have "s' = s2" using assms(2) s2 by simp
  then have "view s' = v" "view_mode s' = Live" using ps(5,7) assms(3) by simp_all
  with iv i show ?thesis by (auto simp: in_set_conv_nth)
qed

section \<open>Properties\<close>

text \<open>
  C22. The interval keys work across the socket: pressing + or - in the main pane makes the client
  write one message, the daemon's reader decodes it to the command that was meant, and applying that
  raises or lowers the refresh interval by 100 ms within its limits; the client shows the same
  snapshot and state as before.
\<close>

theorem interval_keys_reach_daemon:
  assumes "cl_phase c = Await" and "active_pane (cl_state c) = Pane_Main"
    and "next_event t = Inr (Some (KeyEvent True ctrl (KeyCode_Char (if up then 43 else 45))))"
    and "socket_write t = (\<lambda>_. None)" and "daemon_inv d"
  shows "\<exists>frame cmd d'. main_step lib encode_command t c = c\<lparr>cl_sent := cl_sent c @ frame, cl_phase := Receive\<rparr> \<and>
    read_msg decode_command \<lparr>pending_bytes = frame @ rest, ending = e\<rparr> =
      (Inr cmd, \<lparr>pending_bytes = rest, ending = e\<rparr>) \<and>
    update d cmd = Some d' \<and>
    unat (interval d') = (if up then min 5000 (unat (interval d) + 100) else max 100 (unat (interval d) - 100))"
proof -
  define cmd where "cmd = (if up then IntervalIncrease else IntervalDecrease)"
  obtain frame where frame: "write_msg encode_command cmd = Inr frame"
    by (cases up) (simp_all add: cmd_def write_msg_def PREFIX_LEN_def)
  have "handle_key ctrl (KeyCode_Char (if up then 43 else 45)) (cl_state c) = Some (cl_state c, NoAction, [cmd])"
    using handle_plus_minus [OF assms(2)] by (simp add: cmd_def)
  then have "main_step lib encode_command t c = c\<lparr>cl_sent := cl_sent c @ frame, cl_phase := Receive\<rparr>"
    by (rule key_sends [OF assms(1,3) _ assms(4) frame])
  moreover obtain d' where d': "update d cmd = Some d'"
    using update_total [of d cmd] by (cases "update d cmd") (auto simp: cmd_def split: if_splits)
  moreover have "unat (interval d') =
      (if up then min 5000 (unat (interval d) + 100) else max 100 (unat (interval d) - 100))"
    using interval_commands [OF assms(5) d'] by (simp add: cmd_def)
  ultimately show ?thesis using command_codec.read_msg_frame [OF frame] by blast
qed

theorem interval_keys_reach_daemon_witness:
  "\<exists>frame cmd d'. cl_sent (main_step stacking_lib encode_command (demo_terminal (KeyCode_Char 43))
      ((demo_client \<lparr>pending_bytes = [], ending = None\<rparr>)\<lparr>cl_phase := Await\<rparr>)) =
      cl_sent (demo_client \<lparr>pending_bytes = [], ending = None\<rparr>) @ frame \<and>
    read_msg decode_command \<lparr>pending_bytes = frame, ending = None\<rparr> =
      (Inr cmd, \<lparr>pending_bytes = [], ending = None\<rparr>) \<and>
    update daemon_default cmd = Some d' \<and> unat (interval d') = 1100"
  using interval_keys_reach_daemon [where up = True and ctrl = False and rest = "[]" and e = None
      and c = "(demo_client \<lparr>pending_bytes = [], ending = None\<rparr>)\<lparr>cl_phase := Await\<rparr>"
      and t = "demo_terminal (KeyCode_Char 43)" and d = daemon_default and lib = stacking_lib]
    daemon_default_inv
  by (auto simp: demo_client_def demo_terminal_def TuiState_new_def daemon_default_def
      DEFAULT_INTERVAL_MILLIS_def)

text \<open>
  C5. What the daemon collects reaches the screen. The frame that an iteration serialises, read by a
  client that is not paused and shows live processes, becomes the snapshot it shows; every row that
  passes the client's filter is in its view, and when its position lies in the visible window, the
  line of the table there prints this row's process id, name, the bytes sent and received in that tick
  over TCP and UDP together (capped at the largest 64-bit number) and their sum, in the client's
  unit, and is highlighted if the cursor is on it.
\<close>

theorem rows_reach_screen:
  fixes c :: "unit client"
  assumes lib: "terminal_library lib"
    and collect: "collect_tick lookup (d_events d @ List.map_filter (parse_proc_event fs) records)
      (content (d_state d)) = (st', rows)"
    and build: "build_snapshot encode_snapshot fs lookup (records, None) d = (Continue timeout, d')"
      "d_buf d' = Some frame"
    and client: "cl_phase c = Receive" "cl_rx c = []" "\<not> paused (cl_state c)" "draw_error t = None"
      "view_mode (cl_state c) = Live"
    and c': "c' = main_step lib serialize t (main_step lib serialize t (main_step lib serialize t
      (reader_iteration decode_snapshot \<lparr>pending_bytes = frame @ rest, ending = e\<rparr> c)))"
    and r: "r \<in> set rows" "passes_filter (cl_state c) (row_pid r, row_name r, row_total r)"
  shows "cl_phase c' = Await \<and> snap_rows (cl_snap c') = rows \<and>
    (\<exists>p < length (view (cl_state c')). rows ! (view (cl_state c') ! p) = r \<and>
      (scroll_offset (cl_state c') \<le> p \<and> p < scroll_offset (cl_state c') + unat (visible_rows (cl_state c')) \<longrightarrow>
        (\<exists>area0 lines block others.
          cl_screen c' = (area0, Table lines column_widths header_row block 1) # others \<and>
          p - scroll_offset (cl_state c') < length lines \<and>
          line_shows (unit (cl_state c')) (largest_total (cl_snap c') (cl_state c'))
            (p = selected (cl_state c'))
            (row_pid r, row_name r,
             capped_sum (sent (pbytes (row_tcp r))) (sent (pbytes (row_udp r))),
             capped_sum (recv (pbytes (row_tcp r))) (recv (pbytes (row_udp r))))
            (lines ! (p - scroll_offset (cl_state c'))))))"
proof -
  define x where "x = snapshot_of (content (d_state d')) rows"
  have x: "write_msg encode_snapshot x = Inr frame" "snap_rows x = rows"
    using build_continues [OF build(1) collect] build(2) by (auto simp: x_def snapshot_of_def)
  let ?s = "cl_state c'"
  have drawn: "cl_phase c' = Await" "cl_snap c' = x"
    "render lib (frame_area t) x (cl_state c) = Some (?s, cl_screen c')"
    using frame_drawn [OF lib x(1) client(1-4) c'] by simp_all
  obtain p where p: "view_mode ?s = Live" "p < length (view ?s)" "view ?s ! p < length rows"
    "rows ! (view ?s ! p) = r"
    using drawn_view [OF lib drawn(3) client(5)] r x(2) by auto
  then have "view ?s \<noteq> []" by auto
  from window_shown [OF lib drawn(3) this] obtain area0 lines others where
    screen: "cl_screen c' = (area0, Table lines column_widths header_row
      (rounded\<lparr>title_top := Some (table_title ?s (snap_tick x) (snap_interval x))\<rparr>) 1) # others"
    and len: "length lines = min (unat (visible_rows ?s)) (length (view ?s) - scroll_offset ?s)"
    and lines: "\<forall>k < length lines. view ?s ! (scroll_offset ?s + k) < number_of_rows x ?s \<and>
      line_shows (unit ?s) (largest_total x ?s) (scroll_offset ?s + k = selected ?s)
        (row_content x ?s (view ?s ! (scroll_offset ?s + k))) (lines ! k)"
    by blast
  have content: "row_content x ?s (view ?s ! p) = (row_pid r, row_name r,
      capped_sum (sent (pbytes (row_tcp r))) (sent (pbytes (row_udp r))),
      capped_sum (recv (pbytes (row_tcp r))) (recv (pbytes (row_udp r))))"
    using p x(2) by (simp add: row_content_def shown_process_def)
  have "p - scroll_offset ?s < length lines \<and>
      line_shows (unit ?s) (largest_total x ?s) (p = selected ?s) (row_content x ?s (view ?s ! p))
        (lines ! (p - scroll_offset ?s))"
    if "scroll_offset ?s \<le> p" "p < scroll_offset ?s + unat (visible_rows ?s)"
  proof -
    have "p - scroll_offset ?s < length lines" using that p(2) len by auto
    with lines [rule_format, of "p - scroll_offset ?s"] that(1) show ?thesis by simp
  qed
  with screen drawn(1,2) x(2) p(2,4) show ?thesis unfolding content by blast
qed

text \<open>A daemon that has just been told of one process, which is alive without traffic.\<close>

definition demo_announced :: daemon where
  "demo_announced = daemon_init\<lparr>d_events := [\<lparr>evt_pid = 7, evt_name = [97, 98, 99, 100]\<rparr>]\<rparr>"

lemma demo_announced_collects:
  obtains st r where "collect_tick idle_map (d_events demo_announced @ List.map_filter (parse_proc_event no_procfs) [])
      (content (d_state demo_announced)) = (st, [r])"
    "row_ok r" "row_pid r = 7" "row_name r = [97, 98, 99, 100]" "interval st = 1000" "dead_procs (stats st) = []"
    "row_tcp r = ProtocolStats_default" "row_udp r = ProtocolStats_default"
proof -
  define p where "p = \<lparr>pi_pid = 7, pi_name = [97, 98, 99, 100], pi_tcp_cum = StatsBytes_default,
    pi_udp_cum = StatsBytes_default\<rparr>"
  define st where "st = daemon_default\<lparr>stats := collector_new\<lparr>procs := [update_proc ProcStats_default p]\<rparr>\<rparr>"
  have idle: "merge_values_for_pid idle_map q = Some ProcStats_default" for q
    by (simp add: merge_values_for_pid_def idle_map_def)
  have "collect_tick idle_map (d_events demo_announced @ List.map_filter (parse_proc_event no_procfs) [])
      (content (d_state demo_announced)) = (st, [row_for ProcStats_default p])"
    by (simp add: collect_tick_def demo_announced_def daemon_init_def daemon_default_def st_def p_def
        collector_new_def apply_event_def collect_rows_def collect_loop.simps idle
        map_filter_simps make_ascii_lowercase_def to_ascii_lowercase_def)
  moreover have "row_ok (row_for ProcStats_default p)"
    by (simp add: row_ok_def row_for_def p_def string_ok_def scalar_value_def to_utf8_def encode_char_def
        char_units_def ProcStats_default_def ProtocolStats_default_def StatsAddr_default_def)
  ultimately show thesis
    by (rule that) (simp_all add: row_for_def p_def st_def daemon_default_def DEFAULT_INTERVAL_MILLIS_def
        collector_new_def delta_bytes_def ProcStats_default_def ProtocolStats_default_def
        StatsBytes_default_def saturating_sub_def)
qed

lemma demo_announced_builds:
  obtains st r frame d' where "collect_tick idle_map
      (d_events demo_announced @ List.map_filter (parse_proc_event no_procfs) [])
      (content (d_state demo_announced)) = (st, [r])" "row_pid r = 7"
    "build_snapshot encode_snapshot no_procfs idle_map ([], None :: unit option) demo_announced = (Continue 1000, d')"
    "d_buf d' = Some frame" "row_tcp r = ProtocolStats_default" "row_udp r = ProtocolStats_default"
proof -
  obtain st r where col: "collect_tick idle_map
      (d_events demo_announced @ List.map_filter (parse_proc_event no_procfs) [])
      (content (d_state demo_announced)) = (st, [r])"
    and r: "row_ok r" "row_pid r = 7" "row_name r = [97, 98, 99, 100]" "interval st = 1000"
      "dead_procs (stats st) = []" "row_tcp r = ProtocolStats_default" "row_udp r = ProtocolStats_default"
    by (rule demo_announced_collects)
  define snap where "snap = snapshot_of (st\<lparr>tick := tick (content (d_state demo_announced)) + 1\<rparr>) [r]"
  have ok: "snapshot_ok snap" using r by (simp add: snap_def snapshot_ok_def snapshot_of_def)
  have "length (put_Snapshot snap) \<le> 65535"
    using r(3,5) by (simp add: length_put_Snapshot [OF ok])
      (simp add: snap_def snapshot_size_def snapshot_of_def row_size_def to_utf8_def encode_char_def char_units_def)
  with ok obtain frame where frame: "write_msg encode_snapshot snap = Inr frame"
    by (simp add: write_msg_def encode_snapshot_def)
  have "\<not> poisoned (d_state demo_announced)"
    by (simp add: demo_announced_def daemon_init_def)
  from build_snapshot_ok [OF this col, of encode_snapshot] frame r(4)
  have "build_snapshot encode_snapshot no_procfs idle_map ([], None :: unit option) demo_announced =
      (Continue 1000, demo_announced\<lparr>d_events := [], d_state := \<lparr>poisoned = False,
        content = st\<lparr>tick := tick (content (d_state demo_announced)) + 1\<rparr>\<rparr>, d_buf := Some frame\<rparr>)"
    by (simp add: snap_def)
  with col r(2) show thesis by (rule that) (simp_all add: r(6,7))
qed

text \<open>What the client shows of it, in the small terminal.\<close>

lemma demo_announced_drawn:
  fixes c :: "unit client"
  assumes "collect_tick lookup (d_events d @ List.map_filter (parse_proc_event fs) records)
      (content (d_state d)) = (st', rows)"
    and "build_snapshot encode_snapshot fs lookup (records, None) d = (Continue timeout, d')"
      "d_buf d' = Some frame"
    and "cl_phase c = Receive" "cl_rx c = []" "\<not> paused (cl_state c)" "draw_error t = None"
      "view_mode (cl_state c) = Live"
    and "c' = main_step stacking_lib serialize t (main_step stacking_lib serialize t (main_step stacking_lib
      serialize t (reader_iteration decode_snapshot \<lparr>pending_bytes = frame @ rest, ending = e\<rparr> c)))"
  shows "render stacking_lib (frame_area t) (cl_snap c') (cl_state c) = Some (cl_state c', cl_screen c')"
  using build_continues [OF assms(2,1)] assms(3)
    frame_drawn [OF stacking.terminal_library_axioms _ assms(4-7,9)] by auto

lemma view_no_longer:
  assumes "terminal_library lib" and "render lib area snap s = Some (s', ds)" and "view_mode s = Live"
  shows "length (view s') \<le> length (snap_rows snap)"
proof (cases "view s' = []")
  case False
  obtain v area0 w rest where v: "refresh_view snap s = Some (s\<lparr>view := v\<rparr>)"
    and p: "placed area0 snap (s\<lparr>view := v\<rparr>) = (s', w)"
    by (rule terminal_library.render_placed [OF assms(1,2) False])
  obtain v' where v': "refresh_view snap s = Some (s\<lparr>view := v'\<rparr>)" "distinct v'"
    "set v' \<subseteq> {..<length (table_rows snap s)}"
    using refresh_view_spec [of snap s] by auto
  have "view (s\<lparr>view := v\<rparr>) = view (s\<lparr>view := v'\<rparr>)" using v v'(1) by simp
  then have "view s' = v'" using place_window_simps(5) [OF p [unfolded placed_def]] by simp
  moreover have "length v' \<le> length (table_rows snap s)"
    using card_mono [OF _ v'(3)] distinct_card [OF v'(2)] by simp
  ultimately show ?thesis using assms(3) by (simp add: table_rows_def)
qed simp

theorem rows_reach_screen_witness:
  "\<exists>c r line area0 block others. cl_phase c = Await \<and> row_pid r = 7 \<and> snap_rows (cl_snap (c :: unit client)) = [r] \<and>
    cl_screen c = (area0, Table [line] column_widths header_row block 1) # others \<and>
    map fst (cells line) = [txt_of ''7'', row_name r, txt_of ''0 B'', txt_of ''0 B'', txt_of ''0 B'']"
proof -
  obtain st r frame d' where built: "collect_tick idle_map
      (d_events demo_announced @ List.map_filter (parse_proc_event no_procfs) [])
      (content (d_state demo_announced)) = (st, [r])" "row_pid r = 7"
    "build_snapshot encode_snapshot no_procfs idle_map ([], None :: unit option) demo_announced = (Continue 1000, d')"
    "d_buf d' = Some frame" and idle: "row_tcp r = ProtocolStats_default" "row_udp r = ProtocolStats_default"
    by (rule demo_announced_builds)
  let ?c = "demo_client \<lparr>pending_bytes = frame @ [], ending = None\<rparr>"
  have ready: "cl_phase ?c = Receive" "cl_rx ?c = []" "\<not> paused (cl_state ?c)"
    "draw_error (demo_terminal KeyCode_Esc) = None" "view_mode (cl_state ?c) = Live"
    by (simp_all add: demo_client_def TuiState_new_def demo_terminal_def)
  moreover have "r \<in> set [r]" "passes_filter (cl_state ?c) (row_pid r, row_name r, row_total r)"
    by (simp_all add: demo_client_def TuiState_new_def passes_filter_def filter_keeps_def)
  ultimately obtain c' p where c': "c' = main_step stacking_lib encode_command (demo_terminal KeyCode_Esc)
      (main_step stacking_lib encode_command (demo_terminal KeyCode_Esc)
        (main_step stacking_lib encode_command (demo_terminal KeyCode_Esc)
          (reader_iteration decode_snapshot \<lparr>pending_bytes = frame @ [], ending = None\<rparr> ?c)))"
    "cl_phase c' = Await" "snap_rows (cl_snap c') = [r]" "p < length (view (cl_state c'))"
    and line: "scroll_offset (cl_state c') \<le> p \<and> p < scroll_offset (cl_state c') + unat (visible_rows (cl_state c')) \<longrightarrow>
        (\<exists>area0 lines block others.
          cl_screen c' = (area0, Table lines column_widths header_row block 1) # others \<and>
          p - scroll_offset (cl_state c') < length lines \<and>
          line_shows (unit (cl_state c')) (largest_total (cl_snap c') (cl_state c'))
            (p = selected (cl_state c'))
            (row_pid r, row_name r,
             capped_sum (sent (pbytes (row_tcp r))) (sent (pbytes (row_udp r))),
             capped_sum (recv (pbytes (row_tcp r))) (recv (pbytes (row_udp r))))
            (lines ! (p - scroll_offset (cl_state c'))))"
    using rows_reach_screen [OF stacking.terminal_library_axioms built(1,3,4) _ _ _ _ _ refl, of ?c
        "demo_terminal KeyCode_Esc" r encode_command "[]" None]
    by blast
  have drawn: "render stacking_lib demo_area (cl_snap c') (cl_state ?c) = Some (cl_state c', cl_screen c')"
    using demo_announced_drawn [OF built(1,3,4) ready c'(1)] by (simp add: demo_terminal_def)
  have ne: "view (cl_state c') \<noteq> []" using c'(4) by auto
  have one: "length (view (cl_state c')) \<le> 1"
    using view_no_longer [OF stacking.terminal_library_axioms drawn ready(5)] c'(3) by simp
  then have p: "p = 0" "length (view (cl_state c')) = 1" using c'(4) by simp_all
  have window: "visible_rows (cl_state c') = 20" "scroll_offset (cl_state c') = 0" "unit (cl_state c') = Unit_Auto"
    using demo_window [OF drawn ne] p(2) by (simp_all add: demo_client_def TuiState_new_def)
  from window_shown [OF stacking.terminal_library_axioms drawn ne] p window line obtain area0 l block others where
    "cl_screen c' = (area0, Table [l] column_widths header_row block 1) # others"
    "map fst (cells l) = [decimal (unat (row_pid r)), row_name r, format_bytes 0 Unit_Auto,
       format_bytes 0 Unit_Auto, format_bytes 0 Unit_Auto]"
    by (auto simp: length_Suc_conv line_shows_def idle ProtocolStats_default_def StatsBytes_default_def
        capped_sum_def)
  with c'(2,3) built(2) show ?thesis
    by (intro exI [of _ c'] exI [of _ r]) (auto simp: format_bytes_def txt_of_def decimal_rec [of 7] decimal_rec [of 0])
qed

text \<open>
  C23. A command given on the command line reaches the daemon: the client connects, writes one
  message, returns success and closes, and the daemon's thread for that connection, if its calls on
  the stream succeed and the state's lock is sound, reads exactly this command. Unless it is \<open>run\<close>, it
  is applied to the shared state and the thread ends without registering a client; an interval that
  the command line accepts, from 100 to 5000 ms, becomes the daemon's interval as it is. With \<open>run\<close>,
  which the command line accepts too, the state stays as it is, but the daemon takes the closed
  connection for a client: it starts a reader thread, which ends at once, and registers a sender.
\<close>

theorem one_shot_command:
  assumes "daemon_inv (content m)" and "\<not> poisoned m"
    and "clone_ok env" "read_timeout_ok env" "clear_timeout_ok env"
  shows "\<exists>frame.
    start_client encode_command (\<lambda>_. None) (Inr ()) None (Some (Command_Daemon cmd)) incoming =
      Inl (Returned (Inr ()), frame) \<and>
    (cmd \<noteq> Run \<longrightarrow> (\<exists>d'.
      handle_connection decode_command env \<lparr>pending_bytes = frame, ending = None\<rparr> m =
        (m\<lparr>content := d'\<rparr>, CommandDone) \<and>
      update (content m) cmd = Some d' \<and>
      (\<forall>v. cmd = Interval v \<and> interval_argument v \<longrightarrow> interval d' = v))) \<and>
    (cmd = Run \<longrightarrow>
      handle_connection decode_command env \<lparr>pending_bytes = frame, ending = None\<rparr> m =
        (m, Reading \<lparr>pending_bytes = [], ending = None\<rparr>) \<and>
      reader_step decode_command \<lparr>pending_bytes = [], ending = None\<rparr> m = (m, None) \<and>
      (\<not> poisoned senders \<longrightarrow>
        content (register_client True senders) = content senders @ [new_channel]))"
proof -
  obtain frame where frame: "write_msg encode_command cmd = Inr frame"
    by (cases cmd) (simp_all add: write_msg_def PREFIX_LEN_def)
  have read: "read_msg decode_command \<lparr>pending_bytes = frame, ending = None\<rparr> =
      (Inr cmd, \<lparr>pending_bytes = [], ending = None\<rparr>)"
    using command_codec.read_msg_frame [OF frame, of "[]" None] by simp
  have "start_client encode_command (\<lambda>_. None) (Inr ()) None (Some (Command_Daemon cmd)) incoming =
      Inl (Returned (Inr ()), frame)"
    by (simp add: start_client_def send_daemon_command_def frame)
  moreover have "\<exists>d'. handle_connection decode_command env \<lparr>pending_bytes = frame, ending = None\<rparr> m =
        (m\<lparr>content := d'\<rparr>, CommandDone) \<and> update (content m) cmd = Some d' \<and>
      (\<forall>v. cmd = Interval v \<and> interval_argument v \<longrightarrow> interval d' = v)" if other: "cmd \<noteq> Run"
  proof -
    obtain d' where d': "update (content m) cmd = Some d'"
      using update_total [of "content m" cmd] other by auto
    moreover have "handle_connection decode_command env \<lparr>pending_bytes = frame, ending = None\<rparr> m =
        (m\<lparr>content := d'\<rparr>, CommandDone)"
      using read assms(2-5) other d' by (simp add: handle_connection_def lock_and_update_def)
    moreover have "interval d' = v" if "cmd = Interval v" "interval_argument v" for v
      using that d' by (auto simp: interval_argument_def set_interval_def clamp_def interval_bounds word_less_nat_alt)
    ultimately show ?thesis by blast
  qed
  moreover have "handle_connection decode_command env \<lparr>pending_bytes = frame, ending = None\<rparr> m =
        (m, Reading \<lparr>pending_bytes = [], ending = None\<rparr>)" if "cmd = Run"
    using read assms(3-5) that by (simp add: handle_connection_def after_into_inner_def)
  moreover have "reader_step decode_command \<lparr>pending_bytes = [], ending = None\<rparr> m = (m, None)"
    by (simp add: reader_step_def read_msg_def read_exact_or_eof_def read_exact_def PREFIX_LEN_def)
  moreover have "content (register_client True senders) = content senders @ [new_channel]"
    if "\<not> poisoned senders"
    using that by (simp add: register_client_def)
  ultimately show ?thesis by blast
qed

theorem one_shot_command_witness:
  "\<exists>frame d'. start_client encode_command (\<lambda>_. None) (Inr ()) None (Some (Command_Daemon (Interval 250)))
      \<lparr>pending_bytes = [], ending = None\<rparr> = Inl (Returned (Inr ()), frame) \<and>
    fst (handle_connection decode_command demo_env \<lparr>pending_bytes = frame, ending = None\<rparr>
      (d_state daemon_init)) = \<lparr>poisoned = False, content = d'\<rparr> \<and>
    interval d' = 250"
  using one_shot_command [of "d_state daemon_init" demo_env "Interval 250"
      "\<lparr>pending_bytes = [], ending = None\<rparr>" "d_senders daemon_init"] daemon_default_inv
  by (auto simp: daemon_init_def demo_env_def interval_argument_def)

text \<open>
  The filter by name ignores the case of ASCII letters, because the daemon records names in lower
  case and the client lowers the filter: the row of a process that was started under some name passes
  a filter exactly when the filter's text occurs in that name up to case.
\<close>

lemma name_filter_ignores_case:
  assumes "collector_inv c" and "r \<in> set (snd (collect_rows m (apply_event c ev)))"
    and "row_pid r = evt_pid ev" and "filter_target s = FilterTarget_Name" and "filter_text s \<noteq> []"
  shows "passes_filter s (row_pid r, row_name r, row_total r) \<longleftrightarrow>
    (\<exists>before occurrence after. evt_name ev = before @ occurrence @ after \<and>
      make_ascii_lowercase occurrence = make_ascii_lowercase (filter_text s))"
proof -
  have inv: "collector_inv (apply_event c ev)" using assms(1) by (rule apply_event_inv)
  obtain live where live: "mset live = filter_mset (alive m) (mset (procs (apply_event c ev)))"
    "snd (collect_rows m (apply_event c ev)) = map (\<lambda>p. row_for (stats_of m p) p) live"
    using collect_rows_spec [of "apply_event c ev" m] inv by (auto simp: collector_inv_def)
  obtain p where p: "p \<in> set live" "r = row_for (stats_of m p) p" using assms(2) live(2) by auto
  have "p \<in># mset live" using p(1) by simp
  then have mem: "p \<in> set (procs (apply_event c ev))" unfolding live(1) by simp
  have "pi_pid p = evt_pid ev" using assms(3) p(2) by (simp add: row_for_def)
  then have "proc_of (apply_event c ev) (evt_pid ev) = Some p"
    unfolding proc_of_def using inv mem by (intro find_unique) (simp_all add: collector_inv_def)
  then have "row_name r = make_ascii_lowercase (evt_name ev)"
    using p(2) by (auto simp: apply_event_proc_of row_for_def)
  then show ?thesis
    using assms(4,5) by (simp add: passes_filter_def filter_keeps_def contains_lowercase)
qed

end
