(* ===== verification/Subscription.thy ===== *)
theory Subscription
  imports Client App "HOL-Library.Sublist"
begin

text \<open>
  One subscription from end to end. The steps of the daemon are watched with respect to one client:
  which snapshots the main loop has built, which of them it distributed while the client's sender was
  registered, and which frames the client's writer thread has written to the socket. The history is
  kept beside the daemon and changes nothing in it. Together with the client's reader and main loop
  this gives what the screen can show of what the daemon collected.
\<close>

section \<open>The watched daemon\<close>

record watch =
  w_daemon :: daemon
  w_built :: "SnapshotData list"
  w_client :: "nat option"
  w_since :: nat
  w_passed :: "SnapshotData list"
  w_missed :: bool
  w_written :: "bytes list"

definition watch_init :: watch where
  "watch_init = \<lparr>w_daemon = daemon_init, w_built = [], w_client = None, w_since = 0,
     w_passed = [], w_missed = False, w_written = []\<rparr>"

abbreviation senders :: "watch \<Rightarrow> client_chan list" where
  "senders w \<equiv> content (d_senders (w_daemon w))"

text \<open>
  Distribution drops the senders whose receiver is gone, so the position of the watched one can
  change, or the watched one is dropped itself.
\<close>

definition position_after :: "client_chan list \<Rightarrow> nat \<Rightarrow> nat option" where
  "position_after chs i =
     (if ch_open (chs ! i) then Some (length (filter ch_open (take i chs))) else None)"

definition note_sent :: "watch \<Rightarrow> watch" where
  "note_sent w =
     (case w_client w of
        None \<Rightarrow> w
      | Some i \<Rightarrow>
          w\<lparr>w_client := position_after (senders w) i, w_passed := w_passed w @ [last (w_built w)],
            w_missed := w_missed w \<or> CHANNEL_BOUND \<le> length (ch_queue (senders w ! i))\<rparr>)"

definition note_written :: "nat \<Rightarrow> bytes option \<Rightarrow> watch \<Rightarrow> watch" where
  "note_written i out w =
     (case out of
        None \<Rightarrow> w
      | Some data \<Rightarrow> if w_client w = Some i then w\<lparr>w_written := w_written w @ [data]\<rparr> else w)"

text \<open>The snapshots distributed so far: all that were built, but for one still to be sent.\<close>

definition distributed :: "watch \<Rightarrow> SnapshotData list" where
  "distributed w = (if d_buf (w_daemon w) = None then w_built w else butlast (w_built w))"

text \<open>
  The steps of the daemon with their effect on the history. A subscribing client may become the
  watched one; \<open>w_since\<close> is the number of snapshots distributed by then.
\<close>

inductive watch_step ::
    "(SnapshotData \<Rightarrow> 'b + bytes) \<Rightarrow> (bytes \<Rightarrow> 'c + DaemonCommand) \<Rightarrow> watch \<Rightarrow> watch \<Rightarrow> bool"
  for serialize :: "SnapshotData \<Rightarrow> 'b + bytes" and deserialize :: "bytes \<Rightarrow> 'c + DaemonCommand" where
  connect: "d = w_daemon w \<Longrightarrow>
     handle_connection deserialize env stream (d_state d) = (m, out) \<Longrightarrow>
     watch_step serialize deserialize w
       (w\<lparr>w_daemon := d\<lparr>d_state := m, d_readers := d_readers d @ new_readers out,
          d_joining := d_joining d + length (new_readers out)\<rparr>\<rparr>)"
| join: "d = w_daemon w \<Longrightarrow> 0 < d_joining d \<Longrightarrow>
     watch_step serialize deserialize w
       (w\<lparr>w_daemon := d\<lparr>d_senders := register_client timeout_ok (d_senders d),
          d_joining := d_joining d - 1\<rparr>\<rparr>)"
| subscribe: "d = w_daemon w \<Longrightarrow> 0 < d_joining d \<Longrightarrow> \<not> poisoned (d_senders d) \<Longrightarrow>
     watch_step serialize deserialize w
       \<lparr>w_daemon = d\<lparr>d_senders := register_client True (d_senders d), d_joining := d_joining d - 1\<rparr>,
        w_built = w_built w, w_client = Some (length (content (d_senders d))),
        w_since = length (distributed w), w_passed = [], w_missed = False, w_written = []\<rparr>"
| read: "d = w_daemon w \<Longrightarrow>
     i < length (d_readers d) \<Longrightarrow> reader_step deserialize (d_readers d ! i) (d_state d) = (m, r) \<Longrightarrow>
     watch_step serialize deserialize w
       (w\<lparr>w_daemon := d\<lparr>d_state := m, d_readers := reader_update i r (d_readers d)\<rparr>\<rparr>)"
| deliver: "d = w_daemon w \<Longrightarrow>
     i < length (content (d_senders d)) \<Longrightarrow>
     writer_step write_ok (content (d_senders d) ! i) = (ch, out) \<Longrightarrow>
     watch_step serialize deserialize w
       (note_written i out w\<lparr>w_daemon :=
          d\<lparr>d_senders := (d_senders d)\<lparr>content := (content (d_senders d))[i := ch]\<rparr>\<rparr>\<rparr>)"
| build: "d = w_daemon w \<Longrightarrow> d_buf d = None \<Longrightarrow>
     build_snapshot serialize fs lookup (records, None :: unit option) d = (Continue timeout, d') \<Longrightarrow>
     collect_tick lookup (d_events d @ List.map_filter (parse_proc_event fs) records)
       (content (d_state d)) = (st, rows) \<Longrightarrow>
     watch_step serialize deserialize w
       (w\<lparr>w_daemon := d', w_built := w_built w @ [snapshot_of (content (d_state d')) rows]\<rparr>)"
| send: "d = w_daemon w \<Longrightarrow> d_buf d \<noteq> None \<Longrightarrow> distribute d = (Inr (), d') \<Longrightarrow>
     watch_step serialize deserialize w (note_sent w\<lparr>w_daemon := d'\<rparr>)"

inductive_cases watch_stepE: "watch_step serialize deserialize w w'"

text \<open>Watching neither adds steps to the daemon nor takes any away.\<close>

lemma note_daemon [simp]:
  "w_daemon (note_sent w) = w_daemon w" "w_daemon (note_written i out w) = w_daemon w"
  by (simp_all add: note_sent_def note_written_def split: option.split)

lemma watch_step_daemon:
  assumes "watch_step serialize deserialize w w'"
  shows "daemon_step serialize deserialize (w_daemon w) (w_daemon w')"
  using assms
proof cases
  case (subscribe d)
  then show ?thesis using daemon_step.join [of d serialize deserialize True] by simp
next
  case (join d timeout_ok)
  then show ?thesis using daemon_step.join [of d serialize deserialize timeout_ok] by simp
qed (auto intro: daemon_step.intros)

lemma daemon_step_watched:
  assumes "daemon_step serialize deserialize (w_daemon w) d'"
  shows "\<exists>w'. watch_step serialize deserialize w w' \<and> w_daemon w' = d'"
  using assms
proof cases
  case (connect env stream m out)
  then show ?thesis using watch_step.connect [OF refl connect(2), of serialize] by auto
next
  case (join timeout_ok)
  then show ?thesis using watch_step.join [OF refl join(2), of serialize deserialize timeout_ok] by auto
next
  case (read i m r)
  then show ?thesis using watch_step.read [OF refl read(2,3), of serialize] by auto
next
  case (deliver i write_ok ch sent_data)
  then show ?thesis using watch_step.deliver [OF refl deliver(2,3), of serialize deserialize] by auto
next
  case (build fs lookup records timeout)
  obtain st rows where "collect_tick lookup (d_events (w_daemon w) @
      List.map_filter (parse_proc_event fs) records) (content (d_state (w_daemon w))) = (st, rows)"
    by fastforce
  from watch_step.build [OF refl build this, of deserialize] show ?thesis by auto
next
  case send
  then show ?thesis using watch_step.send [OF refl send, of serialize deserialize] by auto
qed

section \<open>The history along a run\<close>

abbreviation framed :: "('a \<Rightarrow> 'b + bytes) \<Rightarrow> 'a list \<Rightarrow> bytes list \<Rightarrow> bool" where
  "framed serialize \<equiv> list_all2 (\<lambda>x frame. write_msg serialize x = Inr frame)"

text \<open>
  The frames that wait for the watched client, the one being written and those in its channel, and
  whether it is still connected and no distribution found its channel full.
\<close>

definition unwritten :: "client_chan \<Rightarrow> bytes list" where
  "unwritten ch = (case ch_writing ch of None \<Rightarrow> [] | Some data \<Rightarrow> [data]) @ ch_queue ch"

definition waiting :: "watch \<Rightarrow> bytes list" where
  "waiting w = (case w_client w of None \<Rightarrow> [] | Some i \<Rightarrow> unwritten (senders w ! i))"

definition keeps_up :: "watch \<Rightarrow> bool" where
  "keeps_up w \<longleftrightarrow> \<not> w_missed w \<and> (case w_client w of None \<Rightarrow> False | Some i \<Rightarrow> ch_open (senders w ! i))"

definition history_inv :: "(SnapshotData \<Rightarrow> 'b + bytes) \<Rightarrow> watch \<Rightarrow> bool" where
  "history_inv serialize w \<longleftrightarrow>
     (\<forall>buf. d_buf (w_daemon w) = Some buf \<longrightarrow>
       w_built w \<noteq> [] \<and> write_msg serialize (last (w_built w)) = Inr buf) \<and>
     (\<forall>i. w_client w = Some i \<longrightarrow> i < length (senders w) \<and> w_since w \<le> length (distributed w) \<and>
       w_passed w = drop (w_since w) (distributed w)) \<and>
     subseq (w_passed w) (distributed w) \<and>
     (\<exists>xs. framed serialize xs (w_written w @ waiting w) \<and> subseq xs (w_passed w) \<and>
       (keeps_up w \<longrightarrow> xs = w_passed w))"

lemma watch_init_inv: "history_inv serialize watch_init"
  by (simp add: history_inv_def watch_init_def daemon_init_def distributed_def waiting_def)

text \<open>A step that leaves the channels and the serialised snapshot alone keeps the history.\<close>

lemma history_frame:
  assumes "history_inv serialize w"
    and "d_buf d' = d_buf (w_daemon w)" and "content (d_senders d') = senders w @ new"
  shows "history_inv serialize (w\<lparr>w_daemon := d'\<rparr>)"
proof -
  have same: "content (d_senders d') ! i = senders w ! i" if "w_client w = Some i" for i
    using assms(1,3) that by (simp add: history_inv_def nth_append)
  then have "waiting (w\<lparr>w_daemon := d'\<rparr>) = waiting w" "keeps_up (w\<lparr>w_daemon := d'\<rparr>) = keeps_up w"
    by (auto simp: waiting_def keeps_up_def split: option.split)
  moreover have "distributed (w\<lparr>w_daemon := d'\<rparr>) = distributed w"
    by (simp add: distributed_def assms(2))
  ultimately show ?thesis using assms(1) by (auto simp: history_inv_def assms(2,3))
qed

lemma register_client_senders:
  "content (register_client ok s) = content s @ (if ok \<and> \<not> poisoned s then [new_channel] else [])"
  by (simp add: register_client_def)

lemma subscribe_history:
  assumes "history_inv serialize w"
    and "content s = senders w @ [new_channel]"
  shows "history_inv serialize
    \<lparr>w_daemon = (w_daemon w)\<lparr>d_senders := s, d_joining := n\<rparr>, w_built = w_built w,
     w_client = Some (length (senders w)), w_since = length (distributed w), w_passed = [],
     w_missed = False, w_written = []\<rparr>"
  using assms by (simp add: history_inv_def distributed_def waiting_def unwritten_def new_channel_def)

text \<open>What was written is still in order when the waiting frames are dropped.\<close>

lemma framed_written:
  assumes "framed serialize xs (written @ queue)" and "subseq xs ys"
  shows "\<exists>us. framed serialize us written \<and> subseq us ys"
proof -
  obtain us vs where us: "xs = us @ vs" "framed serialize us written"
    using assms(1) by (auto simp: list_all2_append2)
  have "subseq us xs" unfolding us(1) by (intro prefix_imp_subseq prefixI) simp
  from subseq_order.trans [OF this assms(2)] us(2) show ?thesis by blast
qed

lemma writer_step_cases:
  assumes "writer_step write_ok ch = (ch', out)"
  obtains (idle) "ch' = ch" "out = None"
  | (taken) data rest where "ch_open ch" "ch_writing ch = None" "ch_queue ch = data # rest"
      "ch' = ch\<lparr>ch_queue := rest, ch_writing := Some data\<rparr>" "out = None"
  | (written) data where "ch_open ch" "ch_writing ch = Some data" "ch' = ch\<lparr>ch_writing := None\<rparr>"
      "out = Some data"
  | (failed) "ch' = ch\<lparr>ch_queue := [], ch_writing := None, ch_open := False\<rparr>" "out = None"
proof -
  consider "\<not> ch_open ch \<or> ch_writing ch = None \<and> ch_queue ch = []"
    | d rest where "ch_open ch" "ch_writing ch = None" "ch_queue ch = d # rest"
    | d where "ch_open ch" "ch_writing ch = Some d" "write_ok"
    | d where "ch_open ch" "ch_writing ch = Some d" "\<not> write_ok"
    by (cases "ch_writing ch"; cases "ch_queue ch") blast+
  then show thesis
  proof cases
    case 1
    then have "(ch', out) = (ch, None)"
      unfolding assms [symmetric] by (auto simp: writer_step_def split: option.splits)
    then show thesis by (intro idle) simp_all
  next
    case 2
    then have "(ch', out) = (ch\<lparr>ch_queue := rest, ch_writing := Some d\<rparr>, None)"
      unfolding assms [symmetric] by (simp add: writer_step_def)
    with 2 show thesis by (intro taken [of d rest]) simp_all
  next
    case 3
    then have "(ch', out) = (ch\<lparr>ch_writing := None\<rparr>, Some d)"
      unfolding assms [symmetric] by (simp add: writer_step_def)
    with 3 show thesis by (intro written [of d]) simp_all
  next
    case 4
    then have "(ch', out) = (ch\<lparr>ch_queue := [], ch_writing := None, ch_open := False\<rparr>, None)"
      unfolding assms [symmetric] by (simp add: writer_step_def)
    then show thesis by (intro failed) simp_all
  qed
qed

lemma deliver_history:
  assumes inv: "history_inv serialize w" and i: "i < length (senders w)"
    and step: "writer_step write_ok (senders w ! i) = (ch, out)"
  shows "history_inv serialize (note_written i out w\<lparr>w_daemon := (w_daemon w)
    \<lparr>d_senders := (d_senders (w_daemon w))\<lparr>content := (senders w)[i := ch]\<rparr>\<rparr>\<rparr>)"
    (is "history_inv serialize ?w")
proof (cases "w_client w = Some i")
  case False
  then have n: "note_written i out w = w" by (simp add: note_written_def split: option.split)
  have "waiting ?w = waiting w" "keeps_up ?w = keeps_up w"
    using False by (auto simp: n waiting_def keeps_up_def split: option.split)
  moreover have "distributed ?w = distributed w" by (simp add: n distributed_def)
  ultimately show ?thesis using inv by (auto simp: n history_inv_def)
next
  case True
  obtain xs where xs: "framed serialize xs (w_written w @ waiting w)" "subseq xs (w_passed w)"
    "keeps_up w \<longrightarrow> xs = w_passed w"
    using inv by (auto simp: history_inv_def)
  have w': "distributed ?w = distributed w" "w_passed ?w = w_passed w" "w_client ?w = Some i"
    "w_since ?w = w_since w" "w_built ?w = w_built w" "length (senders ?w) = length (senders w)" "d_buf (w_daemon ?w) = d_buf (w_daemon w)"
    using True by (simp_all add: note_written_def distributed_def split: option.split)
  consider "w_written ?w @ waiting ?w = w_written w @ waiting w" "keeps_up ?w = keeps_up w"
    | "w_written ?w @ waiting ?w = w_written w" "\<not> keeps_up ?w"
    using step
    by (cases rule: writer_step_cases)
      (use True i in \<open>auto simp: waiting_def keeps_up_def note_written_def unwritten_def\<close>)
  then have "\<exists>ys. framed serialize ys (w_written ?w @ waiting ?w) \<and> subseq ys (w_passed w) \<and>
    (keeps_up ?w \<longrightarrow> ys = w_passed w)"
  proof cases
    case 1
    with xs show ?thesis by metis
  next
    case 2
    with framed_written [OF xs(1,2)] show ?thesis by metis
  qed
  with inv True show ?thesis unfolding history_inv_def w' by blast
qed

lemma build_history:
  assumes "history_inv serialize w" and "d_buf (w_daemon w) = None"
    and "d_buf d' = Some buf" "d_senders d' = d_senders (w_daemon w)" "write_msg serialize x = Inr buf"
  shows "history_inv serialize (w\<lparr>w_daemon := d', w_built := w_built w @ [x]\<rparr>)" (is "history_inv serialize ?w")
proof -
  have "waiting ?w = waiting w" "keeps_up ?w = keeps_up w" "distributed ?w = distributed w"
    using assms(2-4) by (simp_all add: waiting_def keeps_up_def distributed_def split: option.split)
  then show ?thesis using assms by (auto simp: history_inv_def)
qed

lemma filter_position:
  assumes "i < length xs" and "P (xs ! i)"
  shows "length (filter P (take i xs)) < length (filter P xs)"
    and "filter P xs ! length (filter P (take i xs)) = xs ! i"
proof -
  have "filter P xs = filter P (take i xs) @ xs ! i # filter P (drop (Suc i) xs)"
    using assms by (subst id_take_nth_drop [of i xs]) simp_all
  then show "length (filter P (take i xs)) < length (filter P xs)"
    and "filter P xs ! length (filter P (take i xs)) = xs ! i"
    by (simp_all add: nth_append)
qed

text \<open>The watched channel in a distribution: it is dropped, too full, or takes the snapshot.\<close>

lemma sent_cases:
  assumes "i < length chs" and "retain_send chs buf = chs'"
  obtains (dropped) "\<not> ch_open (chs ! i)" "position_after chs i = None"
  | (full) p where "position_after chs i = Some p" "p < length chs'" "chs' ! p = chs ! i"
      "CHANNEL_BOUND \<le> length (ch_queue (chs ! i))"
  | (taken) p where "position_after chs i = Some p" "p < length chs'" "ch_open (chs ! i)"
      "chs' ! p = (chs ! i)\<lparr>ch_queue := ch_queue (chs ! i) @ [buf]\<rparr>"
      "length (ch_queue (chs ! i)) < CHANNEL_BOUND"
proof (cases "ch_open (chs ! i)")
  case False
  then show thesis by (intro dropped) (simp_all add: position_after_def)
next
  case True
  define p where "p = length (filter ch_open (take i chs))"
  have p: "position_after chs i = Some p" "p < length chs'" "chs' ! p = snd (try_send (chs ! i) buf)"
    using True filter_position [OF assms(1), of ch_open] assms(2) [symmetric]
    by (simp_all add: position_after_def p_def retain_send_eq)
  with True show thesis
    by (cases "CHANNEL_BOUND \<le> length (ch_queue (chs ! i))")
      (auto simp: try_send_def intro: full [of p] taken [of p])
qed

lemma sent_frames:
  assumes i: "w_client w = Some i" "i < length (senders w)"
    and chs: "retain_send (senders w) buf = content (d_senders d')"
    and x: "write_msg serialize x = Inr buf"
    and xs: "framed serialize xs (w_written w @ waiting w)" "subseq xs ys" "keeps_up w \<longrightarrow> xs = ys"
    and w': "w' = note_sent w\<lparr>w_daemon := d'\<rparr>"
  shows "(\<exists>zs. framed serialize zs (w_written w @ waiting w') \<and> subseq zs (ys @ [x]) \<and>
      (keeps_up w' \<longrightarrow> zs = ys @ [x])) \<and>
    (\<forall>j. w_client w' = Some j \<longrightarrow> j < length (senders w'))"
proof -
  have client: "w_client w' = position_after (senders w) i" using i(1) by (simp add: w' note_sent_def)
  note defs = waiting_def unwritten_def keeps_up_def note_sent_def w' i(1)
  show ?thesis
    using i(2) chs
  proof (cases rule: sent_cases)
    case dropped
    then have "waiting w' = []" "\<not> keeps_up w'" "w_client w' = None"
      using client by (simp_all add: waiting_def keeps_up_def)
    with framed_written [OF xs(1,2)] show ?thesis by (auto intro: subseq_rev_drop_many)
  next
    case (full p)
    then have "waiting w' = waiting w" "\<not> keeps_up w'" by (simp_all add: defs)
    with xs full client show ?thesis by (auto simp: w' intro: subseq_rev_drop_many)
  next
    case (taken p)
    then have "waiting w' = waiting w @ [buf]" "keeps_up w' \<longrightarrow> keeps_up w" by (auto simp: defs)
    with xs x have "framed serialize (xs @ [x]) (w_written w @ waiting w')" "subseq (xs @ [x]) (ys @ [x])"
      "keeps_up w' \<longrightarrow> xs @ [x] = ys @ [x]"
      by (auto simp: list_all2_appendI simp flip: append_assoc)
    with taken client show ?thesis by (auto simp: w')
  qed
qed

lemma send_history:
  assumes inv: "history_inv serialize w" and buf: "d_buf (w_daemon w) = Some buf"
    and d': "distribute (w_daemon w) = (Inr (), d')"
  shows "history_inv serialize (note_sent w\<lparr>w_daemon := d'\<rparr>)" (is "history_inv serialize ?w")
proof -
  define x where "x = last (w_built w)"
  have x: "write_msg serialize x = Inr buf" "w_built w = distributed w @ [x]"
    using inv buf by (simp_all add: history_inv_def distributed_def x_def)
  have chs: "d_buf d' = None" "retain_send (senders w) buf = content (d_senders d')"
    using d' buf by (auto simp: distribute_def update_streams_def split: prod.splits if_splits)
  obtain xs where xs: "framed serialize xs (w_written w @ waiting w)" "subseq xs (w_passed w)"
    "keeps_up w \<longrightarrow> xs = w_passed w"
    using inv by (auto simp: history_inv_def)
  have dist: "distributed ?w = distributed w @ [x]" "w_written ?w = w_written w"
    using chs(1) x(2) by (simp_all add: distributed_def note_sent_def split: option.split)
  show ?thesis
  proof (cases "w_client w")
    case None
    then have "note_sent w = w" by (simp add: note_sent_def)
    with None inv dist chs(1) show ?thesis
      by (auto simp: history_inv_def waiting_def keeps_up_def subseq_rev_drop_many)
  next
    case (Some i)
    have "w_passed ?w = w_passed w @ [x]" "w_since ?w = w_since w"
      using Some by (simp_all add: note_sent_def x_def)
    moreover have i: "i < length (senders w)" "w_since w \<le> length (distributed ?w)"
      "w_passed w @ [x] = drop (w_since w) (distributed ?w)"
      "subseq (w_passed w @ [x]) (distributed ?w)"
      using inv Some by (auto simp: history_inv_def dist)
    ultimately show ?thesis
      using sent_frames [OF Some i(1) chs(2) x(1) xs refl] chs(1) by (simp add: history_inv_def dist(2))
  qed
qed

lemma watch_step_inv:
  assumes "watch_step serialize deserialize w w'" and "history_inv serialize w"
  shows "history_inv serialize w'"
  using assms(1)
proof cases
  case (connect d env stream m out)
  then show ?thesis using history_frame [OF assms(2), where new = "[]"] by simp
next
  case (join d timeout_ok)
  then show ?thesis
    using history_frame [OF assms(2)] by (simp add: register_client_senders)
next
  case (subscribe d)
  then show ?thesis
    using subscribe_history [OF assms(2)] by (simp add: register_client_senders)
next
  case (read d i m r)
  then show ?thesis using history_frame [OF assms(2), where new = "[]"] by simp
next
  case (deliver d i write_ok ch out)
  then show ?thesis using deliver_history [OF assms(2)] by simp
next
  case (build d fs lookup records timeout d' st rows)
  then show ?thesis using build_history [OF assms(2)] build_continues [OF build(4,5)] by blast
next
  case (send d d')
  then show ?thesis using send_history [OF assms(2)] by auto
qed

lemma watched_inv:
  "(watch_step serialize deserialize)\<^sup>*\<^sup>* watch_init w \<Longrightarrow> history_inv serialize w"
  by (induction rule: rtranclp_induct) (auto intro: watch_init_inv watch_step_inv)

lemma watched_daemon:
  assumes "(watch_step serialize deserialize)\<^sup>*\<^sup>* watch_init w"
  shows "(daemon_step serialize deserialize)\<^sup>*\<^sup>* daemon_init (w_daemon w)"
  using assms
proof (induction rule: rtranclp_induct)
  case base
  show ?case by (simp add: watch_init_def)
next
  case (step w w')
  then show ?case using watch_step_daemon by (meson rtranclp.rtrancl_into_rtrancl)
qed

lemma distributed_built: "subseq (distributed w) (w_built w)"
  by (simp add: distributed_def prefix_imp_subseq prefixeq_butlast)

text \<open>Two positions of a subsequence, in order, are two positions of the sequence in order.\<close>

lemma subseq_positions:
  assumes "subseq xs ys" and "m \<le> n" and "n < length xs"
  shows "\<exists>i j. i \<le> j \<and> j < length ys \<and> xs ! m = ys ! i \<and> xs ! n = ys ! j"
  using assms
proof (induction arbitrary: m n rule: list_emb.induct)
  case (list_emb_Nil ys)
  then show ?case by simp
next
  case (list_emb_Cons xs ys y)
  then obtain i j where "i \<le> j" "j < length ys" "xs ! m = ys ! i" "xs ! n = ys ! j" by blast
  then show ?case by (intro exI [of _ "Suc i"] exI [of _ "Suc j"]) simp
next
  case (list_emb_Cons2 x y xs ys)
  show ?case
  proof (cases m)
    case 0
    have "\<exists>j < length (y # ys). (x # xs) ! n = (y # ys) ! j"
      using list_emb_Cons2.IH [of "n - 1" "n - 1"] list_emb_Cons2.hyps(1) list_emb_Cons2.prems(2)
      by (cases n) auto
    with 0 list_emb_Cons2.hyps(1) show ?thesis by fastforce
  next
    case (Suc m')
    then obtain n' where n: "n = Suc n'" "m' \<le> n'" "n' < length xs"
      using list_emb_Cons2.prems by (cases n) auto
    then obtain i j where "i \<le> j" "j < length ys" "xs ! m' = ys ! i" "xs ! n' = ys ! j"
      using list_emb_Cons2.IH by blast
    with Suc n show ?thesis by (intro exI [of _ "Suc i"] exI [of _ "Suc j"]) simp
  qed
qed

section \<open>A run for the witnesses\<close>

text \<open>A client subscribes, the main loop builds and distributes a snapshot, and it is written.\<close>

lemma demo_subscribes:
  "(watch_step serialize decode_command)\<^sup>*\<^sup>* watch_init
     (watch_init\<lparr>w_daemon := demo_connected, w_client := Some 0\<rparr>)"
proof -
  have "watch_step serialize decode_command watch_init (watch_init\<lparr>w_daemon := demo_joining\<rparr>)"
    using watch_step.connect [where w = watch_init and d = daemon_init, OF _ demo_reading, of serialize]
    by (simp add: watch_init_def demo_joining_def daemon_init_def new_readers_def)
  moreover have "watch_step serialize decode_command (watch_init\<lparr>w_daemon := demo_joining\<rparr>)
      (watch_init\<lparr>w_daemon := demo_connected, w_client := Some 0\<rparr>)"
    using watch_step.subscribe [where w = "watch_init\<lparr>w_daemon := demo_joining\<rparr>" and d = demo_joining,
        of serialize decode_command, unfolded demo_registered]
    by (simp add: watch_init_def demo_joining_def daemon_init_def distributed_def)
  ultimately show ?thesis by (rule converse_rtranclp_into_rtranclp [OF _ r_into_rtranclp])
qed

lemma demo_watched:
  obtains frame w where "(watch_step encode_snapshot decode_command)\<^sup>*\<^sup>* watch_init w"
    "write_msg encode_snapshot demo_first_snapshot = Inr frame"
    "w_written w = [frame]" "w_built w = [demo_first_snapshot]" "keeps_up w" "waiting w = []"
    "w_client w = Some 0" "w_since w = 0" "distributed w = [demo_first_snapshot]"
proof -
  obtain frame where f: "write_msg encode_snapshot demo_first_snapshot = Inr frame"
    by (simp add: write_msg_def encode_snapshot_def demo_first_snapshot_def snapshot_ok_def
        put_Snapshot_def put_seq_def put_len_def PREFIX_LEN_def)
  define w0 where "w0 = watch_init\<lparr>w_daemon := demo_connected, w_client := Some 0\<rparr>"
  define st where "st = daemon_default\<lparr>tick := 1\<rparr>"
  have snap: "snapshot_of st [] = demo_first_snapshot"
    by (simp add: snapshot_of_def st_def demo_first_snapshot_def daemon_default_def collector_new_def
        DEFAULT_INTERVAL_MILLIS_def)
  define d1 where "d1 = demo_connected\<lparr>d_events := [], d_state := \<lparr>poisoned = False, content = st\<rparr>,
    d_buf := Some frame\<rparr>"
  have built: "build_snapshot encode_snapshot no_procfs (\<lambda>_. None) ([], None :: unit option) demo_connected =
      (Continue 1000, d1)"
    using build_snapshot_ok [OF _ demo_collect, of encode_snapshot] f snap
    by (simp add: d1_def st_def demo_connected_def daemon_init_def daemon_default_def
        DEFAULT_INTERVAL_MILLIS_def)
  define w1 where "w1 = w0\<lparr>w_daemon := d1, w_built := [demo_first_snapshot]\<rparr>"
  have s1: "watch_step encode_snapshot decode_command w0 w1"
    using watch_step.build [where w = w0 and d = demo_connected, OF _ _ built demo_collect,
        of decode_command] snap
    by (simp add: w1_def w0_def d1_def demo_connected_def daemon_init_def watch_init_def)
  define d2 where "d2 = d1\<lparr>d_senders := \<lparr>poisoned = False,
    content = [new_channel\<lparr>ch_queue := [frame]\<rparr>]\<rparr>, d_buf := None\<rparr>"
  have sent: "distribute d1 = (Inr (), d2)"
    by (simp add: distribute_def d1_def d2_def update_streams_def demo_connected_def try_send_def
        CHANNEL_BOUND_def new_channel_def)
  define w2 where "w2 = note_sent w1\<lparr>w_daemon := d2\<rparr>"
  have s2: "watch_step encode_snapshot decode_command w1 w2"
    unfolding w2_def by (rule watch_step.send [OF refl]) (simp_all add: w1_def sent, simp add: d1_def)
  define d3 where "d3 = d2\<lparr>d_senders := \<lparr>poisoned = False,
    content = [new_channel\<lparr>ch_writing := Some frame\<rparr>]\<rparr>\<rparr>"
  define w2' where "w2' = note_written 0 None w2\<lparr>w_daemon := d3\<rparr>"
  have s2': "watch_step encode_snapshot decode_command w2 w2'"
    using watch_step.deliver [where w = w2 and d = d2 and i = 0 and write_ok = True and out = None and
        ch = "new_channel\<lparr>ch_writing := Some frame\<rparr>" and serialize = encode_snapshot and
        deserialize = decode_command]
    by (simp add: w2'_def w2_def d3_def d2_def writer_step_def new_channel_def)
  define w3 where "w3 = note_written 0 (Some frame) w2'\<lparr>w_daemon := d3\<lparr>d_senders := (d_senders d3)
    \<lparr>content := (content (d_senders d3))[0 := new_channel]\<rparr>\<rparr>\<rparr>"
  have s3: "watch_step encode_snapshot decode_command w2' w3"
    unfolding w3_def
    by (rule watch_step.deliver [where write_ok = True])
      (simp_all add: w2'_def d3_def writer_step_def new_channel_def)
  have "w_written w3 = [frame]" "w_built w3 = [demo_first_snapshot]" "keeps_up w3" "waiting w3 = []"
    "w_client w3 = Some 0" "w_since w3 = 0" "distributed w3 = [demo_first_snapshot]"
    by (simp_all add: distributed_def unwritten_def new_channel_def d3_def w3_def w2'_def w2_def w1_def w0_def watch_init_def note_written_def note_sent_def
        position_after_def d2_def d1_def demo_connected_def keeps_up_def waiting_def CHANNEL_BOUND_def)
  moreover have "(watch_step encode_snapshot decode_command)\<^sup>*\<^sup>* watch_init w3"
    using demo_subscribes [of encode_snapshot, folded w0_def] s1 s2 s2' s3
    by (meson rtranclp.rtrancl_into_rtrancl)
  ultimately show thesis using that f by blast
qed

section \<open>Properties\<close>

text \<open>
  C15. What a subscribed client is sent. Watch any client through any run of the daemon, whatever
  other clients, commands and readers do: the frames written to its socket and those still waiting
  for it, at most four in its channel and one being written, are frames of snapshots the main loop built, in the order it built them and
  none twice; and as long as the client is connected and no distribution found its channel full, they
  are all the snapshots distributed since it subscribed, without a gap: with \<open>w_since\<close> snapshots
  distributed before, exactly the later ones.
\<close>

theorem subscription_in_order:
  assumes "(watch_step serialize deserialize)\<^sup>*\<^sup>* watch_init w"
  shows "\<exists>xs. list_all2 (\<lambda>x frame. write_msg serialize x = Inr frame) xs (w_written w @ waiting w) \<and>
    subseq xs (w_built w) \<and> length (waiting w) \<le> 4 + 1 \<and>
    (keeps_up w \<longrightarrow> xs = drop (w_since w) (distributed w))"
proof -
  have inv: "history_inv serialize w" using assms by (rule watched_inv)
  then obtain xs where xs: "framed serialize xs (w_written w @ waiting w)" "subseq xs (w_passed w)"
    "keeps_up w \<longrightarrow> xs = w_passed w"
    by (auto simp: history_inv_def)
  have "subseq xs (w_built w)"
    using xs(2) inv distributed_built unfolding history_inv_def by (meson subseq_order.trans)
  moreover have "length (waiting w) \<le> 4 + 1"
    using reachable_ok [OF watched_daemon [OF assms]] inv
    by (auto simp: waiting_def unwritten_def daemon_ok_def history_inv_def list_all_length CHANNEL_BOUND_def
        split: option.split)
  moreover have "keeps_up w \<longrightarrow> xs = drop (w_since w) (distributed w)"
    using xs(3) inv by (auto simp: keeps_up_def history_inv_def split: option.splits)
  ultimately show ?thesis using xs(1) by blast
qed

theorem subscription_in_order_witness:
  "\<exists>(w :: watch) frame. (watch_step encode_snapshot decode_command)\<^sup>*\<^sup>* watch_init w \<and>
    w_client w = Some 0 \<and> keeps_up w \<and> w_written w = [frame] \<and> waiting w = [] \<and>
    w_since w = 0 \<and> distributed w = [demo_first_snapshot] \<and>
    write_msg encode_snapshot demo_first_snapshot = Inr frame"
proof -
  obtain frame and w :: watch where w: "(watch_step encode_snapshot decode_command)\<^sup>*\<^sup>* watch_init w"
    "w_written w = [frame]" "keeps_up w" "waiting w = []" "w_client w = Some 0"
    "w_since w = 0" "distributed w = [demo_first_snapshot]"
    by (rule demo_watched)
  from subscription_in_order [OF w(1)] w(3) obtain xs where
    "list_all2 (\<lambda>x frame. write_msg encode_snapshot x = Inr frame) xs [frame]"
    "xs = [demo_first_snapshot]"
    unfolding w(2,4,6,7) by auto
  with w show ?thesis by (intro exI [of _ w] exI [of _ frame]) simp
qed

text \<open>
  C16. The screen follows the daemon. Whatever else happens, and wherever the connection breaks, what
  a subscribed client shows is a snapshot that the daemon built (or the initial empty one), and later
  states of the client never show an earlier snapshot.
\<close>

theorem screen_follows_daemon:
  assumes "(watch_step encode_snapshot deserialize)\<^sup>*\<^sup>* watch_init w"
    and "write_msg encode_snapshot y = Inr frame" and "n < length frame"
    and "start_client serialize write_all connect clone command
      \<lparr>pending_bytes = concat (w_written w) @ take n frame, ending = e\<rparr> = Inr c0"
    and "client_reachable lib serialize decode_snapshot c0 c"
    and "client_reachable lib serialize decode_snapshot c c'"
  shows "\<exists>i j. i \<le> j \<and> j \<le> length (w_built w) \<and> cl_snap c = (SnapshotData_default # w_built w) ! i \<and>
    cl_snap c' = (SnapshotData_default # w_built w) ! j"
proof -
  have inv: "history_inv encode_snapshot w" using assms(1) by (rule watched_inv)
  then obtain zs where "framed encode_snapshot zs (w_written w @ waiting w)" "subseq zs (w_passed w)"
    by (auto simp: history_inv_def)
  from framed_written [OF this] obtain xs where xs: "framed encode_snapshot xs (w_written w)"
    "subseq xs (w_passed w)" by blast
  have "subseq xs (w_built w)"
    using xs(2) inv distributed_built unfolding history_inv_def by (meson subseq_order.trans)
  then have sub: "subseq (SnapshotData_default # xs) (SnapshotData_default # w_built w)" by simp
  define tail where "tail = \<lparr>pending_bytes = take n frame, ending = e\<rparr>"
  obtain err where tail: "fst (read_msg decode_snapshot tail) = Inl err"
    using read_msg_cut [OF assms(2,3)] unfolding tail_def by blast
  note reach = reachable_delivers [OF snapshot_codec.codec_axioms xs(1) tail]
  have "delivered xs (w_written w) tail 0 0 0 c0"
    using assms(4) by (intro start_delivers) (simp add: tail_def)
  from reach [OF assms(5) this] obtain m j k where d: "delivered xs (w_written w) tail m j k c" by blast
  from reach [OF assms(6) d] obtain m' j' k' where d': "m \<le> m'" "delivered xs (w_written w) tail m' j' k' c'"
    by blast
  then have "m' < length (SnapshotData_default # xs)" by (simp add: delivered_def)
  from subseq_positions [OF sub d'(1) this] d d' show ?thesis by (auto simp: delivered_def less_Suc_eq_le)
qed

theorem screen_follows_daemon_witness:
  "\<exists>frame i. write_msg encode_snapshot demo_first_snapshot = Inr frame \<and> i \<le> 1 \<and>
    cl_snap (receive_step (reader_iteration decode_snapshot \<lparr>pending_bytes = frame, ending = None\<rparr>
      (demo_client \<lparr>pending_bytes = frame, ending = None\<rparr>))) =
    [SnapshotData_default, demo_first_snapshot] ! i"
proof -
  obtain frame w where w: "(watch_step encode_snapshot decode_command)\<^sup>*\<^sup>* watch_init w"
    "write_msg encode_snapshot demo_first_snapshot = Inr frame"
    "w_written w = [frame]" "w_built w = [demo_first_snapshot]" "keeps_up w" "waiting w = []"
    by (rule demo_watched)
  define st where "st = \<lparr>pending_bytes = frame, ending = None\<rparr>"
  have len: "0 < length frame"
    using write_msg_length [OF w(2)] by linarith
  have start: "start_client encode_command (\<lambda>_. None) (Inr ()) None None
      \<lparr>pending_bytes = concat (w_written w) @ take 0 frame, ending = None\<rparr> = Inr (demo_client st)"
    using demo_client_starts by (simp add: st_def w(3))
  define c1 where "c1 = reader_iteration decode_snapshot st (demo_client st)"
  have "client_step stacking_lib encode_command decode_snapshot (demo_client st) c1"
    unfolding c1_def by (rule client_step.reader) (simp_all add: demo_client_def running_def)
  moreover have "cl_phase c1 = Receive"
    by (simp add: c1_def reader_iteration_def demo_client_def split: prod.split sum.split)
  then have "main_step stacking_lib encode_command (demo_terminal KeyCode_Esc) c1 = receive_step c1"
    by (simp add: main_step_def)
  ultimately have "client_reachable stacking_lib encode_command decode_snapshot (demo_client st) (receive_step c1)"
    by (metis client_reachable.intros client_step.main)
  from screen_follows_daemon [OF w(1,2) len start client_reachable.start this] w(2,4)
  show ?thesis unfolding c1_def st_def by force
qed

end
