(* ===== verification/Collector_Spec.thy ===== *)
theory Collector_Spec
  imports Stats
begin

text \<open>
  What the collector promises, without its data structures: a table from process ids to a name and
  four natural numbers, an operation for each thing that happens to it, and for every tick what the
  rows say of each process. The vector of entries with its searches and swaps, the merging of the
  CPUs' values with saturating words and the differences of words implement it.
\<close>

section \<open>The specification\<close>

type_synonym process_table = "u32 \<rightharpoonup> rstring \<times> totals"

text \<open>
  A report, by process: its lines, each with the name, the traffic since the last report and the
  total.
\<close>

type_synonym report = "u32 \<Rightarrow> (rstring \<times> totals \<times> totals) list"

datatype collector_op = Started ProcStartEvent | Ticked stats_map | Restarted

fun spec_step :: "collector_op \<Rightarrow> process_table \<Rightarrow> process_table \<times> report" where
  "spec_step (Started e) t = (t(evt_pid e \<mapsto> (make_ascii_lowercase (evt_name e), \<lambda>_. 0)), \<lambda>_. [])"
| "spec_step (Ticked lookup) t =
     (\<lambda>q. case (t q, reading lookup q) of (Some (nm, _), Some new) \<Rightarrow> Some (nm, new) | _ \<Rightarrow> None,
      \<lambda>q. case (t q, reading lookup q) of
            (Some (nm, old), Some new) \<Rightarrow> [(nm, \<lambda>f. new f - old f, new)] | _ \<Rightarrow> [])"
| "spec_step Restarted t = (\<lambda>q. map_option (\<lambda>(nm, _). (nm, \<lambda>_. 0)) (t q), \<lambda>_. [])"

section \<open>The implementation\<close>

text \<open>The operations of the collector under the same names, and what is observed of them.\<close>

fun collector_step :: "collector_op \<Rightarrow> StatsCollector \<Rightarrow> StatsCollector \<times> StatsRow list" where
  "collector_step (Started e) c = (apply_event c e, [])"
| "collector_step (Ticked lookup) c = collect_rows lookup c"
| "collector_step Restarted c = (reset c, [])"

definition table_of :: "StatsCollector \<Rightarrow> process_table" where
  "table_of c q = map_option (\<lambda>p. (pi_name p, \<lambda>f. unat (cum_field f p))) (proc_of c q)"

definition report_of :: "StatsRow list \<Rightarrow> report" where
  "report_of rows q =
     map (\<lambda>r. (row_name r, \<lambda>f. unat (row_field f r), \<lambda>f. unat (row_cum_field f r)))
       (filter (\<lambda>r. row_pid r = q) rows)"

section \<open>Each operation implements its specification\<close>

lemma collect_rows_unknown:
  assumes "collector_inv c" and "proc_of c q = None \<or> merge_values_for_pid L q = None"
  shows "proc_of (fst (collect_rows L c)) q = None"
    and "filter (\<lambda>r. row_pid r = q) (snd (collect_rows L c)) = []"
proof -
  from assms(1) collect_rows_spec [of c L] obtain live where sp:
    "mset live = filter_mset (alive L) (mset (procs c))"
    "procs (fst (collect_rows L c)) = map (\<lambda>p. update_proc (stats_of L p) p) live"
    "snd (collect_rows L c) = map (\<lambda>p. row_for (stats_of L p) p) live"
    by (auto simp: collector_inv_def)
  have "set live = {p \<in> set (procs c). alive L p}"
    using arg_cong [OF sp(1), of set_mset] by auto
  then have no: "pi_pid p \<noteq> q" if "p \<in> set live" for p
    using that assms(2) by (auto simp: proc_of_def find_None_iff alive_def)
  then show "proc_of (fst (collect_rows L c)) q = None"
    by (auto simp: proc_of_def find_None_iff sp(2))
  from no show "filter (\<lambda>r. row_pid r = q) (snd (collect_rows L c)) = []"
    by (auto simp: filter_empty_conv sp(3) row_for_def)
qed

lemma tick_implements:
  assumes "collector_inv c"
  shows "map_prod table_of report_of (collect_rows L c) = spec_step (Ticked L) (table_of c)"
proof -
  have "table_of (fst (collect_rows L c)) q = fst (spec_step (Ticked L) (table_of c)) q \<and>
    report_of (snd (collect_rows L c)) q = snd (spec_step (Ticked L) (table_of c)) q" for q
  proof (cases "proc_of c q = None \<or> merge_values_for_pid L q = None")
    case True
    with collect_rows_unknown [OF assms this] show ?thesis
      by (auto simp: table_of_def report_of_def reading_merge split: option.split)
  next
    case False
    then obtain p st where p: "proc_of c q = Some p" "merge_values_for_pid L q = Some st" by auto
    have "pi_name (update_proc st p) = pi_name p" "row_name (row_for st p) = pi_name p"
      by (simp_all add: update_proc_def row_for_def)
    with p collect_rows_live [OF assms p] show ?thesis
      by (simp add: table_of_def report_of_def reading_merge word_sat)
  qed
  then show ?thesis by (simp add: prod_eq_iff fun_eq_iff)
qed

lemma start_implements:
  "map_prod table_of report_of (apply_event c e, []) = spec_step (Started e) (table_of c)"
proof -
  have "cum_field f \<lparr>pi_pid = q, pi_name = nm, pi_tcp_cum = StatsBytes_default,
      pi_udp_cum = StatsBytes_default\<rparr> = 0" for f q nm
    by (cases f) (simp_all add: StatsBytes_default_def)
  then show ?thesis by (simp add: table_of_def report_of_def apply_event_proc_of fun_eq_iff)
qed

lemma restart_implements:
  "map_prod table_of report_of (reset c, []) = spec_step Restarted (table_of c)"
proof -
  have "find (\<lambda>p. pi_pid p = q) (map reset_proc ps) = map_option reset_proc (find (\<lambda>p. pi_pid p = q) ps)"
    for q ps
    by (induction ps) (simp_all add: reset_proc_def)
  then have "proc_of (reset c) q = map_option reset_proc (proc_of c q)" for q
    by (simp add: proc_of_def reset_def)
  moreover have "cum_field f (reset_proc p) = 0" "pi_name (reset_proc p) = pi_name p" for f p
    by (cases f; simp add: reset_proc_def StatsBytes_default_def)+
  ultimately show ?thesis
    by (simp add: table_of_def report_of_def fun_eq_iff option.map_comp comp_def)
qed

interpretation collector: simulation collector_inv table_of report_of collector_step spec_step
proof
  fix c op
  assume inv: "collector_inv c"
  show "collector_inv (fst (collector_step op c))"
    using inv by (cases op) (simp_all add: apply_event_inv collect_rows_inv reset_inv)
  show "map_prod table_of report_of (collector_step op c) = spec_step op (table_of c)"
    using tick_implements [OF inv] start_implements restart_implements by (cases op) simp_all
qed

section \<open>Properties\<close>

text \<open>
  C8. The collector implements its specification. Whatever processes are announced, whenever ticks
  read the kernel's map and however often the counting is restarted, the table of processes and every
  report agree with a table of names and natural numbers: a tick reports for exactly the known
  processes that the map has, the sum of the CPUs' counters (at most 64 bits) as the total and its
  distance to the last total as the traffic, and forgets the others; each process has one
  line.
\<close>

theorem collector_refines:
  assumes "collector_inv c"
  shows "map_prod table_of (map report_of) (run_ops collector_step ops c) =
    run_ops spec_step ops (table_of c)"
  using assms by (rule collector.run_simulates)

theorem collector_refines_witness:
  "\<exists>c rows. run_ops collector_step [Started \<lparr>evt_pid = 7, evt_name = [68]\<rparr>, Ticked demo_map] collector_new =
      (c, [[], rows]) \<and>
    (\<exists>d t. report_of rows 7 = [([100], d, t)] \<and> d TcpSent = 500 \<and> t TcpSent = 500)"
proof -
  let ?ops = "[Started \<lparr>evt_pid = 7, evt_name = [68]\<rparr>, Ticked demo_map]"
  obtain c rows where run: "run_ops collector_step ?ops collector_new = (c, [[], rows])"
    by (simp add: case_prod_unfold Let_def)
  obtain st where "merge_values_for_pid demo_map 7 = Some st" "stat_field TcpSent st = 500"
    using demo_merge by blast
  then have "reading demo_map 7 = Some (\<lambda>f. unat (stat_field f st))" "unat (stat_field TcpSent st) = 500"
    by (simp_all add: reading_merge)
  with collector_refines [OF new_inv, of ?ops] run show ?thesis
    by (auto simp: make_ascii_lowercase_def to_ascii_lowercase_def)
qed

end
