(* ===== verification/Daemon_Spec.thy ===== *)
theory Daemon_Spec
  imports Subscription Collector_Spec
begin

text \<open>
  What the daemon promises, as one sequential machine: an interval, a tick number and a table of
  processes, all natural numbers, changed by commands and by collections. The daemon's shared state
  behind its lock implements it, and so does every run of the daemon in which the main loop, arriving
  clients and their threads interleave: there is an order of commands and collections in which the
  machine does the same and reports the snapshots that the main loop built.
\<close>

section \<open>The specification\<close>

record spec_state =
  sp_interval :: nat
  sp_tick :: nat
  sp_table :: process_table

datatype daemon_op = Commanded DaemonCommand | Collected "ProcStartEvent list" stats_map

text \<open>A machine that has failed, \<open>None\<close>, stays so.\<close>

fun spec_command :: "DaemonCommand \<Rightarrow> spec_state \<Rightarrow> spec_state option" where
  "spec_command Run s = None"
| "spec_command Reset s = Some (s\<lparr>sp_tick := 0, sp_table := fst (spec_step Restarted (sp_table s))\<rparr>)"
| "spec_command (Interval i) s = Some (s\<lparr>sp_interval := max 100 (min 5000 (unat i))\<rparr>)"
| "spec_command IntervalIncrease s = Some (s\<lparr>sp_interval := min 5000 (sp_interval s + 100)\<rparr>)"
| "spec_command IntervalDecrease s = Some (s\<lparr>sp_interval := max 100 (sp_interval s - 100)\<rparr>)"

fun daemon_spec ::
    "daemon_op \<Rightarrow> spec_state option \<Rightarrow> spec_state option \<times> (nat \<times> nat \<times> report) option" where
  "daemon_spec op None = (None, None)"
| "daemon_spec (Commanded cmd) (Some s) = (spec_command cmd s, None)"
| "daemon_spec (Collected events lookup) (Some s) =
     (let started = foldl (\<lambda>t e. fst (spec_step (Started e) t)) (sp_table s) events;
          (table, report) = spec_step (Ticked lookup) started;
          next = (sp_tick s + 1) mod 2 ^ 64
      in (Some (s\<lparr>sp_tick := next, sp_table := table\<rparr>), Some (sp_interval s, next, report)))"

section \<open>The shared state\<close>

fun state_op :: "daemon_op \<Rightarrow> DaemonState mutex \<Rightarrow> DaemonState mutex \<times> SnapshotData option" where
  "state_op (Commanded cmd) m = (lock_and_update m cmd, None)"
| "state_op (Collected events lookup) m =
     (if poisoned m then (m, None)
      else let (st, rows) = collect_tick lookup events (content m)
           in (\<lparr>poisoned = False, content = advance_tick st\<rparr>, Some (snapshot_of (advance_tick st) rows)))"

definition state_view :: "DaemonState mutex \<Rightarrow> spec_state option" where
  "state_view m =
     (if poisoned m then None
      else Some \<lparr>sp_interval = unat (interval (content m)), sp_tick = unat (tick (content m)),
                 sp_table = table_of (stats (content m))\<rparr>)"

definition snapshot_view :: "SnapshotData \<Rightarrow> nat \<times> nat \<times> report" where
  "snapshot_view snap = (unat (snap_interval snap), unat (snap_tick snap), report_of (snap_rows snap))"

lemma command_implements:
  assumes "daemon_inv d"
  shows "(case update d cmd of None \<Rightarrow> None | Some d' \<Rightarrow> state_view \<lparr>poisoned = False, content = d'\<rparr>) =
    spec_command cmd (the (state_view \<lparr>poisoned = False, content = d\<rparr>))"
proof (cases "update d cmd")
  case None
  with update_total [of d cmd] show ?thesis by simp
next
  case (Some d')
  have "fst (spec_step Restarted (table_of c)) = table_of (reset c)" for c
    using restart_implements [of c] by simp
  with Some interval_commands [OF assms Some] show ?thesis
    by (cases cmd) (auto simp: state_view_def set_interval_def reset_tick_def simp del: spec_step.simps)
qed

lemma announced_table:
  "foldl (\<lambda>t e. fst (spec_step (Started e) t)) (table_of c) events = table_of (foldl apply_event c events)"
proof (induction events arbitrary: c)
  case (Cons e events)
  have "fst (spec_step (Started e) (table_of c)) = table_of (apply_event c e)"
    using start_implements [of c e] by simp
  with Cons show ?case by (simp del: spec_step.simps)
qed simp

lemma collection_implements:
  assumes "daemon_inv (content m)" and "\<not> poisoned m"
  shows "map_prod state_view (map_option snapshot_view) (state_op (Collected events lookup) m) =
    daemon_spec (Collected events lookup) (state_view m)"
proof -
  let ?c = "foldl apply_event (stats (content m)) events"
  obtain c' rows where rows: "collect_rows lookup ?c = (c', rows)" by fastforce
  have inv: "collector_inv ?c"
    using assms(1) by (simp add: daemon_inv_def foldl_apply_event_inv)
  have spec: "spec_step (Ticked lookup) (table_of ?c) = (table_of c', report_of rows)"
    using tick_implements [OF inv, of lookup] rows by simp
  have "unat (tick (content m) + 1) = (unat (tick (content m)) + 1) mod 2 ^ 64"
    by (simp add: unat_word_ariths)
  with assms(2) show ?thesis
    by (simp add: state_view_def snapshot_view_def snapshot_of_def collect_tick_def rows advance_tick_def
        announced_table spec Let_def del: spec_step.simps)
qed

interpretation shared_state: simulation
  "\<lambda>m. daemon_inv (content m)" state_view "map_option snapshot_view" state_op daemon_spec
proof
  fix m :: "DaemonState mutex" and op
  assume inv: "daemon_inv (content m)"
  show "daemon_inv (content (fst (state_op op m)))"
  proof (cases op)
    case (Commanded cmd)
    with inv show ?thesis by (simp add: lock_and_update_inv)
  next
    case (Collected events lookup)
    obtain st rows where st: "collect_tick lookup events (content m) = (st, rows)" by fastforce
    from collect_tick_inv [OF st inv] show ?thesis
      using inv by (simp add: Collected st advance_tick_inv)
  qed
  show "map_prod state_view (map_option snapshot_view) (state_op op m) = daemon_spec op (state_view m)"
  proof (cases "poisoned m")
    case True
    then show ?thesis by (cases op) (simp_all add: state_view_def lock_and_update_def)
  next
    case False
    show ?thesis
    proof (cases op)
      case (Commanded cmd)
      with command_implements [OF inv, of cmd] False show ?thesis
        by (auto simp: lock_and_update_def state_view_def split: option.splits)
    next
      case (Collected events lookup)
      with collection_implements [OF inv False] show ?thesis by simp
    qed
  qed
qed

section \<open>Interleaved runs\<close>

text \<open>
  The steps of the daemon with the operations they carry out on the shared state, in the order in
  which they get the lock, and the snapshots built. A connection or a reader thread carries out the
  command it decodes; a first message \<open>Run\<close> subscribes and changes nothing.
\<close>

fun command_of :: "'c + DaemonCommand \<Rightarrow> daemon_op list" where
  "command_of (Inl e) = []"
| "command_of (Inr cmd) = [Commanded cmd]"

definition connection_ops ::
    "(bytes \<Rightarrow> 'c + DaemonCommand) \<Rightarrow> conn_env \<Rightarrow> byte_stream \<Rightarrow> daemon_op list" where
  "connection_ops deserialize env stream =
     (if clone_ok env \<and> read_timeout_ok env
      then filter (\<lambda>op. op \<noteq> Commanded Run) (command_of (fst (read_msg deserialize stream))) else [])"

inductive daemon_trace ::
    "(SnapshotData \<Rightarrow> 'b + bytes) \<Rightarrow> (bytes \<Rightarrow> 'c + DaemonCommand)
      \<Rightarrow> daemon \<Rightarrow> daemon_op list \<Rightarrow> SnapshotData list \<Rightarrow> daemon \<Rightarrow> bool"
  for serialize :: "SnapshotData \<Rightarrow> 'b + bytes" and deserialize :: "bytes \<Rightarrow> 'c + DaemonCommand"
    and d0 :: daemon where
  start: "daemon_trace serialize deserialize d0 [] [] d0"
| connect: "daemon_trace serialize deserialize d0 ops snaps d \<Longrightarrow>
     handle_connection deserialize env stream (d_state d) = (m, out) \<Longrightarrow>
     daemon_trace serialize deserialize d0 (ops @ connection_ops deserialize env stream) snaps
       (d\<lparr>d_state := m, d_readers := d_readers d @ new_readers out,
          d_joining := d_joining d + length (new_readers out)\<rparr>)"
| join: "daemon_trace serialize deserialize d0 ops snaps d \<Longrightarrow> 0 < d_joining d \<Longrightarrow>
     daemon_trace serialize deserialize d0 ops snaps
       (d\<lparr>d_senders := register_client timeout_ok (d_senders d), d_joining := d_joining d - 1\<rparr>)"
| read: "daemon_trace serialize deserialize d0 ops snaps d \<Longrightarrow>
     i < length (d_readers d) \<Longrightarrow> reader_step deserialize (d_readers d ! i) (d_state d) = (m, r) \<Longrightarrow>
     daemon_trace serialize deserialize d0
       (ops @ command_of (fst (read_msg deserialize (d_readers d ! i)))) snaps
       (d\<lparr>d_state := m, d_readers := reader_update i r (d_readers d)\<rparr>)"
| deliver: "daemon_trace serialize deserialize d0 ops snaps d \<Longrightarrow>
     i < length (content (d_senders d)) \<Longrightarrow>
     writer_step write_ok (content (d_senders d) ! i) = (ch, sent_data) \<Longrightarrow>
     daemon_trace serialize deserialize d0 ops snaps
       (d\<lparr>d_senders := (d_senders d)\<lparr>content := (content (d_senders d))[i := ch]\<rparr>\<rparr>)"
| build: "daemon_trace serialize deserialize d0 ops snaps d \<Longrightarrow> d_buf d = None \<Longrightarrow>
     build_snapshot serialize fs lookup (records, None :: unit option) d = (Continue timeout, d') \<Longrightarrow>
     collect_tick lookup (d_events d @ List.map_filter (parse_proc_event fs) records)
       (content (d_state d)) = (st, rows) \<Longrightarrow>
     daemon_trace serialize deserialize d0
       (ops @ [Collected (d_events d @ List.map_filter (parse_proc_event fs) records) lookup])
       (snaps @ [snapshot_of (content (d_state d')) rows]) d'"
| send: "daemon_trace serialize deserialize d0 ops snaps d \<Longrightarrow> d_buf d \<noteq> None \<Longrightarrow>
     distribute d = (Inr (), d') \<Longrightarrow> daemon_trace serialize deserialize d0 ops snaps d'"

text \<open>The traces are those of the steps of the daemon.\<close>

lemma trace_of_run:
  assumes "(daemon_step serialize deserialize)\<^sup>*\<^sup>* d0 d"
  shows "\<exists>ops snaps. daemon_trace serialize deserialize d0 ops snaps d"
  using assms
proof (induction rule: rtranclp_induct)
  case base
  show ?case by (blast intro: daemon_trace.start)
next
  case (step d d')
  then obtain ops snaps where trace: "daemon_trace serialize deserialize d0 ops snaps d" by blast
  from step(2) show ?case
  proof cases
    case (build fs lookup records timeout)
    then show ?thesis using daemon_trace.build [OF trace build(1,2) surjective_pairing] by blast
  qed (blast intro: trace daemon_trace.intros)+
qed

lemma run_of_trace:
  assumes "daemon_trace serialize deserialize d0 ops snaps d"
  shows "(daemon_step serialize deserialize)\<^sup>*\<^sup>* d0 d"
  using assms
proof induction
  case (join ops snaps d timeout_ok)
  from join(3) daemon_step.join [OF join(2)] show ?case by (rule rtranclp.rtrancl_into_rtrancl)
qed (auto intro: rtranclp.rtrancl_into_rtrancl daemon_step.intros)

text \<open>What the operations let be observed, without those that show nothing.\<close>

definition seen :: "'a option list \<Rightarrow> 'a list" where
  "seen outs = List.map_filter id outs"

lemma seen_simps [simp]:
  "seen [] = []" "seen (xs @ ys) = seen xs @ seen ys" "seen [None] = []" "seen [Some x] = [x]"
  by (simp_all add: seen_def map_filter_simps map_filter_def)

lemma seen_map: "seen (map (map_option g) outs) = map g (seen outs)"
  by (induction outs) (auto simp: seen_def map_filter_simps split: option.split)

lemma run_ops_append:
  "run_ops step (ops @ ops') s =
     (let (s', outs) = run_ops step ops s; (s'', outs') = run_ops step ops' s' in (s'', outs @ outs'))"
  by (induction ops arbitrary: s) (auto simp: Let_def case_prod_unfold)

lemma connection_runs:
  assumes "handle_connection deserialize env stream m = (m', out)"
  shows "\<exists>outs. run_ops state_op (connection_ops deserialize env stream) m = (m', outs) \<and> seen outs = []"
  using assms
  by (auto simp: handle_connection_def connection_ops_def Let_def split: prod.splits sum.splits if_splits)

lemma reader_runs:
  assumes "reader_step deserialize stream m = (m', r)"
  shows "\<exists>outs. run_ops state_op (command_of (fst (read_msg deserialize stream))) m = (m', outs) \<and> seen outs = []"
  using assms
  by (auto simp: reader_step_def lock_and_update_def Let_def split: prod.splits sum.splits if_splits)

lemma build_runs:
  assumes "build_snapshot serialize fs lookup (records, None) d = (Continue timeout, d')"
    and "collect_tick lookup (d_events d @ List.map_filter (parse_proc_event fs) records)
      (content (d_state d)) = (st, rows)"
  shows "state_op (Collected (d_events d @ List.map_filter (parse_proc_event fs) records) lookup) (d_state d) =
    (d_state d', Some (snapshot_of (content (d_state d')) rows))"
  using assms
  by (auto simp: build_snapshot_def drain_available_def foldl_event_callback Let_def
      split: if_splits option.splits sum.splits)

lemma trace_runs:
  assumes "daemon_trace serialize deserialize d0 ops snaps d"
  shows "\<exists>outs. run_ops state_op ops (d_state d0) = (d_state d, outs) \<and> seen outs = snaps"
  using assms
proof induction
  case (connect ops snaps d env stream m out)
  with connection_runs [OF connect.hyps(2)] show ?case by (auto simp: run_ops_append)
next
  case (read ops snaps d i m r)
  with reader_runs [OF read.hyps(3)] show ?case by (auto simp: run_ops_append)
next
  case (build ops snaps d fs lookup records timeout d' st rows)
  with build_runs [OF build.hyps(3,4)] show ?case by (auto simp: run_ops_append)
next
  case (send ops snaps d d')
  then have "d_state d' = d_state d"
    by (auto simp: distribute_def split: prod.splits option.splits)
  with send show ?case by simp
qed auto

section \<open>Properties\<close>

definition spec_init :: spec_state where
  "spec_init = \<lparr>sp_interval = 1000, sp_tick = 0, sp_table = Map.empty\<rparr>"

lemma init_view: "state_view (d_state daemon_init) = Some spec_init"
  by (simp add: state_view_def daemon_init_def daemon_default_def interval_bounds spec_init_def
      table_of_def proc_of_def collector_new_def fun_eq_iff)

text \<open>
  C4. The daemon implements its specification, threads and all. Take any run in which the main loop
  interleaves with arriving clients, their reader and their writer threads, and let the sequential
  machine carry out the commands they decoded and the collections, in the order in which they took the
  lock: it reaches what the shared state holds (it has failed if the lock is poisoned), and its reports
  are the snapshots that the main loop built: interval, tick and the lines of every process.
\<close>

theorem daemon_refines:
  assumes "daemon_trace serialize deserialize daemon_init ops snaps d"
  shows "\<exists>outs. run_ops daemon_spec ops (Some spec_init) = (state_view (d_state d), outs) \<and>
    seen outs = map snapshot_view snaps"
proof -
  obtain outs where outs: "run_ops state_op ops (d_state daemon_init) = (d_state d, outs)" "seen outs = snaps"
    using trace_runs [OF assms] by blast
  have "daemon_inv (content (d_state daemon_init))" by (simp add: daemon_init_def daemon_default_inv)
  from shared_state.run_simulates [OF this, of ops] outs show ?thesis
    by (auto simp: init_view seen_map dest: sym)
qed

theorem daemon_refines_witness:
  "\<exists>(d :: daemon) outs. run_ops daemon_spec [Collected [] (\<lambda>_. None), Commanded (Interval 250)] (Some spec_init) =
      (state_view (d_state d), outs) \<and>
    seen outs = map snapshot_view [demo_first_snapshot]"
proof -
  obtain frame where f: "write_msg encode_snapshot demo_first_snapshot = Inr frame"
    by (rule demo_watched)
  define st where "st = daemon_default\<lparr>tick := 1\<rparr>"
  have snap: "snapshot_of st [] = demo_first_snapshot"
    by (simp add: snapshot_of_def st_def demo_first_snapshot_def daemon_default_def collector_new_def
        DEFAULT_INTERVAL_MILLIS_def)
  have col: "collect_tick (\<lambda>_. None) (d_events daemon_init @ List.map_filter (parse_proc_event no_procfs) [])
      (content (d_state daemon_init)) = (daemon_default, [])"
    using demo_collect by (simp add: demo_connected_def)
  define d1 where "d1 = daemon_init\<lparr>d_events := [], d_state := \<lparr>poisoned = False, content = st\<rparr>,
    d_buf := Some frame\<rparr>"
  have "build_snapshot encode_snapshot no_procfs (\<lambda>_. None) ([], None :: unit option) daemon_init =
      (Continue 1000, d1)"
    using build_snapshot_ok [OF _ col, of encode_snapshot] f snap
    by (simp add: d1_def st_def daemon_init_def daemon_default_def DEFAULT_INTERVAL_MILLIS_def)
  from daemon_trace.build [OF daemon_trace.start _ this col, of decode_command]
  have trace: "daemon_trace encode_snapshot decode_command daemon_init [Collected [] (\<lambda>_. None)]
      [demo_first_snapshot] d1"
    by (simp add: daemon_init_def map_filter_simps d1_def snap)
  obtain frame' where f': "write_msg encode_command (Interval 250) = Inr frame'"
    by (simp add: write_msg_def PREFIX_LEN_def)
  let ?stream = "\<lparr>pending_bytes = frame' @ [], ending = None\<rparr>"
  obtain m out where h: "handle_connection decode_command demo_env ?stream (d_state d1) = (m, out)"
    by fastforce
  have "connection_ops decode_command demo_env ?stream = [Commanded (Interval 250)]"
    using command_codec.read_msg_frame [OF f', of "[]" None] by (simp add: connection_ops_def demo_env_def)
  from daemon_refines [OF daemon_trace.connect [OF trace h, unfolded this]] show ?thesis
    unfolding append_Cons append_Nil by blast
qed

end
