(* ===== verification/Monitoring.thy ===== *)
theory Monitoring
  imports Stats_Map App Collector_Spec
begin

text \<open>
  The kernel program and the daemon over time: phases of probe invocations, each followed by a tick of
  the daemon, which takes the new start records out of the ring buffer, registers the processes and
  collects rows from the map. What a tick shows of a process is what the probes saw of it since the
  tick before; and what is left of a process that exits between two ticks.
\<close>

section \<open>Totals as numbers\<close>

text \<open>The counter of a process summed over the CPUs, and the traffic of a run of probes.\<close>

definition slot_total :: "nat \<Rightarrow> stats_view \<Rightarrow> u32 \<Rightarrow> Protocol \<Rightarrow> direction \<Rightarrow> nat" where
  "slot_total n v k p d = sum_list (map (\<lambda>c. unat (counter p d (the (v c k)))) [0..<n])"

fun charged ::
    "('m, 'l, 'r) bpf_helpers \<Rightarrow> ('m, 'l, 'r) bpf_maps \<Rightarrow> probe_event list \<Rightarrow> u32 \<Rightarrow> Protocol
      \<Rightarrow> direction \<Rightarrow> nat" where
  "charged h s [] k p d = 0"
| "charged h s (e # es) k p d =
     unat (charge h s e k p d) + charged h (snd (run_probe h e s)) es k p d"

lemma unat_add_le: "unat (a + b) \<le> unat a + unat (b :: 'a::len word)"
  by (simp add: unat_word_ariths)

lemma slot_total_word:
  "(\<And>c. v c k \<noteq> None) \<Longrightarrow> slot_total n v k p d < 2 ^ 64 \<Longrightarrow> unat (cpu_total n v k p d) = slot_total n v k p d"
  unfolding slot_total_def by (rule cpu_total_nat)

context bpf_kernel
begin

lemma slots_on_all: "slots h s c k \<noteq> None \<Longrightarrow> slots h s c' k \<noteq> None"
  unfolding slots_def by (erule contrapos_nn) (rule percpu.present_on_all)

lemma probe_total_le:
  assumes "ctx_cpu (event_ctx e) < n" and "\<not> leader_exit k e" and "slots h s 0 k \<noteq> None"
  shows "slot_total n (slots h (snd (run_probe h e s))) k p d \<le>
    slot_total n (slots h s) k p d + unat (charge h s e k p d)"
proof -
  let ?i = "ctx_cpu (event_ctx e)" and ?g = "unat (charge h s e k p d)"
  let ?f = "\<lambda>c. unat (counter p d (the (slots h s c k)))"
  have "unat (counter p d (the (slots h (snd (run_probe h e s)) c k))) \<le> (if c = ?i then ?f c + ?g else ?f c)"
    for c
  proof (cases "traffic h s e")
    case None
    with assms(2) show ?thesis by (simp add: run_probe_slots)
  next
    case (Some x)
    then obtain q out inn a where tr: "traffic h s e = Some (q, out, inn, a)" by (cases x) auto
    obtain v where v: "slots h s ?i k = Some v" using slots_on_all [OF assms(3), of ?i] by auto
    then obtain w where w: "update_stats (Some v) q out inn a = Some w"
      using update_stats_None_iff by blast
    have add: "counter p d w = counter p d v + (if p = q then (case d of Sent \<Rightarrow> out | Recv \<Rightarrow> inn) else 0)"
      using counter_update_stats [of p d v q out inn a] w by simp
    show ?thesis
      using tr v w unat_add_le [of "counter p d v"]
      by (auto simp: run_probe_slots account_spec_def charge_def add slots_on_all [OF assms(3)])
  qed
  then have "slot_total n (slots h (snd (run_probe h e s))) k p d \<le>
      sum_list (map (\<lambda>c. if c = ?i then ?f c + ?g else ?f c) [0..<n])"
    unfolding slot_total_def by (intro sum_list_mono) simp
  also have "\<dots> = slot_total n (slots h s) k p d + ?g"
    unfolding slot_total_def by (rule sum_list_point_add [OF assms(1)])
  finally show ?thesis .
qed

lemma probe_total:
  assumes "ctx_cpu (event_ctx e) < n" and "\<not> leader_exit k e" and "slots h s 0 k \<noteq> None"
    and "slot_total n (slots h s) k p d + unat (charge h s e k p d) < 2 ^ 64"
  shows "slot_total n (slots h (snd (run_probe h e s))) k p d =
    slot_total n (slots h s) k p d + unat (charge h s e k p d)"
proof -
  let ?s = "snd (run_probe h e s)"
  have here: "slots h s c k \<noteq> None" "slots h ?s c k \<noteq> None" for c
    using slots_on_all [OF assms(3)] run_probe_keeps_slots [OF assms(2)] by blast+
  have le: "slot_total n (slots h ?s) k p d \<le> slot_total n (slots h s) k p d + unat (charge h s e k p d)"
    using assms(1-3) by (rule probe_total_le)
  have "unat (cpu_total n (slots h s) k p d) = slot_total n (slots h s) k p d"
    "unat (cpu_total n (slots h ?s) k p d) = slot_total n (slots h ?s) k p d"
    using here le assms(4) by (simp_all add: slot_total_word del: not_None_eq)
  moreover have "cpu_total n (slots h ?s) k p d = cpu_total n (slots h s) k p d + charge h s e k p d"
    using run_probe_total [OF assms(1,2)] here(1) by blast
  ultimately show ?thesis
    using assms(4) unat_add_lem [of "cpu_total n (slots h s) k p d" "charge h s e k p d"] by simp
qed

lemma probes_total:
  assumes "\<forall>e \<in> set es. ctx_cpu (event_ctx e) < n" and "\<forall>e \<in> set es. \<not> leader_exit k e"
    and "slots h s 0 k \<noteq> None"
    and "slot_total n (slots h s) k p d + charged h s es k p d < 2 ^ 64"
  shows "slot_total n (slots h (run_probes h es s)) k p d =
      slot_total n (slots h s) k p d + charged h s es k p d \<and>
    slots h (run_probes h es s) 0 k \<noteq> None"
  using assms
proof (induction es arbitrary: s)
  case (Cons e es)
  have "slots h (snd (run_probe h e s)) 0 k \<noteq> None"
    using run_probe_keeps_slots [of k e s 0] Cons.prems by simp
  moreover have "slot_total n (slots h (snd (run_probe h e s))) k p d =
      slot_total n (slots h s) k p d + unat (charge h s e k p d)"
    using Cons.prems by (intro probe_total) simp_all
  ultimately show ?case using Cons.IH [of "snd (run_probe h e s)"] Cons.prems by simp
qed simp

end

section \<open>Phases and ticks\<close>

text \<open>
  One phase and its tick. The daemon consumes the start records published since the tick before; what
  consuming leaves of the ring buffer is part of the phase. libbpf's lookup reads the slots as they are
  at the tick.
\<close>

definition phase_tick ::
    "('m, 'l, 'r) bpf_helpers \<Rightarrow> procfs \<Rightarrow> (stats_view \<Rightarrow> bytes \<Rightarrow> 'e + bytes list option)
      \<Rightarrow> probe_event list \<Rightarrow> ('m, 'l, 'r) bpf_maps \<Rightarrow> DaemonState \<Rightarrow> DaemonState \<times> StatsRow list" where
  "phase_tick h fs reader es s st =
     (let s' = run_probes h es s;
          records = drop (length (events_of h s)) (events_of h s')
      in collect_tick (lookup_percpu (reader (slots h s'))) (List.map_filter (parse_proc_event fs) records) st)"

fun monitor ::
    "('m, 'l, 'r) bpf_helpers \<Rightarrow> procfs \<Rightarrow> (stats_view \<Rightarrow> bytes \<Rightarrow> 'e + bytes list option)
      \<Rightarrow> (probe_event list \<times> 'r) list \<Rightarrow> ('m, 'l, 'r) bpf_maps \<Rightarrow> DaemonState \<Rightarrow> StatsRow list list" where
  "monitor h fs reader [] s st = []"
| "monitor h fs reader ((es, ring) # phases) s st =
     (let (st', rows) = phase_tick h fs reader es s st
      in rows # monitor h fs reader phases ((run_probes h es s)\<lparr>EVENTS := ring\<rparr>) st')"

text \<open>The traffic of a process by phase.\<close>

fun phase_traffic ::
    "('m, 'l, 'r) bpf_helpers \<Rightarrow> (probe_event list \<times> 'r) list \<Rightarrow> ('m, 'l, 'r) bpf_maps \<Rightarrow> u32
      \<Rightarrow> Protocol \<Rightarrow> direction \<Rightarrow> nat list" where
  "phase_traffic h [] s k p d = []"
| "phase_traffic h ((es, ring) # phases) s k p d =
     charged h s es k p d # phase_traffic h phases ((run_probes h es s)\<lparr>EVENTS := ring\<rparr>) k p d"

lemma slots_ring [simp]: "slots h (s\<lparr>EVENTS := ring\<rparr>) = slots h s"
  by (simp add: slots_def)

lemma maps_wf_ring [simp]: "maps_wf h (s\<lparr>EVENTS := ring\<rparr>) = maps_wf h s"
  by (simp add: maps_wf_def)

lemma events_keep_proc:
  "\<forall>e \<in> set events. evt_pid e \<noteq> k \<Longrightarrow> proc_of (foldl apply_event c events) k = proc_of c k"
  by (induction events arbitrary: c) (auto simp: apply_event_proc_of)

lemma parsed_pid:
  assumes "parse_proc_event fs r = Some ev" and "take 4 r \<noteq> put_word 4 k"
  shows "evt_pid ev \<noteq> k"
proof -
  have r: "length r = 20" "evt_pid ev = get_word (take 4 r)"
    using assms(1) by (auto simp: parse_proc_event_def sizeof_ProcStartEventBpf_def slice_at_def
        Let_def split: if_splits)
  have "put_word 4 (get_word (take 4 r) :: u32) = take 4 r"
    using put_get_word [where 'a = 32 and bs = "take 4 r"] r(1) by simp
  with r(2) assms(2) show ?thesis by auto
qed

text \<open>What the tick finds in the map for a process with slots.\<close>

lemma reader_finds:
  assumes "percpu_reader map_lookup n v" and "\<And>c. \<exists>x. v c k = Some x \<and> c_stats_wf x"
    and "slot_total n v k p d < 2 ^ 64"
  obtains mst where "merge_values_for_pid (lookup_percpu map_lookup) k = Some mst"
    "unat (stat_field (field_of p d) mst) = slot_total n v k p d"
proof -
  have "v 0 k \<noteq> None" using assms(2) [of 0] by auto
  from percpu_reader.merge_present [OF assms(1) this assms(2)] obtain mst where
    "merge_values_for_pid (lookup_percpu map_lookup) k = Some mst"
    "unat (stat_field (field_of p d) mst) = min (2 ^ 64 - 1) (slot_total n v k p d)"
    unfolding slot_total_def by metis
  with assms(3) show thesis by (intro that) auto
qed

context bpf_kernel
begin

text \<open>One tick after a phase in which a known process stays.\<close>

lemma phase_tick_shows:
  assumes wf: "maps_wf h s" "\<forall>e \<in> set es. event_wf e"
    and events: "\<forall>e \<in> set es. ctx_cpu (event_ctx e) < n \<and> \<not> leader_exit k e \<and> length (ctx_comm (event_ctx e)) = 16"
    and here: "slots h s 0 k \<noteq> None" and reader: "\<And>v. percpu_reader (reader v) n v"
    and fits: "slot_total n (slots h s) k p d + charged h s es k p d < 2 ^ 64"
    and known: "collector_inv (stats st)" "proc_of (stats st) k = Some info"
      "unat (cum_field (field_of p d) info) = slot_total n (slots h s) k p d"
    and tick: "phase_tick h fs reader es s st = (st', rows)"
  shows "(\<exists>r. filter (\<lambda>r. row_pid r = k) rows = [r] \<and> unat (row_field (field_of p d) r) = charged h s es k p d) \<and>
    collector_inv (stats st') \<and>
    (\<exists>info'. proc_of (stats st') k = Some info' \<and>
      unat (cum_field (field_of p d) info') = slot_total n (slots h (run_probes h es s)) k p d)"
proof -
  let ?s = "run_probes h es s"
  define evs where "evs = List.map_filter (parse_proc_event fs) (drop (length (events_of h s)) (events_of h ?s))"
  define L where "L = lookup_percpu (reader (slots h ?s))"
  obtain new where "events_of h ?s = events_of h s @ new" "\<forall>r \<in> set new. take 4 r \<noteq> put_word 4 k"
    using run_probes_no_second_start [OF here, of es] events by blast
  then have "\<forall>e \<in> set evs. evt_pid e \<noteq> k"
    using parsed_pid by (fastforce simp: evs_def map_filter_def)
  then have proc: "proc_of (foldl apply_event (stats st) evs) k = Some info"
    using known(2) by (simp add: events_keep_proc)
  have inv: "collector_inv (foldl apply_event (stats st) evs)"
    using known(1) by (rule foldl_apply_event_inv)
  have total: "slot_total n (slots h ?s) k p d = slot_total n (slots h s) k p d + charged h s es k p d"
    "slots h ?s 0 k \<noteq> None"
    using probes_total [of es n k s p d] events here fits by auto
  have "\<exists>x. slots h ?s c k = Some x \<and> c_stats_wf x" for c
    using slots_on_all [OF total(2), of c] run_probes_wf [OF wf] by (auto simp: maps_wf_def)
  then obtain mst where mst: "merge_values_for_pid L k = Some mst"
    "unat (stat_field (field_of p d) mst) = slot_total n (slots h ?s) k p d"
    using reader_finds [OF reader, of "slots h ?s" k p d] total fits by (auto simp: L_def)
  have st': "st' = st\<lparr>stats := fst (collect_rows L (foldl apply_event (stats st) evs))\<rparr>"
    "rows = snd (collect_rows L (foldl apply_event (stats st) evs))"
    using tick by (auto simp: phase_tick_def collect_tick_def Let_def L_def evs_def split: prod.splits)
  from collect_rows_live [OF inv proc mst(1)] mst(2) total known(3) show ?thesis
    by (simp add: st' collect_rows_inv [OF inv] word_sat)
qed

end

section \<open>A process exits\<close>

lemma run_probes_append: "run_probes h (es @ es') s = run_probes h es' (run_probes h es s)"
  by (induction es arbitrary: s) simp_all

lemma announced_empty:
  assumes "k \<in> evt_pid ` set events"
  shows "\<exists>info. proc_of (foldl apply_event c events) k = Some info \<and>
    pi_tcp_cum info = StatsBytes_default \<and> pi_udp_cum info = StatsBytes_default"
  using assms
proof (induction events rule: rev_induct)
  case (snoc e events)
  then show ?case by (cases "evt_pid e = k") (auto simp: apply_event_proc_of)
qed simp

lemma ended_entry:
  assumes "collector_inv c" and "proc_of c k = Some info" and "merge_values_for_pid L k = None"
  shows "\<exists>ds. dead_procs (fst (collect_rows L c)) = last_n DEAD_PROC_LIMIT (dead_procs c @ ds) \<and>
    filter (\<lambda>p. pi_pid p = k) ds = [info]"
proof -
  from assms(1) collect_rows_spec [of c L] obtain ds where
    ds: "mset ds = filter_mset (\<lambda>p. \<not> alive L p) (mset (procs c))"
    "dead_procs (fst (collect_rows L c)) = last_n DEAD_PROC_LIMIT (dead_procs c @ ds)"
    by (auto simp: collector_inv_def)
  have info: "info \<in> set (procs c)" "pi_pid info = k" using proc_of_Some [OF assms(2)] by auto
  have "distinct (map pi_pid (procs c))" using assms(1) by (simp add: collector_inv_def)
  from filter_pid_unique [OF this info]
  have "filter_mset (\<lambda>p. pi_pid p = k) (mset (procs c)) = {#info#}" by (metis mset_filter mset_single_iff)
  then have "filter_mset (\<lambda>p. pi_pid p = k) (filter_mset (\<lambda>p. \<not> alive L p) (mset (procs c))) = {#info#}"
    using assms(3) info by (simp add: alive_def filter_filter_mset conj_commute filter_mset_eq_conv)
  then have "mset (filter (\<lambda>p. pi_pid p = k) ds) = {#info#}" by (simp add: ds(1))
  then have "filter (\<lambda>p. pi_pid p = k) ds = [info]" by (simp only: mset_single_iff)
  with ds(2) show ?thesis by blast
qed

context bpf_kernel
begin

lemma exit_tick:
  assumes "leader_exit k (SchedProcessExit ctx)" and "percpu_reader (reader v) n v"
    and v: "v = slots h (run_probes h (es @ [SchedProcessExit ctx]) s)"
    and evs: "evs = List.map_filter (parse_proc_event fs)
      (drop (length (events_of h s)) (events_of h (run_probes h (es @ [SchedProcessExit ctx]) s)))"
    and "collector_inv (stats st)" and "proc_of (foldl apply_event (stats st) evs) k = Some info"
    and "phase_tick h fs reader (es @ [SchedProcessExit ctx]) s st = (st', rows)"
  shows "filter (\<lambda>r. row_pid r = k) rows = [] \<and> proc_of (stats st') k = None \<and>
    (\<exists>ds. dead_procs (stats st') = last_n DEAD_PROC_LIMIT (dead_procs (stats st) @ ds) \<and>
      filter (\<lambda>p. pi_pid p = k) ds = [info])"
proof -
  let ?c = "foldl apply_event (stats st) evs"
  define L where "L = lookup_percpu (reader v)"
  have "v 0 k = None"
    using assms(1) by (simp add: v run_probes_append procnet_sched_process_exit_slots del: leader_exit.simps)
  then have none: "merge_values_for_pid L k = None"
    unfolding L_def by (rule percpu_reader.merge_absent [OF assms(2)])
  have inv: "collector_inv ?c" using assms(5) by (rule foldl_apply_event_inv)
  have dead: "dead_procs ?c = dead_procs (stats st)"
    by (induction evs rule: rev_induct) (simp_all add: apply_event_def Let_def split: option.split)
  have st': "stats st' = fst (collect_rows L ?c)" "rows = snd (collect_rows L ?c)"
    using assms(7) by (auto simp: phase_tick_def collect_tick_def Let_def L_def v evs split: prod.splits)
  from ended_entry [OF inv assms(6) none] collect_rows_unknown [OF inv disjI2 [OF none]] show ?thesis
    by (simp add: st' dead)
qed

end

section \<open>Properties\<close>

text \<open>
  C3. Every byte is shown in exactly one tick. Let phases of probe invocations on \<open>n\<close> CPUs alternate
  with ticks of the daemon, and take a process that the daemon knows, whose totals it has up to date
  and whose leader does not exit; other processes may come and go. If its total fits 64 bits, each tick
  has exactly one row for it, and the traffic of that row is what the probes saw of it in the phase
  before that tick, to the byte.
\<close>

theorem each_byte_shown_once:
  assumes kernel: "bpf_kernel h" and reader: "\<And>v. percpu_reader (reader v) n v" and wf: "maps_wf h s"
    and events: "\<forall>(es, ring) \<in> set phases. \<forall>e \<in> set es. event_wf e \<and> ctx_cpu (event_ctx e) < n \<and>
      \<not> leader_exit k e \<and> length (ctx_comm (event_ctx e)) = 16"
    and here: "slots h s 0 k \<noteq> None"
    and known: "collector_inv (stats st)" "proc_of (stats st) k = Some info"
      "unat (cum_field (field_of p d) info) = slot_total n (slots h s) k p d"
    and fits: "slot_total n (slots h s) k p d + sum_list (phase_traffic h phases s k p d) < 2 ^ 64"
  shows "map (\<lambda>rows. map (\<lambda>r. unat (row_field (field_of p d) r)) (filter (\<lambda>r. row_pid r = k) rows))
      (monitor h fs reader phases s st) =
    map (\<lambda>traffic. [traffic]) (phase_traffic h phases s k p d)"
  using wf events here known fits
proof (induction phases arbitrary: s st info)
  case (Cons phase phases)
  obtain es ring where phase: "phase = (es, ring)" by fastforce
  obtain st' rows where tick: "phase_tick h fs reader es s st = (st', rows)" by fastforce
  let ?s = "(run_probes h es s)\<lparr>EVENTS := ring\<rparr>"
  have es: "\<forall>e \<in> set es. event_wf e" "\<forall>e \<in> set es. ctx_cpu (event_ctx e) < n \<and> \<not> leader_exit k e \<and>
      length (ctx_comm (event_ctx e)) = 16"
    "\<forall>e \<in> set es. ctx_cpu (event_ctx e) < n" "\<forall>e \<in> set es. \<not> leader_exit k e"
    using Cons.prems(2) by (auto simp: phase)
  have fit: "slot_total n (slots h s) k p d + charged h s es k p d < 2 ^ 64"
    using Cons.prems(7) by (simp add: phase)
  from bpf_kernel.phase_tick_shows [OF kernel Cons.prems(1) es(1,2) Cons.prems(3) reader fit Cons.prems(4-6) tick]
  obtain r info' where r: "filter (\<lambda>r. row_pid r = k) rows = [r]"
      "unat (row_field (field_of p d) r) = charged h s es k p d"
    and st': "collector_inv (stats st')" "proc_of (stats st') k = Some info'"
      "unat (cum_field (field_of p d) info') = slot_total n (slots h ?s) k p d"
    by auto
  have total: "slot_total n (slots h ?s) k p d = slot_total n (slots h s) k p d + charged h s es k p d"
    "slots h ?s 0 k \<noteq> None"
    using bpf_kernel.probes_total [OF kernel es(3,4) Cons.prems(3) fit] by simp_all
  have "maps_wf h ?s" using bpf_kernel.run_probes_wf [OF kernel Cons.prems(1) es(1)] by simp
  from Cons.IH [OF this _ total(2) st'] total(1) Cons.prems(2,7) r show ?case
    by (simp add: phase tick)
qed simp

text \<open>
  Process 7 has received 340 bytes, which the daemon has seen; it receives 60 more in the first phase
  and nothing in the second.
\<close>

definition demo_seen :: DaemonState where
  "demo_seen = daemon_default\<lparr>stats := collector_new\<lparr>procs := [\<lparr>pi_pid = 7, pi_name = [100],
     pi_tcp_cum = \<lparr>sent = 0, recv = 340\<rparr>, pi_udp_cum = StatsBytes_default\<rparr>]\<rparr>\<rparr>"

definition demo_watched_maps :: "(stats_entries, addr_entries, ring) bpf_maps" where
  "demo_watched_maps = run_probes bounded_helpers demo_run boot_maps"

lemmas demo_eval = demo_run_def witness_defs procnet_tcp_cleanup_rbuf_def account_bytes_def Let_def
  emit_start_event_def ring_reserve_def ring_submit_def sizeof_ProcStartEvent_def update_in_place_def

lemma demo_watched_facts:
  "maps_wf bounded_helpers demo_watched_maps" "slots bounded_helpers demo_watched_maps 0 7 \<noteq> None"
  "slot_total 2 (slots bounded_helpers demo_watched_maps) 7 TCP Recv = 340"
proof -
  have "maps_wf bounded_helpers boot_maps" by (simp add: maps_wf_def addrs_wf_def witness_defs)
  moreover have "\<forall>e \<in> set demo_run. event_wf e" by (simp add: demo_run_def sock4_def)
  ultimately show "maps_wf bounded_helpers demo_watched_maps"
    unfolding demo_watched_maps_def by (rule bounded.run_probes_wf)
  show "slots bounded_helpers demo_watched_maps 0 7 \<noteq> None"
    by (simp add: demo_watched_maps_def demo_eval)
  show "slot_total 2 (slots bounded_helpers demo_watched_maps) 7 TCP Recv = 340"
    by (simp add: slot_total_def demo_watched_maps_def demo_eval upt_rec add_traffic_def new_stat_def
        create_empty_stats_def empty_proto_def u64_of_int32_def)
qed

lemma demo_seen_facts:
  "collector_inv (stats demo_seen)"
  "proc_of (stats demo_seen) 7 = Some \<lparr>pi_pid = 7, pi_name = [100],
     pi_tcp_cum = \<lparr>sent = 0, recv = 340\<rparr>, pi_udp_cum = StatsBytes_default\<rparr>"
  by (simp_all add: demo_seen_def collector_inv_def proc_of_def collector_new_def)

theorem each_byte_shown_once_witness:
  "map (\<lambda>rows. map (\<lambda>r. unat (row_field TcpRecv r)) (filter (\<lambda>r. row_pid r = 7) rows))
      (monitor bounded_helpers no_procfs (read_slots 2)
        [([TcpCleanupRbuf (ctx7 1) sock4 60], EVENTS boot_maps), ([], EVENTS boot_maps)]
        demo_watched_maps demo_seen) = [[60], [0]]"
proof -
  let ?phases = "[([TcpCleanupRbuf (ctx7 1) sock4 60], EVENTS boot_maps), ([], EVENTS boot_maps)]"
  let ?h = "bounded_helpers"
  have traffic: "phase_traffic ?h ?phases demo_watched_maps 7 TCP Recv = [60, 0]"
    by (simp add: charge_def ctx7_def u64_of_int32_def)
  have events: "\<forall>(es, ring) \<in> set ?phases. \<forall>e \<in> set es. event_wf e \<and> ctx_cpu (event_ctx e) < 2 \<and>
      \<not> leader_exit 7 e \<and> length (ctx_comm (event_ctx e)) = 16"
    by (simp add: ctx7_def sock4_def)
  have cum: "unat (cum_field (field_of TCP Recv) \<lparr>pi_pid = 7, pi_name = [100],
      pi_tcp_cum = \<lparr>sent = 0, recv = 340\<rparr>, pi_udp_cum = StatsBytes_default\<rparr>) =
      slot_total 2 (slots ?h demo_watched_maps) 7 TCP Recv"
    by (simp add: demo_watched_facts(3))
  have fits: "slot_total 2 (slots ?h demo_watched_maps) 7 TCP Recv +
      sum_list (phase_traffic ?h ?phases demo_watched_maps 7 TCP Recv) < 2 ^ 64"
    unfolding traffic demo_watched_facts(3) by simp
  show ?thesis
    using each_byte_shown_once [OF bounded.bpf_kernel_axioms slots_reader.percpu_reader_axioms
        demo_watched_facts(1) events demo_watched_facts(2) demo_seen_facts cum fits, of no_procfs]
    unfolding traffic by simp
qed

text \<open>
  C28. What a process moves after the last tick of its life is never shown. Its leader's exit removes
  the slots, so the next tick has no row for it and moves its entry to the ended processes as the tick
  before left it, whatever traffic the probes saw in between.
\<close>

theorem last_traffic_not_shown:
  assumes "bpf_kernel h" and "\<And>v. percpu_reader (reader v) n v"
    and "slots h s 0 k \<noteq> None" and "\<forall>e \<in> set es. \<not> leader_exit k e \<and> length (ctx_comm (event_ctx e)) = 16"
    and "leader_exit k (SchedProcessExit ctx)"
    and "collector_inv (stats st)" and "proc_of (stats st) k = Some info"
    and "phase_tick h fs reader (es @ [SchedProcessExit ctx]) s st = (st', rows)"
  shows "filter (\<lambda>r. row_pid r = k) rows = [] \<and> proc_of (stats st') k = None \<and>
    (\<exists>ended. dead_procs (stats st') = last_n 20 (dead_procs (stats st) @ ended) \<and>
      filter (\<lambda>p. pi_pid p = k) ended = [info])"
proof -
  let ?s = "run_probes h (es @ [SchedProcessExit ctx]) s"
  define evs where "evs = List.map_filter (parse_proc_event fs) (drop (length (events_of h s)) (events_of h ?s))"
  obtain new where new: "events_of h (run_probes h es s) = events_of h s @ new"
    "\<forall>r \<in> set new. take 4 r \<noteq> put_word 4 k"
    using bpf_kernel.run_probes_no_second_start [OF assms(1,3), of es] assms(4) by blast
  have "events_of h ?s = events_of h (run_probes h es s)"
    by (simp add: run_probes_append procnet_sched_process_exit_def Let_def events_of_def)
  with new have "\<forall>e \<in> set evs. evt_pid e \<noteq> k"
    using parsed_pid by (fastforce simp: evs_def map_filter_def)
  then have "proc_of (foldl apply_event (stats st) evs) k = Some info"
    using assms(7) by (simp add: events_keep_proc)
  from bpf_kernel.exit_tick [OF assms(1,5,2) refl evs_def assms(6) this assms(8)] show ?thesis
    by (simp add: DEAD_PROC_LIMIT_def)
qed

theorem last_traffic_not_shown_witness:
  "\<exists>st' rows ended. phase_tick bounded_helpers no_procfs (read_slots 2)
      ([TcpCleanupRbuf (ctx7 1) sock4 60] @ [SchedProcessExit (ctx7 0)]) demo_watched_maps demo_seen = (st', rows) \<and>
    dead_procs (stats st') = last_n 20 ended \<and>
    map (\<lambda>p. unat (recv (pi_tcp_cum p))) (filter (\<lambda>p. pi_pid p = 7) ended) = [340]"
proof -
  obtain st' rows where tick: "phase_tick bounded_helpers no_procfs (read_slots 2)
      ([TcpCleanupRbuf (ctx7 1) sock4 60] @ [SchedProcessExit (ctx7 0)]) demo_watched_maps demo_seen = (st', rows)"
    by fastforce
  have "\<forall>e \<in> set [TcpCleanupRbuf (ctx7 1) sock4 60]. \<not> leader_exit 7 e \<and> length (ctx_comm (event_ctx e)) = 16"
    "leader_exit 7 (SchedProcessExit (ctx7 0))"
    by (simp_all add: ctx7_def)
  from last_traffic_not_shown [OF bounded.bpf_kernel_axioms slots_reader.percpu_reader_axioms
      demo_watched_facts(2) this demo_seen_facts tick]
  show ?thesis unfolding tick by (auto simp: demo_seen_def collector_new_def)
qed

text \<open>A process that starts and exits between two ticks is listed as ended with nothing moved.\<close>

lemma short_lived_listed_empty:
  assumes "bpf_kernel h" and "percpu_reader (reader v) n v"
    and "v = slots h (run_probes h (es @ [SchedProcessExit ctx]) s)" and "leader_exit k (SchedProcessExit ctx)"
    and "collector_inv (stats st)"
    and "evs = List.map_filter (parse_proc_event fs)
      (drop (length (events_of h s)) (events_of h (run_probes h (es @ [SchedProcessExit ctx]) s)))"
    and "k \<in> evt_pid ` set evs"
    and "phase_tick h fs reader (es @ [SchedProcessExit ctx]) s st = (st', rows)"
  shows "filter (\<lambda>r. row_pid r = k) rows = [] \<and>
    (\<exists>ended info. dead_procs (stats st') = last_n 20 (dead_procs (stats st) @ ended) \<and>
      filter (\<lambda>p. pi_pid p = k) ended = [info] \<and>
      pi_tcp_cum info = StatsBytes_default \<and> pi_udp_cum info = StatsBytes_default)"
proof -
  obtain info where info: "proc_of (foldl apply_event (stats st) evs) k = Some info"
    "pi_tcp_cum info = StatsBytes_default" "pi_udp_cum info = StatsBytes_default"
    using announced_empty [OF assms(7)] by blast
  from bpf_kernel.exit_tick [OF assms(1,4,2,3,6,5) info(1) assms(8)] info(2,3) show ?thesis
    by (simp add: DEAD_PROC_LIMIT_def) blast
qed

end
