(* ===== verification/Startup.thy ===== *)
theory Startup
  imports App Text_Format
begin

text \<open>
  How the daemon comes up and goes down: its \<open>main\<close> (\<open>procnetd/src/main.rs\<close>), which loads the probe
  program before the socket is touched, the signal mask and the order in which threads are started
  (\<open>signals.rs\<close>, \<open>app.rs\<close>), how a client in the same environment finds the socket (\<open>connect_to_socket\<close>
  of \<open>procnet-core/src/ipc.rs\<close>), and the build script that compiles the probe program (\<open>build.rs\<close>). Every call into the system and into
  the generated skeleton may fail.
\<close>

section \<open>Loading the probe program\<close>

text \<open>
  The resource limit and the calls of the generated skeleton, as functions on the world; libbpf's
  error is \<open>'l\<close>.
\<close>

record ('w, 'l) bpf_calls =
  set_memlock :: "u64 \<Rightarrow> u64 \<Rightarrow> 'w \<Rightarrow> (io_error + unit) \<times> 'w"
  skel_open :: "'w \<Rightarrow> ('l + unit) \<times> 'w"
  skel_load :: "'w \<Rightarrow> ('l + unit) \<times> 'w"
  skel_attach :: "'w \<Rightarrow> ('l + unit) \<times> 'w"

datatype ('l, 'e, 'b) main_error = Libbpf 'l | AppFailed "('e, 'b) DaemonError"

text \<open>A failure to raise the limit is only logged.\<close>

definition bump_memlock_rlimit :: "('w, 'l) bpf_calls \<Rightarrow> 'w \<Rightarrow> 'w" where
  "bump_memlock_rlimit calls w =
     (let limit = 128 * 1024 * 1024 in snd (set_memlock calls limit limit w))"

definition load_probes :: "('w, 'l) bpf_calls \<Rightarrow> 'w \<Rightarrow> ('l + unit) \<times> 'w" where
  "load_probes calls w =
     (case skel_open calls w of
        (Inl e, w1) \<Rightarrow> (Inl e, w1)
      | (Inr _, w1) \<Rightarrow>
          (case skel_load calls w1 of
             (Inl e, w2) \<Rightarrow> (Inl e, w2)
           | (Inr _, w2) \<Rightarrow> skel_attach calls w2))"

text \<open>
  \<open>main\<close> up to the daemon's loop; the results of the signal mask and of building the event reader are
  parameters, as in \<open>start_daemon\<close>.
\<close>

definition daemon_main ::
    "('w, 'l) bpf_calls \<Rightarrow> 'w socket_calls \<Rightarrow> (string \<Rightarrow> string option) \<Rightarrow> nat option \<Rightarrow> 'e option \<Rightarrow> 'w
      \<Rightarrow> (('l, 'e, 'b) main_error + daemon) \<times> 'w" where
  "daemon_main calls os env_var signal_error build_error w =
     (case load_probes calls (bump_memlock_rlimit calls w) of
        (Inl e, w1) \<Rightarrow> (Inl (Libbpf e), w1)
      | (Inr _, w1) \<Rightarrow>
          (case start_daemon os (socket_path env_var) signal_error build_error w1 of
             (Inl e, w2) \<Rightarrow> (Inl (AppFailed e), w2)
           | (Inr d, w2) \<Rightarrow> (Inr d, w2)))"

lemma load_probes_steps:
  "fst (load_probes calls w) = Inr () \<longleftrightarrow>
    (\<exists>w1 w2 w3. skel_open calls w = (Inr (), w1) \<and> skel_load calls w1 = (Inr (), w2) \<and>
      skel_attach calls w2 = (Inr (), w3))"
  by (auto simp: load_probes_def split: prod.splits sum.splits) (metis prod.collapse)

text \<open>Loading a program into the kernel does not touch the file system.\<close>

locale daemon_os = socket_os os entry
  for os :: "'w socket_calls" and entry :: "string \<Rightarrow> 'w \<Rightarrow> path_entry" +
  fixes calls :: "('w, 'l) bpf_calls"
  assumes memlock_keeps: "entry path (snd (set_memlock calls soft hard w)) = entry path w"
    and open_keeps: "entry path (snd (skel_open calls w)) = entry path w"
    and load_keeps: "entry path (snd (skel_load calls w)) = entry path w"
    and attach_keeps: "entry path (snd (skel_attach calls w)) = entry path w"
begin

lemma load_probes_keeps: "entry path (snd (load_probes calls w)) = entry path w"
  using open_keeps [of path w] load_keeps [of path "snd (skel_open calls w)"]
    attach_keeps [of path "snd (skel_load calls (snd (skel_open calls w)))"]
  by (auto simp: load_probes_def split: prod.split sum.split)

lemma bump_keeps: "entry path (bump_memlock_rlimit calls w) = entry path w"
  by (simp add: bump_memlock_rlimit_def memlock_keeps)

end

definition plain_calls :: "bool \<Rightarrow> ('w, unit) bpf_calls" where
  "plain_calls ok = \<lparr>set_memlock = (\<lambda>_ _ w. (Inr (), w)), skel_open = (\<lambda>w. (Inr (), w)),
     skel_load = (\<lambda>w. (if ok then Inr () else Inl (), w)), skel_attach = (\<lambda>w. (Inr (), w))\<rparr>"

interpretation plain_os: daemon_os fs_calls "\<lambda>p w. w p" "plain_calls ok"
  by unfold_locales (simp_all add: plain_calls_def)

section \<open>Threads and signals\<close>

text \<open>
  A thread by the signals it blocks; a new thread inherits the mask of its creator. The threads of
  the process are a list, the main thread first.
\<close>

datatype Signal = SIGINT | SIGTERM | OtherSignal nat

type_synonym threads = "Signal set list"

definition spawn_thread :: "nat \<Rightarrow> threads \<Rightarrow> threads" where
  "spawn_thread creator ts = ts @ [ts ! creator]"

definition thread_block :: "Signal set \<Rightarrow> nat \<Rightarrow> threads \<Rightarrow> threads" where
  "thread_block sigs i ts = ts[i := ts ! i \<union> sigs]"

definition install_signal_handler :: "nat option \<Rightarrow> nat \<Rightarrow> threads \<Rightarrow> (nat + unit) \<times> threads" where
  "install_signal_handler block_error i ts =
     (case block_error of
        Some e \<Rightarrow> (Inl e, ts)
      | None \<Rightarrow> (Inr (), spawn_thread i (thread_block {SIGINT, SIGTERM} i ts)))"

text \<open>
  \<open>app::run\<close> installs the handler and then starts the listener's thread; the listener starts a thread
  per connection, and that one a reader thread.
\<close>

definition run_threads :: "nat option \<Rightarrow> threads \<Rightarrow> (nat + unit) \<times> threads" where
  "run_threads block_error ts =
     (case install_signal_handler block_error 0 ts of
        (Inl e, ts') \<Rightarrow> (Inl e, ts')
      | (Inr _, ts') \<Rightarrow> (Inr (), spawn_thread 0 ts'))"

inductive spawned :: "threads \<Rightarrow> threads \<Rightarrow> bool" where
  spawned_refl: "spawned ts ts"
| spawned_step: "spawned ts ts' \<Longrightarrow> i < length ts' \<Longrightarrow> spawned ts (spawn_thread i ts')"

text \<open>The threads that a signal sent to the process can interrupt.\<close>

definition interruptible :: "Signal \<Rightarrow> threads \<Rightarrow> nat list" where
  "interruptible sig ts = filter (\<lambda>i. sig \<notin> ts ! i) [0..<length ts]"

lemma interruptible_Nil: "interruptible sig ts = [] \<longleftrightarrow> (\<forall>blocked \<in> set ts. sig \<in> blocked)"
  by (auto simp: interruptible_def filter_empty_conv all_set_conv_all_nth)

lemma spawned_masks: "spawned ts ts' \<Longrightarrow> set ts' = set ts"
proof (induction rule: spawned.induct)
  case (spawned_step ts ts' i)
  then have "ts' ! i \<in> set ts" by (metis nth_mem)
  with spawned_step(3) show ?case by (simp add: spawn_thread_def insert_absorb)
qed simp

section \<open>The build script\<close>

text \<open>\<open>str::split_whitespace\<close>: the maximal parts without white space.\<close>

function split_whitespace :: "rstring \<Rightarrow> rstring list" where
  "split_whitespace [] = []"
| "split_whitespace (ch # t) =
     (if is_whitespace ch then split_whitespace t
      else (ch # takeWhile (\<lambda>x. \<not> is_whitespace x) t) #
        split_whitespace (dropWhile (\<lambda>x. \<not> is_whitespace x) t))"
  by pat_completeness auto
termination
  by (relation "measure length") (auto simp: less_Suc_eq_le length_dropWhile_le)

definition filter_hardening :: "rstring \<Rightarrow> rstring" where
  "filter_hardening hardening =
     join (txt_of '' '') (filter (\<lambda>flag. flag \<noteq> txt_of ''zerocallusedregs'') (split_whitespace hardening))"

text \<open>
  The script's \<open>main\<close>. The skeleton builder is a parameter that sees the environment it runs in, the
  source and the output file; the result is the environment and the lines printed, and \<open>None\<close> is a
  panic.
\<close>

definition SRC :: rstring where
  "SRC = txt_of ''src/bpf/procnet.bpf.c''"

definition build_env :: "(string \<rightharpoonup> rstring) \<Rightarrow> (string \<rightharpoonup> rstring)" where
  "build_env env =
     (case env ''NIX_HARDENING_ENABLE'' of
        Some hardening \<Rightarrow> env(''NIX_HARDENING_ENABLE'' \<mapsto> filter_hardening hardening)
      | None \<Rightarrow> env)"

text \<open>\<open>PathBuf::join\<close> with a relative name.\<close>

definition path_join :: "rstring \<Rightarrow> rstring \<Rightarrow> rstring" where
  "path_join dir name =
     (if dir = [] \<or> last dir = 47 then dir @ name else dir @ 47 # name)"

definition build_main ::
    "((string \<rightharpoonup> rstring) \<Rightarrow> rstring \<Rightarrow> rstring \<Rightarrow> bool) \<Rightarrow> (string \<rightharpoonup> rstring)
      \<Rightarrow> ((string \<rightharpoonup> rstring) \<times> rstring list) option" where
  "build_main build_and_generate env =
     (let env' = build_env env in
      case env' ''OUT_DIR'' of
        None \<Rightarrow> None
      | Some dir \<Rightarrow>
          if build_and_generate env' SRC (path_join dir (txt_of ''procnet.skel.rs''))
          then Some (env', map ((@) (txt_of ''cargo:rerun-if-changed=''))
            [SRC, txt_of ''src/bpf/vmlinux_x86_64.h'', txt_of ''src/bpf/vmlinux_arm64.h''])
          else None)"

text \<open>Words joined by spaces are found again.\<close>

definition is_word :: "rstring \<Rightarrow> bool" where
  "is_word t \<longleftrightarrow> t \<noteq> [] \<and> list_all (\<lambda>ch. \<not> is_whitespace ch) t"

lemma split_whitespace_words: "list_all is_word (split_whitespace t)"
proof (induction t rule: split_whitespace.induct)
  case (2 ch t)
  have "list_all (\<lambda>x. \<not> is_whitespace x) (takeWhile (\<lambda>x. \<not> is_whitespace x) t)"
    by (auto simp: list_all_iff dest: set_takeWhileD)
  with 2 show ?case by (cases "is_whitespace ch") (simp_all add: is_word_def)
qed simp

lemma split_word:
  assumes "is_word t"
  shows "split_whitespace t = [t]" and "split_whitespace (t @ 32 # rest) = t # split_whitespace rest"
proof -
  obtain ch t' where t: "t = ch # t'" "\<not> is_whitespace ch" "\<forall>x \<in> set t'. \<not> is_whitespace x"
    using assms by (cases t) (auto simp: is_word_def list_all_iff)
  have "is_whitespace 32" by (simp add: is_whitespace_def)
  with t show "split_whitespace t = [t]" "split_whitespace (t @ 32 # rest) = t # split_whitespace rest"
    by (simp_all add: takeWhile_append2 dropWhile_append2 takeWhile_eq_all_conv [THEN iffD2]
        dropWhile_eq_Nil_conv [THEN iffD2])
qed

lemma split_join: "list_all is_word ws \<Longrightarrow> split_whitespace (join [32] ws) = ws"
proof (induction "[32] :: rstring" ws rule: join.induct)
  case 1
  show ?case by simp
next
  case (2 t)
  then show ?case by (simp add: split_word)
next
  case (3 t u ts)
  then show ?case by (simp add: split_word(2))
qed

lemma txt_of_space: "txt_of '' '' = [32]"
  by (simp add: txt_of_def)

section \<open>Properties\<close>

text \<open>The probes can be loaded: each step of it succeeds, after the limit of 128 MiB was asked for.\<close>

definition probes_loaded :: "('w, 'l) bpf_calls \<Rightarrow> 'w \<Rightarrow> bool" where
  "probes_loaded calls w \<longleftrightarrow>
     (\<exists>w1 w2 w3. skel_open calls (snd (set_memlock calls 134217728 134217728 w)) = (Inr (), w1) \<and>
        skel_load calls w1 = (Inr (), w2) \<and> skel_attach calls w2 = (Inr (), w3))"

text \<open>
  C32. How the daemon's start can end, each system call being allowed to fail. It comes to its main
  loop only if, after trying to raise the memory limit to 128 MiB, the probes could be opened, loaded
  and attached, no live daemon holds the socket, the signal mask could be set and the event reader
  built, and the socket is then its own; where nothing stands in the way at the path this is also
  sufficient. If the probes cannot be loaded, or the path is reported to be in use, the path is as it
  was; if binding fails otherwise, the path is as it was or a dead file there has been removed; and
  only the two later failures leave a socket file behind. A live daemon always keeps its socket, and on
  a usable path it is reported.
\<close>

theorem daemon_main_outcome:
  assumes "daemon_os os entry calls" and "path = socket_path env_var"
    and "daemon_main calls os env_var signal_error build_error w = (r, w')"
  shows "(case r of
      Inr d \<Rightarrow> probes_loaded calls w \<and> entry path w \<noteq> LiveSocket \<and> signal_error = None \<and> build_error = None \<and>
        d = daemon_init \<and> entry path w' = LiveSocket
    | Inl (Libbpf e) \<Rightarrow> \<not> probes_loaded calls w \<and> entry path w' = entry path w
    | Inl (AppFailed e) \<Rightarrow> probes_loaded calls w \<and>
        (case e of
           ListenerFailed (InUse p) \<Rightarrow> p = path \<and> entry path w' = entry path w
         | ListenerFailed (Bind p io) \<Rightarrow> p = path \<and> (entry path w' = entry path w \<or>
             entry path w \<in> {StaleSocket, RegularFile} \<and> entry path w' = NoFile)
         | SignalMask n \<Rightarrow> signal_error = Some n \<and> entry path w \<noteq> LiveSocket \<and> entry path w' = LiveSocket
         | Event (Build b) \<Rightarrow> signal_error = None \<and> build_error = Some b \<and> entry path w \<noteq> LiveSocket \<and>
             entry path w' = LiveSocket
         | _ \<Rightarrow> False)) \<and>
    (path_usable os entry path \<longrightarrow>
      ((\<exists>d. r = Inr d) \<longleftrightarrow>
        probes_loaded calls w \<and> entry path w \<noteq> LiveSocket \<and> signal_error = None \<and> build_error = None) \<and>
      (probes_loaded calls w \<and> entry path w = LiveSocket \<longrightarrow> r = Inl (AppFailed (ListenerFailed (InUse path)))))"
proof -
  have os: "socket_os os entry" using assms(1) by (rule daemon_os.axioms)
  obtain lr w1 where load: "load_probes calls (bump_memlock_rlimit calls w) = (lr, w1)" by fastforce
  have w1: "entry path w1 = entry path w"
    using daemon_os.load_probes_keeps [OF assms(1), of path "bump_memlock_rlimit calls w"]
      daemon_os.bump_keeps [OF assms(1), of path w] load by simp
  obtain b w2 where bind: "bind_unix_listener os path w1 = (b, w2)" by fastforce
  have probes: "probes_loaded calls w \<longleftrightarrow> lr = Inr ()"
    using load_probes_steps [of calls "bump_memlock_rlimit calls w"] load
    by (simp add: bump_memlock_rlimit_def probes_loaded_def)
  have usable: "path_usable os entry path \<Longrightarrow> b = (if entry path w = LiveSocket then Inl (InUse path) else Inr ())"
    using socket_os.bind_usable [OF os, of path w1] bind w1 by simp
  have run: "(r, w') = (case lr of Inl e \<Rightarrow> (Inl (Libbpf e), w1)
      | Inr _ \<Rightarrow> (case b of Inl e \<Rightarrow> (Inl (AppFailed (ListenerFailed e)), w2)
        | Inr _ \<Rightarrow> (case signal_error of
            Some n \<Rightarrow> (Inl (AppFailed (SignalMask n)), w2)
          | None \<Rightarrow> (case build_error of Some e \<Rightarrow> (Inl (AppFailed (Event (Build e))), w2)
              | None \<Rightarrow> (Inr daemon_init, w2)))))"
    unfolding assms(3) [symmetric]
    by (simp add: daemon_main_def load start_daemon_def bind assms(2) [symmetric] split: sum.split option.split)
  show ?thesis
  proof (cases lr)
    case (Inl e)
    with run w1 show ?thesis by (auto simp: probes)
  next
    case ok: (Inr u)
    show ?thesis
    proof (cases b)
      case (Inl e)
      with run ok have r: "r = Inl (AppFailed (ListenerFailed e))" "w' = w2" by auto
      from socket_os.bind_result [OF os bind] Inl w1 usable ok r show ?thesis
        by (auto simp: probes split: ListenerError.splits)
    next
      case (Inr v)
      from socket_os.bind_result [OF os bind] Inr w1 have free: "entry path w \<noteq> LiveSocket"
        "entry path w2 = LiveSocket" by simp_all
      from run ok Inr have "(r, w') = (case signal_error of
          Some n \<Rightarrow> (Inl (AppFailed (SignalMask n)), w2)
        | None \<Rightarrow> (case build_error of Some e \<Rightarrow> (Inl (AppFailed (Event (Build e))), w2)
            | None \<Rightarrow> (Inr daemon_init, w2)))"
        by (auto split: option.split)
      with free ok show ?thesis by (auto simp: probes split: option.splits)
    qed
  qed
qed

text \<open>A file system in which nothing can be created.\<close>

definition read_only_calls :: "(string \<Rightarrow> path_entry) socket_calls" where
  "read_only_calls = fs_calls\<lparr>
     os_bind := (\<lambda>p w. (Inl (if w p = NoFile then PermissionDenied else AddrInUse), w)),
     os_remove_file := (\<lambda>p w. (Inl PermissionDenied, w))\<rparr>"

interpretation read_only: daemon_os read_only_calls "\<lambda>p w. w p" "plain_calls ok"
  by unfold_locales (auto simp: read_only_calls_def fs_calls_def plain_calls_def split: path_entry.splits)

theorem daemon_main_outcome_witness:
  "\<exists>(r :: (unit, unit, unit) main_error + daemon) (r' :: (unit, unit, unit) main_error + daemon)
     (r'' :: (unit, unit, unit) main_error + daemon) w1 w2 w3.
    daemon_main (plain_calls False) fs_calls (\<lambda>_. None) None None (\<lambda>_. StaleSocket) = (r, w1) \<and>
    w1 SYSTEM_SOCKET_PATH = StaleSocket \<and>
    daemon_main (plain_calls True) fs_calls (\<lambda>_. None) None None (\<lambda>_. StaleSocket) = (r', w2) \<and>
    r' = Inr daemon_init \<and> w2 SYSTEM_SOCKET_PATH = LiveSocket \<and>
    daemon_main (plain_calls True) read_only_calls (\<lambda>_. None) None None (\<lambda>_. NoFile) = (r'', w3) \<and>
    w3 SYSTEM_SOCKET_PATH = NoFile"
proof -
  have path: "SYSTEM_SOCKET_PATH = socket_path (\<lambda>_. None)"
    by (simp add: socket_path_def resolve_socket_path_def)
  let ?main = "\<lambda>ok. daemon_main (plain_calls ok) fs_calls (\<lambda>_. None) None None (\<lambda>_. StaleSocket)"
  note load = daemon_main_def load_probes_def bump_memlock_rlimit_def plain_calls_def
  obtain r r' r'' :: "(unit, unit, unit) main_error + daemon" and w1 w2 w3 where
    r: "?main False = (r, w1)" "?main True = (r', w2)"
      "daemon_main (plain_calls True) read_only_calls (\<lambda>_. None) None None (\<lambda>_. NoFile) = (r'', w3)"
    by fastforce
  note outcome = daemon_main_outcome [OF plain_os.daemon_os_axioms path]
  from r(1) have "r = Inl (Libbpf ())" by (simp add: load)
  with outcome [OF r(1)] have "w1 SYSTEM_SOCKET_PATH = StaleSocket" by simp
  moreover from outcome [OF r(2)] plain_fs_usable have "\<exists>d. r' = Inr d"
    by (simp add: probes_loaded_def plain_calls_def)
  with outcome [OF r(2)] have "r' = Inr daemon_init" "w2 SYSTEM_SOCKET_PATH = LiveSocket" by auto
  moreover from r(3) have "r'' = Inl (AppFailed (ListenerFailed (Bind SYSTEM_SOCKET_PATH PermissionDenied)))"
    by (simp add: load start_daemon_def bind_unix_listener_def read_only_calls_def fs_calls_def path)
  with daemon_main_outcome [OF read_only.daemon_os_axioms path r(3)]
  have "w3 SYSTEM_SOCKET_PATH = NoFile" by auto
  ultimately show ?thesis using r by blast
qed

text \<open>
  C33. The signals that end the daemon are only ever waited for: once \<open>run\<close> has installed the handler
  and started the listener, no thread, however many connections and readers are started by whichever
  thread, can be interrupted by \<open>SIGINT\<close> or \<open>SIGTERM\<close>; they stay pending for the signal thread.
\<close>

theorem signals_only_waited_for:
  assumes "run_threads None [inherited] = (Inr (), ts)" and "spawned ts ts'"
  shows "interruptible SIGINT ts' = [] \<and> interruptible SIGTERM ts' = []"
proof -
  have "set ts = {inherited \<union> {SIGINT, SIGTERM}}"
    using assms(1)
    by (auto simp: run_threads_def install_signal_handler_def spawn_thread_def thread_block_def)
  then show ?thesis using spawned_masks [OF assms(2)] by (simp add: interruptible_Nil)
qed

theorem signals_only_waited_for_witness:
  "\<exists>ts. run_threads None [{}] = (Inr (), ts) \<and> length ts = 3 \<and>
    interruptible SIGTERM (spawn_thread 3 (spawn_thread 2 ts)) = []"
proof -
  obtain ts where ts: "run_threads None [{}] = (Inr (), ts)" "length ts = 3"
    by (simp add: run_threads_def install_signal_handler_def spawn_thread_def thread_block_def)
  have "spawned ts (spawn_thread 3 (spawn_thread 2 ts))"
    by (intro spawned.intros) (simp_all add: ts(2) spawn_thread_def)
  with ts signals_only_waited_for [OF ts(1)] show ?thesis by blast
qed

text \<open>
  A client finds the daemon of its own environment: both derive the socket's path from the same
  variable, so after a successful start, connecting never fails for want of a socket, and on a usable
  path it succeeds unless the file's permissions forbid it; once the signal thread has removed the
  file, connecting fails.
\<close>

lemma client_finds_daemon:
  assumes "daemon_os os entry calls"
    and "daemon_main calls os env_var signal_error build_error w = (Inr d, w1)"
  shows "fst (connect_to_socket (os_connect os) env_var w1) \<notin>
      {Inl (ConnectError ConnectionRefused), Inl (ConnectError NotFound)} \<and>
    (path_usable os entry (socket_path env_var) \<longrightarrow>
      fst (connect_to_socket (os_connect os) env_var w1) \<in> {Inr (), Inl (ConnectError PermissionDenied)} \<and>
      (signal_thread os (socket_path env_var) waits w1 = (True, w2) \<longrightarrow>
        fst (connect_to_socket (os_connect os) env_var w2) \<noteq> Inr ()))"
proof -
  have os: "socket_os os entry" using assms(1) by (rule daemon_os.axioms)
  let ?path = "socket_path env_var"
  obtain lr w0 where "load_probes calls (bump_memlock_rlimit calls w) = (lr, w0)"
    "bind_unix_listener os ?path w0 = (Inr (), w1)"
    using assms(2) by (auto simp: daemon_main_def start_daemon_def split: prod.splits sum.splits option.splits)
  from socket_os.bind_result [OF os this(2)] have live: "entry ?path w1 = LiveSocket" by simp
  have "fst (connect_to_socket (os_connect os) env_var w2) \<noteq> Inr ()"
    if use: "path_usable os entry ?path" and stop: "signal_thread os ?path waits w1 = (True, w2)"
  proof -
    obtain u where u: "os_remove_file os ?path w1 = (u, w2)"
      using signal_thread_requested [of os ?path waits w1] stop by (metis fst_conv prod.collapse snd_conv)
    have "u = Inr ()" using use live u by (auto simp: path_usable_def dest!: spec [of _ w1])
    with socket_os.remove [OF os u] have "entry ?path w2 = NoFile" by simp
    with socket_os.connect_dead [OF os, of ?path w2] show ?thesis
      by (auto simp: connect_to_socket_def split: prod.splits sum.splits)
  qed
  moreover have "fst (connect_to_socket (os_connect os) env_var w1) \<in> {Inr (), Inl (ConnectError PermissionDenied)}"
    if "path_usable os entry ?path"
    using that live by (auto simp: path_usable_def connect_to_socket_def split: prod.splits sum.splits
        dest!: spec [of _ w1])
  ultimately show ?thesis
    using socket_os.connect_live [OF os live]
    by (auto simp: connect_to_socket_def split: prod.splits sum.splits)
qed

text \<open>
  The build script takes out the one hardening flag that the BPF compiler does not know and
  nothing else: the builder sees the environment with the flags of the variable, in their order,
  without that one, and every other variable as it was; without the variable nothing changes.
\<close>

lemma build_drops_one_flag:
  "build_env env = env(''NIX_HARDENING_ENABLE'' := build_env env ''NIX_HARDENING_ENABLE'') \<and>
   map_option split_whitespace (build_env env ''NIX_HARDENING_ENABLE'') =
     map_option (\<lambda>h. filter (\<lambda>flag. flag \<noteq> txt_of ''zerocallusedregs'') (split_whitespace h))
       (env ''NIX_HARDENING_ENABLE'')"
proof -
  have "list_all is_word (filter P (split_whitespace h))" for P h
    using split_whitespace_words [of h] by (auto simp: list_all_iff)
  then show ?thesis
    by (auto simp: build_env_def filter_hardening_def txt_of_space split_join split: option.split)
qed

end
