(* ===== verification/Spec2Isabelle.thy ===== *)
theory Spec2Isabelle
  imports Bpf_Race Kernel_Abi Stats_Map Client_Daemon Daemon_Spec Monitoring Startup
begin

text \<open>
  A verification of procnet, which attributes network traffic to processes. An eBPF program counts
  bytes in the kernel, the daemon \<open>procnetd\<close> turns the counters into rows once per interval, and
  clients connected to a Unix socket display them. Paths below are relative to \<open>src/crates\<close>.

  \<^bold>\<open>How the parts work together.\<close> Probes on the kernel's TCP and UDP functions
  (\<open>procnetd/src/bpf/procnet.bpf.c\<close>) add each call's bytes to the slot of the current process and CPU
  in the map \<open>STATS\<close>; the first traffic of a process inserts its slots and publishes a start record
  in the ring buffer \<open>EVENTS\<close>. The daemon's main loop (\<open>procnetd/src/app.rs\<close>) drains the records
  (\<open>events.rs\<close>), registers the processes with the collector and collects rows from the map
  (\<open>procnet-core/src/stats.rs\<close>), frames the snapshot (\<open>procnet-core/src/ipc.rs\<close>) and hands it to the
  clients' channels (\<open>procnetd/src/server.rs\<close>); client threads apply commands to the shared state
  (\<open>state.rs\<close>) behind a lock. The client \<open>procnet\<close> (\<open>procnet/src/main.rs\<close>) reads snapshots in a
  thread of its own; its main loop takes them from a channel, filters and sorts the rows and draws
  them (\<open>tui/view.rs\<close>, \<open>tui/theme.rs\<close>), and turns keys into changes of its state or commands to the
  daemon (\<open>tui/state.rs\<close>, \<open>tui/keys.rs\<close>, \<open>tui/input.rs\<close>, \<open>cli.rs\<close>).

  \<^bold>\<open>The theories.\<close>
  \<^item> \<open>Prelude\<close>: machine integers, saturating arithmetic, little-endian encodings, \<open>swap_remove\<close>; what
    it means that a component implements a specification along any sequence of operations (the locale
    \<open>simulation\<close>).
  \<^item> \<open>Bpf_Types\<close>, \<open>Bpf_Kernel\<close>, \<open>Bpf_Probes\<close>: \<open>procnet.bpf.c\<close> whole. The structures and their bytes;
    the helpers as a record of functions with the documented laws of per-CPU hash, LRU hash and ring
    buffer as locales, interpreted on bounded maps; every function and probe as a function on the
    five maps. Accounting refines a specification on (CPU, process) slots, traffic is conserved along
    any run of probes, an exit clears exactly its process.
  \<^item> \<open>Bpf_Race\<close>: \<open>account_bytes\<close> cut at its calls into the kernel, in any interleaving over CPUs and
    with process exits, on a map with or without room. Every accounting ends; where a process finds
    room and its leader does not exit none of its traffic is lost; it is announced at most once per life.
  \<^item> \<open>C_Layout\<close>, \<open>Vmlinux_X86_Sock\<close>, \<open>Vmlinux_X86_Task\<close>, \<open>Vmlinux_Arm_Sock\<close>, \<open>Vmlinux_Arm_Task\<close>,
    \<open>Kernel_Abi\<close>: sizes and offsets of C types, the declarations of both kernel headers that the
    program depends on, and what it relies on there: member offsets, the common initial \<open>struct sock\<close>,
    the size of a task's name, helper and map numbers; the captured endpoint from raw socket memory.
  \<^item> \<open>Stats\<close>: \<open>procnet-core/src/stats.rs\<close>. One collection round is characterised completely, against
    sums over the CPUs and differences of totals stated on their own; deltas add up over ticks; the
    merge adds the CPUs' counters and picks one address.
  \<^item> \<open>Collector_Spec\<close>: the collector implements a table of names and natural numbers.
  \<^item> \<open>Stats_Map\<close>: \<open>procnetd/src/stats_map.rs\<close> and the boundary between the C and the Rust structure;
    libbpf-rs's lookup is the locale \<open>percpu_reader\<close>.
  \<^item> \<open>Ipc\<close>, \<open>Utf8\<close>, \<open>Bincode\<close>: commands, snapshots, framing and connecting; what arrives of a stream
    that ends inside a frame. bincode is the locale \<open>codec\<close>; the
    interpretations follow its documented format.
  \<^item> \<open>Daemon_State\<close>, \<open>Events\<close>, \<open>Server\<close>, \<open>App\<close>: \<open>state.rs\<close>, \<open>events.rs\<close>, \<open>server.rs\<close>, \<open>app.rs\<close> and
    \<open>signals.rs\<close> of the daemon, and the relation \<open>daemon_step\<close> that interleaves the main loop with
    connecting clients, reader and writer threads at their lock and channel operations: a connection
    that subscribes first starts its reader thread and registers its channel in a later step, and a
    writer takes a snapshot in one step and writes it in another. What an iteration stores and sends,
    which requests and tables stop the daemon, and for which tables it is certain to go on.
  \<^item> \<open>Daemon_Spec\<close>: the daemon as one sequential machine of commands and collections; every interleaved
    run implements it, the snapshots included.
  \<^item> \<open>Monitoring\<close>: phases of probe invocations and ticks of the daemon in turn. Each tick shows of a
    process exactly what the probes saw since the tick before; what is lost when a process exits.
  \<^item> \<open>Startup\<close>: \<open>main.rs\<close> of the daemon up to its loop, the signal mask and the order of the threads
    (\<open>signals.rs\<close>, \<open>app.rs\<close>), and the build script (\<open>build.rs\<close>). How the start can end and what it leaves
    at the socket's path; no thread is ever interrupted by the signals that end the daemon; a client
    of the same environment finds the socket.
  \<^item> \<open>Tui_State\<close>: the client's state, key tables and key handling (\<open>tui/state.rs\<close>, \<open>keys.rs\<close>,
    \<open>input.rs\<close>). No key panics; scrolling moves the window as little as the cursor needs; in no pane do
    two bindings compete for a key.
  \<^item> \<open>Text_Format\<close>, \<open>Ip_Text\<close>, \<open>Tui_Theme\<close>: what the client uses of Rust's formatting (integers, addresses,
    doubles rounded to 53 bits) and \<open>tui/theme.rs\<close>: how accurate a printed byte count is, that colours
    follow the traffic, that an endpoint's text, in either address family, identifies it.
  \<^item> \<open>Tui_Order\<close>, \<open>Tui_View\<close>: \<open>tui/view.rs\<close>. The order of the rows through the library's comparators
    and its stable sort, equal to a reference order; every renderer, with the state it leaves and the
    widgets it hands to ratatui; the layout engine is the locale \<open>terminal_library\<close>. A frame never
    panics, shows the window of the view line by line and follows the selected process.
  \<^item> \<open>Client\<close>: \<open>main.rs\<close>, \<open>cli.rs\<close>, \<open>tui.rs\<close>. The reader thread and the main loop as interleaved steps
    (\<open>client_step\<close>): the client never panics, snapshots arrive in order, up to where the
    connection breaks, the newest one is shown, two keys leave the program from everywhere.
  \<^item> \<open>Client_Daemon\<close>: a key of the client, or a command of its command line, and the effect in the
    daemon; the rows of the daemon and the lines of the client's table; the daemon's names and the
    client's filter.
  \<^item> \<open>Subscription\<close>: one client's subscription through any run of the daemon, as a history beside
    \<open>daemon_step\<close>: the frames it is sent are snapshots in the order they were built, without a gap as
    long as it keeps up, and its screen never goes back.
  \<^item> This theory: the properties from the packet to the row.

  \<^bold>\<open>Conventions.\<close> Unsigned integers are words of their width; kernel counters wrap, the daemon's
  saturate; its tick number and the arithmetic of the interval commands wrap, because the release build
  that the Makefile makes has no overflow checks. Errors and panics are values; no operation needs fuel: the loops of \<open>collect_rows\<close>, of the
  readers, of the decoders and of the conversions to doubles are recursive functions with a termination
  proof (entries left to visit, bytes left to read, bits left to shift). Out-of-memory conditions and
  logging are left out. Both targets are
  little-endian. A probe's lookup and the update through the pointer it returns are one step, because
  programs on one CPU do not overlap.

  \<^bold>\<open>Parameters.\<close> Kernel helpers and \<open>bpf_ntohs\<close> (\<open>bpf_kernel\<close>), libbpf-rs's map lookup
  (\<open>percpu_reader\<close>), the ring buffer's \<open>consume\<close> (its records and result), bincode (\<open>codec\<close>), the
  socket calls (\<open>socket_os\<close>: each may fail, and changes what is at a path in the documented way
  only), the proc file system (\<open>procfs\<close>), the results of system calls on a
  connection (\<open>conn_env\<close>), ratatui's layout and lines (\<open>terminal_library\<close>) and what the terminal does
  at a step of the client (\<open>terminal\<close>: size, drawing errors, events), the resource limit and the
  generated skeleton (\<open>daemon_os\<close>: they leave the file system alone) and, for the build script, the
  skeleton builder.

  \<^bold>\<open>Not modelled.\<close> Of the kernel headers, the declarations the program does not depend on: they are
  generated and nothing in the repository reads them. The parsing of the client's arguments, which is
  clap's: the model starts from its result, with the range that \<open>interval\<close> is declared to have.
  \<open>Tui::new\<close> and the drop of \<open>Tui\<close>, which only call ratatui's \<open>init\<close> (it panics when the terminal
  cannot be set up) and \<open>restore\<close>: the client's loop starts from a terminal that is set up.
\<close>

section \<open>From the socket to the row\<close>

text \<open>
  C1. Accounting end to end. Take any run of probe invocations on \<open>n\<close> CPUs, and let the daemon then
  collect: a process it knows, whose leader did not exit, that found room in the map and whose total
  fits 64 bits has exactly one row, and each cumulative column of it is the process's earlier total
  plus all the traffic the probes saw of it.
\<close>

theorem accounted_traffic_is_shown:
  assumes kernel: "bpf_kernel h" and wf: "maps_wf h s" "\<forall>e \<in> set es. event_wf e"
    and cpus: "\<forall>e \<in> set es. ctx_cpu (event_ctx e) < n"
    and stays: "\<forall>e \<in> set es. \<not> leader_exit k e" "never_full h s es k"
    and reader: "percpu_reader map_lookup n (slots h (run_probes h es s))"
    and seen: "slots h (run_probes h es s) 0 k \<noteq> None"
    and fits: "slot_total n (slots h (run_probes h es s)) k p d < 2 ^ 64"
    and known: "collector_inv c" "proc_of c k = Some info"
  shows "\<exists>r. filter (\<lambda>r. row_pid r = k) (snd (collect_rows (lookup_percpu map_lookup) c)) = [r] \<and>
    row_cum_field (field_of p d) r =
      cpu_total n (slots h s) k p d + total_charge h s es k p d"
proof -
  let ?v = "slots h (run_probes h es s)"
  have slot: "\<exists>x. ?v c k = Some x \<and> c_stats_wf x" for c
  proof -
    have "?v c k \<noteq> None"
      using seen bpf_kernel.axioms(1) [OF kernel] unfolding slots_def
      by (meson percpu_hash.present_on_all)
    moreover have "maps_wf h (run_probes h es s)"
      using bpf_kernel.run_probes_wf [OF kernel wf] .
    ultimately show ?thesis by (auto simp: maps_wf_def)
  qed
  obtain st where st: "merge_values_for_pid (lookup_percpu map_lookup) k = Some st"
    "unat (stat_field (field_of p d) st) = slot_total n ?v k p d"
    by (rule reader_finds [OF reader slot fits])
  have "?v c k \<noteq> None" for c using slot [of c] by auto
  from slot_total_word [OF this fits] st(2) have "stat_field (field_of p d) st = cpu_total n ?v k p d"
    by (simp add: word_unat_eq_iff)
  moreover have "filter (\<lambda>r. row_pid r = k) (snd (collect_rows (lookup_percpu map_lookup) c)) =
      [row_for st info]"
    by (rule collect_rows_live [OF known st(1)])
  ultimately show ?thesis
    using bpf_kernel.run_probes_total [OF kernel cpus stays, of p d] by simp
qed

text \<open>The daemon knows process 7, which receives 300 bytes on CPU 0 and 40 on CPU 1.\<close>

definition demo_known :: StatsCollector where
  "demo_known = apply_event collector_new \<lparr>evt_pid = 7, evt_name = [100]\<rparr>"

theorem accounted_traffic_is_shown_witness:
  "\<exists>r. filter (\<lambda>r. row_pid r = 7)
      (snd (collect_rows (lookup_percpu (read_slots 2 (slots bounded_helpers demo_watched_maps))) demo_known))
    = [r] \<and> row_cum_field TcpRecv r = 340"
proof -
  have wf: "maps_wf bounded_helpers boot_maps"
    by (simp add: maps_wf_def addrs_wf_def witness_defs)
  have ev: "\<forall>e \<in> set demo_run. event_wf e" "\<forall>e \<in> set demo_run. ctx_cpu (event_ctx e) < 2"
    "\<forall>e \<in> set demo_run. \<not> leader_exit 7 e"
    by (simp_all add: demo_run_def ctx7_def sock4_def)
  have full: "never_full bounded_helpers boot_maps demo_run 7" by (simp add: demo_eval)
  have fits: "slot_total 2 (slots bounded_helpers demo_watched_maps) 7 TCP Recv < 2 ^ 64"
    unfolding demo_watched_facts(3) by simp
  have inv: "collector_inv demo_known" by (simp add: demo_known_def apply_event_inv new_inv)
  have known: "\<exists>info. proc_of demo_known 7 = Some info"
    by (simp add: demo_known_def apply_event_proc_of)
  have total: "cpu_total 2 (slots bounded_helpers boot_maps) 7 TCP Recv +
      total_charge bounded_helpers boot_maps demo_run 7 TCP Recv = 340"
    by (simp add: demo_run_def charge_def ctx7_def u64_of_int32_def cpu_total_def upt_rec
        slots_def bounded_helpers_def stats_lookup_def boot_maps_def)
  note maps = demo_watched_facts(2) [unfolded demo_watched_maps_def] fits [unfolded demo_watched_maps_def]
  from known obtain info where "proc_of demo_known 7 = Some info" by blast
  from accounted_traffic_is_shown [OF bounded.bpf_kernel_axioms wf ev full
      slots_reader.percpu_reader_axioms maps inv this] total
  show ?thesis by (simp add: demo_watched_maps_def)
qed

section \<open>A process appears\<close>

lemma counter_new_stat:
  "counter p d (new_stat p out inn a) = (case d of Sent \<Rightarrow> out | Recv \<Rightarrow> inn)"
  by (simp add: new_stat_def counter_update_stats counter_empty)

lemma sum_no_cpu: "n \<le> i \<Longrightarrow> sum_list (map (\<lambda>c. if c = i then x else 0) [0..<n]) = (0 :: nat)"
  by (induction n) auto

lemma sum_one_cpu: "i < n \<Longrightarrow> sum_list (map (\<lambda>c. if c = i then x else 0) [0..<n]) = (x :: nat)"
proof (induction n)
  case 0
  then show ?case by simp
next
  case (Suc n)
  then show ?case using sum_no_cpu [of n i x] by (cases "i < n") auto
qed

lemma cum_field_new:
  "cum_field f \<lparr>pi_pid = q, pi_name = nm, pi_tcp_cum = StatsBytes_default,
     pi_udp_cum = StatsBytes_default\<rparr> = 0"
  by (cases f) (simp_all add: StatsBytes_default_def)

lemma collect_tick_rows:
  "collect_tick L events st = (st', rows) \<Longrightarrow> rows = snd (collect_rows L (foldl apply_event (stats st) events))"
  by (auto simp: collect_tick_def split: prod.splits)

lemma merged_first_packet:
  assumes "percpu_reader map_lookup n V" and "i < n"
    and slot: "\<And>c. V c k = Some (if c = i then new_stat p out inn a else create_empty_stats)"
    and "c_addr_wf a"
  shows "\<exists>mst. merge_values_for_pid (lookup_percpu map_lookup) k = Some mst \<and>
    (\<forall>d. stat_field (field_of p d) mst = (case d of Sent \<Rightarrow> out | Recv \<Rightarrow> inn))"
proof -
  have wf: "\<exists>x. V c k = Some x \<and> c_stats_wf x" for c
    using slot assms(4) by (simp add: new_stat_wf empty_stats_wf)
  obtain mst where st: "merge_values_for_pid (lookup_percpu map_lookup) k = Some mst"
    and sums: "\<And>q d. unat (stat_field (field_of q d) mst) = min (2 ^ 64 - 1)
      (sum_list (map (\<lambda>c. unat (counter q d (the (V c k)))) [0..<n]))"
    by (rule percpu_reader.merge_present [OF assms(1) _ wf]) (simp add: slot, rule that)
  have "stat_field (field_of p d) mst = (case d of Sent \<Rightarrow> out | Recv \<Rightarrow> inn)" for d
  proof -
    let ?x = "case d of Sent \<Rightarrow> out | Recv \<Rightarrow> inn"
    have "(\<lambda>c. unat (counter p d (the (V c k)))) = (\<lambda>c. if c = i then unat ?x else 0)"
      by (auto simp: slot counter_new_stat counter_empty)
    then have "unat (stat_field (field_of p d) mst) = unat ?x"
      using sums [of p d] sum_one_cpu [OF assms(2), of "unat ?x"] unat_lt2p [of ?x] by simp
    then show ?thesis by (simp add: word_unat_eq_iff)
  qed
  with st show ?thesis by blast
qed

text \<open>
  C2. From the first packet to the screen's row. When a process that the kernel program does not
  know yet sends or receives, and the map and the ring buffer have room, the daemon's next tick has
  exactly one row for it, whose totals and whose traffic of that tick are the bytes of this packet.
\<close>

theorem first_traffic_is_shown:
  assumes kernel: "bpf_kernel h" and k: "k = tgid_of (ctx_pid_tgid ctx)"
    and comm: "length (ctx_comm ctx) = 16" and addr: "c_addr_wf a"
    and new: "slots h s (ctx_cpu ctx) k = None" "\<not> percpu_full h (STATS s)"
      "ringbuf_reserve h (EVENTS s) sizeof_ProcStartEvent \<noteq> None"
    and s': "s' = snd (account_bytes h ctx a out inn p s)"
    and records: "events_of h s' = events_of h s @ records"
    and reader: "percpu_reader map_lookup n (slots h s')" "ctx_cpu ctx < n"
    and valid: "collector_inv (stats st)"
    and tick: "collect_tick (lookup_percpu map_lookup)
      (List.map_filter (parse_proc_event fs) records) st = (st', rows)"
  shows "\<exists>r. filter (\<lambda>r. row_pid r = k) rows = [r] \<and>
    row_cum_field (field_of p Sent) r = out \<and> row_cum_field (field_of p Recv) r = inn \<and>
    row_field (field_of p Sent) r = out \<and> row_field (field_of p Recv) r = inn"
proof -
  have slot: "slots h s' c k = Some (if c = ctx_cpu ctx then new_stat p out inn a else create_empty_stats)"
    for c
    using bpf_kernel.account_bytes_slots [OF kernel, of ctx a out inn p s] new k s'
    by (simp add: account_spec_def)
  from merged_first_packet [OF reader slot addr] obtain mst
    where st: "merge_values_for_pid (lookup_percpu map_lookup) k = Some mst"
      and val: "\<And>d. stat_field (field_of p d) mst = (case d of Sent \<Rightarrow> out | Recv \<Rightarrow> inn)"
    by blast
  have "records = [start_record ctx]"
    using bpf_kernel.account_bytes_events [OF kernel comm, of a out inn p s] new k s' records by simp
  then obtain name where ev: "List.map_filter (parse_proc_event fs) records = [\<lparr>evt_pid = k, evt_name = name\<rparr>]"
    using parse_record [of "\<lparr>ev_tgid = k, ev_comm = ctx_comm ctx\<rparr>" fs] comm k
    by (simp add: start_record_def map_filter_simps)
  let ?c = "apply_event (stats st) \<lparr>evt_pid = k, evt_name = name\<rparr>"
  let ?info = "\<lparr>pi_pid = k, pi_name = make_ascii_lowercase name, pi_tcp_cum = StatsBytes_default,
    pi_udp_cum = StatsBytes_default\<rparr>"
  have info: "proc_of ?c k = Some ?info" by (simp add: apply_event_proc_of)
  have "filter (\<lambda>r. row_pid r = k) rows = [row_for mst ?info]"
    using collect_rows_live(2) [OF apply_event_inv [OF valid] info st] collect_tick_rows [OF tick] ev
    by simp
  with val [of Sent] val [of Recv] show ?thesis by (simp add: cum_field_new)
qed

abbreviation demo_first :: "(stats_entries, addr_entries, ring) bpf_maps" where
  "demo_first \<equiv> snd (account_bytes bounded_helpers (ctx7 0) empty_addr 100 0 TCP boot_maps)"

theorem first_traffic_is_shown_witness:
  "\<exists>r. filter (\<lambda>r. row_pid r = 7)
      (snd (collect_tick (lookup_percpu (read_slots 2 (slots bounded_helpers demo_first)))
        (List.map_filter (parse_proc_event no_procfs) [start_record (ctx7 0)]) daemon_default)) = [r] \<and>
    row_cum_field TcpSent r = 100 \<and> row_field TcpSent r = 100"
proof -
  have k: "7 = tgid_of (ctx_pid_tgid (ctx7 0))" by (simp add: ctx7_def)
  have comm: "length (ctx_comm (ctx7 0)) = 16" by (simp add: ctx7_def)
  have addr: "c_addr_wf empty_addr" by (simp add: c_addr_wf_def empty_addr_def)
  have new: "slots bounded_helpers boot_maps (ctx_cpu (ctx7 0)) 7 = None"
    "\<not> percpu_full bounded_helpers (STATS boot_maps)"
    "ringbuf_reserve bounded_helpers (EVENTS boot_maps) sizeof_ProcStartEvent \<noteq> None"
    by (simp_all add: witness_defs ring_reserve_def sizeof_ProcStartEvent_def)
  have records: "events_of bounded_helpers demo_first =
      events_of bounded_helpers boot_maps @ [start_record (ctx7 0)]"
    using bounded.account_bytes_events [OF comm, of empty_addr 100 0 TCP boot_maps] new
    by (simp add: k [symmetric])
  have valid: "collector_inv (stats daemon_default)" by (simp add: daemon_default_def new_inv)
  have cpu: "ctx_cpu (ctx7 0) < 2" by (simp add: ctx7_def)
  show ?thesis
    using first_traffic_is_shown [where fs = no_procfs, OF bounded.bpf_kernel_axioms k comm addr new refl records
        slots_reader.percpu_reader_axioms cpu valid surjective_pairing]
    by auto
qed

end
